(* ===== verification/Prelude.thy ===== *)
theory Prelude
  imports Main "HOL-Library.Word"
begin

section \<open>Prelude: machine arithmetic, bytes and results\<close>

text \<open>
  Generic vocabulary of the development.

  \<^item> Unsigned machine integers of the Rust source are natural numbers with their width
    written out: \<open>u64_max\<close>, \<open>sat_add\<close>, \<open>checked_add\<close> and their kin are the methods of
    \<^verbatim>\<open>u64\<close> the source calls, \<open>div_ceil\<close> is \<^verbatim>\<open>u64::div_ceil\<close> (with a non-zero divisor).
  \<^item> Bytes are \<open>8 word\<close>; \<open>to_le_bytes\<close> and \<open>from_le_bytes\<close> are the little-endian
    conversions, with their round trips.
  \<^item> \<open>ensure\<close> is the macro \<^verbatim>\<open>anyhow::ensure!\<close>; an error is its message.
  \<^item> \<open>act_simps\<close> and \<open>keeps_intros\<close> collect the rules of the storage monad of the theory
    \<open>Actions\<close>.
\<close>

named_theorems act_simps \<open>evaluation rules for operations\<close>
named_theorems keeps_intros \<open>an operation preserves an invariant\<close>

subsection \<open>Unsigned arithmetic\<close>

definition u64_max :: nat where
  "u64_max = 2 ^ 64 - 1"

definition u32_max :: nat where
  "u32_max = 2 ^ 32 - 1"

definition i64_max :: nat where
  "i64_max = 2 ^ 63 - 1"

definition sat_add :: "nat \<Rightarrow> nat \<Rightarrow> nat" where
  "sat_add a b = min u64_max (a + b)"

definition checked_add :: "nat \<Rightarrow> nat \<Rightarrow> nat option" where
  "checked_add a b = (if a + b \<le> u64_max then Some (a + b) else None)"

definition checked_mul :: "nat \<Rightarrow> nat \<Rightarrow> nat option" where
  "checked_mul a b = (if a * b \<le> u64_max then Some (a * b) else None)"

definition div_ceil :: "nat \<Rightarrow> nat \<Rightarrow> nat" where
  "div_ceil a b = a div b + (if a mod b = 0 then 0 else 1)"

lemma u64_max_eq: "u64_max = 18446744073709551615"
  by (simp add: u64_max_def)

lemma u32_max_eq: "u32_max = 4294967295"
  by (simp add: u32_max_def)

lemma checked_add_Some [simp]: "checked_add a b = Some c \<longleftrightarrow> c = a + b \<and> a + b \<le> u64_max"
  by (auto simp: checked_add_def)

lemma checked_mul_Some [simp]: "checked_mul a b = Some c \<longleftrightarrow> c = a * b \<and> a * b \<le> u64_max"
  by (auto simp: checked_mul_def)

lemma div_ceil_0 [simp]: "div_ceil 0 b = 0"
  by (simp add: div_ceil_def)

lemma div_ceil_le_iff: "0 < b \<Longrightarrow> div_ceil a b \<le> n \<longleftrightarrow> a \<le> n * b"
proof -
  assume b: "0 < b"
  have split: "a = b * (a div b) + a mod b" by simp
  show ?thesis
  proof
    assume "div_ceil a b \<le> n"
    then have "(a div b + (if a mod b = 0 then 0 else 1)) * b \<le> n * b"
      unfolding div_ceil_def by (rule mult_le_mono1)
    moreover have "a \<le> (a div b + (if a mod b = 0 then 0 else 1)) * b"
    proof (cases "a mod b = 0")
      case True
      then show ?thesis using split by (simp add: mult.commute)
    next
      case False
      have "a \<le> b * (a div b) + b" using split mod_less_divisor [OF b, of a] by linarith
      with False show ?thesis by (simp add: algebra_simps)
    qed
    ultimately show "a \<le> n * b" by linarith
  next
    assume le: "a \<le> n * b"
    show "div_ceil a b \<le> n"
    proof (cases "a mod b = 0")
      case True
      have "a div b \<le> n * b div b" using le by (rule div_le_mono)
      then have "a div b \<le> n" using b by simp
      with True show ?thesis by (simp add: div_ceil_def)
    next
      case False
      then have "a \<noteq> n * b" by auto
      with le have "a < n * b" by simp
      then have "a div b < n" by (rule less_mult_imp_div_less)
      then show ?thesis by (simp add: div_ceil_def)
    qed
  qed
qed

lemma less_div_ceil_iff: "0 < b \<Longrightarrow> n < div_ceil a b \<longleftrightarrow> n * b < a"
  by (meson div_ceil_le_iff not_le)

lemma div_less_div_ceil: "0 < b \<Longrightarrow> k < a \<Longrightarrow> k div b < div_ceil a b"
  using less_div_ceil_iff le_less_trans [OF div_times_less_eq_dividend] by blast

lemma div_ceil_mult_ge: "0 < b \<Longrightarrow> a \<le> div_ceil a b * b"
  using div_ceil_le_iff [of b a "div_ceil a b"] by simp

subsection \<open>Bytes\<close>

type_synonym byte = "8 word"
type_synonym bytes = "byte list"

primrec to_le_bytes :: "nat \<Rightarrow> nat \<Rightarrow> bytes" where
  "to_le_bytes 0 n = []"
| "to_le_bytes (Suc k) n = word_of_nat (n mod 256) # to_le_bytes k (n div 256)"

primrec from_le_bytes :: "bytes \<Rightarrow> nat" where
  "from_le_bytes [] = 0"
| "from_le_bytes (b # bs) = unat b + 256 * from_le_bytes bs"

lemma length_to_le_bytes [simp]: "length (to_le_bytes k n) = k"
  by (induction k arbitrary: n) auto

lemma unat_byte_of_nat [simp]: "unat (word_of_nat (n mod 256) :: byte) = n mod 256"
  by (simp add: unat_of_nat)

lemma from_to_le_bytes: "n < 256 ^ k \<Longrightarrow> from_le_bytes (to_le_bytes k n) = n"
proof (induction k arbitrary: n)
  case 0
  then show ?case by simp
next
  case (Suc k)
  then have "n div 256 < 256 ^ k" by (simp add: less_mult_imp_div_less mult.commute)
  with Suc.IH show ?case by simp
qed

lemma to_le_bytes_inject:
  "m < 256 ^ k \<Longrightarrow> n < 256 ^ k \<Longrightarrow> to_le_bytes k m = to_le_bytes k n \<Longrightarrow> m = n"
  by (metis from_to_le_bytes)

lemma from_le_bytes_bound: "from_le_bytes bs < 256 ^ length bs"
proof (induction bs)
  case Nil
  then show ?case by simp
next
  case (Cons b bs)
  have "unat b < 256" using unsigned_less [of b] by simp
  with Cons show ?case by simp
qed

lemma from_le_bytes_zeros [simp]: "from_le_bytes (replicate n 0) = 0"
  by (induction n) simp_all

text \<open>\<^verbatim>\<open>copy_from_slice\<close> and \<^verbatim>\<open>write_all\<close> at an offset within the list.\<close>

definition put_at :: "nat \<Rightarrow> 'a list \<Rightarrow> 'a list \<Rightarrow> 'a list" where
  "put_at at new xs = take at xs @ new @ drop (at + length new) xs"

definition get_range :: "nat \<Rightarrow> nat \<Rightarrow> 'a list \<Rightarrow> 'a list" where
  "get_range from to xs = take (to - from) (drop from xs)"

lemma length_put_at [simp]:
  "at + length new \<le> length xs \<Longrightarrow> length (put_at at new xs) = length xs"
  by (simp add: put_at_def)

lemma nth_put_at:
  "at + length new \<le> length xs \<Longrightarrow> i < length xs \<Longrightarrow>
    put_at at new xs ! i = (if at \<le> i \<and> i < at + length new then new ! (i - at) else xs ! i)"
  by (auto simp: put_at_def nth_append min_def)

lemma length_get_range [simp]: "length (get_range from to xs) = min (to - from) (length xs - from)"
  by (simp add: get_range_def)

lemma nth_get_range: "i < to - from \<Longrightarrow> from + i < length xs \<Longrightarrow> get_range from to xs ! i = xs ! (from + i)"
  by (simp add: get_range_def)

lemma get_range_put_at_same:
  "at + length new \<le> length xs \<Longrightarrow> to = at + length new \<Longrightarrow> get_range at to (put_at at new xs) = new"
  by (simp add: get_range_def put_at_def)

lemma get_range_put_at_other:
  assumes "at + length new \<le> length xs" "to \<le> length xs" "to \<le> at \<or> at + length new \<le> from"
  shows "get_range from to (put_at at new xs) = get_range from to xs"
proof (rule nth_equalityI)
  show "length (get_range from to (put_at at new xs)) = length (get_range from to xs)"
    using assms by simp
next
  fix i
  assume "i < length (get_range from to (put_at at new xs))"
  then have "i < to - from" "from + i < length xs" using assms by auto
  then show "get_range from to (put_at at new xs) ! i = get_range from to xs ! i"
    using assms by (auto simp: nth_get_range nth_put_at)
qed

subsection \<open>Results\<close>

type_synonym 'a result = "string + 'a"

definition ensure :: "bool \<Rightarrow> string \<Rightarrow> unit result" where
  "ensure b e = (if b then Inr () else Inl e)"

definition and_then :: "'a result \<Rightarrow> ('a \<Rightarrow> 'b result) \<Rightarrow> 'b result" where
  "and_then r f = (case r of Inl e \<Rightarrow> Inl e | Inr x \<Rightarrow> f x)"

definition ok_or :: "'a option \<Rightarrow> string \<Rightarrow> 'a result" where
  "ok_or o' e = (case o' of None \<Rightarrow> Inl e | Some x \<Rightarrow> Inr x)"

lemma ensure_simps [simp]:
  "ensure True e = Inr ()" "ensure False e = Inl e"
  "ensure b e = Inr u \<longleftrightarrow> b" "ensure b e = Inl e' \<longleftrightarrow> \<not> b \<and> e' = e"
  by (auto simp: ensure_def)

lemma and_then_simps [simp]:
  "and_then (Inl e) f = Inl e" "and_then (Inr x) f = f x"
  by (simp_all add: and_then_def)

lemma and_then_Inr_iff: "and_then r f = Inr y \<longleftrightarrow> (\<exists>x. r = Inr x \<and> f x = Inr y)"
  by (cases r) auto

lemma ok_or_simps [simp]:
  "ok_or None e = Inl e" "ok_or (Some x) e = Inr x"
  "ok_or o' e = Inr x \<longleftrightarrow> o' = Some x"
  by (cases o'; auto simp: ok_or_def)+

subsection \<open>Lists of half-open intervals\<close>

definition covered :: "(nat \<times> nat) list \<Rightarrow> nat set" where
  "covered rs = (\<Union>(a, b) \<in> set rs. {a..<b})"

fun gapped :: "(nat \<times> nat) list \<Rightarrow> bool" where
  "gapped (r # s # rs) \<longleftrightarrow> snd r < fst s \<and> gapped (s # rs)"
| "gapped _ \<longleftrightarrow> True"

lemma covered_simps [simp]:
  "covered [] = {}" "covered (r # rs) = {fst r..<snd r} \<union> covered rs"
  "covered (rs @ ss) = covered rs \<union> covered ss"
  by (auto simp: covered_def)

lemma gapped_snoc: "gapped (rs @ [r]) \<longleftrightarrow> gapped rs \<and> (rs \<noteq> [] \<longrightarrow> snd (last rs) < fst r)"
  by (induction rs rule: gapped.induct) auto

lemma covered_butlast_last:
  "rs \<noteq> [] \<Longrightarrow> covered rs = covered (butlast rs) \<union> {fst (last rs)..<snd (last rs)}"
  by (metis append_butlast_last_id covered_simps Un_empty_right)

lemma gapped_sorted_wrt:
  "\<forall>r \<in> set rs. fst r \<le> snd r \<Longrightarrow> gapped rs \<longleftrightarrow> sorted_wrt (\<lambda>r s. snd r < fst s) rs"
  by (induction rs rule: gapped.induct) fastforce+

end
