(* ===== verification/Format.thy ===== *)
theory Format
  imports Prelude
begin

section \<open>The on-disk format of the resource cache\<close>

text \<open>
  \<^verbatim>\<open>resource_cache/format.rs\<close>: how a resource is cut into blocks (\<open>geometry\<close>), how its
  blocks are laid out in files (\<open>layout\<close>), and the persistent index that records for each
  block the physical slot and the SHA-256 digest (\<open>index\<close>).

  SHA-256 is OpenSSL's: it is the parameter \<open>sha\<close> of the definitions that hash.
\<close>

subsection \<open>Constants and layout\<close>

definition MIN_BLOCK :: nat where "MIN_BLOCK = 256 * 1024"
definition MAX_BLOCK :: nat where "MAX_BLOCK = 1024 * 1024"
definition HEADER_LEN :: nat where "HEADER_LEN = 64"
definition ENTRY_LEN :: nat where "ENTRY_LEN = 36"
definition SEGMENT_BYTES :: nat where "SEGMENT_BYTES = 16 * 1024 * 1024"
definition WINDOW_BYTES :: nat where "WINDOW_BYTES = 4 * 1024 * 1024"

lemmas format_consts = MIN_BLOCK_def MAX_BLOCK_def HEADER_LEN_def ENTRY_LEN_def
  SEGMENT_BYTES_def WINDOW_BYTES_def

definition bytes_of :: "string \<Rightarrow> bytes" where
  "bytes_of s = map (\<lambda>c. word_of_nat (of_char c)) s"

definition MAGIC :: bytes where
  "MAGIC = bytes_of ''QCMRSC01''"

record geometry =
  g_length :: nat
  g_block :: nat

datatype layout = Blocks | Segments nat

definition layout_for_resource :: "int \<Rightarrow> nat \<Rightarrow> layout" where
  "layout_for_resource kind len =
     (if kind = 1 \<and> SEGMENT_BYTES < len then Segments SEGMENT_BYTES else Blocks)"

fun segment_bytes :: "layout \<Rightarrow> nat option" where
  "segment_bytes Blocks = None"
| "segment_bytes (Segments n) = Some n"

definition valid_block :: "nat \<Rightarrow> bool" where
  "valid_block b \<longleftrightarrow> b = MIN_BLOCK \<or> b = 524288 \<or> b = MAX_BLOCK"

definition geometry_count :: "geometry \<Rightarrow> nat" where
  "geometry_count g = div_ceil (g_length g) (g_block g)"

definition layout_validate :: "layout \<Rightarrow> geometry \<Rightarrow> unit result" where
  "layout_validate l g =
     and_then (ensure (valid_block (g_block g)) ''invalid block size'') (\<lambda>_.
     and_then (ensure (geometry_count g \<le> 1000000) ''resource index exceeds memory limit'') (\<lambda>_.
     case segment_bytes l of
       None \<Rightarrow> Inr ()
     | Some n \<Rightarrow> ensure ((n = SEGMENT_BYTES \<or> n = 33554432) \<and> n mod g_block g = 0)
         ''invalid segment geometry''))"

definition format_hash :: "(bytes \<Rightarrow> bytes result) \<Rightarrow> bytes \<Rightarrow> bytes result" where
  "format_hash sha data =
     and_then (sha data) (\<lambda>d. if length d = 32 then Inr d else Inl ''invalid SHA-256 length'')"

subsection \<open>Geometry\<close>

text \<open>The loop of \<^verbatim>\<open>Geometry::new\<close> doubles the block while the index would exceed 8192 entries.\<close>

function geometry_block_loop :: "nat \<Rightarrow> nat \<Rightarrow> nat" where
  "geometry_block_loop len block =
     (if 8192 < div_ceil len block \<and> block < MAX_BLOCK
      then geometry_block_loop len (block * 2) else block)"
  by pat_completeness auto
termination
proof (relation "measure (\<lambda>(len, block). MAX_BLOCK - block)")
  fix len block
  assume "8192 < div_ceil len block \<and> block < MAX_BLOCK"
  moreover have "block \<noteq> 0"
  proof
    assume "block = 0"
    with calculation show False by (auto simp: div_ceil_def split: if_splits)
  qed
  ultimately show "((len, block * 2), (len, block)) \<in> measure (\<lambda>(len, block). MAX_BLOCK - block)"
    by auto
qed simp

declare geometry_block_loop.simps [simp del]

definition geometry_new :: "nat \<Rightarrow> geometry result" where
  "geometry_new len =
     (let g = \<lparr>g_length = len, g_block = geometry_block_loop len MIN_BLOCK\<rparr>
      in and_then (ensure (geometry_count g \<le> 1000000) ''resource index exceeds memory limit'')
           (\<lambda>_. Inr g))"

definition geometry_range :: "geometry \<Rightarrow> nat \<Rightarrow> (nat \<times> nat) result" where
  "geometry_range g idx =
     and_then (ensure (idx < geometry_count g) ''block out of bounds'')
       (\<lambda>_. Inr (idx * g_block g, min ((idx + 1) * g_block g) (g_length g)))"

definition geometry_offset :: "geometry \<Rightarrow> nat \<Rightarrow> nat result" where
  "geometry_offset g slot =
     and_then (ok_or (checked_mul slot (g_block g)) ''slot overflow'')
       (\<lambda>n. ok_or (checked_add HEADER_LEN n) ''offset overflow'')"

definition geometry_header :: "(bytes \<Rightarrow> bytes result) \<Rightarrow> geometry \<Rightarrow> string \<Rightarrow> bytes result" where
  "geometry_header sha g generation =
     and_then (format_hash sha (bytes_of generation)) (\<lambda>d.
       Inr (MAGIC @ to_le_bytes 8 (g_length g) @ to_le_bytes 8 (g_block g) @ d @ replicate 8 0))"

subsection \<open>Index\<close>

record index =
  ix_bytes :: bytes
  ix_dirty :: "(nat \<times> nat) list"
  ix_geometry :: geometry

definition index_new :: "geometry \<Rightarrow> index" where
  "index_new g =
     \<lparr>ix_bytes = replicate (geometry_count g * ENTRY_LEN) 0, ix_dirty = [], ix_geometry = g\<rparr>"

definition index_get :: "index \<Rightarrow> nat \<Rightarrow> (nat \<times> bytes) option" where
  "index_get i idx =
     Option.bind (checked_mul idx ENTRY_LEN) (\<lambda>start.
     Option.bind (checked_add start ENTRY_LEN) (\<lambda>stop.
       if length (ix_bytes i) < stop then None
       else let entry = get_range start stop (ix_bytes i);
                slot = from_le_bytes (take 4 entry)
            in if slot \<noteq> 0 then Some (slot - 1, drop 4 entry) else None))"

definition index_set ::
    "(bytes \<Rightarrow> bytes result) \<Rightarrow> nat \<Rightarrow> nat \<Rightarrow> bytes \<Rightarrow> index \<Rightarrow> unit result \<times> index" where
  "index_set sha idx slot data i =
     (case geometry_range (ix_geometry i) idx of
        Inl e \<Rightarrow> (Inl e, i)
      | Inr (a, b) \<Rightarrow>
          if length data \<noteq> b - a then (Inl ''incomplete block'', i)
          else if slot = u32_max then (Inl ''physical slot limit reached'', i)
          else
            let start = idx * ENTRY_LEN;
                i1 = i\<lparr>ix_bytes := put_at start (to_le_bytes 4 (slot + 1)) (ix_bytes i)\<rparr>
            in (case format_hash sha data of
                  Inl e \<Rightarrow> (Inl e, i1)
                | Inr d \<Rightarrow>
                    (Inr (), i1\<lparr>ix_bytes := put_at (start + 4) d (ix_bytes i1),
                                ix_dirty := ix_dirty i1 @ [(start, start + ENTRY_LEN)]\<rparr>)))"

text \<open>\<^verbatim>\<open>remove\<close> indexes the byte vector directly: \<open>None\<close> is the panic of an index out of range.\<close>

definition index_remove :: "nat \<Rightarrow> index \<Rightarrow> index option" where
  "index_remove idx i =
     (let start = idx * ENTRY_LEN
      in if length (ix_bytes i) < start + ENTRY_LEN then None
         else Some (i\<lparr>ix_bytes := put_at start (replicate ENTRY_LEN 0) (ix_bytes i),
                      ix_dirty := ix_dirty i @ [(start, start + ENTRY_LEN)]\<rparr>))"

definition index_complete :: "index \<Rightarrow> bool" where
  "index_complete i = list_all (\<lambda>k. index_get i k \<noteq> None) [0..<geometry_count (ix_geometry i)]"

definition index_load_layout :: "geometry \<Rightarrow> bytes \<Rightarrow> nat option \<Rightarrow> index result" where
  "index_load_layout g bs slots =
     and_then (ensure (valid_block (g_block g)) ''invalid block size'') (\<lambda>_.
     and_then (ensure (geometry_count g \<le> 1000000 \<and> length bs = geometry_count g * ENTRY_LEN)
       ''invalid index size'') (\<lambda>_.
     let i = \<lparr>ix_bytes = bs, ix_dirty = [], ix_geometry = g\<rparr>
     in and_then (ensure (list_all (\<lambda>k. case index_get i k of
              None \<Rightarrow> True
            | Some (slot, _) \<Rightarrow> (case slots of None \<Rightarrow> True | Some n \<Rightarrow> slot < n))
          [0..<geometry_count g]) ''index references absent slot'')
        (\<lambda>_. Inr i)))"

definition index_load :: "geometry \<Rightarrow> bytes \<Rightarrow> nat \<Rightarrow> index result" where
  "index_load g bs slots = index_load_layout g bs (Some slots)"

definition index_load_plain :: "geometry \<Rightarrow> bytes \<Rightarrow> index result" where
  "index_load_plain g bs =
     and_then (index_load_layout g bs None) (\<lambda>i.
     and_then (ensure (index_complete i) ''incomplete plain index'') (\<lambda>_. Inr i))"

definition index_load_segments :: "geometry \<Rightarrow> bytes \<Rightarrow> nat \<Rightarrow> index result" where
  "index_load_segments g bs seg =
     and_then (index_load_layout g bs None) (\<lambda>i.
     and_then (ensure (list_all (\<lambda>k. case index_get i k of
              None \<Rightarrow> True
            | Some (slot, _) \<Rightarrow> slot = k mod (seg div g_block g))
          [0..<geometry_count g]) ''invalid segment slot'')
       (\<lambda>_. Inr i))"

definition dirty_push :: "(nat \<times> nat) list \<Rightarrow> nat \<times> nat \<Rightarrow> (nat \<times> nat) list" where
  "dirty_push ranges r =
     (if ranges \<noteq> [] \<and> fst r \<le> snd (last ranges)
      then butlast ranges @ [(fst (last ranges), max (snd (last ranges)) (snd r))]
      else ranges @ [r])"

definition index_dirty :: "index \<Rightarrow> (nat \<times> nat) list \<times> index" where
  "index_dirty i =
     (let d = sort_key fst (ix_dirty i) in (foldl dirty_push [] d, i\<lparr>ix_dirty := d\<rparr>))"

definition index_committed :: "index \<Rightarrow> index" where
  "index_committed i = i\<lparr>ix_dirty := []\<rparr>"

definition index_is_committed :: "index \<Rightarrow> bool" where
  "index_is_committed i \<longleftrightarrow> ix_dirty i = []"


subsection \<open>Block sizes and the geometry of a resource\<close>

lemma valid_block_pos: "valid_block b \<Longrightarrow> 0 < b"
  by (auto simp: valid_block_def format_consts)

lemma valid_block_bounds: "valid_block b \<Longrightarrow> MIN_BLOCK \<le> b \<and> b \<le> MAX_BLOCK"
  by (auto simp: valid_block_def format_consts)

lemma geometry_block_loop_cases:
  "geometry_block_loop len MIN_BLOCK =
     (if 8192 < div_ceil len MIN_BLOCK
      then if 8192 < div_ceil len 524288 then MAX_BLOCK else 524288 else MIN_BLOCK)"
proof -
  have "geometry_block_loop len MAX_BLOCK = MAX_BLOCK"
    by (simp add: geometry_block_loop.simps [of len MAX_BLOCK])
  moreover have "524288 * 2 = MAX_BLOCK" "524288 < MAX_BLOCK"
    by (simp_all add: format_consts)
  ultimately have "geometry_block_loop len 524288 =
      (if 8192 < div_ceil len 524288 then MAX_BLOCK else 524288)"
    by (subst geometry_block_loop.simps) (simp only: if_True simp_thms)
  moreover have "MIN_BLOCK * 2 = 524288" "MIN_BLOCK < MAX_BLOCK"
    by (simp_all add: format_consts)
  ultimately show ?thesis
    by (subst geometry_block_loop.simps) (simp only: if_True simp_thms)
qed

lemma geometry_block_loop_valid: "valid_block (geometry_block_loop len MIN_BLOCK)"
  by (simp add: geometry_block_loop_cases valid_block_def)

lemma geometry_new_InrD:
  "geometry_new len = Inr g \<Longrightarrow>
     g_length g = len \<and> g_block g = geometry_block_loop len MIN_BLOCK \<and> geometry_count g \<le> 1000000"
  by (auto simp: geometry_new_def Let_def and_then_Inr_iff)

lemma geometry_new_iff: "(\<exists>g. geometry_new len = Inr g) \<longleftrightarrow> len \<le> 1000000 * MAX_BLOCK"
proof -
  let ?b = "geometry_block_loop len MIN_BLOCK"
  have "(\<exists>g. geometry_new len = Inr g) \<longleftrightarrow> div_ceil len ?b \<le> 1000000"
    by (auto simp: geometry_new_def Let_def and_then_Inr_iff geometry_count_def)
  also have "\<dots> \<longleftrightarrow> len \<le> 1000000 * ?b"
    by (rule div_ceil_le_iff) (rule valid_block_pos [OF geometry_block_loop_valid])
  also have "\<dots> \<longleftrightarrow> len \<le> 1000000 * MAX_BLOCK"
    unfolding geometry_block_loop_cases by (simp add: less_div_ceil_iff format_consts)
  finally show ?thesis .
qed

definition geometry_ok :: "geometry \<Rightarrow> bool" where
  "geometry_ok g \<longleftrightarrow> valid_block (g_block g) \<and> geometry_count g \<le> 1000000"

lemma geometry_new_ok: "geometry_new len = Inr g \<Longrightarrow> geometry_ok g \<and> g_length g = len"
  by (auto simp: geometry_ok_def geometry_block_loop_valid dest: geometry_new_InrD)

lemma layout_validate_ok: "layout_validate l g = Inr () \<Longrightarrow> geometry_ok g"
  by (auto simp: layout_validate_def geometry_ok_def and_then_Inr_iff)

lemma geometry_ok_block_pos: "geometry_ok g \<Longrightarrow> 0 < g_block g"
  by (auto simp: geometry_ok_def dest: valid_block_pos)

lemma geometry_range_Inr:
  "geometry_range g k = Inr (a, b) \<longleftrightarrow>
     k < geometry_count g \<and> a = k * g_block g \<and> b = min ((k + 1) * g_block g) (g_length g)"
  by (auto simp: geometry_range_def and_then_Inr_iff)

lemma geometry_range_nonempty:
  "0 < g_block g \<Longrightarrow> geometry_range g k = Inr (a, b) \<Longrightarrow>
     a < b \<and> b \<le> g_length g \<and> b - a \<le> g_block g"
  by (auto simp: geometry_range_Inr geometry_count_def less_div_ceil_iff)

lemma block_unique:
  assumes "0 < (b::nat)" "k * b \<le> n" "n < (k + 1) * b"
  shows "k = n div b"
proof -
  have "n div b = k" by (rule div_nat_eqI) (use assms in \<open>simp_all add: mult.commute\<close>)
  then show ?thesis by simp
qed

text \<open>The block ranges tile the resource: each byte lies in exactly one of them.\<close>

lemma geometry_ranges_tile:
  assumes "0 < g_block g" "n < g_length g"
  shows "\<exists>!k. \<exists>a b. geometry_range g k = Inr (a, b) \<and> a \<le> n \<and> n < b"
proof (rule ex1I [of _ "n div g_block g"])
  have "n div g_block g < geometry_count g"
    unfolding geometry_count_def using assms by (rule div_less_div_ceil)
  moreover have "n div g_block g * g_block g \<le> n" by (rule div_times_less_eq_dividend)
  moreover have "n < (n div g_block g + 1) * g_block g"
    using dividend_less_div_times [OF assms(1), of n] by simp
  ultimately show "\<exists>a b. geometry_range g (n div g_block g) = Inr (a, b) \<and> a \<le> n \<and> n < b"
    using assms(2) by (simp add: geometry_range_Inr)
next
  fix k
  assume "\<exists>a b. geometry_range g k = Inr (a, b) \<and> a \<le> n \<and> n < b"
  then show "k = n div g_block g"
    using assms(1) by (auto simp: geometry_range_Inr intro!: block_unique)
qed

lemma geometry_last_range:
  assumes "0 < g_block g" "0 < g_length g"
  shows "geometry_range g (geometry_count g - 1) =
    Inr ((geometry_count g - 1) * g_block g, g_length g)"
proof -
  have pos: "0 < geometry_count g"
    unfolding geometry_count_def using assms by (simp add: less_div_ceil_iff)
  have "g_length g \<le> geometry_count g * g_block g"
    unfolding geometry_count_def using assms(1) by (rule div_ceil_mult_ge)
  with pos show ?thesis by (simp add: geometry_range_def)
qed

text \<open>No 64-bit overflow: the products the source computes without a check stay in range.\<close>

lemma geometry_no_overflow:
  assumes "geometry_ok g" "k < geometry_count g"
  shows "(k + 1) * g_block g \<le> u64_max"
proof -
  have "(k + 1) * g_block g \<le> 1000000 * MAX_BLOCK"
    using assms valid_block_bounds by (intro mult_le_mono) (auto simp: geometry_ok_def)
  also have "\<dots> \<le> u64_max" by (simp add: format_consts u64_max_eq)
  finally show ?thesis .
qed

lemma geometry_offset_ok:
  assumes "valid_block (g_block g)" "slot \<le> u32_max"
  shows "geometry_offset g slot = Inr (HEADER_LEN + slot * g_block g)"
proof -
  have "slot * g_block g \<le> u32_max * MAX_BLOCK"
    using assms valid_block_bounds by (intro mult_le_mono) auto
  then have "slot * g_block g \<le> 4503599626321920"
    by (simp add: u32_max_eq format_consts)
  then show ?thesis
    by (simp add: geometry_offset_def checked_mul_def checked_add_def u64_max_eq HEADER_LEN_def)
qed

subsection \<open>The index as a map from blocks to slots and digests\<close>

definition index_wf :: "index \<Rightarrow> bool" where
  "index_wf i \<longleftrightarrow> geometry_ok (ix_geometry i)
     \<and> length (ix_bytes i) = geometry_count (ix_geometry i) * ENTRY_LEN
     \<and> (\<forall>r \<in> set (ix_dirty i). \<exists>k < geometry_count (ix_geometry i).
          r = (k * ENTRY_LEN, k * ENTRY_LEN + ENTRY_LEN))"

definition decode_entry :: "bytes \<Rightarrow> (nat \<times> bytes) option" where
  "decode_entry e =
     (let slot = from_le_bytes (take 4 e) in if slot \<noteq> 0 then Some (slot - 1, drop 4 e) else None)"

abbreviation entry_at :: "index \<Rightarrow> nat \<Rightarrow> bytes" where
  "entry_at i k \<equiv> get_range (k * ENTRY_LEN) (k * ENTRY_LEN + ENTRY_LEN) (ix_bytes i)"

lemma entry_in_range: "k < n \<Longrightarrow> k * ENTRY_LEN + ENTRY_LEN \<le> n * ENTRY_LEN"
  using mult_le_mono1 [of "Suc k" n ENTRY_LEN] by simp

lemma index_get_eq:
  assumes "index_wf i"
  shows "index_get i k =
    (if k < geometry_count (ix_geometry i) then decode_entry (entry_at i k) else None)"
proof (cases "k < geometry_count (ix_geometry i)")
  case True
  have "k * ENTRY_LEN + ENTRY_LEN \<le> 1000000 * ENTRY_LEN"
    using True assms by (intro entry_in_range) (auto simp: index_wf_def geometry_ok_def)
  then have "k * ENTRY_LEN + ENTRY_LEN \<le> u64_max"
    by (simp add: ENTRY_LEN_def u64_max_eq)
  with True assms entry_in_range [OF True] show ?thesis
    by (simp add: index_get_def index_wf_def decode_entry_def Let_def checked_mul_def
        checked_add_def)
next
  case False
  then have "geometry_count (ix_geometry i) * ENTRY_LEN < k * ENTRY_LEN + ENTRY_LEN"
    by (simp add: ENTRY_LEN_def)
  with False assms show ?thesis
    by (auto simp: index_get_def index_wf_def checked_mul_def checked_add_def Option.bind_eq_None_conv)
qed

lemma index_new_wf: "geometry_ok g \<Longrightarrow> index_wf (index_new g)"
  by (simp add: index_wf_def index_new_def)

lemma index_new_get:
  assumes "geometry_ok g"
  shows "index_get (index_new g) k = None"
proof -
  have "decode_entry (get_range a b (replicate n 0)) = None" for a b n
    by (simp add: decode_entry_def get_range_def Let_def)
  then show ?thesis
    unfolding index_get_eq [OF index_new_wf [OF assms]] by (simp add: index_new_def)
qed

lemma decode_encode_entry:
  "slot < u32_max \<Longrightarrow> decode_entry (to_le_bytes 4 (slot + 1) @ d) = Some (slot, d)"
  by (simp add: decode_entry_def Let_def from_to_le_bytes u32_max_eq del: to_le_bytes.simps)

lemma format_hash_length: "format_hash sha data = Inr d \<Longrightarrow> length d = 32"
  by (auto simp: format_hash_def and_then_Inr_iff split: if_splits)

lemma index_set_okD:
  assumes "index_set sha k slot data i = (Inr (), i')"
  obtains a b d where "geometry_range (ix_geometry i) k = Inr (a, b)" "length data = b - a"
    "slot \<noteq> u32_max" "format_hash sha data = Inr d"
    "i' = i\<lparr>ix_bytes := put_at (k * ENTRY_LEN + 4) d
              (put_at (k * ENTRY_LEN) (to_le_bytes 4 (slot + 1)) (ix_bytes i)),
            ix_dirty := ix_dirty i @ [(k * ENTRY_LEN, k * ENTRY_LEN + ENTRY_LEN)]\<rparr>"
  using assms unfolding index_set_def by (auto simp: Let_def split: sum.splits if_splits prod.splits)

lemma put_at_append:
  assumes "at + length xs + length ys \<le> length zs"
  shows "put_at (at + length xs) ys (put_at at xs zs) = put_at at (xs @ ys) zs"
  using assms by (simp add: put_at_def add.assoc add.commute [of "length ys"])

lemma index_set_bytes:
  assumes "index_wf i" "index_set sha k slot data i = (Inr (), i')"
  obtains d where "format_hash sha data = Inr d" "k < geometry_count (ix_geometry i)"
    "slot \<noteq> u32_max" "length (to_le_bytes 4 (slot + 1) @ d) = ENTRY_LEN"
    "i' = i\<lparr>ix_bytes := put_at (k * ENTRY_LEN) (to_le_bytes 4 (slot + 1) @ d) (ix_bytes i),
            ix_dirty := ix_dirty i @ [(k * ENTRY_LEN, k * ENTRY_LEN + ENTRY_LEN)]\<rparr>"
proof -
  from assms(2) obtain a b d where r: "geometry_range (ix_geometry i) k = Inr (a, b)"
    and d: "format_hash sha data = Inr d" and s: "slot \<noteq> u32_max"
    and i': "i' = i\<lparr>ix_bytes := put_at (k * ENTRY_LEN + 4) d
              (put_at (k * ENTRY_LEN) (to_le_bytes 4 (slot + 1)) (ix_bytes i)),
            ix_dirty := ix_dirty i @ [(k * ENTRY_LEN, k * ENTRY_LEN + ENTRY_LEN)]\<rparr>"
    by (rule index_set_okD)
  have k: "k < geometry_count (ix_geometry i)" using r by (simp add: geometry_range_Inr)
  have len: "length (to_le_bytes 4 (slot + 1) @ d) = ENTRY_LEN"
    using format_hash_length [OF d] by (simp add: ENTRY_LEN_def del: to_le_bytes.simps)
  have "k * ENTRY_LEN + length (to_le_bytes 4 (slot + 1)) + length d \<le> length (ix_bytes i)"
    using entry_in_range [OF k] len assms(1) by (simp add: index_wf_def del: to_le_bytes.simps)
  from put_at_append [OF this]
  have "put_at (k * ENTRY_LEN + 4) d (put_at (k * ENTRY_LEN) (to_le_bytes 4 (slot + 1)) (ix_bytes i))
      = put_at (k * ENTRY_LEN) (to_le_bytes 4 (slot + 1) @ d) (ix_bytes i)"
    by (simp del: to_le_bytes.simps)
  with that [OF d k s len] i' show thesis by (simp del: to_le_bytes.simps)
qed

text \<open>Writing one entry leaves every other entry of the index alone.\<close>

lemma entry_put:
  assumes "index_wf i" "k < geometry_count (ix_geometry i)" "j < geometry_count (ix_geometry i)"
    "length e = ENTRY_LEN"
  shows "get_range (j * ENTRY_LEN) (j * ENTRY_LEN + ENTRY_LEN) (put_at (k * ENTRY_LEN) e (ix_bytes i))
    = (if j = k then e else entry_at i j)"
proof (cases "j = k")
  case True
  then show ?thesis
    using assms entry_in_range [OF assms(2)] by (simp add: index_wf_def get_range_put_at_same)
next
  case False
  then have "j * ENTRY_LEN + ENTRY_LEN \<le> k * ENTRY_LEN \<or> k * ENTRY_LEN + ENTRY_LEN \<le> j * ENTRY_LEN"
    using entry_in_range [of j k] entry_in_range [of k j] by linarith
  with False assms entry_in_range [OF assms(2)] entry_in_range [OF assms(3)] show ?thesis
    by (simp add: index_wf_def get_range_put_at_other)
qed

lemma index_put_wf:
  assumes "index_wf i" "k < geometry_count (ix_geometry i)" "length e = ENTRY_LEN"
  shows "index_wf (i\<lparr>ix_bytes := put_at (k * ENTRY_LEN) e (ix_bytes i),
    ix_dirty := ix_dirty i @ [(k * ENTRY_LEN, k * ENTRY_LEN + ENTRY_LEN)]\<rparr>)"
  using assms entry_in_range [OF assms(2)] by (auto simp: index_wf_def)

lemma index_put_get:
  assumes "index_wf i" "k < geometry_count (ix_geometry i)" "length e = ENTRY_LEN"
  shows "index_get (i\<lparr>ix_bytes := put_at (k * ENTRY_LEN) e (ix_bytes i),
    ix_dirty := ix_dirty i @ [(k * ENTRY_LEN, k * ENTRY_LEN + ENTRY_LEN)]\<rparr>)
    = (index_get i)(k := decode_entry e)"
proof
  fix j
  show "index_get (i\<lparr>ix_bytes := put_at (k * ENTRY_LEN) e (ix_bytes i),
    ix_dirty := ix_dirty i @ [(k * ENTRY_LEN, k * ENTRY_LEN + ENTRY_LEN)]\<rparr>) j
    = ((index_get i)(k := decode_entry e)) j"
    using assms by (simp add: index_get_eq [OF index_put_wf [OF assms]] index_get_eq entry_put)
qed

lemma index_set_wf:
  assumes "index_wf i" "index_set sha k slot data i = (Inr (), i')"
  shows "index_wf i'"
  by (rule index_set_bytes [OF assms]) (simp only: index_put_wf [OF assms(1)])

lemma index_set_get:
  assumes "index_wf i" "slot \<le> u32_max" "index_set sha k slot data i = (Inr (), i')"
    "format_hash sha data = Inr d"
  shows "index_get i' = (index_get i)(k \<mapsto> (slot, d))"
proof (rule index_set_bytes [OF assms(1,3)])
  fix d'
  assume d': "format_hash sha data = Inr d'" and k: "k < geometry_count (ix_geometry i)"
    and s: "slot \<noteq> u32_max" and len: "length (to_le_bytes 4 (slot + 1) @ d') = ENTRY_LEN"
    and i': "i' = i\<lparr>ix_bytes := put_at (k * ENTRY_LEN) (to_le_bytes 4 (slot + 1) @ d') (ix_bytes i),
            ix_dirty := ix_dirty i @ [(k * ENTRY_LEN, k * ENTRY_LEN + ENTRY_LEN)]\<rparr>"
  have "slot < u32_max" using s assms(2) by simp
  then have "decode_entry (to_le_bytes 4 (slot + 1) @ d') = Some (slot, d')"
    by (rule decode_encode_entry)
  moreover have "d' = d" using d' assms(4) by simp
  moreover have "index_get i' = (index_get i)(k := decode_entry (to_le_bytes 4 (slot + 1) @ d'))"
    unfolding i' by (rule index_put_get [OF assms(1) k len])
  ultimately show ?thesis by (simp only:)
qed

lemma index_remove_eq:
  assumes "index_wf i" "k < geometry_count (ix_geometry i)"
  shows "index_remove k i = Some (i\<lparr>ix_bytes := put_at (k * ENTRY_LEN) (replicate ENTRY_LEN 0) (ix_bytes i),
    ix_dirty := ix_dirty i @ [(k * ENTRY_LEN, k * ENTRY_LEN + ENTRY_LEN)]\<rparr>)"
  using assms entry_in_range [OF assms(2)]
  by (simp add: index_remove_def index_wf_def Let_def)

lemma index_remove_wf:
  assumes "index_wf i" "k < geometry_count (ix_geometry i)"
  shows "\<exists>i'. index_remove k i = Some i' \<and> index_wf i' \<and> index_get i' = (index_get i)(k := None)
    \<and> ix_geometry i' = ix_geometry i"
proof -
  have len: "length (replicate ENTRY_LEN 0 :: bytes) = ENTRY_LEN" by simp
  have "decode_entry (replicate ENTRY_LEN 0) = None"
    by (simp add: decode_entry_def ENTRY_LEN_def Let_def)
  then show ?thesis
    using index_remove_eq [OF assms] index_put_wf [OF assms len] index_put_get [OF assms len] by simp
qed

lemma index_complete_iff:
  "index_complete i \<longleftrightarrow> (\<forall>k < geometry_count (ix_geometry i). index_get i k \<noteq> None)"
  by (auto simp: index_complete_def list_all_iff)

lemma index_load_layout_wf:
  assumes "index_load_layout g bs slots = Inr i"
  shows "index_wf i \<and> ix_geometry i = g \<and> ix_bytes i = bs \<and> ix_dirty i = []"
  using assms
  by (auto simp: index_load_layout_def Let_def and_then_Inr_iff index_wf_def geometry_ok_def)

lemma index_get_bound: "index_wf i \<Longrightarrow> index_get i k = Some e \<Longrightarrow> k < geometry_count (ix_geometry i)"
  by (simp add: index_get_eq split: if_splits)

lemma index_load_slots:
  assumes "index_load g bs slots = Inr i" "index_get i k = Some (slot, d)"
  shows "slot < slots"
proof -
  have wf: "index_wf i" "ix_geometry i = g"
    using index_load_layout_wf assms(1) by (auto simp: index_load_def)
  then have "k < geometry_count g" using index_get_bound assms(2) by auto
  with assms show ?thesis
    by (auto simp: index_load_def index_load_layout_def Let_def and_then_Inr_iff list_all_iff
        dest!: bspec [where x = k])
qed

lemma index_load_segments_slots:
  assumes "index_load_segments g bs seg = Inr i" "index_get i k = Some (slot, d)"
  shows "slot = k mod (seg div g_block g)"
proof -
  have wf: "index_wf i" "ix_geometry i = g"
    using index_load_layout_wf assms(1) by (auto simp: index_load_segments_def and_then_Inr_iff)
  then have "k < geometry_count g" using index_get_bound assms(2) by auto
  with assms show ?thesis
    by (auto simp: index_load_segments_def Let_def and_then_Inr_iff list_all_iff
        dest!: bspec [where x = k])
qed

subsection \<open>Coalescing the dirty ranges\<close>

lemma dirty_push_props:
  assumes "gapped rs" "rs \<noteq> [] \<Longrightarrow> fst (last rs) \<le> fst r"
  shows "gapped (dirty_push rs r) \<and> covered (dirty_push rs r) = covered rs \<union> {fst r..<snd r}
    \<and> dirty_push rs r \<noteq> [] \<and> fst (last (dirty_push rs r)) \<le> fst r"
proof (cases "rs \<noteq> [] \<and> fst r \<le> snd (last rs)")
  case True
  obtain init l where rs: "rs = init @ [l]" using True by (metis append_butlast_last_id)
  have "{fst l..<max (snd l) (snd r)} = {fst l..<snd l} \<union> {fst r..<snd r}"
    using True assms(2) rs by auto
  with True assms show ?thesis
    by (auto simp: dirty_push_def rs gapped_snoc)
next
  case False
  with assms(1) show ?thesis
    by (auto simp: dirty_push_def gapped_snoc not_le)
qed

lemma dirty_fold_props:
  assumes "sorted (map fst d)" "gapped rs" "\<And>r. rs \<noteq> [] \<Longrightarrow> r \<in> set d \<Longrightarrow> fst (last rs) \<le> fst r"
  shows "gapped (foldl dirty_push rs d) \<and> covered (foldl dirty_push rs d) = covered rs \<union> covered d"
  using assms
proof (induction d arbitrary: rs)
  case Nil
  then show ?case by simp
next
  case (Cons r d)
  have push: "gapped (dirty_push rs r) \<and> covered (dirty_push rs r) = covered rs \<union> {fst r..<snd r}
    \<and> dirty_push rs r \<noteq> [] \<and> fst (last (dirty_push rs r)) \<le> fst r"
    using Cons.prems by (intro dirty_push_props) auto
  have "gapped (foldl dirty_push (dirty_push rs r) d) \<and>
    covered (foldl dirty_push (dirty_push rs r) d) = covered (dirty_push rs r) \<union> covered d"
    using push Cons.prems by (intro Cons.IH) (auto intro: order_trans)
  with push show ?case by auto
qed

lemma index_dirty_props:
  assumes "index_dirty i = (rs, i')"
  shows "gapped rs" "covered rs = covered (ix_dirty i)" "ix_bytes i' = ix_bytes i"
    "ix_geometry i' = ix_geometry i" "set (ix_dirty i') = set (ix_dirty i)"
proof -
  have "gapped (foldl dirty_push [] (sort_key fst (ix_dirty i))) \<and>
    covered (foldl dirty_push [] (sort_key fst (ix_dirty i))) = covered [] \<union> covered (sort_key fst (ix_dirty i))"
    by (rule dirty_fold_props) auto
  moreover have "covered (sort_key fst (ix_dirty i)) = covered (ix_dirty i)"
    by (simp add: covered_def)
  ultimately show "gapped rs" "covered rs = covered (ix_dirty i)" "ix_bytes i' = ix_bytes i"
    "ix_geometry i' = ix_geometry i" "set (ix_dirty i') = set (ix_dirty i)"
    using assms by (auto simp: index_dirty_def Let_def)
qed


subsection \<open>Properties\<close>

text \<open>\<^verbatim>\<open>Geometry::new\<close> succeeds exactly for resources of at most a million blocks of the largest
  size; the geometry has one of the three block sizes and an index of at most a million entries, its
  block ranges tile the resource so that every byte lies in exactly one block, and no product the code
  forms without a check leaves 64 bits.\<close>

theorem geometry_new_tiles:
  "((\<exists>g. geometry_new len = Inr g) \<longleftrightarrow> len \<le> 1000000 * MAX_BLOCK) \<and>
   (\<forall>g. geometry_new len = Inr g \<longrightarrow>
      g_length g = len \<and> valid_block (g_block g) \<and> geometry_count g \<le> 1000000
      \<and> (\<forall>n < len. \<exists>!k. \<exists>a b. geometry_range g k = Inr (a, b) \<and> a \<le> n \<and> n < b)
      \<and> (\<forall>k < geometry_count g. (k + 1) * g_block g \<le> u64_max))"
proof (intro conjI [OF geometry_new_iff] allI impI)
  fix g
  assume g: "geometry_new len = Inr g"
  then have ok: "geometry_ok g" "g_length g = len" using geometry_new_ok by auto
  then show "g_length g = len \<and> valid_block (g_block g) \<and> geometry_count g \<le> 1000000
    \<and> (\<forall>n < len. \<exists>!k. \<exists>a b. geometry_range g k = Inr (a, b) \<and> a \<le> n \<and> n < b)
    \<and> (\<forall>k < geometry_count g. (k + 1) * g_block g \<le> u64_max)"
    using geometry_ranges_tile [OF geometry_ok_block_pos [OF ok(1)]] geometry_no_overflow [OF ok(1)]
    by (simp add: geometry_ok_def)
qed

definition sample_geometry :: geometry where
  "sample_geometry = \<lparr>g_length = 3, g_block = MIN_BLOCK\<rparr>"

lemma sample_geometry_new: "geometry_new 3 = Inr sample_geometry"
proof -
  have "geometry_block_loop 3 MIN_BLOCK = MIN_BLOCK"
    by (subst geometry_block_loop_cases) (simp add: div_ceil_def format_consts)
  then show ?thesis
    by (simp add: geometry_new_def geometry_count_def sample_geometry_def div_ceil_def)
      (simp add: format_consts)
qed

theorem geometry_new_tiles_witness:
  "g_length sample_geometry = 3 \<and> valid_block (g_block sample_geometry)
    \<and> geometry_count sample_geometry \<le> 1000000
    \<and> (\<exists>!k. \<exists>a b. geometry_range sample_geometry k = Inr (a, b) \<and> a \<le> 2 \<and> 2 < b)"
proof -
  have "(2::nat) < 3" by simp
  with geometry_new_tiles [of 3] sample_geometry_new show ?thesis by blast
qed

text \<open>A block entry written by \<^verbatim>\<open>Index::set\<close> is what \<^verbatim>\<open>Index::get\<close> returns for it afterwards, the
  slot and the digest of the data, and every other entry reads as before; the index stays well formed.\<close>

theorem index_set_roundtrip:
  assumes "index_wf i" "slot \<le> u32_max" "index_set sha k slot data i = (Inr (), i')"
  shows "index_wf i' \<and> (\<exists>d. format_hash sha data = Inr d \<and> index_get i' = (index_get i)(k \<mapsto> (slot, d)))"
proof -
  obtain a b d where "format_hash sha data = Inr d" using assms(3) by (rule index_set_okD)
  with index_set_get [OF assms] index_set_wf [OF assms(1,3)] show ?thesis by auto
qed

definition sample_sha :: "bytes \<Rightarrow> bytes result" where
  "sample_sha data = Inr (take 32 (data @ replicate 32 0))"

lemma sample_geometry_ok: "geometry_ok sample_geometry" "geometry_count sample_geometry = 1"
  by (simp_all add: geometry_ok_def sample_geometry_def valid_block_def geometry_count_def div_ceil_def
      format_consts)

theorem index_set_roundtrip_witness:
  "let i' = snd (index_set sample_sha 0 5 [1, 2, 3] (index_new sample_geometry)) in
   index_wf i' \<and> (\<exists>d. format_hash sample_sha [1, 2, 3] = Inr d
     \<and> index_get i' = (index_get (index_new sample_geometry))(0 \<mapsto> (5, d)))"
proof -
  let ?r = "index_set sample_sha 0 5 [1, 2, 3] (index_new sample_geometry)"
  have "geometry_range sample_geometry 0 = Inr (0, 3)"
    by (simp add: geometry_range_Inr sample_geometry_ok) (simp add: sample_geometry_def format_consts)
  then have "fst ?r = Inr ()"
    by (simp add: index_set_def index_new_def format_hash_def sample_sha_def u32_max_eq Let_def)
  then have "?r = (Inr (), snd ?r)" by (metis prod.collapse)
  then show ?thesis
    unfolding Let_def
    by (rule index_set_roundtrip [rotated 2]) (simp_all add: index_new_wf sample_geometry_ok u32_max_eq)
qed

text \<open>\<^verbatim>\<open>Index::remove\<close> of a block in range never panics, makes it read as absent, and leaves every
  other entry alone.\<close>

theorem index_remove_correct:
  assumes "index_wf i" "k < geometry_count (ix_geometry i)"
  shows "\<exists>i'. index_remove k i = Some i' \<and> index_wf i' \<and> index_get i' = (index_get i)(k := None)
    \<and> ix_geometry i' = ix_geometry i"
  using assms by (rule index_remove_wf)

theorem index_remove_correct_witness:
  "\<exists>i'. index_remove 0 (index_new sample_geometry) = Some i' \<and> index_wf i'
    \<and> index_get i' = (index_get (index_new sample_geometry))(0 := None)
    \<and> ix_geometry i' = ix_geometry (index_new sample_geometry)"
proof (rule index_remove_correct)
  show "index_wf (index_new sample_geometry)" by (rule index_new_wf [OF sample_geometry_ok(1)])
  show "0 < geometry_count (ix_geometry (index_new sample_geometry))"
    by (simp add: index_new_def sample_geometry_ok)
qed

text \<open>\<^verbatim>\<open>dirty\<close> returns the modified byte ranges in order and pairwise separated by a gap, and they
  cover exactly the bytes marked since the last commit; the index content is untouched.\<close>

theorem index_dirty_coalesces:
  assumes "index_dirty i = (rs, i')"
  shows "gapped rs \<and> covered rs = covered (ix_dirty i) \<and> ix_bytes i' = ix_bytes i"
  using index_dirty_props [OF assms] by simp

theorem index_dirty_coalesces_witness:
  "gapped [(0, 72::nat)] \<and> covered [(0, 72)] = covered [(36, 72), (0, 36)]
   \<and> ix_bytes \<lparr>ix_bytes = [], ix_dirty = [(0, 36), (36, 72)], ix_geometry = sample_geometry\<rparr>
     = ix_bytes \<lparr>ix_bytes = [], ix_dirty = [(36, 72), (0, 36)], ix_geometry = sample_geometry\<rparr>"
  using index_dirty_coalesces [where i = "\<lparr>ix_bytes = [], ix_dirty = [(36, 72), (0, 36)],
      ix_geometry = sample_geometry\<rparr>" and rs = "[(0, 72)]"
    and i' = "\<lparr>ix_bytes = [], ix_dirty = [(0, 36), (36, 72)], ix_geometry = sample_geometry\<rparr>"]
  by (simp add: index_dirty_def dirty_push_def Let_def)

text \<open>C34: the loop that chooses the block size ends after at most two doublings, with the first size that needs no more than
  8192 blocks or else with the largest size; every size before it needed more.\<close>

theorem block_loop_ends:
  "\<exists>k \<le> 2. geometry_block_loop len MIN_BLOCK = MIN_BLOCK * 2 ^ k
     \<and> (div_ceil len (MIN_BLOCK * 2 ^ k) \<le> 8192 \<or> MIN_BLOCK * 2 ^ k = MAX_BLOCK)
     \<and> (\<forall>j < k. 8192 < div_ceil len (MIN_BLOCK * 2 ^ j) \<and> MIN_BLOCK * 2 ^ j < MAX_BLOCK)"
proof -
  consider (none) "div_ceil len MIN_BLOCK \<le> 8192"
    | (one) "8192 < div_ceil len MIN_BLOCK" "div_ceil len 524288 \<le> 8192"
    | (two) "8192 < div_ceil len MIN_BLOCK" "8192 < div_ceil len 524288"
    by linarith
  then show ?thesis
  proof cases
    case none
    then show ?thesis by (intro exI [of _ 0]) (simp add: geometry_block_loop_cases)
  next
    case one
    then have "geometry_block_loop len MIN_BLOCK = 524288" by (simp add: geometry_block_loop_cases)
    with one show ?thesis by (intro exI [of _ 1]) (simp add: format_consts)
  next
    case two
    then have "geometry_block_loop len MIN_BLOCK = MAX_BLOCK" by (simp add: geometry_block_loop_cases)
    with two show ?thesis by (intro exI [of _ 2]) (simp add: format_consts less_Suc_eq numeral_2_eq_2)
  qed
qed

theorem block_loop_ends_witness: "geometry_block_loop 3000000000 MIN_BLOCK = 524288"
proof -
  obtain k where k: "k \<le> 2" "geometry_block_loop 3000000000 MIN_BLOCK = MIN_BLOCK * 2 ^ k"
    "div_ceil 3000000000 (MIN_BLOCK * 2 ^ k) \<le> 8192 \<or> MIN_BLOCK * 2 ^ k = MAX_BLOCK"
    "\<forall>j < k. 8192 < div_ceil 3000000000 (MIN_BLOCK * 2 ^ j) \<and> MIN_BLOCK * 2 ^ j < MAX_BLOCK"
    using block_loop_ends [of 3000000000] by blast
  have "k \<noteq> 0"
  proof
    assume "k = 0"
    with k(3) show False by (simp add: format_consts div_ceil_def)
  qed
  moreover from k(4) have "\<not> 1 < k" by (auto simp: format_consts div_ceil_def dest: spec [of _ 1])
  ultimately have "k = 1" by linarith
  with k(2) show ?thesis by (simp add: format_consts)
qed

text \<open>An index loaded for a block file only references slots the file holds, and an index loaded for a
  segmented resource places every block at its own slot of its segment.\<close>

theorem index_load_references:
  assumes "index_get i k = Some (slot, d)"
  shows "(index_load g bs slots = Inr i \<longrightarrow> slot < slots) \<and>
    (index_load_segments g bs seg = Inr i \<longrightarrow> slot = k mod (seg div g_block g))"
  using assms index_load_slots index_load_segments_slots by blast

definition sample_index :: index where
  "sample_index = \<lparr>ix_bytes = to_le_bytes 4 (0 + 1) @ replicate 32 7, ix_dirty = [],
     ix_geometry = sample_geometry\<rparr>"

lemma sample_index_facts:
  "length (ix_bytes sample_index) = ENTRY_LEN" "index_wf sample_index"
  "index_get sample_index 0 = Some (0, replicate 32 7)"
proof -
  show len: "length (ix_bytes sample_index) = ENTRY_LEN" by (simp add: sample_index_def ENTRY_LEN_def)
  then show wf: "index_wf sample_index"
    by (simp add: index_wf_def sample_index_def sample_geometry_ok)
  have "entry_at sample_index 0 = to_le_bytes 4 (0 + 1) @ replicate 32 7"
    using len by (simp add: get_range_def) (simp add: sample_index_def)
  then have "decode_entry (entry_at sample_index 0) = Some (0, replicate 32 7)"
    using decode_encode_entry [of 0 "replicate 32 7"] by (simp only:) (simp add: u32_max_eq)
  then show "index_get sample_index 0 = Some (0, replicate 32 7)"
    by (simp add: index_get_eq [OF wf]) (simp add: sample_index_def sample_geometry_ok)
qed

theorem index_load_references_witness:
  "index_load sample_geometry (ix_bytes sample_index) 1 = Inr sample_index \<and> (0::nat) < 1
    \<and> index_load_segments sample_geometry (ix_bytes sample_index) SEGMENT_BYTES = Inr sample_index
    \<and> (0::nat) = 0 mod (SEGMENT_BYTES div g_block sample_geometry)"
proof -
  have i: "\<lparr>ix_bytes = ix_bytes sample_index, ix_dirty = [], ix_geometry = sample_geometry\<rparr> = sample_index"
    by (simp add: sample_index_def)
  have vb: "valid_block (g_block sample_geometry)" using sample_geometry_ok by (simp add: geometry_ok_def)
  have l: "index_load sample_geometry (ix_bytes sample_index) 1 = Inr sample_index"
    by (simp add: index_load_def index_load_layout_def vb i sample_index_facts sample_geometry_ok)
  have s: "index_load_segments sample_geometry (ix_bytes sample_index) SEGMENT_BYTES = Inr sample_index"
    by (simp add: index_load_segments_def index_load_layout_def vb i sample_index_facts sample_geometry_ok)
  show ?thesis
    using l s index_load_references [OF sample_index_facts(3)] by blast
qed

end
