(* ===== verification/HttpRange.thy ===== *)
theory HttpRange
  imports Text
begin

section \<open>HTTP ranges and pages\<close>

text \<open>
  \<^verbatim>\<open>http/range.rs\<close> (request and content ranges), the range functions at the end of
  \<^verbatim>\<open>resource_cache/service.rs\<close> (\<open>response_geometry\<close>, \<open>range_requested\<close>, \<open>client_range\<close>)
  and \<^verbatim>\<open>api/pagination.rs\<close>.

  The crate \<^verbatim>\<open>http_range_header\<close> parses the request header; its parser is the parameter
  \<open>parse_range_header\<close> of \<open>parse_range\<close>. Its two position types are the datatypes
  \<open>start_position\<close> and \<open>end_position\<close>, whose constructors the source matches on. Header
  values are passed as the results of the lookups the source makes. An unsigned subtraction
  below zero is an arithmetic overflow (a panic, or a wrapped value in a release build):
  \<open>None\<close>.
\<close>

subsection \<open>Request ranges\<close>

datatype start_position = StartIndex nat | FromLast nat
datatype end_position = EndIndex nat | LastByte

record http_range =
  r_start :: start_position
  r_end :: end_position

definition http_range_default :: http_range where
  "http_range_default = \<lparr>r_start = StartIndex 0, r_end = LastByte\<rparr>"

definition u64_sub :: "nat \<Rightarrow> nat \<Rightarrow> nat option" where
  "u64_sub a b = (if b \<le> a then Some (a - b) else None)"

definition range_start :: "http_range \<Rightarrow> nat \<Rightarrow> nat option" where
  "range_start r full =
     (case r_start r of StartIndex pos \<Rightarrow> Some pos | FromLast pos \<Rightarrow> u64_sub full pos)"

definition in_full :: "http_range \<Rightarrow> nat \<Rightarrow> bool" where
  "in_full r full \<longleftrightarrow>
     \<not> (case r_start r of StartIndex off \<Rightarrow> full \<le> off | FromLast off \<Rightarrow> full \<le> off)
     \<and> \<not> (case r_end r of EndIndex off \<Rightarrow> full \<le> off | LastByte \<Rightarrow> full = 0)"

record content_range =
  cr_start :: nat
  cr_end :: nat
  cr_full :: nat

text \<open>The outer option is the overflow, the inner one the \<^verbatim>\<open>Option\<close> of the source.\<close>

definition from_range :: "http_range \<Rightarrow> nat \<Rightarrow> content_range option option" where
  "from_range r full =
     (if full = 0 then Some None
      else Option.bind
        (case r_start r of StartIndex off \<Rightarrow> Some off | FromLast off \<Rightarrow> u64_sub full off)
        (\<lambda>a. Some (Some \<lparr>cr_start = a,
           cr_end = (case r_end r of EndIndex off \<Rightarrow> off | LastByte \<Rightarrow> full - 1), cr_full = full\<rparr>)))"

definition show_content_range :: "content_range \<Rightarrow> string" where
  "show_content_range c =
     ''bytes '' @ show_nat (cr_start c) @ ''-'' @ show_nat (cr_end c) @ ''/'' @ show_nat (cr_full c)"

definition show_range :: "http_range \<Rightarrow> string" where
  "show_range r =
     (case (r_start r, r_end r) of
        (StartIndex a, EndIndex b) \<Rightarrow> ''bytes='' @ show_nat a @ ''-'' @ show_nat b
      | (StartIndex a, LastByte) \<Rightarrow> ''bytes='' @ show_nat a @ ''-''
      | (FromLast a, _) \<Rightarrow> ''bytes=-'' @ show_nat a)"

definition parse_content_range :: "string \<Rightarrow> content_range option" where
  "parse_content_range s =
     (case split_on (\<lambda>c. c = CHR ''/'' \<or> c = CHR '' '') s of
        [unit', rng, full] \<Rightarrow>
          if unit' \<noteq> ''bytes'' then None
          else (case split_on (\<lambda>c. c = CHR ''-'') rng of
                  [a, b] \<Rightarrow>
                    (case (parse_u64 a, parse_u64 b, parse_u64 full) of
                       (Some a, Some b, Some full) \<Rightarrow> Some \<lparr>cr_start = a, cr_end = b, cr_full = full\<rparr>
                     | _ \<Rightarrow> None)
                | _ \<Rightarrow> None)
      | _ \<Rightarrow> None)"

definition parse_range :: "(string \<Rightarrow> http_range list option) \<Rightarrow> string \<Rightarrow> http_range result" where
  "parse_range parse_range_header s =
     (case parse_range_header s of
        Some ranges \<Rightarrow>
          if length ranges = 1 then Inr (ranges ! 0) else Inl (''Unsupported range: '' @ s)
      | None \<Rightarrow> Inl (''Unsupported range: '' @ s))"

subsection \<open>Ranges of the resource service\<close>

record upstream =
  up_partial :: bool
  up_content_range :: "string option"
  up_content_length :: "nat option"

definition response_geometry :: "upstream \<Rightarrow> (nat \<times> nat \<times> nat) option result" where
  "response_geometry rsp =
     (if up_partial rsp then
        and_then (ok_or (Option.bind (up_content_range rsp) parse_content_range) ''invalid Content-Range'') (\<lambda>cr.
        and_then (ensure (cr_start cr \<le> cr_end cr \<and> cr_end cr < cr_full cr) ''invalid response range'') (\<lambda>_.
        and_then (ensure (case up_content_length rsp of None \<Rightarrow> True
             | Some n \<Rightarrow> n = cr_end cr - cr_start cr + 1) ''range length mismatch'') (\<lambda>_.
        if up_content_length rsp = None then Inr None
        else Inr (Some (cr_full cr, cr_start cr, cr_end cr + 1)))))
      else Inr (map_option (\<lambda>n. (n, 0, n)) (up_content_length rsp)))"

definition range_requested :: "string option \<Rightarrow> string option \<Rightarrow> string option \<Rightarrow> bool" where
  "range_requested if_range validator rng =
     (if (case if_range of Some v \<Rightarrow> validator \<noteq> Some v | None \<Rightarrow> False) then False
      else case Option.bind rng (strip_prefix ''bytes='') of
        None \<Rightarrow> False
      | Some body \<Rightarrow>
          if CHR '','' \<in> set body then False
          else case split_once (CHR ''-'') body of
            None \<Rightarrow> False
          | Some (lo, hi) \<Rightarrow>
              if lo = [] then parse_u64 hi \<noteq> None
              else (case parse_u64 lo of
                      None \<Rightarrow> False
                    | Some a \<Rightarrow> hi = [] \<or> (case parse_u64 hi of None \<Rightarrow> False | Some b \<Rightarrow> a \<le> b)))"

definition client_range ::
    "string option \<Rightarrow> string option \<Rightarrow> string option \<Rightarrow> nat \<Rightarrow> (nat \<times> nat) option" where
  "client_range if_range validator rng len =
     (if \<not> range_requested if_range validator rng then Some (0, len)
      else case split_once (CHR ''-'') (trim_start_matches ''bytes='' (the rng)) of
        None \<Rightarrow> Some (0, len)
      | Some (lo, hi) \<Rightarrow>
          if lo = [] then
            (case parse_u64 hi of
               None \<Rightarrow> Some (0, len)
             | Some suffix \<Rightarrow> if 0 < suffix \<and> 0 < len then Some (len - suffix, len) else None)
          else
            (case parse_u64 lo of
               None \<Rightarrow> Some (0, len)
             | Some a \<Rightarrow>
                 if hi = [] then (if a < len then Some (a, len) else None)
                 else (case parse_u64 hi of
                         None \<Rightarrow> Some (0, len)
                       | Some v \<Rightarrow>
                           let b = min (sat_add v 1) len
                           in if a < b \<and> a < len then Some (a, b) else None)))"

subsection \<open>Pages\<close>

record page_params =
  pp_page :: nat
  pp_page_size :: nat

definition page_params_new :: "int \<Rightarrow> int \<Rightarrow> page_params" where
  "page_params_new page page_size =
     \<lparr>pp_page = nat (max page 0), pp_page_size = nat (max page_size 1)\<rparr>"

definition has_more :: "page_params \<Rightarrow> nat \<Rightarrow> bool" where
  "has_more p tot \<longleftrightarrow> pp_page p * pp_page_size p < tot"

subsection \<open>Properties\<close>

lemma split_on_bytes_unit:
  "split_on (\<lambda>c. c = CHR ''/'' \<or> c = CHR '' '') (''bytes '' @ s) =
     ''bytes'' # split_on (\<lambda>c. c = CHR ''/'' \<or> c = CHR '' '') s"
  using split_on_append [of "''bytes''" "\<lambda>c. c = CHR ''/'' \<or> c = CHR '' ''" "CHR '' ''" s] by simp

lemma no_sep_show_nat: "\<forall>c \<in> set (show_nat n). \<not> (c = CHR ''/'' \<or> c = CHR '' '')"
  "\<forall>c \<in> set (show_nat n). \<not> c = CHR ''-''" "CHR ''-'' \<notin> set (show_nat n)"
  "CHR '','' \<notin> set (show_nat n)"
  using show_nat_digits [of _ n] is_digit_neq by blast+

text \<open>A content range printed by \<^verbatim>\<open>Display\<close> is read back unchanged by \<^verbatim>\<open>parse_content_range\<close>,
  for all 64-bit positions.\<close>

theorem content_range_roundtrip:
  assumes "cr_start c \<le> u64_max" "cr_end c \<le> u64_max" "cr_full c \<le> u64_max"
  shows "parse_content_range (show_content_range c) = Some c"
proof -
  let ?sep = "\<lambda>c. c = CHR ''/'' \<or> c = CHR '' ''"
  let ?range = "show_nat (cr_start c) @ CHR ''-'' # show_nat (cr_end c)"
  have range_free: "\<forall>x \<in> set ?range. \<not> ?sep x"
    using no_sep_show_nat(1) [of "cr_start c"] no_sep_show_nat(1) [of "cr_end c"]
    by (simp add: ball_Un)
  have "split_on ?sep (?range @ CHR ''/'' # show_nat (cr_full c)) = [?range, show_nat (cr_full c)]"
    by (rule trans [OF split_on_append [OF range_free]])
      (simp_all only: split_on_none [OF no_sep_show_nat(1)] simp_thms)
  then have parts: "split_on ?sep (show_content_range c) = [''bytes'', ?range, show_nat (cr_full c)]"
    unfolding show_content_range_def split_on_bytes_unit by simp
  have "split_on (\<lambda>c. c = CHR ''-'') ?range = [show_nat (cr_start c), show_nat (cr_end c)]"
    by (subst split_on_append [OF no_sep_show_nat(2)]) (simp_all only: split_on_none [OF no_sep_show_nat(2)])
  then show ?thesis
    unfolding parse_content_range_def parts using assms by (simp add: parse_u64_show_nat)
qed

theorem content_range_roundtrip_witness:
  "parse_content_range (show_content_range \<lparr>cr_start = 0, cr_end = 1023, cr_full = 146515\<rparr>)
    = Some \<lparr>cr_start = 0, cr_end = 1023, cr_full = 146515\<rparr>"
  by (rule content_range_roundtrip) (simp_all add: u64_max_eq)


text \<open>When \<^verbatim>\<open>in_full\<close> accepts a range, computing its start cannot underflow and both the
  start and the content range built from it lie inside the resource.\<close>

theorem in_full_content_range:
  assumes "in_full r full"
  shows "\<exists>a c. range_start r full = Some a \<and> a \<le> full \<and> from_range r full = Some (Some c)
    \<and> cr_start c = a \<and> cr_end c < full \<and> cr_full c = full \<and> (r_start r \<noteq> FromLast 0 \<longrightarrow> a < full)"
proof (cases "r_start r")
  case (StartIndex n)
  with assms show ?thesis
    by (auto simp: in_full_def range_start_def from_range_def split: end_position.splits)
next
  case (FromLast n)
  with assms have "full \<noteq> 0" "n < full" by (auto simp: in_full_def)
  with FromLast assms show ?thesis
    by (auto simp: in_full_def range_start_def from_range_def u64_sub_def split: end_position.splits)
qed

theorem in_full_content_range_witness:
  "\<exists>a c. range_start \<lparr>r_start = FromLast 10, r_end = LastByte\<rparr> 100 = Some a \<and> a \<le> 100
    \<and> from_range \<lparr>r_start = FromLast 10, r_end = LastByte\<rparr> 100 = Some (Some c)
    \<and> cr_start c = a \<and> cr_end c < 100 \<and> cr_full c = 100
    \<and> a < 100"
  using in_full_content_range [of "\<lparr>r_start = FromLast 10, r_end = LastByte\<rparr>" 100]
  by (simp add: in_full_def)

text \<open>A partial response is only accepted with a non-empty range inside the full length whose
  size is exactly the announced content length.\<close>

theorem response_geometry_partial:
  assumes "up_partial rsp" "response_geometry rsp = Inr (Some (full, a, b))"
  shows "a < b \<and> b \<le> full \<and> up_content_length rsp = Some (b - a)"
  using assms by (auto simp: response_geometry_def and_then_Inr_iff split: if_splits option.splits)

theorem response_geometry_partial_witness:
  "(5::nat) < 10 \<and> (10::nat) \<le> 20 \<and>
   up_content_length \<lparr>up_partial = True, up_content_range = Some ''bytes 5-9/20'',
     up_content_length = Some 5\<rparr> = Some (10 - 5)"
  by (rule response_geometry_partial [where full = 20])
    (simp_all add: response_geometry_def parse_content_range_def parse_u64_def char_digit_def u64_max_eq)

lemma range_requested_text:
  "range_requested None v (Some (''bytes='' @ body)) =
     (CHR '','' \<notin> set body \<and>
      (case split_once (CHR ''-'') body of
         None \<Rightarrow> False
       | Some (lo, hi) \<Rightarrow>
           if lo = [] then parse_u64 hi \<noteq> None
           else (case parse_u64 lo of
                   None \<Rightarrow> False
                 | Some a \<Rightarrow> hi = [] \<or> (case parse_u64 hi of None \<Rightarrow> False | Some b \<Rightarrow> a \<le> b))))"
  using strip_prefix_append [of "''bytes=''" body] by (simp add: range_requested_def)

lemma trim_bytes_digit:
  "body = c # cs \<Longrightarrow> is_digit c \<or> c = CHR ''-'' \<Longrightarrow>
    trim_start_matches ''bytes='' (''bytes='' @ body) = body"
  by (rule trim_start_matches_once) (auto simp: is_digit_def char_digit_def)

lemma trim_bytes_show:
  "trim_start_matches ''bytes='' (''bytes='' @ show_nat a @ rest) = show_nat a @ rest"
proof -
  obtain c cs where s: "show_nat a = c # cs" by (cases "show_nat a") auto
  then have "is_digit c" using show_nat_digits [of c a] by simp
  with s show ?thesis by (intro trim_bytes_digit [of _ c "cs @ rest"]) simp_all
qed

lemma split_show_nat: "split_once (CHR ''-'') (show_nat a @ ''-'' @ t) = Some (show_nat a, t)"
  using split_once_append [OF no_sep_show_nat(3), of a t] by simp

lemma client_range_text:
  assumes "range_requested None v (Some (''bytes='' @ body))"
    "trim_start_matches ''bytes='' (''bytes='' @ body) = body"
    "split_once (CHR ''-'') body = Some (lo, hi)"
  shows "client_range None v (Some (''bytes='' @ body)) len =
    (if lo = [] then
       (case parse_u64 hi of
          None \<Rightarrow> Some (0, len)
        | Some suffix \<Rightarrow> if 0 < suffix \<and> 0 < len then Some (len - suffix, len) else None)
     else
       (case parse_u64 lo of
          None \<Rightarrow> Some (0, len)
        | Some a \<Rightarrow>
            if hi = [] then (if a < len then Some (a, len) else None)
            else (case parse_u64 hi of
                    None \<Rightarrow> Some (0, len)
                  | Some w \<Rightarrow>
                      let b = min (sat_add w 1) len
                      in if a < b \<and> a < len then Some (a, b) else None)))"
  unfolding client_range_def
  by (simp only: assms option.sel option.case prod.case simp_thms if_False)

lemma client_range_from_to:
  assumes "a \<le> b" "b \<le> u64_max" "len \<le> u64_max"
  shows "client_range None v (Some (''bytes='' @ show_nat a @ ''-'' @ show_nat b)) len =
    (if a < len then Some (a, min (b + 1) len) else None)"
proof -
  have a: "a \<le> u64_max" using assms by simp
  have "range_requested None v (Some (''bytes='' @ show_nat a @ ''-'' @ show_nat b))"
    unfolding range_requested_text split_show_nat
    using assms a no_sep_show_nat(4) by (simp add: parse_u64_show_nat)
  from client_range_text [OF this trim_bytes_show split_show_nat] show ?thesis
    using assms a by (simp add: parse_u64_show_nat Let_def sat_add_def min_def)
qed

lemma client_range_open:
  assumes "a \<le> u64_max"
  shows "client_range None v (Some (''bytes='' @ show_nat a @ ''-'')) len =
    (if a < len then Some (a, len) else None)"
proof -
  have s: "split_once (CHR ''-'') (show_nat a @ ''-'') = Some (show_nat a, [])"
    using split_show_nat [of a "[]"] by simp
  have "range_requested None v (Some (''bytes='' @ show_nat a @ ''-''))"
    unfolding range_requested_text s
    using assms no_sep_show_nat(4) by (simp add: parse_u64_show_nat)
  from client_range_text [OF this trim_bytes_show s] show ?thesis
    using assms by (simp add: parse_u64_show_nat)
qed

lemma client_range_suffix:
  assumes "n \<le> u64_max"
  shows "client_range None v (Some (''bytes='' @ ''-'' @ show_nat n)) len =
    (if 0 < n \<and> 0 < len then Some (len - n, len) else None)"
proof -
  have s: "split_once (CHR ''-'') (''-'' @ show_nat n) = Some ([], show_nat n)" by simp
  have r: "range_requested None v (Some (''bytes='' @ ''-'' @ show_nat n))"
    unfolding range_requested_text s
    using assms no_sep_show_nat(4) by (simp add: parse_u64_show_nat)
  have "trim_start_matches ''bytes='' (''bytes='' @ ''-'' @ show_nat n) = ''-'' @ show_nat n"
    by (rule trim_bytes_digit [of _ "CHR ''-''" "show_nat n"]) simp_all
  from client_range_text [OF r this s] show ?thesis
    using assms by (simp add: parse_u64_show_nat)
qed

text \<open>The range served to a client is the one RFC 9110 gives for each of the three forms of a
  single byte range, with 64-bit positions; an unsatisfiable range is refused.\<close>

theorem client_range_forms:
  assumes "a \<le> b" "b \<le> u64_max" "len \<le> u64_max"
  shows "client_range None v (Some (''bytes='' @ show_nat a @ ''-'' @ show_nat b)) len =
      (if a < len then Some (a, min (b + 1) len) else None)
    \<and> client_range None v (Some (''bytes='' @ show_nat a @ ''-'')) len =
      (if a < len then Some (a, len) else None)
    \<and> client_range None v (Some (''bytes='' @ ''-'' @ show_nat b)) len =
      (if 0 < b \<and> 0 < len then Some (len - b, len) else None)"
proof -
  have "a \<le> u64_max" using assms by simp
  then show ?thesis
    using client_range_from_to [OF assms] client_range_open client_range_suffix [OF assms(2)] by blast
qed

theorem client_range_forms_witness:
  "client_range None None (Some (''bytes='' @ show_nat 2 @ ''-'' @ show_nat 900)) 10 =
      (if (2::nat) < 10 then Some (2, min (900 + 1) 10) else None)
    \<and> client_range None None (Some (''bytes='' @ show_nat 2 @ ''-'')) 10 =
      (if (2::nat) < 10 then Some (2, 10) else None)
    \<and> client_range None None (Some (''bytes='' @ ''-'' @ show_nat 900)) 10 =
      (if (0::nat) < 900 \<and> (0::nat) < 10 then Some (10 - 900, 10) else None)"
  by (rule client_range_forms) (simp_all add: u64_max_eq)

text \<open>Whatever the headers say, the range to serve stays inside the resource, and it is empty only
  for the whole of an empty resource.\<close>

theorem client_range_within:
  assumes "client_range if_range v rng len = Some (a, b)"
  shows "a \<le> b \<and> b \<le> len \<and> (a < b \<or> (a = 0 \<and> b = len))"
  using assms
  by (auto simp: client_range_def Let_def split: if_splits option.splits)

theorem client_range_within_witness:
  "(2::nat) \<le> 10 \<and> (10::nat) \<le> 10 \<and> ((2::nat) < 10 \<or> (2 = (0::nat) \<and> 10 = (10::nat)))"
  by (rule client_range_within [where if_range = None and v = None and rng = "Some ''bytes=2-''"])
    (simp add: client_range_def range_requested_def strip_prefix_def parse_u64_def char_digit_def
      u64_max_eq trim_start_matches.simps)

lemma page_size_pos: "0 < pp_page_size (page_params_new p s)"
  by (simp add: page_params_new_def)

text \<open>\<^verbatim>\<open>has_more\<close> reports more rows exactly when the page it was asked for is itself non-empty
  (with the zero-based pages the queries fetch), not when a later page is: on the last non-empty page
  it still answers yes, and the client only learns the end from an empty page.\<close>

theorem has_more_is_page_nonempty:
  "has_more p tot \<longleftrightarrow> drop (pp_page p * pp_page_size p) [0..<tot] \<noteq> []"
  by (auto simp: has_more_def not_le)

end
