(* ===== verification/Pieces.thy ===== *)
theory Pieces
  imports Prelude
begin

section \<open>The map of downloaded pieces of a file\<close>

text \<open>
  \<^verbatim>\<open>http/piece.rs\<close>: a file remembers which byte ranges it already holds in a
  \<^verbatim>\<open>BTreeMap\<close> from offset to piece, here the list of its entries in key order.
\<close>

record piece =
  p_offset :: nat
  p_length :: nat

record file_meta =
  fm_path :: string
  fm_len :: nat
  fm_pieces :: "(nat \<times> piece) list"

fun bt_insert :: "nat \<Rightarrow> 'v \<Rightarrow> (nat \<times> 'v) list \<Rightarrow> (nat \<times> 'v) list" where
  "bt_insert k v [] = [(k, v)]"
| "bt_insert k v ((k', v') # es) =
     (if k < k' then (k, v) # (k', v') # es
      else if k = k' then (k, v) # es else (k', v') # bt_insert k v es)"

definition bt_remove :: "nat \<Rightarrow> (nat \<times> 'v) list \<Rightarrow> (nat \<times> 'v) list" where
  "bt_remove k es = filter (\<lambda>e. fst e \<noteq> k) es"

definition longest_piece :: "file_meta \<Rightarrow> nat \<Rightarrow> piece option" where
  "longest_piece m start =
     (case filter (\<lambda>e. fst e \<le> start) (fm_pieces m) of
        [] \<Rightarrow> None
      | es \<Rightarrow> let p = snd (last es)
              in if start < p_offset p + p_length p then Some p else None)"

definition piece_of :: "file_meta \<Rightarrow> nat \<Rightarrow> piece option" where
  "piece_of m start =
     map_option (\<lambda>p. p\<lparr>p_length := p_offset p + p_length p - start, p_offset := start\<rparr>)
       (longest_piece m start)"

abbreviation p_end :: "piece \<Rightarrow> nat" where
  "p_end p \<equiv> p_offset p + p_length p"

fun combine_loop ::
    "piece \<Rightarrow> (nat \<times> piece) list \<Rightarrow> piece \<Rightarrow> nat list \<Rightarrow> (piece \<times> nat list) option" where
  "combine_loop p [] merged to_remove = Some (merged, to_remove)"
| "combine_loop p ((off, e) # es) merged to_remove =
     (if p_offset e \<le> p_offset p \<and> p_end p \<le> p_end e then None
      else if (p_offset e \<le> p_offset p \<and> p_offset p \<le> p_end e)
            \<or> (p_offset p \<le> p_offset e \<and> p_offset e \<le> p_end p)
      then combine_loop p es
             \<lparr>p_offset = min (p_offset merged) (p_offset e),
              p_length = max (p_end merged) (p_end e) - min (p_offset merged) (p_offset e)\<rparr>
             (to_remove @ [off])
      else combine_loop p es merged to_remove)"

definition combine :: "piece \<Rightarrow> file_meta \<Rightarrow> bool \<times> file_meta" where
  "combine p m =
     (case combine_loop p (fm_pieces m) p [] of
        None \<Rightarrow> (False, m)
      | Some (merged, to_remove) \<Rightarrow>
          (True, m\<lparr>fm_pieces := bt_insert (p_offset merged) merged
                    (foldl (\<lambda>es k. bt_remove k es) (fm_pieces m) to_remove)\<rparr>))"

definition is_end :: "file_meta \<Rightarrow> bool" where
  "is_end m \<longleftrightarrow> length (fm_pieces m) = 1
     \<and> (case map_of (fm_pieces m) 0 of
          None \<Rightarrow> False | Some p \<Rightarrow> p_offset p = 0 \<and> p_length p = fm_len m)"

subsection \<open>Invariant\<close>

definition ivs :: "(nat \<times> piece) list \<Rightarrow> (nat \<times> nat) list" where
  "ivs es = map (\<lambda>e. (p_offset (snd e), p_end (snd e))) es"

abbreviation before :: "nat \<times> piece \<Rightarrow> nat \<times> piece \<Rightarrow> bool" where
  "before e f \<equiv> p_end (snd e) < p_offset (snd f)"

text \<open>Keys are offsets, and the pieces are in order with a gap between any two of them.\<close>

definition pieces_ok :: "(nat \<times> piece) list \<Rightarrow> bool" where
  "pieces_ok es \<longleftrightarrow> (\<forall>e \<in> set es. fst e = p_offset (snd e)) \<and> sorted_wrt before es"

definition held :: "file_meta \<Rightarrow> nat set" where
  "held m = covered (ivs (fm_pieces m))"

lemma covered_ivs: "covered (ivs es) = (\<Union>e \<in> set es. {p_offset (snd e)..<p_end (snd e)})"
  by (auto simp: covered_def ivs_def)

lemma pieces_ok_apart:
  "pieces_ok es \<Longrightarrow> e \<in> set es \<Longrightarrow> f \<in> set es \<Longrightarrow> e = f \<or> before e f \<or> before f e"
  by (induction es) (auto simp: pieces_ok_def)

lemma pieces_ok_filter: "pieces_ok es \<Longrightarrow> pieces_ok (filter P es)"
  by (auto simp: pieces_ok_def sorted_wrt_filter)

lemma sorted_last_max:
  "sorted_wrt before es \<Longrightarrow> e \<in> set es \<Longrightarrow> e = last es \<or> before e (last es)"
  by (induction es) auto

subsection \<open>Lookup\<close>

lemma longest_piece_None:
  assumes "pieces_ok (fm_pieces m)"
  shows "longest_piece m n = None \<longleftrightarrow> n \<notin> held m"
proof -
  let ?fs = "filter (\<lambda>e. fst e \<le> n) (fm_pieces m)"
  have ok: "pieces_ok ?fs" using assms by (rule pieces_ok_filter)
  have key: "fst e = p_offset (snd e)" if "e \<in> set (fm_pieces m)" for e
    using assms that by (simp add: pieces_ok_def)
  have "n \<in> held m \<longleftrightarrow> ?fs \<noteq> [] \<and> n < p_end (snd (last ?fs))"
  proof
    assume "n \<in> held m"
    then obtain e where e: "e \<in> set (fm_pieces m)" "p_offset (snd e) \<le> n" "n < p_end (snd e)"
      by (auto simp: held_def covered_ivs)
    then have in_fs: "e \<in> set ?fs" using key by simp
    then have ne: "?fs \<noteq> []" by (metis empty_iff list.set(1))
    then have "last ?fs \<in> set ?fs" by (rule last_in_set)
    then have "p_offset (snd (last ?fs)) \<le> n" using key [of "last ?fs"] by simp
    moreover have "e = last ?fs \<or> before e (last ?fs)"
      using ok in_fs sorted_last_max by (auto simp: pieces_ok_def)
    ultimately show "?fs \<noteq> [] \<and> n < p_end (snd (last ?fs))" using e ne by auto
  next
    assume a: "?fs \<noteq> [] \<and> n < p_end (snd (last ?fs))"
    then have "last ?fs \<in> set ?fs" using last_in_set by blast
    then have "last ?fs \<in> set (fm_pieces m)" "p_offset (snd (last ?fs)) \<le> n"
      using key [of "last ?fs"] by simp_all
    with a show "n \<in> held m" by (auto simp: held_def covered_ivs)
  qed
  then show ?thesis
    by (auto simp: longest_piece_def Let_def split: list.splits)
qed

lemma longest_piece_SomeD:
  assumes "pieces_ok (fm_pieces m)" "longest_piece m n = Some p"
  shows "p \<in> snd ` set (fm_pieces m)" "p_offset p \<le> n" "n < p_end p"
proof -
  let ?fs = "filter (\<lambda>e. fst e \<le> n) (fm_pieces m)"
  from assms(2) have "?fs \<noteq> []" and p: "p = snd (last ?fs)" "n < p_end p"
    by (auto simp: longest_piece_def Let_def split: list.splits if_splits)
  then have l: "last ?fs \<in> set ?fs" using last_in_set by blast
  with p show "p \<in> snd ` set (fm_pieces m)" "n < p_end p" by auto
  from l p show "p_offset p \<le> n" using assms(1) by (auto simp: pieces_ok_def)
qed

lemma piece_end_free:
  assumes "pieces_ok es" "e \<in> set es"
  shows "p_end (snd e) \<notin> covered (ivs es)"
proof
  assume "p_end (snd e) \<in> covered (ivs es)"
  then obtain f where "f \<in> set es" "p_offset (snd f) \<le> p_end (snd e)" "p_end (snd e) < p_end (snd f)"
    by (auto simp: covered_ivs)
  with pieces_ok_apart [OF assms, of f] show False by auto
qed


text \<open>\<^verbatim>\<open>piece_of\<close> finds the piece at an offset exactly when the byte is held, and returns the whole
  run of held bytes from there on: non-empty, all held, and followed by a byte that is not.\<close>

theorem piece_of_maximal_run:
  assumes "pieces_ok (fm_pieces m)"
  shows "(piece_of m n = None \<longleftrightarrow> n \<notin> held m) \<and>
    (\<forall>q. piece_of m n = Some q \<longrightarrow> p_offset q = n \<and> 0 < p_length q \<and>
       {n..<n + p_length q} \<subseteq> held m \<and> n + p_length q \<notin> held m)"
proof (intro conjI allI impI)
  show "piece_of m n = None \<longleftrightarrow> n \<notin> held m"
    using longest_piece_None [OF assms] by (simp add: piece_of_def)
next
  fix q
  assume "piece_of m n = Some q"
  then obtain p where p: "longest_piece m n = Some p"
    and q: "q = p\<lparr>p_length := p_end p - n, p_offset := n\<rparr>"
    by (auto simp: piece_of_def)
  note d = longest_piece_SomeD [OF assms p]
  then obtain e where e: "e \<in> set (fm_pieces m)" "p = snd e" by auto
  show "p_offset q = n" "0 < p_length q" using q d by auto
  have stop: "n + p_length q = p_end p" using q d by auto
  have "{p_offset p..<p_end p} \<subseteq> held m" using e by (auto simp: held_def covered_ivs)
  then show "{n..<n + p_length q} \<subseteq> held m" unfolding stop using d(2) by auto
  from stop show "n + p_length q \<notin> held m" using piece_end_free [OF assms e(1)] e by (simp add: held_def)
qed

definition two_pieces :: file_meta where
  "two_pieces = \<lparr>fm_path = ''f'', fm_len = 100,
     fm_pieces = [(0, \<lparr>p_offset = 0, p_length = 10\<rparr>), (20, \<lparr>p_offset = 20, p_length = 30\<rparr>)]\<rparr>"

theorem piece_of_maximal_run_witness:
  "\<exists>q. piece_of two_pieces 25 = Some q \<and> {25..<25 + p_length q} \<subseteq> held two_pieces
     \<and> 25 + p_length q \<notin> held two_pieces"
proof -
  have ok: "pieces_ok (fm_pieces two_pieces)" by (simp add: pieces_ok_def two_pieces_def)
  have "25 \<in> held two_pieces" by (auto simp: held_def covered_ivs two_pieces_def)
  then show ?thesis using piece_of_maximal_run [OF ok, of 25] by (cases "piece_of two_pieces 25") auto
qed

subsection \<open>Merging a piece\<close>

definition covers :: "piece \<Rightarrow> piece \<Rightarrow> bool" where
  "covers e p \<longleftrightarrow> p_offset e \<le> p_offset p \<and> p_end p \<le> p_end e"

definition touches :: "piece \<Rightarrow> piece \<Rightarrow> bool" where
  "touches e p \<longleftrightarrow> (p_offset e \<le> p_offset p \<and> p_offset p \<le> p_end e)
     \<or> (p_offset p \<le> p_offset e \<and> p_offset e \<le> p_end p)"

lemma combine_loop_None_iff:
  "combine_loop p es mg rm = None \<longleftrightarrow> (\<exists>e \<in> set es. covers (snd e) p)"
  by (induction p es mg rm rule: combine_loop.induct) (auto simp: covers_def)

text \<open>What the loop accumulates: the hull of the piece and of all pieces that touch it.\<close>

lemma combine_loop_Some:
  assumes "combine_loop p es mg rm = Some (mg', rm')"
  shows "rm' = rm @ map fst (filter (\<lambda>e. touches (snd e) p) es)
    \<and> p_offset mg' \<le> p_offset mg \<and> p_end mg \<le> p_end mg'
    \<and> (\<forall>e \<in> set es. touches (snd e) p \<longrightarrow> p_offset mg' \<le> p_offset (snd e) \<and> p_end (snd e) \<le> p_end mg')
    \<and> (p_offset mg' = p_offset mg \<or> (\<exists>e \<in> set es. touches (snd e) p \<and> p_offset mg' = p_offset (snd e)))
    \<and> (p_end mg' = p_end mg \<or> (\<exists>e \<in> set es. touches (snd e) p \<and> p_end mg' = p_end (snd e)))"
  using assms
proof (induction p es mg rm rule: combine_loop.induct)
  case (1 p mg rm)
  then show ?case by simp
next
  case (2 p off e es mg rm)
  show ?case
  proof (cases "touches e p")
    case True
    let ?mg = "\<lparr>p_offset = min (p_offset mg) (p_offset e),
      p_length = max (p_end mg) (p_end e) - min (p_offset mg) (p_offset e)\<rparr>"
    have "p_end ?mg = max (p_end mg) (p_end e)" by (simp add: min_def max_def)
    moreover have "p_offset ?mg = min (p_offset mg) (p_offset e)" by simp
    moreover have "combine_loop p es ?mg (rm @ [off]) = Some (mg', rm')"
      using "2.prems" True by (auto simp: touches_def split: if_splits)
    moreover note "2.IH"(1)
    ultimately show ?thesis
      using True "2.prems" by (auto simp: touches_def min_def max_def split: if_splits)
  next
    case False
    then show ?thesis using "2.prems" "2.IH"(2) by (auto simp: touches_def split: if_splits)
  qed
qed

lemma bt_insert_apart:
  assumes "sorted_wrt before es" "\<forall>e \<in> set es. fst e = p_offset (snd e)"
    "\<forall>e \<in> set es. before e (p_offset mg, mg) \<or> before (p_offset mg, mg) e"
  shows "sorted_wrt before (bt_insert (p_offset mg) mg es)
    \<and> set (bt_insert (p_offset mg) mg es) = insert (p_offset mg, mg) (set es)"
  using assms
proof (induction es)
  case Nil
  then show ?case by simp
next
  case (Cons e es)
  obtain k q where e: "e = (k, q)" by (cases e)
  have k: "k = p_offset q" using Cons.prems e by simp
  have IH: "sorted_wrt before (bt_insert (p_offset mg) mg es)
    \<and> set (bt_insert (p_offset mg) mg es) = insert (p_offset mg, mg) (set es)"
    using Cons.prems by (intro Cons.IH) auto
  consider "p_end q < p_offset mg" | "p_end mg < p_offset q" using Cons.prems e by auto
  then show ?case
  proof cases
    case 1
    with Cons.prems IH k show ?thesis by (auto simp: e)
  next
    case 2
    have "\<forall>f \<in> set es. before (p_offset mg, mg) f" using Cons.prems 2 by (auto simp: e)
    with 2 Cons.prems k show ?thesis by (auto simp: e)
  qed
qed

lemma foldl_bt_remove: "foldl (\<lambda>es k. bt_remove k es) es ks = filter (\<lambda>e. fst e \<notin> set ks) es"
  by (induction ks arbitrary: es) (auto simp: bt_remove_def intro: filter_cong)

lemma pieces_ok_key_inj:
  "pieces_ok es \<Longrightarrow> e \<in> set es \<Longrightarrow> f \<in> set es \<Longrightarrow> fst e = fst f \<Longrightarrow> e = f"
  using pieces_ok_apart [of es e f] by (auto simp: pieces_ok_def)

lemma remove_touching:
  assumes "pieces_ok es"
  shows "filter (\<lambda>e. fst e \<notin> set (map fst (filter (\<lambda>e. touches (snd e) p) es))) es
    = filter (\<lambda>e. \<not> touches (snd e) p) es"
  using pieces_ok_key_inj [OF assms] by (intro filter_cong) auto

lemma hull_apart:
  assumes ok: "pieces_ok es" and loop: "combine_loop p es p [] = Some (mg, rm)"
    and e: "e \<in> set es" "\<not> touches (snd e) p"
  shows "before e (p_offset mg, mg) \<or> before (p_offset mg, mg) e"
proof -
  note spec = combine_loop_Some [OF loop]
  have apart: "before e t \<or> before t e" if "t \<in> set es" "touches (snd t) p" for t
    using pieces_ok_apart [OF ok e(1) that(1)] e(2) that(2) by auto
  consider (left) "p_end (snd e) < p_offset p" | (right) "p_end p < p_offset (snd e)"
    using e(2) unfolding touches_def by linarith
  then show ?thesis
  proof cases
    case left
    then have "before e t" if "t \<in> set es" "touches (snd t) p" for t
      using apart [OF that] that(2) unfolding touches_def by auto
    with left spec show ?thesis by auto
  next
    case right
    then have "before t e" if "t \<in> set es" "touches (snd t) p" for t
      using apart [OF that] that(2) unfolding touches_def by auto
    with right spec show ?thesis by auto
  qed
qed

lemma hull_covered:
  assumes "combine_loop p es p [] = Some (mg, rm)"
  shows "{p_offset mg..<p_end mg} =
    {p_offset p..<p_end p} \<union> (\<Union>e \<in> {e \<in> set es. touches (snd e) p}. {p_offset (snd e)..<p_end (snd e)})"
    (is "?hull = ?union")
proof
  note spec = combine_loop_Some [OF assms]
  show "?union \<subseteq> ?hull" using spec by fastforce
  show "?hull \<subseteq> ?union"
  proof
    fix x
    assume x: "x \<in> ?hull"
    consider "x < p_offset p" | "p_offset p \<le> x" "x < p_end p" | "p_end p \<le> x" by linarith
    then show "x \<in> ?union"
    proof cases
      case 1
      then obtain t where t: "t \<in> set es" "touches (snd t) p" "p_offset mg = p_offset (snd t)"
        using spec x by auto
      then have "x \<in> {p_offset (snd t)..<p_end (snd t)}" using 1 x by (auto simp: touches_def)
      with t show ?thesis by blast
    next
      case 2
      then show ?thesis by simp
    next
      case 3
      then obtain t where t: "t \<in> set es" "touches (snd t) p" "p_end mg = p_end (snd t)"
        using spec x by auto
      then have "x \<in> {p_offset (snd t)..<p_end (snd t)}" using 3 x by (auto simp: touches_def)
      with t show ?thesis by blast
    qed
  qed
qed

text \<open>\<^verbatim>\<open>combine\<close> keeps the pieces ordered, apart and keyed by offset, and the bytes held afterwards
  are exactly the old ones and the new piece. It answers \<open>False\<close> and changes nothing exactly when one
  piece already contains the new one.\<close>

theorem combine_correct:
  assumes ok: "pieces_ok (fm_pieces m)" and c: "combine p m = (changed, m')"
  shows "pieces_ok (fm_pieces m') \<and> held m' = held m \<union> {p_offset p..<p_end p}
    \<and> fm_len m' = fm_len m \<and> (changed \<longleftrightarrow> \<not> (\<exists>e \<in> set (fm_pieces m). covers (snd e) p))
    \<and> (\<not> changed \<longrightarrow> m' = m)"
proof (cases "combine_loop p (fm_pieces m) p []")
  case None
  then obtain e where "e \<in> set (fm_pieces m)" "covers (snd e) p" using combine_loop_None_iff by blast
  moreover have "changed = False" "m' = m" using c None by (auto simp: combine_def)
  ultimately show ?thesis using ok by (auto simp: covers_def held_def covered_ivs)
next
  case (Some r)
  then obtain mg rm where loop: "combine_loop p (fm_pieces m) p [] = Some (mg, rm)" by (cases r) auto
  let ?rest = "filter (\<lambda>e. \<not> touches (snd e) p) (fm_pieces m)"
  have m': "changed" "m' = m\<lparr>fm_pieces := bt_insert (p_offset mg) mg ?rest\<rparr>"
    using c loop combine_loop_Some [OF loop] remove_touching [OF ok, of p]
    by (simp_all add: combine_def foldl_bt_remove)
  have ins: "sorted_wrt before (bt_insert (p_offset mg) mg ?rest)
    \<and> set (bt_insert (p_offset mg) mg ?rest) = insert (p_offset mg, mg) (set ?rest)"
    using pieces_ok_filter [OF ok] hull_apart [OF ok loop]
    by (intro bt_insert_apart) (auto simp: pieces_ok_def)
  have "pieces_ok (fm_pieces m')" using ins ok m' by (auto simp: pieces_ok_def)
  moreover have "held m' = held m \<union> {p_offset p..<p_end p}"
    using ins m' hull_covered [OF loop] by (auto simp: held_def covered_ivs)
  moreover have "\<not> (\<exists>e \<in> set (fm_pieces m). covers (snd e) p)"
    using loop combine_loop_None_iff [of p "fm_pieces m" p "[]"] by auto
  ultimately show ?thesis using m' by simp
qed

theorem combine_correct_witness:
  "pieces_ok (fm_pieces (snd (combine \<lparr>p_offset = 5, p_length = 20\<rparr> two_pieces)))
    \<and> held (snd (combine \<lparr>p_offset = 5, p_length = 20\<rparr> two_pieces)) = held two_pieces \<union> {5..<25}"
proof -
  let ?p = "\<lparr>p_offset = 5, p_length = 20\<rparr>"
  have "pieces_ok (fm_pieces two_pieces)" by (simp add: pieces_ok_def two_pieces_def)
  from combine_correct [OF this, of ?p "fst (combine ?p two_pieces)" "snd (combine ?p two_pieces)"]
  show ?thesis by simp
qed

text \<open>For a non-empty file whose pieces are non-empty and lie inside it, \<^verbatim>\<open>is_end\<close> says that every
  byte has arrived.\<close>

theorem is_end_iff_all_held:
  assumes ok: "pieces_ok (fm_pieces m)" and len: "0 < fm_len m"
    and inside: "\<forall>e \<in> set (fm_pieces m). 0 < p_length (snd e) \<and> p_end (snd e) \<le> fm_len m"
  shows "is_end m \<longleftrightarrow> held m = {0..<fm_len m}"
proof
  assume "is_end m"
  then obtain k q where "fm_pieces m = [(k, q)]" "p_offset q = 0" "p_length q = fm_len m"
    by (auto simp: is_end_def length_Suc_conv split: option.splits if_splits)
  then show "held m = {0..<fm_len m}" by (simp add: held_def covered_ivs)
next
  assume all: "held m = {0..<fm_len m}"
  then have "0 \<in> held m" using len by simp
  then obtain e where e: "e \<in> set (fm_pieces m)" "p_offset (snd e) = 0" by (auto simp: held_def covered_ivs)
  have "p_end (snd e) \<notin> held m" using piece_end_free [OF ok e(1)] by (simp add: held_def)
  with all inside e have stop: "p_end (snd e) = fm_len m" by auto
  have single: "f = e" if f: "f \<in> set (fm_pieces m)" for f
    using pieces_ok_apart [OF ok f e(1)] inside f e stop by auto
  obtain f es where "fm_pieces m = f # es" using e(1) by (cases "fm_pieces m") auto
  moreover from this have "f = e" by (intro single) simp
  ultimately have es: "fm_pieces m = e # es" by simp
  have "es = []"
  proof (rule ccontr)
    assume "es \<noteq> []"
    then have h: "hd es \<in> set es" by simp
    then have "before e (hd es)" using ok es by (simp add: pieces_ok_def)
    moreover have "hd es = e" using h es by (intro single) simp
    ultimately show False by simp
  qed
  with es have "fm_pieces m = [e]" by simp
  moreover have "fst e = 0" using ok e by (simp add: pieces_ok_def)
  ultimately show "is_end m" using e stop by (cases e) (simp add: is_end_def)
qed

theorem is_end_iff_all_held_witness:
  "is_end \<lparr>fm_path = ''f'', fm_len = 7, fm_pieces = [(0, \<lparr>p_offset = 0, p_length = 7\<rparr>)]\<rparr> \<longleftrightarrow>
   held \<lparr>fm_path = ''f'', fm_len = 7, fm_pieces = [(0, \<lparr>p_offset = 0, p_length = 7\<rparr>)]\<rparr>
     = {0..<fm_len \<lparr>fm_path = ''f'', fm_len = 7, fm_pieces = [(0, \<lparr>p_offset = 0, p_length = 7\<rparr>)]\<rparr>}"
  by (rule is_end_iff_all_held) (simp_all add: pieces_ok_def)

end
