(* ===== verification/Policy.thy ===== *)
theory Policy
  imports Text
begin

section \<open>HTTP caching policy\<close>

text \<open>
  \<^verbatim>\<open>resource_cache/policy.rs\<close>: what a response's headers allow the cache to do.

  A \<^verbatim>\<open>HeaderMap\<close> is passed as its lookup function \<open>headers\<close>: for a header name the values in
  order, each as its text, or \<open>None\<close> for a value that is not visible text (\<^verbatim>\<open>HeaderValue::to_str\<close>
  fails). \<^verbatim>\<open>httpdate::parse_http_date\<close> is the parameter \<open>parse_date\<close>, giving seconds relative to
  the Unix epoch; the current time is the parameter \<open>now\<close>. Texts are visible ASCII, so trimming
  is trimming of ASCII white space.
\<close>

type_synonym headers = "string \<Rightarrow> string option list"

definition DATE_CLOCK_MARGIN :: nat where
  "DATE_CLOCK_MARGIN = 60"

subsection \<open>Text helpers\<close>

definition ascii_space :: "char \<Rightarrow> bool" where
  "ascii_space c \<longleftrightarrow> (let k = of_char c :: nat in (9 \<le> k \<and> k \<le> 13) \<or> k = 32)"

definition trim_by :: "(char \<Rightarrow> bool) \<Rightarrow> string \<Rightarrow> string" where
  "trim_by p s = rev (dropWhile p (rev (dropWhile p s)))"

abbreviation trim :: "string \<Rightarrow> string" where
  "trim \<equiv> trim_by ascii_space"

definition to_ascii_lowercase :: "string \<Rightarrow> string" where
  "to_ascii_lowercase s =
     map (\<lambda>c. let k = of_char c :: nat in if 65 \<le> k \<and> k \<le> 90 then char_of (k + 32) else c) s"

definition eq_ignore_ascii_case :: "string \<Rightarrow> string \<Rightarrow> bool" where
  "eq_ignore_ascii_case a b \<longleftrightarrow> to_ascii_lowercase a = to_ascii_lowercase b"

subsection \<open>Headers and directives\<close>

definition header_value :: "headers \<Rightarrow> string \<Rightarrow> string option" where
  "header_value h key = (case h key of [] \<Rightarrow> None | v # _ \<Rightarrow> v)"

definition contains_key :: "headers \<Rightarrow> string \<Rightarrow> bool" where
  "contains_key h key \<longleftrightarrow> h key \<noteq> []"

type_synonym directive = "string \<times> string option"

definition directive_part :: "string \<Rightarrow> directive list" where
  "directive_part raw =
     (let part = trim raw;
          (name, arg) = (case split_once (CHR ''='') part of
              Some (n, v) \<Rightarrow> (n, Some (trim_by (\<lambda>c. c = CHR 0x22) (trim v)))
            | None \<Rightarrow> (part, None))
      in if name \<noteq> [] then [(to_ascii_lowercase (trim name), arg)] else [])"

text \<open>
  The scan over the characters of one header value. \<open>cur\<close> is the text since the last separator;
  the end of the text acts as one more comma, and an unterminated quotation adds \<^verbatim>\<open>no-store\<close>.
\<close>

fun directive_scan :: "bool \<Rightarrow> string \<Rightarrow> string \<Rightarrow> directive list" where
  "directive_scan quoted cur [] =
     (if quoted then [(''no-store'', None)] else directive_part cur)"
| "directive_scan quoted cur (c # cs) =
     (let quoted = (if c = CHR 0x22 then \<not> quoted else quoted)
      in if c = CHR '','' \<and> \<not> quoted then directive_part cur @ directive_scan quoted [] cs
         else directive_scan quoted (cur @ [c]) cs)"

definition directives :: "headers \<Rightarrow> directive list" where
  "directives h =
     concat (map (\<lambda>v. case v of None \<Rightarrow> [(''no-store'', None)]
                     | Some body \<Rightarrow> directive_scan False [] body) (h ''cache-control''))"

definition header_date :: "(string \<Rightarrow> int option) \<Rightarrow> headers \<Rightarrow> string \<Rightarrow> nat option" where
  "header_date parse_date h name =
     Option.bind (header_value h name) (\<lambda>v.
     Option.bind (parse_date v) (\<lambda>t. if t < 0 then None else Some (nat t)))"

subsection \<open>Validators and the policy record\<close>

datatype range_validator = StrongETag string | LastModified string nat

fun validator_value :: "range_validator \<Rightarrow> string" where
  "validator_value (StrongETag v) = v"
| "validator_value (LastModified v _) = v"

fun validator_matches :: "range_validator \<Rightarrow> headers \<Rightarrow> bool" where
  "validator_matches (StrongETag v) h \<longleftrightarrow> header_value h ''etag'' = Some v"
| "validator_matches (LastModified v _) h \<longleftrightarrow>
     \<not> contains_key h ''etag'' \<and> header_value h ''last-modified'' = Some v"

record policy =
  po_stored :: nat
  po_initial_age :: nat
  po_lifetime :: nat
  po_no_cache :: bool
  po_store :: bool
  po_etag :: "string option"
  po_modified :: "string option"
  po_range_validator :: "range_validator option"

definition strong_etag :: "string \<Rightarrow> bool" where
  "strong_etag s \<longleftrightarrow> 2 \<le> length s \<and> hd s = CHR 0x22 \<and> last s = CHR 0x22
     \<and> list_all (\<lambda>c. let b = of_char c :: nat in b = 0x21 \<or> (0x23 \<le> b \<and> b \<le> 0x7e) \<or> 0x80 \<le> b)
         (butlast (tl s))"

definition from_response ::
    "(string \<Rightarrow> int option) \<Rightarrow> headers \<Rightarrow> bool \<Rightarrow> nat \<Rightarrow> nat \<Rightarrow> policy" where
  "from_response parse_date h all_text sent received =
     (let ds = directives h;
          has = (\<lambda>key. list_ex (\<lambda>d. fst d = key) ds);
          date = header_date parse_date h;
          ages = filter (\<lambda>d. fst d = ''max-age'') ds;
          max_age = (case ages of [d] \<Rightarrow> Option.bind (snd d) parse_u64 | _ \<Rightarrow> None);
          received_date = (case date ''date'' of None \<Rightarrow> received | Some d \<Rightarrow> d);
          lifetime = (if ages \<noteq> [] then (case max_age of None \<Rightarrow> 0 | Some n \<Rightarrow> n)
                      else (case date ''expires'' of None \<Rightarrow> 0 | Some e \<Rightarrow> e - received_date))
      in \<lparr>po_stored = received,
          po_initial_age = max (received - received_date)
            (sat_add (case Option.bind (header_value h ''age'') parse_u64 of None \<Rightarrow> 0 | Some n \<Rightarrow> n)
               (received - sent)),
          po_lifetime = lifetime,
          po_no_cache = has ''no-cache'',
          po_store = (all_text \<and> \<not> has ''no-store'' \<and> \<not> has ''must-understand''
            \<and> \<not> list_ex (\<lambda>v. case v of None \<Rightarrow> False
                | Some s \<Rightarrow> list_ex (\<lambda>x. trim x = ''*'') (split_on (\<lambda>c. c = CHR '','') s)) (h ''vary'')
            \<and> (case header_value h ''content-encoding'' of None \<Rightarrow> True
                | Some v \<Rightarrow> eq_ignore_ascii_case v ''identity'')),
          po_etag = header_value h ''etag'',
          po_modified = header_value h ''last-modified'',
          po_range_validator =
            (case header_value h ''etag'' of
               Some etag \<Rightarrow> if strong_etag etag then Some (StrongETag etag) else None
             | None \<Rightarrow>
                 (case (date ''last-modified'', date ''date'') of
                    (Some modified, Some d) \<Rightarrow>
                      if DATE_CLOCK_MARGIN \<le> d - modified
                      then map_option (\<lambda>v. LastModified v d) (header_value h ''last-modified'')
                      else None
                  | _ \<Rightarrow> None))\<rparr>)"




definition range_value :: "policy \<Rightarrow> string option" where
  "range_value p =
     (case po_range_validator p of
        Some v \<Rightarrow> Some (validator_value v)
      | None \<Rightarrow> (case po_etag p of Some v \<Rightarrow> if strong_etag v then Some v else None | None \<Rightarrow> None))"

definition matches_range :: "policy \<Rightarrow> headers \<Rightarrow> bool" where
  "matches_range p h =
     (case po_range_validator p of
        None \<Rightarrow> (case range_value p of None \<Rightarrow> False | Some v \<Rightarrow> header_value h ''etag'' = Some v)
      | Some v \<Rightarrow> validator_matches v h)"

definition request_no_store :: "headers \<Rightarrow> bool" where
  "request_no_store h = list_ex (\<lambda>d. fst d = ''no-store'') (directives h)"

definition only_cached :: "headers \<Rightarrow> bool" where
  "only_cached h = list_ex (\<lambda>d. fst d = ''only-if-cached'') (directives h)"

text \<open>
  \<^verbatim>\<open>HeaderValue\<close> parsing is a parameter \<open>value_ok\<close>; the formatted current time of
  \<^verbatim>\<open>httpdate::fmt_http_date\<close> is the parameter \<open>now_text\<close>. Header names are lower case, as a
  \<^verbatim>\<open>HeaderName\<close> is. \<open>saved_names\<close> is the set of names that \<^verbatim>\<open>saved\<close> yields.
\<close>

definition forwarded :: "headers \<Rightarrow> headers" where
  "forwarded h =
     (let connection = map (\<lambda>s. to_ascii_lowercase (trim s))
            (split_on (\<lambda>c. c = CHR '','') (case header_value h ''connection'' of None \<Rightarrow> [] | Some v \<Rightarrow> v))
      in (\<lambda>k. if k \<in> set [''connection'', ''proxy-connection'', ''keep-alive'', ''proxy-authenticate'',
                  ''proxy-authorization'', ''te'', ''trailer'', ''transfer-encoding'', ''upgrade'', ''set-cookie'']
               \<or> k \<in> set connection
             then [] else h k))"

definition saved_names :: "headers \<Rightarrow> string \<Rightarrow> bool" where
  "saved_names h k \<longleftrightarrow> k \<noteq> ''content-length'' \<and> k \<noteq> ''content-range''
     \<and> list_ex (\<lambda>v. v \<noteq> None) (forwarded h k)"

definition conditional :: "(string \<Rightarrow> bool) \<Rightarrow> policy \<Rightarrow> headers" where
  "conditional value_ok p =
     (case po_etag p of
        Some v \<Rightarrow> if value_ok v then (\<lambda>_. [])(''if-none-match'' := [Some v]) else (\<lambda>_. [])
      | None \<Rightarrow>
          (case po_modified p of
             Some v \<Rightarrow> if value_ok v then (\<lambda>_. [])(''if-modified-since'' := [Some v]) else (\<lambda>_. [])
           | None \<Rightarrow> (\<lambda>_. [])))"

definition merge_validation :: "string \<Rightarrow> headers \<Rightarrow> headers \<Rightarrow> headers" where
  "merge_validation now_text old new =
     (let merged = (\<lambda>k. if saved_names new k then new k else old k);
          merged = merged(''age'' := []);
          merged = (if \<not> contains_key new ''date'' then merged(''date'' := [Some now_text]) else merged)
      in (case new ''age'' of age # _ \<Rightarrow> merged(''age'' := [age]) | [] \<Rightarrow> merged))"

definition not_modified :: "(string \<Rightarrow> int option) \<Rightarrow> policy \<Rightarrow> headers \<Rightarrow> bool" where
  "not_modified parse_date p request =
     (case header_value request ''if-none-match'' of
        Some tags \<Rightarrow>
          list_ex (\<lambda>tag. trim tag = ''*''
            \<or> (case po_etag p of None \<Rightarrow> False
               | Some etag \<Rightarrow> trim_start_matches ''W/'' (trim tag) = trim_start_matches ''W/'' etag))
            (split_on (\<lambda>c. c = CHR '','') tags)
      | None \<Rightarrow>
          (case (header_date parse_date request ''if-modified-since'',
                 Option.bind (po_modified p) parse_date) of
             (Some since, Some modified) \<Rightarrow> modified \<le> int since
           | _ \<Rightarrow> False))"


subsection \<open>Properties\<close>









text \<open>When a later partial response may be spliced into a stored one. Either both carry the same
  strong entity tag, or the stored response has no readable entity tag, the later one has none at all,
  both carry the same Last-Modified text, and the stored response was sent at least a minute after that
  modification. A weak entity tag never matches.\<close>

theorem matches_range_from_response:
  "matches_range (from_response parse_date h all_text sent received) h' \<longleftrightarrow>
     (\<exists>e. header_value h ''etag'' = Some e \<and> strong_etag e \<and> header_value h' ''etag'' = Some e)
   \<or> (header_value h ''etag'' = None \<and> h' ''etag'' = [] \<and>
       (\<exists>v t d. header_value h ''last-modified'' = Some v \<and> header_value h' ''last-modified'' = Some v
          \<and> header_date parse_date h ''last-modified'' = Some t \<and> header_date parse_date h ''date'' = Some d
          \<and> t + DATE_CLOCK_MARGIN \<le> d))"
  (is "matches_range ?p h' \<longleftrightarrow> _")
proof (cases "header_value h ''etag''")
  case None
  let ?t = "header_date parse_date h ''last-modified''"
  let ?d = "header_date parse_date h ''date''"
  have etag: "po_etag ?p = None" using None by (simp add: from_response_def Let_def)
  have val: "po_range_validator ?p =
      (case (?t, ?d) of (Some t, Some d) \<Rightarrow>
         if DATE_CLOCK_MARGIN \<le> d - t then map_option (\<lambda>v. LastModified v d) (header_value h ''last-modified'') else None
       | _ \<Rightarrow> None)"
    using None by (simp add: from_response_def Let_def)
  have margin: "DATE_CLOCK_MARGIN \<le> d - t \<longleftrightarrow> t + DATE_CLOCK_MARGIN \<le> d" for d t
    by (auto simp: DATE_CLOCK_MARGIN_def)
  show ?thesis
    unfolding matches_range_def range_value_def etag val
    by (cases ?t; cases ?d; cases "header_value h ''last-modified''")
      (auto simp: None contains_key_def margin)
next
  case (Some e)
  have etag: "po_etag ?p = Some e" using Some by (simp add: from_response_def Let_def)
  have val: "po_range_validator ?p = (if strong_etag e then Some (StrongETag e) else None)"
    using Some by (simp add: from_response_def Let_def)
  show ?thesis
    unfolding matches_range_def range_value_def etag val by (auto simp: Some)
qed

lemma directive_scan_plain:
  "CHR 0x22 \<notin> set cur \<Longrightarrow> CHR 0x22 \<notin> set s \<Longrightarrow> CHR '','' \<notin> set cur \<Longrightarrow>
     directive_scan False cur s = concat (map directive_part (split_on (\<lambda>c. c = CHR '','') (cur @ s)))"
proof (induction s arbitrary: cur)
  case Nil
  then have "\<forall>c\<in>set cur. \<not> c = CHR '',''" by auto
  then show ?case by (simp add: split_on_none)
next
  case (Cons c s)
  show ?case
  proof (cases "c = CHR '',''")
    case True
    have "split_on (\<lambda>c. c = CHR '','') (cur @ c # s) = cur # split_on (\<lambda>c. c = CHR '','') s"
      using Cons.prems True by (intro split_on_append) auto
    with True Cons.IH [of "[]"] Cons.prems show ?thesis by simp
  next
    case False
    with Cons.IH [of "cur @ [c]"] Cons.prems show ?thesis by auto
  qed
qed

lemma directive_scan_unclosed:
  "odd (length (filter (\<lambda>c. c = CHR 0x22) s)) \<longleftrightarrow> \<not> q \<Longrightarrow> (''no-store'', None) \<in> set (directive_scan q cur s)"
proof (induction q cur s rule: directive_scan.induct)
  case (2 q cur c cs)
  then show ?case by (cases "c = CHR 0x22") (auto simp: Let_def)
qed simp

text \<open>A Cache-Control value whose quotation is not closed forbids storing, and so does a value that
  is not text: nothing is stored under directives that could not be read.\<close>

theorem unreadable_directives_forbid_storing:
  assumes "v \<in> set (h ''cache-control'')"
    and "v = None \<or> (\<exists>s. v = Some s \<and> odd (length (filter (\<lambda>c. c = CHR 0x22) s)))"
  shows "\<not> po_store (from_response parse_date h all_text sent received)"
proof -
  have "(''no-store'', None) \<in> set (directives h)"
    using assms directive_scan_unclosed [of _ False "[]"] unfolding directives_def by force
  then have "list_ex (\<lambda>d. fst d = ''no-store'') (directives h)" by (force simp: list_ex_iff)
  then show ?thesis by (simp add: from_response_def Let_def)
qed

theorem unreadable_directives_forbid_storing_witness:
  "\<not> po_store (from_response (\<lambda>_. None)
       (\<lambda>k. if k = ''cache-control'' then [Some (''private='' @ [CHR 0x22] @ ''x'')] else []) True 0 0)"
  by (rule unreadable_directives_forbid_storing [where v = "Some (''private='' @ [CHR 0x22] @ ''x'')"])
    simp_all

text \<open>The quote-aware scan of a Cache-Control value agrees with splitting at commas whenever the
  value has no quotation marks.\<close>

theorem directive_scan_correct:
  assumes "CHR 0x22 \<notin> set s"
  shows "directive_scan False [] s = concat (map directive_part (split_on (\<lambda>c. c = CHR '','') s))"
  using directive_scan_plain [of "[]" s] assms by simp

theorem directive_scan_correct_witness:
  "directive_scan False [] ''a=1,b'' =
     concat (map directive_part (split_on (\<lambda>c. c = CHR '','') ''a=1,b''))"
  by (rule directive_scan_correct) simp

text \<open>After a 304 answer the stored headers take over every end-to-end field of the answer, keep
  the stored length and range fields, never take a hop-by-hop field, and the age of the entry starts
  again: its Age is the answer's and its Date is the answer's or the current time.\<close>

theorem merge_validation_correct:
  "header_value (merge_validation now_text old new) ''age'' = header_value new ''age''
   \<and> merge_validation now_text old new ''date'' =
       (if new ''date'' = [] then [Some now_text] else if saved_names new ''date'' then new ''date'' else old ''date'')
   \<and> (\<forall>k \<in> {''content-length'', ''content-range'', ''connection'', ''transfer-encoding'', ''set-cookie''}.
        merge_validation now_text old new k = old k)"
  by (auto simp: merge_validation_def Let_def header_value_def contains_key_def saved_names_def forwarded_def
      split: list.splits)

theorem merge_validation_correct_witness:
  "merge_validation ''now'' (\<lambda>_. [Some ''1'']) (\<lambda>_. [Some ''2'']) ''content-length'' = [Some ''1'']"
  using merge_validation_correct [of "''now''" "\<lambda>_. [Some ''1'']" "\<lambda>_. [Some ''2'']"] by simp

end
