(* ===== verification/Actions.thy ===== *)
theory Actions
  imports Prelude
begin

section \<open>Fallible operations on a mutable state\<close>

text \<open>
  A method of the source that takes \<^verbatim>\<open>&mut self\<close> and returns a \<^verbatim>\<open>Result\<close> is an action
  \<open>('s, 'a) act\<close>: a function from the state to the result and the state it leaves behind, on the
  error path too. \<open>bnd\<close> is sequencing with the \<open>?\<close> operator, \<open>attempt\<close> runs a closure and hands its
  \<^verbatim>\<open>Result\<close> to the caller (\<^verbatim>\<open>let result = (|| ...)()\<close>, \<^verbatim>\<open>let _ = ...\<close>,
  \<^verbatim>\<open>if let Err(err) = ...\<close>), \<open>for_each\<close> is a loop whose body may return early with an error.

  \<open>triple P m Q E\<close> says that from a state with \<open>P\<close> a successful run of \<open>m\<close> with value \<open>x\<close> ends in
  \<open>Q x\<close> and a failing one in \<open>E\<close>. \<open>keeps I m\<close> is the special case of an invariant that holds
  whichever way the action ends; its rules are collected in \<open>keeps_intros\<close>.
\<close>

type_synonym ('s, 'a) act = "'s \<Rightarrow> 'a result \<times> 's"

definition ret :: "'a \<Rightarrow> ('s, 'a) act" where
  "ret x s = (Inr x, s)"

definition raise :: "string \<Rightarrow> ('s, 'a) act" where
  "raise e s = (Inl e, s)"

definition lift :: "'a result \<Rightarrow> ('s, 'a) act" where
  "lift r s = (r, s)"

definition gets :: "('s \<Rightarrow> 'a) \<Rightarrow> ('s, 'a) act" where
  "gets f s = (Inr (f s), s)"

definition modify :: "('s \<Rightarrow> 's) \<Rightarrow> ('s, unit) act" where
  "modify f s = (Inr (), f s)"

definition require :: "bool \<Rightarrow> string \<Rightarrow> ('s, unit) act" where
  "require b msg = (if b then ret () else raise msg)"

definition bnd :: "('s, 'a) act \<Rightarrow> ('a \<Rightarrow> ('s, 'b) act) \<Rightarrow> ('s, 'b) act" where
  "bnd m f s = (case m s of (Inl e, s') \<Rightarrow> (Inl e, s') | (Inr x, s') \<Rightarrow> f x s')"

definition attempt :: "('s, 'a) act \<Rightarrow> ('s, 'a result) act" where
  "attempt m s = (case m s of (r, s') \<Rightarrow> (Inr r, s'))"

definition ignore :: "('s, 'a) act \<Rightarrow> ('s, unit) act" where
  "ignore m = bnd (attempt m) (\<lambda>_. ret ())"

primrec for_each :: "'a list \<Rightarrow> ('a \<Rightarrow> ('s, unit) act) \<Rightarrow> ('s, unit) act" where
  "for_each [] f = ret ()"
| "for_each (x # xs) f = bnd (f x) (\<lambda>_. for_each xs f)"

primrec fold_act :: "('a \<Rightarrow> 'b \<Rightarrow> ('s, 'b) act) \<Rightarrow> 'a list \<Rightarrow> 'b \<Rightarrow> ('s, 'b) act" where
  "fold_act f [] acc = ret acc"
| "fold_act f (x # xs) acc = bnd (f x acc) (\<lambda>acc. fold_act f xs acc)"

declare for_each.simps [simp del] fold_act.simps [simp del]

definition is_err :: "'a result \<Rightarrow> bool" where
  "is_err r \<longleftrightarrow> (case r of Inl _ \<Rightarrow> True | Inr _ \<Rightarrow> False)"

lemma is_err_simps [simp]: "is_err (Inl e)" "\<not> is_err (Inr x)"
  by (simp_all add: is_err_def)

subsection \<open>Evaluation\<close>

lemma act_eval [act_simps]:
  "ret x s = (Inr x, s)"
  "raise e s = (Inl e, s)"
  "lift r s = (r, s)"
  "gets f s = (Inr (f s), s)"
  "modify g s = (Inr (), g s)"
  "require b msg s = (if b then Inr () else Inl msg, s)"
  by (simp_all add: ret_def raise_def lift_def gets_def modify_def require_def)

lemma bnd_eval [act_simps]:
  "m s = (Inl e, s') \<Longrightarrow> bnd m f s = (Inl e, s')"
  "m s = (Inr x, s') \<Longrightarrow> bnd m f s = f x s'"
  by (simp_all add: bnd_def)

lemma attempt_eval [act_simps]: "attempt m s = (Inr (fst (m s)), snd (m s))"
  by (simp add: attempt_def split: prod.split)

lemma bnd_InrD:
  "bnd m f s = (Inr y, s') \<Longrightarrow> \<exists>x s1. m s = (Inr x, s1) \<and> f x s1 = (Inr y, s')"
  by (auto simp: bnd_def split: prod.splits sum.splits)

lemma bnd_InrE:
  assumes "bnd m f s = (Inr y, s')"
  obtains x s1 where "m s = (Inr x, s1)" "f x s1 = (Inr y, s')"
  using bnd_InrD [OF assms] by blast

lemma bnd_cases:
  assumes "bnd m f s = (r, s')"
  obtains (fail) e where "m s = (Inl e, s')" "r = Inl e"
    | (go) x s1 where "m s = (Inr x, s1)" "f x s1 = (r, s')"
  using assms by (auto simp: bnd_def split: prod.splits sum.splits)

lemma require_Inr [simp]: "require b msg s = (Inr u, s') \<longleftrightarrow> b \<and> s' = s"
  by (auto simp: act_simps)

lemma ret_Inr [simp]: "ret x s = (Inr y, s') \<longleftrightarrow> y = x \<and> s' = s"
  by (auto simp: act_simps)

lemma raise_Inr [simp]: "raise e s = (Inr y, s') \<longleftrightarrow> False"
  by (simp add: act_simps)

lemma lift_Inr [simp]: "lift r s = (Inr y, s') \<longleftrightarrow> r = Inr y \<and> s' = s"
  by (auto simp: act_simps)

lemma gets_Inr [simp]: "gets f s = (Inr y, s') \<longleftrightarrow> y = f s \<and> s' = s"
  by (auto simp: act_simps)

lemma modify_Inr [simp]: "modify g s = (Inr u, s') \<longleftrightarrow> s' = g s"
  by (auto simp: act_simps)

subsection \<open>Triples\<close>

definition triple ::
    "('s \<Rightarrow> bool) \<Rightarrow> ('s, 'a) act \<Rightarrow> ('a \<Rightarrow> 's \<Rightarrow> bool) \<Rightarrow> ('s \<Rightarrow> bool) \<Rightarrow> bool" where
  "triple P m Q E \<longleftrightarrow>
     (\<forall>s. P s \<longrightarrow> (case m s of (Inr x, s') \<Rightarrow> Q x s' | (Inl e, s') \<Rightarrow> E s'))"

lemma tripleI:
  assumes "\<And>s x s'. P s \<Longrightarrow> m s = (Inr x, s') \<Longrightarrow> Q x s'"
    and "\<And>s e s'. P s \<Longrightarrow> m s = (Inl e, s') \<Longrightarrow> E s'"
  shows "triple P m Q E"
  using assms by (auto simp: triple_def split: prod.splits sum.splits)

lemma triple_InrD: "triple P m Q E \<Longrightarrow> P s \<Longrightarrow> m s = (Inr x, s') \<Longrightarrow> Q x s'"
  by (force simp: triple_def split: prod.splits sum.splits)

lemma triple_InlD: "triple P m Q E \<Longrightarrow> P s \<Longrightarrow> m s = (Inl e, s') \<Longrightarrow> E s'"
  by (force simp: triple_def split: prod.splits sum.splits)

lemma triple_bnd:
  assumes "triple P m R E" and "\<And>x. triple (R x) (f x) Q E"
  shows "triple P (bnd m f) Q E"
proof (rule tripleI)
  fix s y s'
  assume P: "P s" and run: "bnd m f s = (Inr y, s')"
  then obtain x s1 where 1: "m s = (Inr x, s1)" "f x s1 = (Inr y, s')" by (blast elim: bnd_InrE)
  have "R x s1" using assms(1) P 1(1) by (rule triple_InrD)
  with assms(2) show "Q y s'" using 1(2) by (rule triple_InrD)
next
  fix s e s'
  assume P: "P s" and run: "bnd m f s = (Inl e, s')"
  from run show "E s'"
  proof (cases rule: bnd_cases)
    case (fail e')
    with assms(1) P show ?thesis by (blast dest: triple_InlD)
  next
    case (go x s1)
    have "R x s1" using assms(1) P go(1) by (rule triple_InrD)
    with assms(2) show ?thesis using go(2) by (rule triple_InlD)
  qed
qed

lemma triple_conseq:
  assumes "triple P' m Q' E'" "\<And>s. P s \<Longrightarrow> P' s" "\<And>x s. Q' x s \<Longrightarrow> Q x s" "\<And>s. E' s \<Longrightarrow> E s"
  shows "triple P m Q E"
  using assms by (fastforce simp: triple_def split: prod.splits sum.splits)

lemma triple_if: "(b \<Longrightarrow> triple P m Q E) \<Longrightarrow> (\<not> b \<Longrightarrow> triple P n Q E) \<Longrightarrow> triple P (if b then m else n) Q E"
  by simp

lemma triple_attempt:
  "triple P m Q E \<Longrightarrow> triple P (attempt m) (\<lambda>r s. case r of Inr x \<Rightarrow> Q x s | Inl _ \<Rightarrow> E s) E'"
  by (auto simp: triple_def attempt_def split: prod.splits sum.splits)

definition keeps :: "('s \<Rightarrow> bool) \<Rightarrow> ('s, 'a) act \<Rightarrow> bool" where
  "keeps I m \<longleftrightarrow> (\<forall>s. I s \<longrightarrow> I (snd (m s)))"

lemma keepsD: "keeps I m \<Longrightarrow> I s \<Longrightarrow> m s = (r, s') \<Longrightarrow> I s'"
  by (force simp: keeps_def)

lemma keepsI: "(\<And>s r s'. I s \<Longrightarrow> m s = (r, s') \<Longrightarrow> I s') \<Longrightarrow> keeps I m"
  unfolding keeps_def by (metis surjective_pairing)

lemma keeps_triple: "keeps I m \<longleftrightarrow> triple I m (\<lambda>_. I) I"
proof
  assume "keeps I m"
  then show "triple I m (\<lambda>_. I) I" by (blast intro: tripleI dest: keepsD)
next
  assume t: "triple I m (\<lambda>_. I) I"
  show "keeps I m"
  proof (rule keepsI)
    fix s r s'
    assume "I s" "m s = (r, s')"
    with t show "I s'" by (cases r) (blast dest: triple_InrD triple_InlD)+
  qed
qed

lemma keeps_basic [keeps_intros]:
  "keeps I (ret x)" "keeps I (raise e)" "keeps I (lift r)" "keeps I (gets f)" "keeps I (require b msg)"
  by (simp_all add: keeps_def act_simps)

lemma keeps_modify: "(\<And>s. I s \<Longrightarrow> I (g s)) \<Longrightarrow> keeps I (modify g)"
  by (simp add: keeps_def act_simps)

lemma keeps_bnd [keeps_intros]: "keeps I m \<Longrightarrow> (\<And>x. keeps I (f x)) \<Longrightarrow> keeps I (bnd m f)"
  unfolding keeps_triple by (rule triple_bnd)

lemma keeps_attempt [keeps_intros]: "keeps I m \<Longrightarrow> keeps I (attempt m)"
  by (simp add: keeps_def act_simps)

lemma keeps_ignore [keeps_intros]: "keeps I m \<Longrightarrow> keeps I (ignore m)"
  unfolding ignore_def by (intro keeps_intros)

lemma keeps_if [keeps_intros]: "(b \<Longrightarrow> keeps I m) \<Longrightarrow> (\<not> b \<Longrightarrow> keeps I n) \<Longrightarrow> keeps I (if b then m else n)"
  by simp

lemma keeps_case_option [keeps_intros]:
  "keeps I m \<Longrightarrow> (\<And>x. keeps I (f x)) \<Longrightarrow> keeps I (case r of None \<Rightarrow> m | Some x \<Rightarrow> f x)"
  by (cases r) simp_all

lemma keeps_case_sum [keeps_intros]:
  "(\<And>e. keeps I (g e)) \<Longrightarrow> (\<And>x. keeps I (f x)) \<Longrightarrow> keeps I (case r of Inl e \<Rightarrow> g e | Inr x \<Rightarrow> f x)"
  by (cases r) simp_all

lemma keeps_case_prod [keeps_intros]: "(\<And>x y. keeps I (f x y)) \<Longrightarrow> keeps I (case p of (x, y) \<Rightarrow> f x y)"
  by (cases p) simp

lemma keeps_case_prod_arg [keeps_intros]: "(\<And>x y. keeps I (f x y z)) \<Longrightarrow> keeps I ((case p of (x, y) \<Rightarrow> f x y) z)"
  by (cases p) simp

lemma keeps_for_each [keeps_intros]: "(\<And>x. keeps I (f x)) \<Longrightarrow> keeps I (for_each xs f)"
  by (induction xs) (auto simp: for_each.simps intro: keeps_intros)

lemma keeps_fold_act [keeps_intros]: "(\<And>x acc. keeps I (f x acc)) \<Longrightarrow> keeps I (fold_act f xs acc)"
  by (induction xs arbitrary: acc) (auto simp: fold_act.simps intro: keeps_intros)

lemma keeps_conj: "keeps I m \<Longrightarrow> keeps J m \<Longrightarrow> keeps (\<lambda>s. I s \<and> J s) m"
  by (simp add: keeps_def)

end
