(* ===== verification/Store_State.thy ===== *)
theory Store_State
  imports Actions Format Policy Text "HOL-Library.AList"
begin

section \<open>The state of the cache storage thread\<close>

text \<open>
  The state that \<^verbatim>\<open>resource_cache/store.rs\<close> and its submodules work on, and the primitive steps
  its methods are made of.

  \<^item> The SQLite database is a record of tables, each a list of rows; integer columns are \<open>int\<close>
    (SQLite stores 64-bit signed integers). \<open>st_tx\<close> is the database as it was at
    \<^verbatim>\<open>BEGIN IMMEDIATE\<close>: \<^verbatim>\<open>COMMIT\<close> forgets it and \<^verbatim>\<open>ROLLBACK\<close> restores it. A column holding serialised
    metadata is the decoded value, or \<open>None\<close> for a text that does not decode.
  \<^item> The cache directory maps names to inodes and inodes to their bytes, so that an open file
    outlives the name it was opened by; an entry that is not a regular file cannot be opened. The database files are SQLite's own: only their sizes are kept.
  \<^item> \<^verbatim>\<open>Arc\<close> and \<^verbatim>\<open>Weak\<close> are addresses with a strong count: a weak reference upgrades when the count is
    not zero. Handles that clients hold are the counts that the storage thread does not see.
  \<^item> A hash map is an association list; its order stands for the unspecified iteration order.
  \<^item> Every system call and every SQL statement first takes an entry of the fault schedule
    \<open>st_faults\<close>: \<open>Some n\<close> makes it fail, a write after \<open>n\<close> bytes. The empty schedule has no more
    faults. Theorems that do not restrict the schedule hold under every pattern of failures.
  \<^item> The wall clock and the monotonic clock are fields that stand still while one job runs. SHA-256,
    the space a file system allocates for a file, the fresh UUIDs and the bytes of a UUID are
    parameters in \<open>st_env\<close>. A panic is the error \<open>''panic''\<close>.
\<close>

subsection \<open>Data\<close>

definition CAPACITY :: nat where "CAPACITY = 32 * 1024 * 1024 * 1024"
definition MAX_RESIDENT :: nat where "MAX_RESIDENT = 128"
definition LEASE_SECONDS :: nat where "LEASE_SECONDS = 120"
definition MAX_LEASES :: nat where "MAX_LEASES = 256"
definition INDEX_BUDGET :: nat where "INDEX_BUDGET = 64 * 1024 * 1024"

record metadata =
  md_key :: string
  md_provider :: int
  md_kind :: int
  md_generation :: string
  md_geometry :: geometry
  md_headers :: "(string \<times> string) list"
  md_policy :: policy
  md_target :: string
  md_ranges :: bool
  md_layout :: layout

record object_metadata =
  om_key :: string
  om_group :: string
  om_provider :: int
  om_length :: nat
  om_headers :: "(string \<times> string) list"
  om_policy :: policy
  om_target :: string
  om_effective_url :: string

record version_row =
  vr_id :: int
  vr_key :: string
  vr_provider :: int
  vr_kind :: int
  vr_generation :: string
  vr_meta :: "metadata option"
  vr_blocks :: bytes
  vr_last_use :: int
  vr_obsolete :: int

record file_row =
  fr_version :: int
  fr_ready :: int
  fr_length :: int
  fr_digest :: bytes
  fr_retry_at :: int
  fr_format :: int

record lease_row =
  lr_token :: string
  lr_version :: int
  lr_client :: string
  lr_expires :: int

record segment_row =
  sr_version :: int
  sr_number :: int
  sr_token :: string
  sr_length :: int
  sr_last_use :: int
  sr_deleting :: int

record pack_row =
  pr_token :: string
  pr_group :: string
  pr_provider :: int
  pr_length :: int
  pr_last_use :: int
  pr_deleting :: int

record object_row =
  or_key :: string
  or_pack :: string
  or_offset :: int
  or_length :: int
  or_digest :: bytes
  or_meta :: "object_metadata option"

record db =
  db_versions :: "version_row list"
  db_files :: "file_row list"
  db_leases :: "lease_row list"
  db_clock :: "int option"
  db_segments :: "segment_row list"
  db_packs :: "pack_row list"
  db_objects :: "object_row list"

datatype dirent = Regular nat | Irregular

record disk =
  dk_dir :: "(string \<times> dirent) list"
  dk_data :: "nat \<Rightarrow> bytes"
  dk_next :: nat

record env =
  e_sha :: "bytes \<Rightarrow> bytes result"
  e_blocks :: "bytes \<Rightarrow> nat"
  e_uuid_bytes :: "string \<Rightarrow> bytes option"
  e_uuid :: "nat \<Rightarrow> string"

record resident =
  rs_meta :: metadata
  rs_index :: index
  rs_file :: "nat option"
  rs_lease :: "nat option"
  rs_plain :: bool

record version =
  vs_id :: int
  vs_meta :: metadata
  vs_lease :: nat

record build =
  bd_id :: int
  bd_remaining :: nat

record storage =
  st_env :: env
  st_uuid_next :: nat
  st_micros :: nat
  st_elapsed :: nat
  st_faults :: "nat option list"
  st_db :: db
  st_tx :: "db option"
  st_disk :: disk
  st_sqlite_files :: "nat option list"
  st_versions :: "(int \<times> resident) list"
  st_capacity :: nat
  st_pins :: "((int \<times> nat) \<times> nat) list"
  st_segment_clock :: nat
  st_sizes :: "(string \<times> nat \<times> int) list"
  st_building :: "build option"
  st_scan_cursor :: int
  st_clock :: nat
  st_clock_uncertain :: bool
  st_files_enabled :: bool
  st_restart_grace :: "nat option"
  st_garbage :: "string list"
  st_strong :: "nat \<Rightarrow> nat"
  st_valid :: "nat \<Rightarrow> bool"
  st_arc_next :: nat

type_synonym 'a job = "(storage, 'a) act"

definition as_u64 :: "int \<Rightarrow> nat" where
  "as_u64 x = nat (x mod 2 ^ 64)"

definition as_i64 :: "nat \<Rightarrow> int" where
  "as_i64 n = (let m = int n mod 2 ^ 64 in if m < 2 ^ 63 then m else m - 2 ^ 64)"

lemma as_i64_small: "n < 2 ^ 63 \<Longrightarrow> as_i64 n = int n"
  by (simp add: as_i64_def Let_def)

lemma as_u64_of_nat: "n < 2 ^ 64 \<Longrightarrow> as_u64 (int n) = n"
  by (simp add: as_u64_def)

lemma as_u64_as_i64: "n < 2 ^ 64 \<Longrightarrow> as_u64 (as_i64 n) = n"
  by (auto simp: as_i64_def as_u64_def Let_def)

subsection \<open>File names\<close>

definition is_hexdigit :: "char \<Rightarrow> bool" where
  "is_hexdigit c \<longleftrightarrow> (let k = of_char c :: nat in (48 \<le> k \<and> k \<le> 57) \<or> (65 \<le> k \<and> k \<le> 70) \<or> (97 \<le> k \<and> k \<le> 102))"

definition valid_generation :: "string \<Rightarrow> bool" where
  "valid_generation v \<longleftrightarrow> length v = 32 \<and> list_all is_hexdigit v"

definition strip_suffix :: "string \<Rightarrow> string \<Rightarrow> string option" where
  "strip_suffix p s = map_option rev (strip_prefix (rev p) (rev s))"

definition file_managed_name :: "string \<Rightarrow> bool" where
  "file_managed_name name =
     list_ex (\<lambda>suffix. case strip_suffix suffix name of None \<Rightarrow> False | Some g \<Rightarrow> valid_generation g)
       [''.data'', ''.ok.tmp'', ''.ok'']"

definition segment_managed_name :: "string \<Rightarrow> bool" where
  "segment_managed_name name =
     (case split_on (\<lambda>c. c = CHR ''.'') name of
        [a, b, c, d] \<Rightarrow> valid_generation a \<and> length b = 16 \<and> list_all is_hexdigit b
          \<and> valid_generation c \<and> d = ''seg''
      | _ \<Rightarrow> False)"

definition pack_managed_name :: "string \<Rightarrow> bool" where
  "pack_managed_name name =
     (case strip_suffix ''.pack'' name of
        None \<Rightarrow> False
      | Some t \<Rightarrow> length t = 32 \<and> list_all is_hexdigit t)"

definition hex_char :: "nat \<Rightarrow> char" where
  "hex_char d = char_of (if d < 10 then 48 + d else 87 + d)"

primrec show_hex :: "nat \<Rightarrow> nat \<Rightarrow> string" where
  "show_hex 0 n = []"
| "show_hex (Suc k) n = show_hex k (n div 16) @ [hex_char (n mod 16)]"

definition data_name :: "string \<Rightarrow> string \<Rightarrow> string" where
  "data_name generation suffix = generation @ ''.'' @ suffix"

definition pack_name :: "string \<Rightarrow> string" where
  "pack_name token = token @ ''.pack''"

subsection \<open>System calls\<close>

definition io :: "unit job" where
  "io s = (case st_faults s of
             [] \<Rightarrow> (Inr (), s)
           | f # fs \<Rightarrow> (if f = None then Inr () else Inl ''io'', s\<lparr>st_faults := fs\<rparr>))"

definition dirent_of :: "string \<Rightarrow> storage \<Rightarrow> dirent option" where
  "dirent_of name s = map_of (dk_dir (st_disk s)) name"

definition contents :: "nat \<Rightarrow> storage \<Rightarrow> bytes" where
  "contents n s = dk_data (st_disk s) n"

definition put_contents :: "nat \<Rightarrow> bytes \<Rightarrow> storage \<Rightarrow> storage" where
  "put_contents n bs s =
     s\<lparr>st_disk := (st_disk s)\<lparr>dk_data := (dk_data (st_disk s))(n := bs)\<rparr>\<rparr>"

definition regular_file :: "string \<Rightarrow> unit job" where
  "regular_file name =
     bnd io (\<lambda>_. bnd (gets (dirent_of name)) (\<lambda>e.
       case e of
         None \<Rightarrow> raise ''not found''
       | Some d \<Rightarrow> (case d of Regular _ \<Rightarrow> ret () | Irregular \<Rightarrow> raise ''invalid cache file type'')))"

definition open_file :: "string \<Rightarrow> nat job" where
  "open_file name =
     bnd io (\<lambda>_. bnd (gets (dirent_of name)) (\<lambda>e.
       case e of
         None \<Rightarrow> raise ''not found''
       | Some d \<Rightarrow> (case d of Regular n \<Rightarrow> ret n | Irregular \<Rightarrow> raise ''not a file'')))"

definition create_new :: "string \<Rightarrow> nat job" where
  "create_new name =
     bnd io (\<lambda>_. bnd (gets (dirent_of name)) (\<lambda>e.
       case e of
         Some _ \<Rightarrow> raise ''file exists''
       | None \<Rightarrow>
           bnd (gets (\<lambda>s. dk_next (st_disk s))) (\<lambda>n.
           bnd (modify (\<lambda>s. s\<lparr>st_disk := (st_disk s)\<lparr>dk_dir := (name, Regular n) # dk_dir (st_disk s),
                 dk_data := (dk_data (st_disk s))(n := []), dk_next := Suc n\<rparr>\<rparr>)) (\<lambda>_. ret n))))"

definition file_write :: "nat \<Rightarrow> bytes \<Rightarrow> bytes \<Rightarrow> bytes" where
  "file_write at new bs =
     (if new = [] then bs
      else take at bs @ replicate (at - length bs) 0 @ new @ drop (at + length new) bs)"

definition write_at :: "nat \<Rightarrow> nat \<Rightarrow> bytes \<Rightarrow> unit job" where
  "write_at n at new s =
     (case st_faults s of
        [] \<Rightarrow> (Inr (), put_contents n (file_write at new (contents n s)) s)
      | f # fs \<Rightarrow>
          let s1 = s\<lparr>st_faults := fs\<rparr>
          in (case f of
                None \<Rightarrow> (Inr (), put_contents n (file_write at new (contents n s1)) s1)
              | Some k \<Rightarrow> (Inl ''io'', put_contents n (file_write at (take k new) (contents n s1)) s1)))"

definition read_exact_at :: "nat \<Rightarrow> nat \<Rightarrow> nat \<Rightarrow> bytes job" where
  "read_exact_at n at len =
     bnd io (\<lambda>_. bnd (gets (contents n)) (\<lambda>bs.
       if at + len \<le> length bs then ret (get_range at (at + len) bs) else raise ''unexpected end of file''))"

definition file_len :: "nat \<Rightarrow> nat job" where
  "file_len n = bnd io (\<lambda>_. gets (\<lambda>s. length (contents n s)))"

definition set_len :: "nat \<Rightarrow> nat \<Rightarrow> unit job" where
  "set_len n len =
     bnd io (\<lambda>_. modify (\<lambda>s. put_contents n (take len (contents n s) @ replicate (len - length (contents n s)) 0) s))"

definition allocated :: "nat \<Rightarrow> nat job" where
  "allocated n = bnd io (\<lambda>_. gets (\<lambda>s. min u64_max (e_blocks (st_env s) (contents n s) * 512)))"

definition private_file :: "unit job" where "private_file = io"
definition sync_file :: "unit job" where "sync_file = io"
definition sync_directory :: "unit job" where "sync_directory = io"

definition unlink :: "string \<Rightarrow> storage \<Rightarrow> storage" where
  "unlink name s = s\<lparr>st_disk := (st_disk s)\<lparr>dk_dir := AList.delete name (dk_dir (st_disk s))\<rparr>\<rparr>"

text \<open>\<^verbatim>\<open>fs::remove_file\<close>: the value says whether the name existed (\<^verbatim>\<open>NotFound\<close> otherwise).\<close>

definition remove_file :: "string \<Rightarrow> bool job" where
  "remove_file name =
     bnd io (\<lambda>_. bnd (gets (dirent_of name)) (\<lambda>e.
       case e of
         None \<Rightarrow> ret False
       | Some d \<Rightarrow> (case d of
             Regular _ \<Rightarrow> bnd (modify (unlink name)) (\<lambda>_. ret True)
           | Irregular \<Rightarrow> raise ''not a file'')))"

definition rename :: "string \<Rightarrow> string \<Rightarrow> unit job" where
  "rename old new =
     bnd io (\<lambda>_. bnd (gets (dirent_of old)) (\<lambda>e.
       case e of
         None \<Rightarrow> raise ''not found''
       | Some d \<Rightarrow> modify (\<lambda>s. s\<lparr>st_disk := (st_disk s)\<lparr>dk_dir :=
             (new, d) # AList.delete old (AList.delete new (dk_dir (st_disk s)))\<rparr>\<rparr>)))"

definition new_uuid :: "string job" where
  "new_uuid =
     bnd (gets (\<lambda>s. e_uuid (st_env s) (st_uuid_next s))) (\<lambda>t.
     bnd (modify (\<lambda>s. s\<lparr>st_uuid_next := Suc (st_uuid_next s)\<rparr>)) (\<lambda>_. ret t))"

definition hash_of :: "bytes \<Rightarrow> bytes job" where
  "hash_of data = bnd (gets (\<lambda>s. format_hash (e_sha (st_env s)) data)) lift"

definition now_secs :: "storage \<Rightarrow> nat" where
  "now_secs s = st_micros s div 1000000"

subsection \<open>SQL statements\<close>

definition query :: "(db \<Rightarrow> 'a) \<Rightarrow> 'a job" where
  "query f = bnd io (\<lambda>_. gets (\<lambda>s. f (st_db s)))"

definition exec :: "(db \<Rightarrow> db) \<Rightarrow> unit job" where
  "exec f = bnd io (\<lambda>_. modify (\<lambda>s. s\<lparr>st_db := f (st_db s)\<rparr>))"

definition begin_immediate :: "unit job" where
  "begin_immediate =
     bnd io (\<lambda>_. bnd (gets st_tx) (\<lambda>tx.
       case tx of
         Some _ \<Rightarrow> raise ''cannot start a transaction within a transaction''
       | None \<Rightarrow> modify (\<lambda>s. s\<lparr>st_tx := Some (st_db s)\<rparr>)))"

definition commit_tx :: "unit job" where
  "commit_tx =
     bnd io (\<lambda>_. bnd (gets st_tx) (\<lambda>tx.
       case tx of
         None \<Rightarrow> raise ''cannot commit - no transaction is active''
       | Some _ \<Rightarrow> modify (\<lambda>s. s\<lparr>st_tx := None\<rparr>)))"

definition rollback_tx :: "unit job" where
  "rollback_tx =
     bnd io (\<lambda>_. bnd (gets st_tx) (\<lambda>tx.
       case tx of
         None \<Rightarrow> raise ''cannot rollback - no transaction is active''
       | Some d \<Rightarrow> modify (\<lambda>s. s\<lparr>st_db := d, st_tx := None\<rparr>)))"

text \<open>
  The closure between \<^verbatim>\<open>BEGIN IMMEDIATE\<close> and \<^verbatim>\<open>COMMIT\<close>, with the \<^verbatim>\<open>ROLLBACK\<close> whose own
  failure is ignored. \<^verbatim>\<open>BEGIN\<close> itself is outside: its failure returns at once.
\<close>

definition transaction :: "'a job \<Rightarrow> 'a job" where
  "transaction body =
     bnd begin_immediate (\<lambda>_.
     bnd (attempt (bnd body (\<lambda>x. bnd commit_tx (\<lambda>_. ret x)))) (\<lambda>r.
       case r of
         Inr x \<Rightarrow> ret x
       | Inl e \<Rightarrow> bnd (ignore rollback_tx) (\<lambda>_. raise e)))"

definition find_version :: "int \<Rightarrow> db \<Rightarrow> version_row option" where
  "find_version vid d = find (\<lambda>r. vr_id r = vid) (db_versions d)"

definition upd_versions :: "(version_row \<Rightarrow> bool) \<Rightarrow> (version_row \<Rightarrow> version_row) \<Rightarrow> db \<Rightarrow> db" where
  "upd_versions p f d = d\<lparr>db_versions := map (\<lambda>r. if p r then f r else r) (db_versions d)\<rparr>"

definition set_obsolete :: "(version_row \<Rightarrow> bool) \<Rightarrow> int \<Rightarrow> db \<Rightarrow> db" where
  "set_obsolete p n = upd_versions p (\<lambda>r. r\<lparr>vr_obsolete := n\<rparr>)"

definition find_segment :: "int \<Rightarrow> int \<Rightarrow> db \<Rightarrow> segment_row option" where
  "find_segment vid number d =
     find (\<lambda>r. sr_version r = vid \<and> sr_number r = number) (db_segments d)"

definition find_file :: "int \<Rightarrow> db \<Rightarrow> file_row option" where
  "find_file vid d = find (\<lambda>r. fr_version r = vid) (db_files d)"

text \<open>
  \<^verbatim>\<open>Database::patch\<close>: incremental writes into the blob of one row. The blob handle fails to open
  when the row is gone; a write fails after the ranges before it.
\<close>

definition patch_blob :: "int \<Rightarrow> bytes \<Rightarrow> nat \<times> nat \<Rightarrow> db \<Rightarrow> db" where
  "patch_blob vid bs r =
     upd_versions (\<lambda>v. vr_id v = vid)
       (\<lambda>v. v\<lparr>vr_blocks := put_at (fst r) (get_range (fst r) (snd r) bs) (vr_blocks v)\<rparr>)"

definition db_patch :: "int \<Rightarrow> bytes \<Rightarrow> (nat \<times> nat) list \<Rightarrow> unit job" where
  "db_patch vid bs ranges =
     bnd (query (find_version vid)) (\<lambda>row.
       case row of
         None \<Rightarrow> raise ''no such rowid''
       | Some r \<Rightarrow>
           bnd (attempt
             (bnd (require (length (vr_blocks r) = length bs) ''BLOB length changed'') (\<lambda>_.
              for_each ranges (\<lambda>q.
                bnd (require (snd q - fst q < 2 ^ 31 \<and> fst q < 2 ^ 31) ''out of range integral type conversion'') (\<lambda>_.
                exec (patch_blob vid bs q)))))) (\<lambda>result.
           bnd (attempt io) (\<lambda>closed.
             case result of
               Inl e \<Rightarrow> raise e
             | Inr _ \<Rightarrow> lift closed)))"

subsection \<open>Predicates that the database does not touch\<close>

text \<open>
  A predicate on the storage state that looks neither at the fault schedule nor at the database is
  kept by every SQL statement. Each such predicate is an interpretation of this interface.
\<close>

locale db_frame =
  fixes I :: "storage \<Rightarrow> bool"
  assumes frame_faults [simp]: "I (s\<lparr>st_faults := f\<rparr>) \<longleftrightarrow> I s"
    and frame_db [simp]: "I (s\<lparr>st_db := d\<rparr>) \<longleftrightarrow> I s"
    and frame_tx [simp]: "I (s\<lparr>st_tx := t\<rparr>) \<longleftrightarrow> I s"
begin

lemma keeps_io: "keeps I io"
  by (auto simp: keeps_def io_def split: list.splits)

lemma keeps_query: "keeps I (query q)"
  unfolding query_def by (intro keeps_intros keeps_io)

lemma keeps_exec: "keeps I (exec g)"
  unfolding exec_def by (intro keeps_intros keeps_modify keeps_io) simp

lemma keeps_begin: "keeps I begin_immediate"
  unfolding begin_immediate_def by (intro keeps_intros keeps_modify keeps_io) simp

lemma keeps_commit_tx: "keeps I commit_tx"
  unfolding commit_tx_def by (intro keeps_intros keeps_modify keeps_io) simp

lemma frame_both: "I (s\<lparr>st_db := d, st_tx := t\<rparr>) \<longleftrightarrow> I s"
  using frame_tx [where s = "s\<lparr>st_db := d\<rparr>"] by simp

lemma keeps_rollback: "keeps I rollback_tx"
  unfolding rollback_tx_def by (intro keeps_intros keeps_modify keeps_io) (simp add: frame_both)

lemma keeps_db_patch: "keeps I (db_patch vid bs ranges)"
  unfolding db_patch_def by (intro keeps_intros keeps_query keeps_exec keeps_io)

lemma keeps_db_transaction: "keeps I body \<Longrightarrow> keeps I (transaction body)"
  unfolding transaction_def by (intro keeps_intros keeps_begin keeps_commit_tx keeps_rollback)

lemmas keeps_sql = keeps_io keeps_query keeps_exec keeps_db_patch keeps_db_transaction

end

subsection \<open>Invariants of the database\<close>

text \<open>
  A condition on the tables that has to survive every failure has to hold of the saved copy too, since
  \<^verbatim>\<open>ROLLBACK\<close> may bring that back.
\<close>

definition db_inv :: "(db \<Rightarrow> bool) \<Rightarrow> storage \<Rightarrow> bool" where
  "db_inv P s \<longleftrightarrow> P (st_db s) \<and> (case st_tx s of None \<Rightarrow> True | Some d \<Rightarrow> P d)"

lemma db_inv_io [keeps_intros]: "keeps (db_inv P) io"
  by (auto simp: keeps_def io_def db_inv_def split: list.splits)

lemma db_inv_query [keeps_intros]: "keeps (db_inv P) (query q)"
  unfolding query_def by (intro keeps_intros)

lemma db_inv_exec: "(\<And>d. P d \<Longrightarrow> P (f d)) \<Longrightarrow> keeps (db_inv P) (exec f)"
  unfolding exec_def by (intro keeps_intros keeps_modify) (auto simp: db_inv_def)

lemma db_inv_begin [keeps_intros]: "keeps (db_inv P) begin_immediate"
  unfolding begin_immediate_def by (intro keeps_intros keeps_modify) (auto simp: db_inv_def)

lemma db_inv_commit_tx [keeps_intros]: "keeps (db_inv P) commit_tx"
  unfolding commit_tx_def by (intro keeps_intros keeps_modify) (auto simp: db_inv_def)

lemma db_inv_rollback [keeps_intros]: "keeps (db_inv P) rollback_tx"
proof (rule keepsI)
  fix s r s'
  assume inv: "db_inv P s" and run: "rollback_tx s = (r, s')"
  obtain o1 s1 where io: "io s = (o1, s1)" by fastforce
  have inv1: "db_inv P s1" using db_inv_io inv io by (rule keepsD)
  show "db_inv P s'"
    using run io inv1 unfolding rollback_tx_def
    by (cases o1) (auto simp: act_simps bnd_def db_inv_def split: option.splits)
qed

lemma db_inv_transaction [keeps_intros]: "keeps (db_inv P) body \<Longrightarrow> keeps (db_inv P) (transaction body)"
  unfolding transaction_def by (intro keeps_intros)

lemma db_inv_patch:
  "(\<And>r d. P d \<Longrightarrow> P (patch_blob vid bs r d)) \<Longrightarrow> keeps (db_inv P) (db_patch vid bs ranges)"
  unfolding db_patch_def by (intro keeps_intros db_inv_exec)

lemma db_inv_modify: "(\<And>s. st_db (g s) = st_db s \<and> st_tx (g s) = st_tx s) \<Longrightarrow> keeps (db_inv P) (modify g)"
  by (rule keeps_modify) (simp add: db_inv_def)

end
