(* ===== verification/Store_Versions.thy ===== *)
theory Store_Versions
  imports Store_State
begin

section \<open>Resident versions, leases and segments\<close>

text \<open>
  The part of \<^verbatim>\<open>store.rs\<close>, \<^verbatim>\<open>segments.rs\<close> and \<^verbatim>\<open>materialize.rs\<close> below eviction: the lease clock,
  accounting of file sizes, committing an index, the bounded set of resident versions, segment files and
  loading a version. In the source \<^verbatim>\<open>load\<close> and \<^verbatim>\<open>repair_segments\<close> call each other; the inner calls
  always find the version resident, so they are \<open>repair_resident\<close> and \<open>remove_segment_resident\<close> here.
  A product of a segment number and a segment size is not reduced modulo \<open>2 ^ 64\<close>: it fits for every
  number the code writes into the table.
\<close>

subsection \<open>Residents, leases and the clock\<close>

definition resident_of :: "int \<Rightarrow> storage \<Rightarrow> resident option" where
  "resident_of vid s = map_of (st_versions s) vid"

definition put_resident :: "int \<Rightarrow> resident \<Rightarrow> storage \<Rightarrow> storage" where
  "put_resident vid v s = s\<lparr>st_versions := AList.update vid v (st_versions s)\<rparr>"

definition upd_resident :: "int \<Rightarrow> (resident \<Rightarrow> resident) \<Rightarrow> storage \<Rightarrow> storage" where
  "upd_resident vid f s = s\<lparr>st_versions := AList.map_entry vid f (st_versions s)\<rparr>"

definition drop_resident :: "int \<Rightarrow> storage \<Rightarrow> storage" where
  "drop_resident vid s = s\<lparr>st_versions := AList.delete vid (st_versions s)\<rparr>"

definition get_resident :: "int \<Rightarrow> resident job" where
  "get_resident vid =
     bnd (gets (resident_of vid)) (\<lambda>v. case v of None \<Rightarrow> raise ''panic'' | Some v \<Rightarrow> ret v)"

definition alive :: "nat option \<Rightarrow> storage \<Rightarrow> bool" where
  "alive w s = (case w of None \<Rightarrow> False | Some a \<Rightarrow> 0 < st_strong s a)"

definition leased :: "int \<Rightarrow> storage \<Rightarrow> bool" where
  "leased vid s = (case resident_of vid s of None \<Rightarrow> False | Some v \<Rightarrow> alive (rs_lease v) s)"

definition put_size :: "string \<Rightarrow> nat \<times> int \<Rightarrow> storage \<Rightarrow> storage" where
  "put_size name p s = s\<lparr>st_sizes := AList.update name p (st_sizes s)\<rparr>"

definition drop_size :: "string \<Rightarrow> storage \<Rightarrow> storage" where
  "drop_size name s = s\<lparr>st_sizes := AList.delete name (st_sizes s)\<rparr>"

definition lease_now :: "storage \<Rightarrow> nat" where
  "lease_now s = sat_add (st_clock s) (st_elapsed s)"

definition expire_leases :: "unit job" where
  "expire_leases =
     bnd (modify (\<lambda>s. if now_secs s < st_clock s then s\<lparr>st_clock_uncertain := True\<rparr> else s)) (\<lambda>_.
     bnd (modify (\<lambda>s. if st_clock_uncertain s \<and> lease_now s \<le> now_secs s
                      then s\<lparr>st_clock_uncertain := False\<rparr> else s)) (\<lambda>_.
     bnd (gets (\<lambda>s. \<not> st_clock_uncertain s
             \<and> (case st_restart_grace s of None \<Rightarrow> True | Some until \<Rightarrow> until \<le> st_elapsed s))) (\<lambda>due.
       if due then
         bnd (gets lease_now) (\<lambda>t.
         exec (\<lambda>d. d\<lparr>db_leases := filter (\<lambda>l. \<not> lr_expires l \<le> as_i64 t) (db_leases d)\<rparr>))
       else ret ())))"

definition externally_pinned :: "int \<Rightarrow> bool job" where
  "externally_pinned vid =
     bnd expire_leases (\<lambda>_. query (\<lambda>d. list_ex (\<lambda>l. lr_version l = vid) (db_leases d)))"

definition persist_clock :: "unit job" where
  "persist_clock =
     bnd (gets lease_now) (\<lambda>t.
     exec (\<lambda>d. d\<lparr>db_clock := Some (case db_clock d of None \<Rightarrow> as_i64 t | Some old \<Rightarrow> max old (as_i64 t))\<rparr>))"

definition restore_leases :: "unit job" where
  "restore_leases =
     bnd (query db_clock) (\<lambda>row.
     let old = (case row of None \<Rightarrow> 0 | Some t \<Rightarrow> as_u64 t) in
     bnd (modify (\<lambda>s. s\<lparr>st_clock_uncertain := st_clock s < old, st_clock := max (st_clock s) old\<rparr>)) (\<lambda>_.
     bnd (query (\<lambda>d. db_leases d \<noteq> [])) (\<lambda>some.
     bnd (if some then modify (\<lambda>s. s\<lparr>st_restart_grace := Some (st_elapsed s + LEASE_SECONDS)\<rparr>) else ret ()) (\<lambda>_.
     persist_clock))))"

definition plain_length :: "int \<Rightarrow> nat option job" where
  "plain_length vid =
     bnd (query (find_file vid)) (\<lambda>row.
       case row of
         None \<Rightarrow> ret None
       | Some r \<Rightarrow>
           if fr_ready r \<noteq> 1 then ret None
           else bnd (require (0 \<le> fr_length r \<and> length (fr_digest r) = 32 \<and> fr_format r = 1)
                  ''invalid plain descriptor'') (\<lambda>_. ret (Some (as_u64 (fr_length r)))))"

definition check_active :: "int \<Rightarrow> unit job" where
  "check_active vid =
     bnd (query (find_version vid)) (\<lambda>row.
     require (case row of None \<Rightarrow> False | Some r \<Rightarrow> vr_obsolete r \<noteq> 2) ''provider invalidated'')"

subsection \<open>Accounting\<close>

record usage_bytes =
  us_image :: nat
  us_audio :: nat
  us_metadata :: nat

definition current_usage :: "storage \<Rightarrow> usage_bytes" where
  "current_usage s =
     \<lparr>us_image = sum_list (map (\<lambda>(_, size, kind). if kind = 1 then 0 else size) (st_sizes s)),
      us_audio = sum_list (map (\<lambda>(_, size, kind). if kind = 1 then size else 0) (st_sizes s)),
      us_metadata = sum_list (map (\<lambda>n. case n of None \<Rightarrow> 0 | Some k \<Rightarrow> k) (st_sqlite_files s))\<rparr>"

definition usage :: "usage_bytes job" where
  "usage = bnd (for_each [''meta.sqlite'', ''meta.sqlite-wal'', ''meta.sqlite-shm''] (\<lambda>_. io)) (\<lambda>_. gets current_usage)"

definition usage_total :: "usage_bytes \<Rightarrow> nat" where
  "usage_total u = us_image u + us_audio u + us_metadata u"

definition managed_name :: "string \<Rightarrow> bool" where
  "managed_name name \<longleftrightarrow> file_managed_name name \<or> segment_managed_name name \<or> pack_managed_name name"

definition remove_managed :: "string \<Rightarrow> unit job" where
  "remove_managed name =
     bnd (require (managed_name name) ''unmanaged cache path'') (\<lambda>_.
     bnd (attempt (bnd (remove_file name) (\<lambda>_. sync_directory))) (\<lambda>result.
       case result of
         Inl e \<Rightarrow> bnd (modify (\<lambda>s. s\<lparr>st_garbage := List.insert name (st_garbage s)\<rparr>)) (\<lambda>_. raise e)
       | Inr _ \<Rightarrow>
           bnd (modify (\<lambda>s. s\<lparr>st_garbage := removeAll name (st_garbage s)\<rparr>)) (\<lambda>_.
           modify (drop_size name))))"

subsection \<open>Committing an index\<close>

definition commit :: "int \<Rightarrow> unit job" where
  "commit vid =
     bnd (gets (resident_of vid)) (\<lambda>v.
       case v of
         None \<Rightarrow> raise ''version not resident''
       | Some v \<Rightarrow>
           let (ranges, ix) = index_dirty (rs_index v) in
           bnd (modify (upd_resident vid (\<lambda>v. v\<lparr>rs_index := ix\<rparr>))) (\<lambda>_.
             if ranges = [] then ret ()
             else bnd (transaction (db_patch vid (ix_bytes ix) ranges)) (\<lambda>_.
                  modify (upd_resident vid (\<lambda>v. v\<lparr>rs_index := index_committed (rs_index v)\<rparr>)))))"

definition index_bytes_used :: "storage \<Rightarrow> nat" where
  "index_bytes_used s = sum_list (map (\<lambda>(_, v). length (ix_bytes (rs_index v))) (st_versions s))"

lemma map_entry_keys: "map fst (AList.map_entry k f al) = map fst al"
  by (induction k f al rule: AList.map_entry.induct) auto

interpretation residents: db_frame "\<lambda>s. map fst (st_versions s) = ks" for ks
  by unfold_locales simp_all

lemma commit_residents:
  assumes "commit vid s = (r, s')"
  shows "map fst (st_versions s') = map fst (st_versions s)"
proof -
  have step: "keeps (\<lambda>s. map fst (st_versions s) = ks) (modify (upd_resident vid f))" for f ks
    by (rule keeps_modify) (simp add: upd_resident_def map_entry_keys)
  have "keeps (\<lambda>s. map fst (st_versions s) = ks) (commit vid)" for ks
    unfolding commit_def Let_def case_prod_beta
    by (intro keeps_intros step residents.keeps_db_transaction residents.keeps_db_patch)
  from keepsD [OF this _ assms] show ?thesis by simp
qed

lemma reserve_index_decreases:
  assumes found: "find P (st_versions s) = Some (old, v)" and run: "commit old s = (r, s1)"
  shows "length (st_versions (drop_resident old s1)) < length (st_versions s)"
proof -
  have keys: "map fst (st_versions s1) = map fst (st_versions s)" using run by (rule commit_residents)
  have "(old, v) \<in> set (st_versions s)" using found by (auto simp: find_Some_iff)
  then have "old \<in> set (map fst (st_versions s1))" unfolding keys by force
  then obtain w where "(old, w) \<in> set (st_versions s1)" by auto
  then have "length (AList.delete old (st_versions s1)) < length (st_versions s1)"
    unfolding AList.delete_eq by (auto intro: length_filter_less)
  also have "length (st_versions s1) = length (st_versions s)" using keys by (metis length_map)
  finally show ?thesis by (simp add: drop_resident_def)
qed

text \<open>
  \<^verbatim>\<open>reserve_index\<close>: residents without a live lease are committed and dropped until the index
  budget and the number of residents allow one more.
\<close>

function reserve_index :: "nat \<Rightarrow> storage \<Rightarrow> unit result \<times> storage" where
  "reserve_index required s =
     (if index_bytes_used s + required \<le> INDEX_BUDGET \<and> length (st_versions s) < MAX_RESIDENT then (Inr (), s)
      else case find (\<lambda>(_, v). \<not> alive (rs_lease v) s) (st_versions s) of
             None \<Rightarrow> (Inl ''resource index budget reached'', s)
           | Some (old, _) \<Rightarrow>
               (case commit old s of
                  (Inl e, s1) \<Rightarrow> (Inl e, s1)
                | (Inr _, s1) \<Rightarrow> reserve_index required (drop_resident old s1)))"
  by pat_completeness auto
termination
  by (relation "measure (\<lambda>(required, s). length (st_versions s))")
    (auto simp del: length_map simp: reserve_index_decreases [OF _ sym])

declare reserve_index.simps [simp del]

lemma keeps_reserve_index_if:
  assumes commits: "\<And>vid. keeps I (commit vid)"
    and drops: "\<And>old v s s1. I s \<Longrightarrow> find (\<lambda>(_, v). \<not> alive (rs_lease v) s) (st_versions s) = Some (old, v) \<Longrightarrow>
      I s1 \<Longrightarrow> I (drop_resident old s1)"
  shows "keeps I (reserve_index required)"
proof (rule keepsI)
  fix s r s'
  assume "I s" "reserve_index required s = (r, s')"
  then show "I s'"
  proof (induction required s arbitrary: r s' rule: reserve_index.induct)
    case (1 required s)
    let ?room = "index_bytes_used s + required \<le> INDEX_BUDGET \<and> length (st_versions s) < MAX_RESIDENT"
    show ?case
    proof (cases "?room \<or> find (\<lambda>(_, v). \<not> alive (rs_lease v) s) (st_versions s) = None")
      case True
      then show ?thesis using "1.prems" by (auto simp: reserve_index.simps [of required s] split: if_splits)
    next
      case False
      then obtain old v where found: "find (\<lambda>(_, v). \<not> alive (rs_lease v) s) (st_versions s) = Some (old, v)"
        by auto
      obtain r1 s1 where run: "commit old s = (r1, s1)" by fastforce
      have inv: "I s1" using commits "1.prems"(1) run by (rule keepsD)
      show ?thesis
      proof (cases r1)
        case (Inl e)
        then show ?thesis using "1.prems"(2) False found run inv
          by (simp add: reserve_index.simps [of required s] split: if_splits)
      next
        case (Inr u)
        have "reserve_index required (drop_resident old s1) = (r, s')"
          using "1.prems"(2) False found run Inr by (simp add: reserve_index.simps [of required s] split: if_splits)
        moreover have "\<not> ?room" using False by blast
        ultimately show ?thesis
          using "1.IH" [OF _ found refl run [symmetric] Inr] drops [OF "1.prems"(1) found inv] by blast
      qed
    qed
  qed
qed

lemma keeps_reserve_index:
  "(\<And>vid. keeps I (commit vid)) \<Longrightarrow> (\<And>vid s. I s \<Longrightarrow> I (drop_resident vid s)) \<Longrightarrow> keeps I (reserve_index required)"
  by (rule keeps_reserve_index_if)

subsection \<open>Segment files\<close>

record segment =
  sg_number :: nat
  sg_token :: string
  sg_length :: nat
  sg_deleting :: bool

definition segment_name :: "segment \<Rightarrow> metadata \<Rightarrow> string" where
  "segment_name g meta =
     md_generation meta @ ''.'' @ show_hex 16 (sg_number g) @ ''.'' @ sg_token g @ ''.seg''"

definition segment_header :: "segment \<Rightarrow> metadata \<Rightarrow> bytes job" where
  "segment_header g meta =
     bnd (gets (\<lambda>s. e_uuid_bytes (st_env s) (sg_token g))) (\<lambda>u.
       case u of
         None \<Rightarrow> raise ''invalid uuid''
       | Some ub \<Rightarrow>
           bnd (hash_of (bytes_of (md_generation meta))) (\<lambda>h.
           ret (bytes_of ''QCMSEG01'' @ to_le_bytes 8 (sg_length g) @ to_le_bytes 8 (sg_number g)
                @ to_le_bytes 8 (g_block (md_geometry meta)) @ ub @ take 16 h)))"

definition segment_of :: "int \<Rightarrow> nat \<Rightarrow> segment option job" where
  "segment_of vid number =
     bnd (require (number \<le> i64_max) ''out of range integral type conversion'') (\<lambda>_.
     bnd (query (find_segment vid (int number))) (\<lambda>row.
       case row of
         None \<Rightarrow> ret None
       | Some r \<Rightarrow>
           bnd (require (valid_generation (sr_token r) \<and> 0 < sr_length r) ''invalid segment descriptor'') (\<lambda>_.
           ret (Some \<lparr>sg_number = number, sg_token = sr_token r, sg_length = as_u64 (sr_length r),
                      sg_deleting = (sr_deleting r \<noteq> 0)\<rparr>))))"

definition segment_file :: "metadata \<Rightarrow> segment \<Rightarrow> nat job" where
  "segment_file meta g =
     (case segment_bytes (md_layout meta) of
        None \<Rightarrow> raise ''not segmented''
      | Some sz \<Rightarrow>
          bnd (lift (ok_or (checked_mul (sg_number g) sz) ''segment overflow'')) (\<lambda>start.
          bnd (require (start < g_length (md_geometry meta)
                 \<and> sg_length g = min sz (g_length (md_geometry meta) - start) \<and> \<not> sg_deleting g)
                 ''invalid segment length'') (\<lambda>_.
          bnd (regular_file (segment_name g meta)) (\<lambda>_.
          bnd (open_file (segment_name g meta)) (\<lambda>file.
          bnd (file_len file) (\<lambda>len.
          bnd (require (HEADER_LEN \<le> len \<and> len \<le> HEADER_LEN + sg_length g) ''invalid segment file length'') (\<lambda>_.
          bnd (read_exact_at file 0 HEADER_LEN) (\<lambda>header.
          bnd (segment_header g meta) (\<lambda>expected.
          bnd (require (header = expected) ''segment identity mismatch'') (\<lambda>_. ret file))))))))))"

definition publish_segment_index :: "int \<Rightarrow> index \<Rightarrow> unit job \<Rightarrow> unit job" where
  "publish_segment_index vid ix operation =
     (let (ranges, ix) = index_dirty ix in
      bnd (transaction (bnd (db_patch vid (ix_bytes ix) ranges) (\<lambda>_. operation))) (\<lambda>_.
      bnd (get_resident vid) (\<lambda>_.
      modify (upd_resident vid (\<lambda>v. v\<lparr>rs_index := index_committed ix\<rparr>)))))"

definition segment_blocks :: "metadata \<Rightarrow> nat \<Rightarrow> nat \<Rightarrow> nat list" where
  "segment_blocks meta sz number =
     [number * sz div g_block (md_geometry meta) ..<
      div_ceil (min ((number + 1) * sz) (g_length (md_geometry meta))) (g_block (md_geometry meta))]"

text \<open>Removing the entries that are present cannot index out of range, see \<open>index_get_bound\<close>.\<close>

definition remove_block :: "index \<Rightarrow> nat \<Rightarrow> index" where
  "remove_block ix block =
     (if index_get ix block = None then ix
      else case index_remove block ix of None \<Rightarrow> ix | Some ix' \<Rightarrow> ix')"

definition remove_segment_resident :: "int \<Rightarrow> nat \<Rightarrow> unit job" where
  "remove_segment_resident vid number =
     bnd (get_resident vid) (\<lambda>v.
       let meta = rs_meta v in
       case segment_bytes (md_layout meta) of
         None \<Rightarrow> raise ''not segmented''
       | Some sz \<Rightarrow>
           let ix = foldl remove_block (rs_index v) (segment_blocks meta sz number) in
           bnd (publish_segment_index vid ix
             (exec (\<lambda>d. d\<lparr>db_segments := map (\<lambda>r. if sr_version r = vid \<and> sr_number r = as_i64 number
                  then r\<lparr>sr_deleting := 1\<rparr> else r) (db_segments d)\<rparr>))) (\<lambda>_.
           bnd (attempt (segment_of vid number)) (\<lambda>found.
           bnd (case found of
                  Inl _ \<Rightarrow> ret ()
                | Inr g \<Rightarrow> (case g of None \<Rightarrow> ret () | Some g \<Rightarrow> remove_managed (segment_name g meta))) (\<lambda>_.
           exec (\<lambda>d. d\<lparr>db_segments := filter (\<lambda>r. \<not> (sr_version r = vid \<and> sr_number r = as_i64 number))
                  (db_segments d)\<rparr>)))))"

definition segment_is_valid :: "int \<Rightarrow> metadata \<Rightarrow> nat \<Rightarrow> bool job" where
  "segment_is_valid vid meta number =
     bnd (attempt (segment_of vid number)) (\<lambda>found.
       case found of
         Inl _ \<Rightarrow> ret False
       | Inr g \<Rightarrow> (case g of
             None \<Rightarrow> ret False
           | Some g \<Rightarrow> bnd (attempt (segment_file meta g)) (\<lambda>file. ret (\<not> is_err file))))"

definition repair_resident :: "int \<Rightarrow> unit job" where
  "repair_resident vid =
     bnd (get_resident vid) (\<lambda>v.
       let meta = rs_meta v in
       case segment_bytes (md_layout meta) of
         None \<Rightarrow> ret ()
       | Some sz \<Rightarrow>
           for_each [0..<div_ceil (g_length (md_geometry meta)) sz] (\<lambda>number.
             bnd (get_resident vid) (\<lambda>v.
               if \<not> list_ex (\<lambda>i. index_get (rs_index v) i \<noteq> None) (segment_blocks meta sz number) then ret ()
               else bnd (segment_is_valid vid meta number) (\<lambda>valid.
                    if valid then ret () else remove_segment_resident vid number))))"

subsection \<open>Loading a version\<close>

definition load_segmented :: "int \<Rightarrow> metadata \<Rightarrow> bytes \<Rightarrow> nat \<Rightarrow> resident job" where
  "load_segmented vid meta bs sz =
     bnd (reserve_index (length bs)) (\<lambda>_.
     bnd (lift (index_load_segments (md_geometry meta) bs sz)) (\<lambda>ix.
     bnd (modify (put_resident vid \<lparr>rs_meta = meta, rs_index = ix, rs_file = None, rs_lease = None,
            rs_plain = False\<rparr>)) (\<lambda>_.
     bnd (repair_resident vid) (\<lambda>_. get_resident vid))))"

definition load_blocks :: "int \<Rightarrow> metadata \<Rightarrow> bytes \<Rightarrow> resident job" where
  "load_blocks vid meta bs =
     bnd (plain_length vid) (\<lambda>plain_len.
     let plain = (plain_len \<noteq> None);
         name = data_name (md_generation meta) (if plain then ''ok'' else ''data'') in
     bnd (regular_file name) (\<lambda>_.
     bnd (open_file name) (\<lambda>file.
     bnd (file_len file) (\<lambda>sz.
     bnd (if plain then
            bnd (require (plain_len = Some (g_length (md_geometry meta))) ''plain descriptor length mismatch'') (\<lambda>_.
            bnd (require (sz = g_length (md_geometry meta)) ''invalid plain length'') (\<lambda>_.
            bnd (reserve_index (length bs)) (\<lambda>_.
            lift (index_load_plain (md_geometry meta) bs))))
          else
            bnd (require (HEADER_LEN \<le> sz) ''incomplete data header'') (\<lambda>_.
            bnd (read_exact_at file 0 HEADER_LEN) (\<lambda>header.
            bnd (gets (\<lambda>s. geometry_header (e_sha (st_env s)) (md_geometry meta) (md_generation meta))) (\<lambda>expected.
            bnd (lift expected) (\<lambda>expected.
            bnd (require (header = expected) ''data identity mismatch'') (\<lambda>_.
            let slots = (sz - HEADER_LEN) div g_block (md_geometry meta) in
            bnd (reserve_index (length bs)) (\<lambda>_.
            bnd (lift (index_load (md_geometry meta) bs slots)) (\<lambda>ix.
            bnd (set_len file (HEADER_LEN + slots * g_block (md_geometry meta))) (\<lambda>_. ret ix))))))))) (\<lambda>ix.
     bnd (allocated file) (\<lambda>sz.
     bnd (modify (put_size name (sz, md_kind meta))) (\<lambda>_.
     bnd (modify (put_resident vid \<lparr>rs_meta = meta, rs_index = ix, rs_file = Some file, rs_lease = None,
            rs_plain = plain\<rparr>)) (\<lambda>_.
     get_resident vid))))))))"

definition load :: "int \<Rightarrow> resident job" where
  "load vid =
     bnd (gets (resident_of vid)) (\<lambda>cached.
       case cached of
         Some v \<Rightarrow> ret v
       | None \<Rightarrow>
           bnd (query (find_version vid)) (\<lambda>row.
             case row of
               None \<Rightarrow> raise ''cache version removed''
             | Some r \<Rightarrow>
                 bnd (lift (ok_or (vr_meta r) ''invalid metadata'')) (\<lambda>meta.
                 bnd (require (valid_generation (md_generation meta)) ''invalid generation'') (\<lambda>_.
                 bnd (require (valid_block (g_block (md_geometry meta))) ''invalid block sz'') (\<lambda>_.
                 bnd (lift (layout_validate (md_layout meta) (md_geometry meta))) (\<lambda>_.
                   case segment_bytes (md_layout meta) of
                     Some sz \<Rightarrow> load_segmented vid meta (vr_blocks r) sz
                   | None \<Rightarrow> load_blocks vid meta (vr_blocks r)))))))"

definition repair_segments :: "int \<Rightarrow> unit job" where
  "repair_segments vid = bnd (load vid) (\<lambda>_. repair_resident vid)"

definition remove_segment :: "int \<Rightarrow> nat \<Rightarrow> unit job" where
  "remove_segment vid number = bnd (load vid) (\<lambda>_. remove_segment_resident vid number)"

text \<open>\<^verbatim>\<open>Storage::version\<close>: a handle on a resident version; all live handles share one lease.\<close>

definition new_arc :: "nat job" where
  "new_arc =
     bnd (gets st_arc_next) (\<lambda>a.
     bnd (modify (\<lambda>s. s\<lparr>st_arc_next := Suc a, st_strong := (st_strong s)(a := 0)\<rparr>)) (\<lambda>_. ret a))"

definition retain_arc :: "nat \<Rightarrow> storage \<Rightarrow> storage" where
  "retain_arc a s = s\<lparr>st_strong := (st_strong s)(a := Suc (st_strong s a))\<rparr>"

definition release_arc :: "nat \<Rightarrow> storage \<Rightarrow> storage" where
  "release_arc a s = s\<lparr>st_strong := (st_strong s)(a := st_strong s a - 1)\<rparr>"

definition upgrade_or :: "nat option \<Rightarrow> nat job" where
  "upgrade_or w =
     bnd (gets (alive w)) (\<lambda>up.
     bnd (case w of
            Some a \<Rightarrow> if up then ret a else new_arc
          | None \<Rightarrow> new_arc) (\<lambda>a.
     bnd (modify (retain_arc a)) (\<lambda>_. ret a)))"

definition version_handle :: "int \<Rightarrow> version job" where
  "version_handle vid =
     bnd (load vid) (\<lambda>v.
     bnd (gets (alive (rs_lease v))) (\<lambda>old.
     bnd (upgrade_or (rs_lease v)) (\<lambda>a.
     bnd (if old then ret () else modify (\<lambda>s. s\<lparr>st_valid := (st_valid s)(a := True)\<rparr>)) (\<lambda>_.
     bnd (modify (upd_resident vid (\<lambda>v. v\<lparr>rs_lease := Some a\<rparr>))) (\<lambda>_.
     ret \<lparr>vs_id = vid, vs_meta = rs_meta v, vs_lease = a\<rparr>)))))"

definition drop_handle :: "version \<Rightarrow> unit job" where
  "drop_handle v = modify (release_arc (vs_lease v))"

definition is_valid :: "version \<Rightarrow> storage \<Rightarrow> bool" where
  "is_valid v s = st_valid s (vs_lease v)"

end
