(* ===== verification/Store_Evict.thy ===== *)
theory Store_Evict
  imports Store_Versions
begin

section \<open>Deletion and eviction\<close>

text \<open>
  \<^verbatim>\<open>Storage::delete\<close> and \<^verbatim>\<open>Storage::evict\<close> with the eviction of segments and packs they drive. A
  deletion is ordered so that a crash or a failure between two steps leaves either an entry that is
  marked for deletion or no entry: rows are marked first, then files go, then rows go.
\<close>

subsection \<open>Packs\<close>

definition delete_pack :: "string \<Rightarrow> unit job" where
  "delete_pack token =
     bnd (require (pack_managed_name (pack_name token)) ''invalid pack token'') (\<lambda>_.
     bnd (transaction
       (bnd (exec (\<lambda>d. d\<lparr>db_objects := filter (\<lambda>r. or_pack r \<noteq> token) (db_objects d)\<rparr>)) (\<lambda>_.
        exec (\<lambda>d. d\<lparr>db_packs := map (\<lambda>r. if pr_token r = token then r\<lparr>pr_deleting := 1\<rparr> else r)
              (db_packs d)\<rparr>)))) (\<lambda>_.
     bnd (remove_managed (pack_name token)) (\<lambda>_.
     exec (\<lambda>d. d\<lparr>db_packs := filter (\<lambda>r. pr_token r \<noteq> token) (db_packs d)\<rparr>))))"

text \<open>The loop over the packs in eviction order stops at the first live pack that need not go.\<close>

fun evict_packs_loop :: "nat \<Rightarrow> (string \<times> int) list \<Rightarrow> unit job" where
  "evict_packs_loop required [] = ret ()"
| "evict_packs_loop required ((token, deleting) # rest) =
     bnd usage (\<lambda>u.
     bnd (gets st_capacity) (\<lambda>capacity.
       if deleting = 0 \<and> sat_add (sat_add (sat_add (us_audio u) (us_image u)) (us_metadata u)) required \<le> capacity
       then ret ()
       else bnd (ignore (delete_pack token)) (\<lambda>_. evict_packs_loop required rest)))"

definition evict_packs :: "nat \<Rightarrow> unit job" where
  "evict_packs required =
     bnd (query (\<lambda>d. map (\<lambda>r. (pr_token r, pr_deleting r))
       (sort_key (\<lambda>r. - pr_deleting r) (sort_key pr_last_use (db_packs d))))) (\<lambda>packs.
     evict_packs_loop required packs)"

definition invalidate_packs :: "int \<Rightarrow> unit job" where
  "invalidate_packs provider =
     bnd (query (\<lambda>d. map pr_token (filter (\<lambda>r. pr_provider r = provider) (db_packs d)))) (\<lambda>tokens.
     for_each tokens (\<lambda>token. ignore (delete_pack token)))"

subsection \<open>Segments\<close>

definition delete_all_segments :: "int \<Rightarrow> unit job" where
  "delete_all_segments vid =
     bnd (query (\<lambda>d. map (\<lambda>r. as_u64 (sr_number r)) (filter (\<lambda>r. sr_version r = vid) (db_segments d)))) (\<lambda>numbers.
     for_each numbers (remove_segment vid))"

definition pinned :: "int \<Rightarrow> nat \<Rightarrow> storage \<Rightarrow> bool" where
  "pinned vid number s = alive (map_of (st_pins s) (vid, number)) s"

definition segment_candidates :: "db \<Rightarrow> (int \<times> nat \<times> bool) list" where
  "segment_candidates d =
     map (\<lambda>(r, obsolete). (sr_version r, as_u64 (sr_number r), sr_deleting r \<noteq> 0 \<or> obsolete \<noteq> 0))
       (sort_key (\<lambda>(r, obsolete). - sr_deleting r) (sort_key (\<lambda>(r, obsolete). - obsolete)
          (sort_key (\<lambda>(r, obsolete). sr_last_use r)
            (concat (map (\<lambda>r. case find_version (sr_version r) d of
                 None \<Rightarrow> [] | Some v \<Rightarrow> [(r, vr_obsolete v)]) (db_segments d))))))"

definition evict_segments :: "nat \<Rightarrow> unit job" where
  "evict_segments required =
     bnd (query segment_candidates) (\<lambda>candidates.
     for_each candidates (\<lambda>(vid, number, obsolete).
       bnd usage (\<lambda>u.
       bnd (gets st_capacity) (\<lambda>capacity.
       bnd (gets (pinned vid number)) (\<lambda>pin.
         if \<not> obsolete \<and> usage_total u + required \<le> capacity then ret ()
         else if pin then ret ()
         else ignore (remove_segment vid number))))))"

subsection \<open>Versions\<close>

definition delete_rows :: "int \<Rightarrow> unit job" where
  "delete_rows vid =
     bnd (exec (\<lambda>d. d\<lparr>db_segments := filter (\<lambda>r. sr_version r \<noteq> vid) (db_segments d)\<rparr>)) (\<lambda>_.
     bnd (exec (\<lambda>d. d\<lparr>db_files := filter (\<lambda>r. fr_version r \<noteq> vid) (db_files d)\<rparr>)) (\<lambda>_.
     bnd (exec (\<lambda>d. d\<lparr>db_leases := filter (\<lambda>r. lr_version r \<noteq> vid) (db_leases d)\<rparr>)) (\<lambda>_.
     exec (\<lambda>d. d\<lparr>db_versions := filter (\<lambda>r. vr_id r \<noteq> vid) (db_versions d)\<rparr>))))"

definition delete_unpinned :: "int \<Rightarrow> unit job" where
  "delete_unpinned vid =
     bnd (query (\<lambda>d. map_option vr_generation (find_version vid d))) (\<lambda>generation.
     bnd (exec (set_obsolete (\<lambda>r. vr_id r = vid) 2)) (\<lambda>_.
     bnd (delete_all_segments vid) (\<lambda>_.
     bnd (modify (drop_resident vid)) (\<lambda>_.
     bnd (case generation of
            None \<Rightarrow> ret ()
          | Some g \<Rightarrow>
              if valid_generation g
              then for_each [''data'', ''ok.tmp'', ''ok''] (\<lambda>suffix. remove_managed (data_name g suffix))
              else ret ()) (\<lambda>_.
     transaction (delete_rows vid))))))"

definition delete :: "int \<Rightarrow> unit job" where
  "delete vid =
     bnd (gets (\<lambda>s. list_ex (\<lambda>((v, n), a). v = vid \<and> alive (Some a) s) (st_pins s))) (\<lambda>pin.
       if pin then ret ()
       else bnd (gets (leased vid)) (\<lambda>held.
         if held then ret ()
         else bnd (externally_pinned vid) (\<lambda>external.
           if external then ret () else delete_unpinned vid)))"

text \<open>
  The loop of \<^verbatim>\<open>evict\<close> over the candidate versions; \<open>bytes\<close> is the usage seen last. The version
  whose lease is alive is skipped before \<^verbatim>\<open>delete\<close> is tried.
\<close>

definition evict_step :: "nat \<Rightarrow> int \<times> bool \<Rightarrow> nat \<Rightarrow> nat job" where
  "evict_step required = (\<lambda>(vid, obsolete) bytes.
     bnd (gets st_capacity) (\<lambda>capacity.
       if \<not> obsolete \<and> sat_add bytes required \<le> capacity then ret bytes
       else bnd (gets (leased vid)) (\<lambda>held.
         if held then ret bytes
         else bnd (ignore (delete vid)) (\<lambda>_.
              bnd usage (\<lambda>u. ret (usage_total u))))))"

definition evict_candidates :: "bool \<Rightarrow> db \<Rightarrow> (int \<times> bool) list" where
  "evict_candidates over d =
     map (\<lambda>r. (vr_id r, vr_obsolete r \<noteq> 0))
       (if over then sort_key (\<lambda>r. - vr_obsolete r) (sort_key vr_last_use (db_versions d))
        else filter (\<lambda>r. vr_obsolete r \<noteq> 0) (db_versions d))"

definition build_remaining :: "storage \<Rightarrow> nat" where
  "build_remaining s = (case st_building s of None \<Rightarrow> 0 | Some b \<Rightarrow> bd_remaining b)"

definition evict :: "nat \<Rightarrow> unit job" where
  "evict required =
     bnd usage (\<lambda>u.
     bnd (gets (\<lambda>s. sat_add required (build_remaining s))) (\<lambda>required.
     bnd (gets st_capacity) (\<lambda>capacity.
     bnd (query (evict_candidates (capacity < usage_total u + required))) (\<lambda>ids.
     bnd (evict_packs required) (\<lambda>_.
     bnd (evict_segments required) (\<lambda>_.
     bnd usage (\<lambda>u.
     bnd (fold_act (evict_step required) ids (usage_total u)) (\<lambda>bytes.
     require (sat_add bytes required \<le> capacity) ''cache capacity reached''))))))))"

end
