(* ===== verification/Store_Api.thy ===== *)
theory Store_Api
  imports Store_Evict
begin

section \<open>Reading and writing versions\<close>

text \<open>
  The operations on versions that clients of \<^verbatim>\<open>Store\<close> call: creating and looking up a version,
  reading and writing blocks in both layouts, coverage queries, replacing metadata, invalidating a provider
  and retiring a version. A handle returned to the client carries a strong reference; a handle that an
  operation consumes is released by the caller with \<open>drop_handle\<close>.
\<close>

subsection \<open>Pins and the segment clock\<close>

definition segment_tick :: "nat job" where
  "segment_tick =
     bnd (modify (\<lambda>s. s\<lparr>st_segment_clock := max (min (st_micros s) i64_max) (sat_add (st_segment_clock s) 1)\<rparr>)) (\<lambda>_.
     gets st_segment_clock)"

definition restore_segment_clock :: "unit job" where
  "restore_segment_clock =
     bnd (query (\<lambda>d. fold max (map sr_last_use (db_segments d) @ map pr_last_use (db_packs d)) 0)) (\<lambda>n.
     modify (\<lambda>s. s\<lparr>st_segment_clock := nat (max n 0)\<rparr>))"

definition pin_segment :: "int \<Rightarrow> nat \<Rightarrow> nat job" where
  "pin_segment vid number =
     bnd (gets (\<lambda>s. map_of (st_pins s) (vid, number))) (\<lambda>w.
     bnd (upgrade_or w) (\<lambda>a.
     bnd (modify (\<lambda>s. s\<lparr>st_pins := AList.update (vid, number) a (st_pins s)\<rparr>)) (\<lambda>_. ret a)))"

definition pin_segments :: "int \<Rightarrow> nat list \<Rightarrow> nat list job" where
  "pin_segments vid numbers =
     bnd (modify (\<lambda>s. s\<lparr>st_pins := filter (\<lambda>(_, a). alive (Some a) s) (st_pins s)\<rparr>)) (\<lambda>_.
     fold_act (\<lambda>number pins. bnd (pin_segment vid number) (\<lambda>a. ret (pins @ [a]))) numbers [])"

definition drop_pins :: "nat list \<Rightarrow> unit job" where
  "drop_pins pins = modify (\<lambda>s. fold release_arc pins s)"

definition window :: "int \<Rightarrow> nat \<Rightarrow> nat \<Rightarrow> nat list job" where
  "window vid first stop =
     bnd (check_active vid) (\<lambda>_.
     bnd (load vid) (\<lambda>v.
       let meta = rs_meta v in
       bnd (require (first \<le> stop \<and> stop \<le> g_length (md_geometry meta) \<and> stop - first \<le> WINDOW_BYTES)
              ''invalid cache window'') (\<lambda>_.
         case segment_bytes (md_layout meta) of
           None \<Rightarrow> ret []
         | Some sz \<Rightarrow> pin_segments vid [first div sz ..< div_ceil stop sz])))"

subsection \<open>Creating and looking up\<close>

definition insert_id :: "db \<Rightarrow> int" where
  "insert_id d = fold max (map vr_id (db_versions d)) 0 + 1"

definition insert_version :: "metadata \<Rightarrow> bytes \<Rightarrow> int job" where
  "insert_version meta blocks =
     bnd (gets now_secs) (\<lambda>now.
     bnd (gets (\<lambda>s. insert_id (st_db s))) (\<lambda>vid.
     bnd (gets (\<lambda>s. list_ex (\<lambda>r. vr_generation r = md_generation meta) (db_versions (st_db s)))) (\<lambda>clash.
     bnd (require (\<not> clash) ''UNIQUE constraint failed: versions.generation'') (\<lambda>_.
     bnd (exec (\<lambda>d. d\<lparr>db_versions := db_versions d @
            [\<lparr>vr_id = vid, vr_key = md_key meta, vr_provider = md_provider meta, vr_kind = md_kind meta,
              vr_generation = md_generation meta, vr_meta = Some meta, vr_blocks = blocks,
              vr_last_use = as_i64 now, vr_obsolete = 0\<rparr>]\<rparr>)) (\<lambda>_. ret vid)))))"

definition create_data_file :: "metadata \<Rightarrow> nat job" where
  "create_data_file meta =
     bnd (evict 4096) (\<lambda>_.
     bnd (create_new (data_name (md_generation meta) ''data'')) (\<lambda>file.
     bnd private_file (\<lambda>_.
     bnd (gets (\<lambda>s. geometry_header (e_sha (st_env s)) (md_geometry meta) (md_generation meta))) (\<lambda>header.
     bnd (lift header) (\<lambda>header.
     bnd (write_at file 0 header) (\<lambda>_.
     bnd sync_file (\<lambda>_.
     bnd sync_directory (\<lambda>_.
     bnd (allocated file) (\<lambda>sz.
     bnd (modify (put_size (data_name (md_generation meta) ''data'') (sz, md_kind meta))) (\<lambda>_. ret file))))))))))"

definition create_layout :: "metadata \<Rightarrow> version job" where
  "create_layout meta =
     bnd (require (valid_generation (md_generation meta)) ''invalid generation'') (\<lambda>_.
     bnd (lift (layout_validate (md_layout meta) (md_geometry meta))) (\<lambda>_.
     bnd (reserve_index (geometry_count (md_geometry meta) * ENTRY_LEN)) (\<lambda>_.
     bnd (if md_layout meta = Blocks then bnd (create_data_file meta) (\<lambda>f. ret (Some f)) else ret None) (\<lambda>file.
     let ix = index_new (md_geometry meta) in
     bnd (begin_immediate) (\<lambda>_.
     bnd (attempt
       (bnd (exec (set_obsolete (\<lambda>r. vr_key r = md_key meta \<and> vr_obsolete r = 0) 1)) (\<lambda>_.
        bnd (insert_version meta (ix_bytes ix)) (\<lambda>vid.
        bnd commit_tx (\<lambda>_. ret vid))))) (\<lambda>result.
       case result of
         Inl e \<Rightarrow>
           bnd (ignore rollback_tx) (\<lambda>_.
           bnd (ignore (remove_file (data_name (md_generation meta) ''data''))) (\<lambda>_.
           bnd (modify (drop_size (data_name (md_generation meta) ''data''))) (\<lambda>_.
           raise e)))
       | Inr vid \<Rightarrow>
           bnd (modify (put_resident vid \<lparr>rs_meta = meta, rs_index = ix, rs_file = file, rs_lease = None,
                  rs_plain = False\<rparr>)) (\<lambda>_.
           version_handle vid)))))))"

definition create :: "metadata \<Rightarrow> version job" where
  "create meta =
     create_layout (meta\<lparr>md_layout := layout_for_resource (md_kind meta) (g_length (md_geometry meta))\<rparr>)"

text \<open>\<^verbatim>\<open>ORDER BY id DESC LIMIT 1\<close> over the active rows of the key.\<close>

definition active_ids :: "string \<Rightarrow> db \<Rightarrow> int list" where
  "active_ids key d = map vr_id (filter (\<lambda>r. vr_key r = key \<and> vr_obsolete r = 0) (db_versions d))"

definition lookup_id :: "string \<Rightarrow> db \<Rightarrow> int option" where
  "lookup_id key d = (case active_ids key d of [] \<Rightarrow> None | x # xs \<Rightarrow> Some (fold max xs x))"

definition lookup :: "string \<Rightarrow> version option job" where
  "lookup key =
     bnd (query (lookup_id key)) (\<lambda>found.
       case found of
         None \<Rightarrow> ret None
       | Some vid \<Rightarrow>
           bnd (attempt (version_handle vid)) (\<lambda>r.
             case r of
               Inl _ \<Rightarrow> bnd (delete vid) (\<lambda>_. ret None)
             | Inr v \<Rightarrow>
                 bnd (gets now_secs) (\<lambda>now.
                 bnd (attempt (exec (upd_versions (\<lambda>r. vr_id r = vid) (\<lambda>r. r\<lparr>vr_last_use := as_i64 now\<rparr>)))) (\<lambda>u.
                   case u of
                     Inl e \<Rightarrow> bnd (drop_handle v) (\<lambda>_. raise e)
                   | Inr _ \<Rightarrow> ret (Some v)))))"

subsection \<open>Reading\<close>

definition PLAIN_CORRUPT :: string where
  "PLAIN_CORRUPT = ''published cache file is corrupt''"

definition retire_corrupt :: "int \<Rightarrow> unit job" where
  "retire_corrupt vid =
     bnd (modify (\<lambda>s. case resident_of vid s of
            None \<Rightarrow> s
          | Some v \<Rightarrow> (case rs_lease v of
                None \<Rightarrow> s
              | Some a \<Rightarrow> if alive (Some a) s then s\<lparr>st_valid := (st_valid s)(a := False)\<rparr> else s))) (\<lambda>_.
     exec (set_obsolete (\<lambda>r. vr_id r = vid) 2))"

text \<open>
  \<^verbatim>\<open>file.read_exact(&mut data).is_err() || format::hash(&data)? != digest\<close>: \<open>None\<close> when the bytes
  are unreadable or do not have the digest.
\<close>

definition read_verified :: "nat \<Rightarrow> nat \<Rightarrow> nat \<Rightarrow> bytes \<Rightarrow> bytes option job" where
  "read_verified file at len digest =
     bnd (attempt (read_exact_at file at len)) (\<lambda>r.
       case r of
         Inl _ \<Rightarrow> ret None
       | Inr data \<Rightarrow> bnd (hash_of data) (\<lambda>h. ret (if h = digest then Some data else None)))"

definition read_segment :: "int \<Rightarrow> nat \<Rightarrow> bytes option job" where
  "read_segment vid block =
     bnd (load vid) (\<lambda>v.
       let meta = rs_meta v in
       case index_get (rs_index v) block of
         None \<Rightarrow> ret None
       | Some entry \<Rightarrow>
           bnd (lift (geometry_range (md_geometry meta) block)) (\<lambda>r.
           bnd (case segment_bytes (md_layout meta) of None \<Rightarrow> raise ''panic'' | Some sz \<Rightarrow> ret (fst r div sz)) (\<lambda>number.
           bnd (segment_of vid number) (\<lambda>g.
             case g of
               None \<Rightarrow> bnd (remove_segment vid number) (\<lambda>_. ret None)
             | Some g \<Rightarrow>
                 bnd (attempt (segment_file meta g)) (\<lambda>f.
                   case f of
                     Inl _ \<Rightarrow> bnd (remove_segment vid number) (\<lambda>_. ret None)
                   | Inr file \<Rightarrow>
                       bnd (read_verified file (HEADER_LEN + fst entry * g_block (md_geometry meta)) (snd r - fst r)
                              (snd entry)) (\<lambda>data.
                         case data of
                           None \<Rightarrow>
                             bnd (get_resident vid) (\<lambda>v.
                             bnd (publish_segment_index vid (remove_block (rs_index v) block) (ret ())) (\<lambda>_. ret None))
                         | Some bs \<Rightarrow>
                             bnd segment_tick (\<lambda>touched.
                             bnd (exec (\<lambda>d. d\<lparr>db_segments := map (\<lambda>q.
                                    if sr_version q = vid \<and> sr_number q = as_i64 number
                                    then q\<lparr>sr_last_use := as_i64 touched\<rparr> else q) (db_segments d)\<rparr>)) (\<lambda>_.
                             ret (Some bs)))))))))"

definition read_block :: "int \<Rightarrow> nat \<Rightarrow> bytes option job" where
  "read_block vid block =
     bnd (load vid) (\<lambda>v.
       case index_get (rs_index v) block of
         None \<Rightarrow> ret None
       | Some entry \<Rightarrow>
           bnd (lift (geometry_range (md_geometry (rs_meta v)) block)) (\<lambda>r.
           bnd (case rs_file v of None \<Rightarrow> raise ''panic'' | Some f \<Rightarrow> ret f) (\<lambda>file.
           bnd (if rs_plain v then ret (fst r)
                else lift (geometry_offset (md_geometry (rs_meta v)) (fst entry))) (\<lambda>at.
           bnd (read_verified file at (snd r - fst r) (snd entry)) (\<lambda>data.
             case data of
               Some bs \<Rightarrow> ret (Some bs)
             | None \<Rightarrow>
                 if rs_plain v then bnd (retire_corrupt vid) (\<lambda>_. raise PLAIN_CORRUPT)
                 else
                   bnd (modify (upd_resident vid (\<lambda>v. v\<lparr>rs_index := remove_block (rs_index v) block\<rparr>))) (\<lambda>_.
                   bnd (commit vid) (\<lambda>_. ret None)))))))"

definition read :: "int \<Rightarrow> nat \<Rightarrow> bytes option job" where
  "read vid block =
     bnd (check_active vid) (\<lambda>_.
     bnd (load vid) (\<lambda>v.
       if segment_bytes (md_layout (rs_meta v)) \<noteq> None then read_segment vid block
       else read_block vid block))"

end
