(* ===== verification/Store_Objects.thy ===== *)
theory Store_Objects
  imports Store_Api
begin

section \<open>Packed objects\<close>

text \<open>
  \<^verbatim>\<open>resource_cache/objects.rs\<close>: small complete objects appended to shared pack files. An object row
  names the pack, the offset, the length and the digest; \<open>pr_length\<close> is the committed length of the pack,
  and bytes beyond it are an uncommitted tail that the next append cuts off.
\<close>

definition PACK_BYTES :: nat where "PACK_BYTES = 16 * 1024 * 1024"
definition PACK_HEADER :: nat where "PACK_HEADER = 64"
definition MAX_OBJECT :: nat where "MAX_OBJECT = PACK_BYTES - PACK_HEADER"

record object =
  ob_meta :: object_metadata
  ob_bytes :: bytes

definition pack_header :: "string \<Rightarrow> bytes" where
  "pack_header token = bytes_of ''QCMPACK1'' @ bytes_of token @ replicate 24 0"

definition find_pack :: "string \<Rightarrow> db \<Rightarrow> pack_row option" where
  "find_pack token d = find (\<lambda>r. pr_token r = token) (db_packs d)"

definition find_object :: "string \<Rightarrow> db \<Rightarrow> object_row option" where
  "find_object key d = find (\<lambda>r. or_key r = key) (db_objects d)"

text \<open>The join of an object with its live pack.\<close>

definition select_object :: "string \<Rightarrow> db \<Rightarrow> (object_row \<times> pack_row) option" where
  "select_object key d =
     Option.bind (find_object key d) (\<lambda>r.
     Option.bind (find_pack (or_pack r) d) (\<lambda>p. if pr_deleting p = 0 then Some (r, p) else None))"

definition remove_object :: "string \<Rightarrow> unit job" where
  "remove_object key = exec (\<lambda>d. d\<lparr>db_objects := filter (\<lambda>r. or_key r \<noteq> key) (db_objects d)\<rparr>)"

definition update_object :: "object_metadata \<Rightarrow> unit job" where
  "update_object meta =
     exec (\<lambda>d. d\<lparr>db_objects := map (\<lambda>r. if or_key r = om_key meta then r\<lparr>or_meta := Some meta\<rparr> else r)
        (db_objects d)\<rparr>)"

definition try_u64 :: "int \<Rightarrow> nat result" where
  "try_u64 x = (if 0 \<le> x then Inr (nat x) else Inl ''out of range integral type conversion'')"

definition object_bytes ::
    "object_metadata \<Rightarrow> nat \<Rightarrow> nat \<Rightarrow> bytes \<Rightarrow> string \<Rightarrow> nat \<Rightarrow> object job" where
  "object_bytes meta offset len digest token committed =
     bnd (require (pack_managed_name (pack_name token) \<and> PACK_HEADER \<le> offset \<and> len \<le> MAX_OBJECT
            \<and> om_length meta = len
            \<and> (case checked_add offset len of None \<Rightarrow> False | Some n \<Rightarrow> n \<le> committed)) ''invalid packed object'') (\<lambda>_.
     bnd (regular_file (pack_name token)) (\<lambda>_.
     bnd (open_file (pack_name token)) (\<lambda>file.
     bnd (read_exact_at file 0 64) (\<lambda>actual.
     bnd (require (actual = pack_header token) ''pack identity mismatch'') (\<lambda>_.
     bnd (read_exact_at file offset len) (\<lambda>bs.
     bnd (hash_of bs) (\<lambda>h.
     bnd (require (h = digest) ''object checksum mismatch'') (\<lambda>_.
     ret \<lparr>ob_meta = meta, ob_bytes = bs\<rparr>))))))))"

definition get_object :: "string \<Rightarrow> object option job" where
  "get_object key =
     bnd (query (select_object key)) (\<lambda>row.
       case row of
         None \<Rightarrow> ret None
       | Some rp \<Rightarrow>
           let r = fst rp; p = snd rp in
           bnd (lift (ok_or (or_meta r) ''invalid metadata'')) (\<lambda>meta.
           bnd (lift (try_u64 (or_offset r))) (\<lambda>offset.
           bnd (lift (try_u64 (or_length r))) (\<lambda>len.
           bnd (lift (try_u64 (pr_length p))) (\<lambda>committed.
           bnd (attempt (object_bytes meta offset len (or_digest r) (pr_token p) committed)) (\<lambda>result.
             case result of
               Inr ob \<Rightarrow>
                 bnd segment_tick (\<lambda>clock.
                 bnd (exec (\<lambda>d. d\<lparr>db_packs := map (\<lambda>q. if pr_token q = pr_token p
                        then q\<lparr>pr_last_use := as_i64 clock\<rparr> else q) (db_packs d)\<rparr>)) (\<lambda>_.
                 ret (Some ob)))
             | Inl _ \<Rightarrow> bnd (remove_object key) (\<lambda>_. ret None)))))))"

subsection \<open>Storing an object\<close>

text \<open>\<^verbatim>\<open>ORDER BY last_use DESC LIMIT 1\<close> over the live packs of the group with room for the object.\<close>

definition select_pack :: "string \<Rightarrow> nat \<Rightarrow> db \<Rightarrow> pack_row option" where
  "select_pack grp len d =
     (case sort_key (\<lambda>r. - pr_last_use r)
        (filter (\<lambda>r. pr_group r = grp \<and> pr_deleting r = 0 \<and> pr_length r + int len \<le> int PACK_BYTES) (db_packs d)) of
        [] \<Rightarrow> None
      | r # _ \<Rightarrow> Some r)"

definition insert_pack :: "string \<Rightarrow> object_metadata \<Rightarrow> unit job" where
  "insert_pack token meta =
     bnd (gets (\<lambda>s. find_pack token (st_db s))) (\<lambda>old.
     bnd (require (old = None) ''UNIQUE constraint failed: packs.token'') (\<lambda>_.
     exec (\<lambda>d. d\<lparr>db_packs := db_packs d @ [\<lparr>pr_token = token, pr_group = om_group meta,
        pr_provider = om_provider meta, pr_length = int PACK_HEADER, pr_last_use = 0, pr_deleting = 0\<rparr>]\<rparr>)))"

definition create_pack :: "object_metadata \<Rightarrow> (string \<times> nat) job" where
  "create_pack meta =
     bnd new_uuid (\<lambda>token.
     bnd (create_new (pack_name token)) (\<lambda>file.
     bnd (attempt
       (bnd private_file (\<lambda>_.
        bnd (write_at file 0 (pack_header token)) (\<lambda>_.
        bnd sync_file (\<lambda>_.
        bnd sync_directory (\<lambda>_.
        insert_pack token meta)))))) (\<lambda>created.
     bnd (attempt (allocated file)) (\<lambda>n.
     bnd (modify (put_size (pack_name token) (case n of Inl _ \<Rightarrow> 4096 | Inr k \<Rightarrow> k, 1))) (\<lambda>_.
       case created of
         Inl e \<Rightarrow> bnd (ignore (remove_managed (pack_name token))) (\<lambda>_. raise e)
       | Inr _ \<Rightarrow> ret (token, PACK_HEADER))))))"

definition choose_pack :: "object_metadata \<Rightarrow> (string \<times> nat) job" where
  "choose_pack meta =
     bnd (query (select_pack (om_group meta) (om_length meta))) (\<lambda>existing.
       case existing of
         Some r \<Rightarrow> bnd (lift (try_u64 (pr_length r))) (\<lambda>n. ret (pr_token r, n))
       | None \<Rightarrow> create_pack meta)"

definition insert_object :: "object_row \<Rightarrow> db \<Rightarrow> db" where
  "insert_object row d =
     d\<lparr>db_objects := filter (\<lambda>r. or_key r \<noteq> or_key row) (db_objects d) @ [row]\<rparr>"

definition set_pack_length :: "string \<Rightarrow> int \<Rightarrow> int \<Rightarrow> db \<Rightarrow> db" where
  "set_pack_length token len clock d =
     d\<lparr>db_packs := map (\<lambda>r. if pr_token r = token \<and> pr_deleting r = 0
        then r\<lparr>pr_length := len, pr_last_use := clock\<rparr> else r) (db_packs d)\<rparr>"

definition append_object :: "object_metadata \<Rightarrow> bytes \<Rightarrow> string \<Rightarrow> nat \<Rightarrow> nat \<Rightarrow> unit job" where
  "append_object meta bs token offset file =
     bnd (read_exact_at file 0 64) (\<lambda>actual.
     bnd (file_len file) (\<lambda>len.
     bnd (require (actual = pack_header token \<and> offset \<le> len) ''invalid pack identity'') (\<lambda>_.
     bnd (set_len file offset) (\<lambda>_.
     bnd (write_at file offset bs) (\<lambda>_.
     bnd sync_file (\<lambda>_.
     bnd (hash_of bs) (\<lambda>digest.
     bnd segment_tick (\<lambda>clock.
     transaction
       (bnd (exec (insert_object \<lparr>or_key = om_key meta, or_pack = token, or_offset = as_i64 offset,
               or_length = as_i64 (om_length meta), or_digest = digest, or_meta = Some meta\<rparr>)) (\<lambda>_.
        exec (set_pack_length token (as_i64 (offset + om_length meta)) (as_i64 clock))))))))))))"

definition put_object :: "object_metadata \<Rightarrow> bytes \<Rightarrow> unit job" where
  "put_object meta bs =
     bnd (require (om_length meta = length bs \<and> om_length meta \<le> MAX_OBJECT) ''object admission limit'') (\<lambda>_.
     bnd (evict (div_ceil (om_length meta + PACK_HEADER) 4096 * 4096)) (\<lambda>_.
     bnd (choose_pack meta) (\<lambda>p.
     let token = fst p; offset = snd p in
     bnd (require (pack_managed_name (pack_name token) \<and> PACK_HEADER \<le> offset
            \<and> offset + om_length meta \<le> PACK_BYTES) ''invalid pack append'') (\<lambda>_.
     bnd (regular_file (pack_name token)) (\<lambda>_.
     bnd (open_file (pack_name token)) (\<lambda>file.
     bnd (attempt (append_object meta bs token offset file)) (\<lambda>result.
     bnd (if is_err result then bnd (ignore (set_len file offset)) (\<lambda>_. ignore sync_file) else ret ()) (\<lambda>_.
     bnd (allocated file) (\<lambda>n.
     bnd (modify (put_size (pack_name token) (n, 1))) (\<lambda>_.
     lift result))))))))))"

text \<open>
  \<^verbatim>\<open>Store::put_object\<close> checks the caller's validity flag before and after; \<open>before\<close> and
  \<open>after\<close> are its two values.
\<close>

definition store_put_object :: "bool \<Rightarrow> bool \<Rightarrow> object_metadata \<Rightarrow> bytes \<Rightarrow> unit job" where
  "store_put_object before after meta bs =
     bnd (require before ''object commit invalidated'') (\<lambda>_.
     bnd (attempt (put_object meta bs)) (\<lambda>result.
       if \<not> after then
         bnd (remove_object (om_key meta)) (\<lambda>_. raise ''object commit invalidated'')
       else lift result))"

subsection \<open>Packs at start-up\<close>

definition check_pack :: "pack_row \<Rightarrow> unit job" where
  "check_pack r =
     bnd (require (pack_managed_name (pack_name (pr_token r)) \<and> PACK_HEADER \<le> as_u64 (pr_length r)
            \<and> as_u64 (pr_length r) \<le> PACK_BYTES \<and> pr_deleting r = 0) ''invalid pack descriptor'') (\<lambda>_.
     bnd (regular_file (pack_name (pr_token r))) (\<lambda>_.
     bnd (open_file (pack_name (pr_token r))) (\<lambda>file.
     bnd (read_exact_at file 0 64) (\<lambda>actual.
     bnd (file_len file) (\<lambda>len.
     bnd (require (actual = pack_header (pr_token r) \<and> as_u64 (pr_length r) \<le> len) ''invalid pack data'') (\<lambda>_.
     set_len file (as_u64 (pr_length r))))))))"

definition retain_pack :: "pack_row \<Rightarrow> (string \<times> int) list \<Rightarrow> (string \<times> int) list job" where
  "retain_pack r retained =
     bnd (attempt (check_pack r)) (\<lambda>valid.
       if \<not> is_err valid then ret (AList.update (pack_name (pr_token r)) 1 retained)
       else if pack_managed_name (pack_name (pr_token r)) then
         bnd (ignore (delete_pack (pr_token r))) (\<lambda>_. ret retained)
       else
         bnd (exec (\<lambda>d. d\<lparr>db_objects := filter (\<lambda>q. or_pack q \<noteq> pr_token r) (db_objects d)\<rparr>)) (\<lambda>_.
         bnd (exec (\<lambda>d. d\<lparr>db_packs := filter (\<lambda>q. pr_token q \<noteq> pr_token r) (db_packs d)\<rparr>)) (\<lambda>_.
         ret retained)))"

definition retain_packs :: "(string \<times> int) list \<Rightarrow> (string \<times> int) list job" where
  "retain_packs retained = bnd (query db_packs) (\<lambda>packs. fold_act retain_pack packs retained)"

end
