(* ===== verification/Store_Write.thy ===== *)
theory Store_Write
  imports Store_Api
begin

section \<open>Writing blocks and the remaining operations on versions\<close>

text \<open>
  \<^verbatim>\<open>write_data\<close> appends blocks to a data file and commits the index after the data is synchronised;
  \<^verbatim>\<open>write_segments\<close> groups blocks by segment, writes each segment file and publishes the new index
  together with the segment descriptors in one transaction. After a failure the files that were created are
  removed and the index is left as it was.
\<close>

subsection \<open>The block layout\<close>

definition set_resident_block :: "int \<Rightarrow> nat \<Rightarrow> nat \<Rightarrow> bytes \<Rightarrow> unit job" where
  "set_resident_block vid block slot data =
     bnd (get_resident vid) (\<lambda>v.
     bnd (gets (\<lambda>s. index_set (e_sha (st_env s)) block slot data (rs_index v))) (\<lambda>p.
     bnd (modify (upd_resident vid (\<lambda>v. v\<lparr>rs_index := snd p\<rparr>))) (\<lambda>_. lift (fst p))))"

text \<open>One block of the append loop: it is skipped when the index has it, otherwise it is written into
  the next free slot and padded to a whole slot.\<close>

definition append_block ::
    "resident \<Rightarrow> nat \<Rightarrow> nat \<times> bytes \<Rightarrow> (nat \<times> nat \<times> bytes) list \<Rightarrow> (nat \<times> nat \<times> bytes) list job" where
  "append_block v file = (\<lambda>(block, data) appended.
     let g = md_geometry (rs_meta v) in
     if index_get (rs_index v) block \<noteq> None then ret appended
     else
       bnd (lift (geometry_range g block)) (\<lambda>r.
       bnd (require (length data = snd r - fst r) ''incomplete block'') (\<lambda>_.
       bnd (file_len file) (\<lambda>sz.
       bnd (require (HEADER_LEN \<le> sz) ''panic'') (\<lambda>_.
       let slot = div_ceil (sz - HEADER_LEN) (g_block g) in
       bnd (require (slot \<le> u32_max) ''out of range integral type conversion'') (\<lambda>_.
       bnd (require (slot \<noteq> u32_max) ''slot limit'') (\<lambda>_.
       bnd (lift (geometry_offset g slot)) (\<lambda>at.
       bnd (write_at file at data) (\<lambda>_.
       bnd (if length data < g_block g
            then write_at file (at + length data) (replicate (g_block g - length data) 0) else ret ()) (\<lambda>_.
       ret (appended @ [(block, slot, data)])))))))))))"

definition write_data :: "int \<Rightarrow> (nat \<times> bytes) list \<Rightarrow> unit job" where
  "write_data vid blocks =
     bnd (check_active vid) (\<lambda>_.
     bnd (load vid) (\<lambda>v.
       if rs_plain v then
         bnd (gets (\<lambda>s. list_all (\<lambda>(i, data). case index_get (rs_index v) i of
                None \<Rightarrow> False
              | Some e \<Rightarrow> format_hash (e_sha (st_env s)) data = Inr (snd e)) blocks)) (\<lambda>same.
         require same ''attempted plain overwrite'')
       else
         bnd (evict (length (filter (\<lambda>b. index_get (rs_index v) (fst b) = None) blocks)
                     * g_block (md_geometry (rs_meta v)))) (\<lambda>_.
         bnd (load vid) (\<lambda>v.
         bnd (case rs_file v of None \<Rightarrow> raise ''panic'' | Some f \<Rightarrow> ret f) (\<lambda>file.
         bnd (fold_act (append_block v file) blocks []) (\<lambda>appended.
         bnd sync_file (\<lambda>_.
         bnd (for_each appended (\<lambda>(block, slot, data). set_resident_block vid block slot data)) (\<lambda>_.
         commit vid))))))))"

subsection \<open>The segment layout\<close>

definition block_segment :: "metadata \<Rightarrow> nat \<Rightarrow> nat \<Rightarrow> nat" where
  "block_segment meta sz block = block * g_block (md_geometry meta) div sz"

text \<open>The nested ordered map of the blocks to write: by segment number, then by block; a later entry for
  the same block replaces an earlier one.\<close>

definition group_blocks :: "metadata \<Rightarrow> nat \<Rightarrow> (nat \<times> bytes) list \<Rightarrow> (nat \<times> (nat \<times> bytes) list) list" where
  "group_blocks meta sz blocks =
     (let sorted = sort_key fst (fold (\<lambda>(b, d) al. AList.update b d al) blocks [])
      in map (\<lambda>n. (n, filter (\<lambda>b. block_segment meta sz (fst b) = n) sorted))
           (remdups_adj (map (\<lambda>b. block_segment meta sz (fst b)) sorted)))"

definition choose_segment :: "int \<Rightarrow> metadata \<Rightarrow> nat \<Rightarrow> nat \<Rightarrow> (segment \<times> bool) job" where
  "choose_segment vid meta sz number =
     bnd (segment_of vid number) (\<lambda>old.
       let fresh = bnd new_uuid (\<lambda>token.
             ret (\<lparr>sg_number = number, sg_token = token,
                   sg_length = min sz (g_length (md_geometry meta) - number * sz), sg_deleting = False\<rparr>, True)) in
       case old of
         None \<Rightarrow> fresh
       | Some g \<Rightarrow> if sg_deleting g then bnd (remove_segment vid number) (\<lambda>_. fresh) else ret (g, False))"

definition open_segment :: "metadata \<Rightarrow> segment \<Rightarrow> bool \<Rightarrow> nat job" where
  "open_segment meta g fresh =
     (if fresh then
        bnd (create_new (segment_name g meta)) (\<lambda>file.
        bnd private_file (\<lambda>_.
        bnd (segment_header g meta) (\<lambda>header.
        bnd (write_at file 0 header) (\<lambda>_. ret file))))
      else segment_file meta g)"

definition write_segment_block ::
    "metadata \<Rightarrow> nat \<Rightarrow> nat \<Rightarrow> nat \<times> bytes \<Rightarrow> index \<Rightarrow> index job" where
  "write_segment_block meta sz file = (\<lambda>(block, data) ix.
     let slot = block mod (sz div g_block (md_geometry meta)) in
     bnd (write_at file (HEADER_LEN + slot * g_block (md_geometry meta)) data) (\<lambda>_.
     bnd (gets (\<lambda>s. index_set (e_sha (st_env s)) block slot data ix)) (\<lambda>p.
     bnd (lift (fst p)) (\<lambda>_. ret (snd p)))))"

definition write_group ::
    "metadata \<Rightarrow> nat \<Rightarrow> segment \<Rightarrow> bool \<Rightarrow> (nat \<times> bytes) list \<Rightarrow> index \<Rightarrow> index job" where
  "write_group meta sz g fresh blocks ix =
     bnd (open_segment meta g fresh) (\<lambda>file.
     bnd (attempt (bnd (fold_act (write_segment_block meta sz file) blocks ix) (\<lambda>ix.
                   bnd sync_file (\<lambda>_. ret ix)))) (\<lambda>writing.
     bnd (allocated file) (\<lambda>n.
     bnd (modify (put_size (segment_name g meta) (n, md_kind meta))) (\<lambda>_.
     lift writing))))"

text \<open>The result of the loop is a value, because the caller needs the created names on failure too.\<close>

fun write_groups ::
    "int \<Rightarrow> metadata \<Rightarrow> nat \<Rightarrow> (nat \<times> (nat \<times> bytes) list) list \<Rightarrow> index \<Rightarrow> segment list \<Rightarrow> string list
     \<Rightarrow> ((index \<times> segment list) result \<times> string list) job" where
  "write_groups vid meta sz [] ix written created = ret (Inr (ix, written), created)"
| "write_groups vid meta sz ((number, blocks) # rest) ix written created =
     bnd (attempt (choose_segment vid meta sz number)) (\<lambda>r.
       case r of
         Inl e \<Rightarrow> ret (Inl e, created)
       | Inr p \<Rightarrow>
           let name = segment_name (fst p) meta;
               created = (if snd p then created @ [name] else created) in
           bnd (attempt (write_group meta sz (fst p) (created \<noteq> [] \<and> last created = name) blocks ix)) (\<lambda>r.
             case r of
               Inl e \<Rightarrow> ret (Inl e, created)
             | Inr ix \<Rightarrow> write_groups vid meta sz rest ix (written @ [fst p]) created))"

definition upsert_segment :: "int \<Rightarrow> nat \<Rightarrow> segment \<Rightarrow> db \<Rightarrow> db" where
  "upsert_segment vid touched g d =
     (let row = \<lparr>sr_version = vid, sr_number = as_i64 (sg_number g), sr_token = sg_token g,
                 sr_length = as_i64 (sg_length g), sr_last_use = as_i64 touched, sr_deleting = 0\<rparr>
      in if find_segment vid (as_i64 (sg_number g)) d = None
         then d\<lparr>db_segments := db_segments d @ [row]\<rparr>
         else d\<lparr>db_segments := map (\<lambda>r. if sr_version r = vid \<and> sr_number r = as_i64 (sg_number g) then row else r)
                (db_segments d)\<rparr>)"

definition publish_groups :: "int \<Rightarrow> (index \<times> segment list) result \<Rightarrow> unit job" where
  "publish_groups vid r =
     bnd (lift r) (\<lambda>p.
     bnd sync_directory (\<lambda>_.
     bnd segment_tick (\<lambda>touched.
     publish_segment_index vid (fst p) (for_each (snd p) (\<lambda>g. exec (upsert_segment vid touched g))))))"

definition segments_required :: "(nat \<times> (nat \<times> bytes) list) list \<Rightarrow> nat" where
  "segments_required grouped =
     sum_list (map (\<lambda>(_, bs). sum_list (map (\<lambda>b. div_ceil (length (snd b)) 4096 * 4096) bs) + 8192) grouped)"

definition check_blocks :: "metadata \<Rightarrow> (nat \<times> bytes) list \<Rightarrow> unit job" where
  "check_blocks meta blocks =
     for_each blocks (\<lambda>(block, data).
       bnd (lift (geometry_range (md_geometry meta) block)) (\<lambda>r.
       require (length data = snd r - fst r) ''incomplete block''))"

definition write_segments :: "int \<Rightarrow> (nat \<times> bytes) list \<Rightarrow> unit job" where
  "write_segments vid blocks =
     bnd (repair_segments vid) (\<lambda>_.
     bnd (get_resident vid) (\<lambda>v.
       let meta = rs_meta v in
       bnd (case segment_bytes (md_layout meta) of None \<Rightarrow> raise ''panic'' | Some sz \<Rightarrow> ret sz) (\<lambda>sz.
       bnd (check_blocks meta blocks) (\<lambda>_.
       let grouped = group_blocks meta sz (filter (\<lambda>b. index_get (rs_index v) (fst b) = None) blocks) in
         if grouped = [] then ret ()
         else
           bnd (fold_act (\<lambda>n pins. bnd (pin_segments vid [n]) (\<lambda>p. ret (pins @ p))) (map fst grouped) []) (\<lambda>pins.
           bnd (attempt
             (bnd (evict (segments_required grouped)) (\<lambda>_.
              bnd (get_resident vid) (\<lambda>v.
              bnd (write_groups vid meta sz grouped (rs_index v) [] []) (\<lambda>p.
              bnd (attempt (publish_groups vid (fst p))) (\<lambda>r.
                case r of
                  Inr _ \<Rightarrow> ret ()
                | Inl e \<Rightarrow> bnd (for_each (snd p) (\<lambda>name. ignore (remove_managed name))) (\<lambda>_. raise e))))))) (\<lambda>r.
           bnd (drop_pins pins) (\<lambda>_. lift r)))))))"

subsection \<open>Writing\<close>

record commit_outcome =
  co_complete :: bool
  co_newly_complete :: bool

definition index_full :: "resident \<Rightarrow> bool" where
  "index_full v \<longleftrightarrow> index_is_committed (rs_index v) \<and> index_complete (rs_index v)"

definition write_version :: "int \<Rightarrow> (nat \<times> bytes) list \<Rightarrow> commit_outcome job" where
  "write_version vid blocks =
     bnd (check_active vid) (\<lambda>_.
     bnd (load vid) (\<lambda>v.
       let was_complete = index_full v in
       if segment_bytes (md_layout (rs_meta v)) \<noteq> None then
         bnd (write_segments vid blocks) (\<lambda>_.
         bnd (load vid) (\<lambda>v.
         ret \<lparr>co_complete = index_complete (rs_index v),
              co_newly_complete = (index_complete (rs_index v) \<and> \<not> was_complete)\<rparr>))
       else
         bnd (attempt (write_data vid blocks)) (\<lambda>result.
         bnd (gets (resident_of vid)) (\<lambda>cur.
         bnd (case cur of
                None \<Rightarrow> ret ()
              | Some v \<Rightarrow>
                  bnd (case rs_file v of None \<Rightarrow> raise ''panic'' | Some f \<Rightarrow> allocated f) (\<lambda>n.
                  modify (put_size (data_name (md_generation (rs_meta v)) (if rs_plain v then ''ok'' else ''data''))
                    (n, md_kind (rs_meta v))))) (\<lambda>_.
         bnd (lift result) (\<lambda>_.
         bnd (load vid) (\<lambda>v.
         ret \<lparr>co_complete = index_full v, co_newly_complete = (index_full v \<and> \<not> was_complete)\<rparr>)))))))"

subsection \<open>Coverage, metadata and invalidation\<close>

definition complete :: "int \<Rightarrow> bool job" where
  "complete vid = bnd (repair_segments vid) (\<lambda>_. bnd (load vid) (\<lambda>v. ret (index_full v)))"

definition version_covered :: "int \<Rightarrow> nat \<Rightarrow> nat \<Rightarrow> bool job" where
  "version_covered vid first stop =
     bnd (repair_segments vid) (\<lambda>_.
     bnd (load vid) (\<lambda>v.
     let block = g_block (md_geometry (rs_meta v)) in
     ret (list_all (\<lambda>i. index_get (rs_index v) i \<noteq> None) [first div block ..< div_ceil stop block])))"

definition missing_end :: "index \<Rightarrow> nat \<Rightarrow> nat \<Rightarrow> nat \<Rightarrow> nat" where
  "missing_end ix block first stop =
     (case find (\<lambda>i. index_get ix i \<noteq> None) [first div block + 1 ..< div_ceil stop block] of
        None \<Rightarrow> stop
      | Some i \<Rightarrow> i * block)"

definition missing_range :: "int \<Rightarrow> nat \<Rightarrow> nat \<Rightarrow> (nat \<times> nat) job" where
  "missing_range vid first stop =
     bnd (repair_segments vid) (\<lambda>_.
     bnd (load vid) (\<lambda>v.
     ret (first, missing_end (rs_index v) (g_block (md_geometry (rs_meta v))) first stop)))"

definition update :: "int \<Rightarrow> metadata \<Rightarrow> unit job" where
  "update vid meta =
     bnd (exec (upd_versions (\<lambda>r. vr_id r = vid) (\<lambda>r. r\<lparr>vr_meta := Some meta\<rparr>))) (\<lambda>_.
     bnd (load vid) (\<lambda>_.
     modify (upd_resident vid (\<lambda>v. v\<lparr>rs_meta := meta\<rparr>))))"

definition invalidate_handles :: "int \<Rightarrow> storage \<Rightarrow> storage" where
  "invalidate_handles provider s =
     s\<lparr>st_valid := (\<lambda>a. st_valid s a \<and>
        \<not> list_ex (\<lambda>(_, v). md_provider (rs_meta v) = provider \<and> rs_lease v = Some a \<and> alive (Some a) s)
            (st_versions s))\<rparr>"

definition invalidate :: "int \<Rightarrow> unit job" where
  "invalidate provider =
     bnd (invalidate_packs provider) (\<lambda>_.
     bnd (modify (invalidate_handles provider)) (\<lambda>_.
     bnd (exec (set_obsolete (\<lambda>r. vr_provider r = provider) 2)) (\<lambda>_.
     evict 0)))"

definition retire :: "int \<Rightarrow> unit job" where
  "retire vid = exec (set_obsolete (\<lambda>r. vr_id r = vid) 1)"

end
