(* ===== verification/Store_Files.thy ===== *)
theory Store_Files
  imports Store_Write
begin

section \<open>Complete files and their leases\<close>

text \<open>
  \<^verbatim>\<open>resource_cache/materialize.rs\<close>: turning a complete block version into one plain file, and
  lending that file to other processes under leases. The worker thread of the source sends its steps to the
  storage thread one at a time; each step is a job here, and \<open>copy_step\<close> is the worker's loop body as it
  interleaves with other jobs.
\<close>

subsection \<open>Building\<close>

definition ticket_reservation :: "nat \<Rightarrow> nat" where
  "ticket_reservation len = div_ceil len 4096 * 4096"

definition cleanup_garbage :: "unit job" where
  "cleanup_garbage =
     bnd (gets (\<lambda>s. take 64 (st_garbage s))) (\<lambda>names. for_each names (\<lambda>name. ignore (remove_managed name)))"

definition plain_data_names :: "db \<Rightarrow> string list" where
  "plain_data_names d =
     concat (map (\<lambda>v. map (\<lambda>_. data_name (vr_generation v) ''data'')
       (filter (\<lambda>f. fr_version f = vr_id v \<and> fr_ready f = 1) (db_files d))) (db_versions d))"

definition cleanup_plain_data :: "unit job" where
  "cleanup_plain_data =
     bnd (query plain_data_names) (\<lambda>names.
     for_each names (\<lambda>name.
       bnd (gets (\<lambda>s. map_of (st_sizes s) name \<noteq> None)) (\<lambda>known.
       if known then remove_managed name else ret ())))"

definition defer_file :: "int \<Rightarrow> int \<Rightarrow> db \<Rightarrow> db" where
  "defer_file vid t d =
     (if find_file vid d = None
      then d\<lparr>db_files := db_files d @ [\<lparr>fr_version = vid, fr_ready = 0, fr_length = 0, fr_digest = [],
             fr_retry_at = t, fr_format = 1\<rparr>]\<rparr>
      else d\<lparr>db_files := map (\<lambda>r. if fr_version r = vid then r\<lparr>fr_retry_at := t\<rparr> else r) (db_files d)\<rparr>)"

definition defer_build :: "int \<Rightarrow> unit job" where
  "defer_build vid = bnd (gets (\<lambda>s. as_i64 (lease_now s + 30))) (\<lambda>t. exec (defer_file vid t))"

definition build_candidates :: "int \<Rightarrow> int \<Rightarrow> db \<Rightarrow> int list" where
  "build_candidates t cursor d =
     take 64 (sort (map vr_id (filter (\<lambda>v. vr_obsolete v = 0 \<and> cursor < vr_id v
       \<and> (case find_file (vr_id v) d of
            None \<Rightarrow> 0 \<le> t
          | Some f \<Rightarrow> fr_ready f = 0 \<and> fr_retry_at f \<le> t)) (db_versions d))))"

definition eligible :: "resident \<Rightarrow> bool" where
  "eligible v \<longleftrightarrow> md_layout (rs_meta v) = Blocks
     \<and> \<not> (md_kind (rs_meta v) = 1 \<and> SEGMENT_BYTES < g_length (md_geometry (rs_meta v)))
     \<and> po_store (md_policy (rs_meta v)) \<and> index_full v"

definition remove_unpublished :: "string \<Rightarrow> unit job" where
  "remove_unpublished generation =
     for_each [''ok.tmp'', ''ok''] (\<lambda>suffix. remove_managed (data_name generation suffix))"

definition prepare_file :: "string \<Rightarrow> nat job" where
  "prepare_file generation =
     bnd (remove_unpublished generation) (\<lambda>_.
     bnd (create_new (data_name generation ''ok.tmp'')) (\<lambda>file.
     bnd private_file (\<lambda>_. ret file)))"

record ticket =
  tk_version :: version
  tk_file :: nat

text \<open>One candidate: \<open>None\<close> means the loop goes on. The handle is dropped on every path that does.\<close>

definition try_build :: "int \<Rightarrow> ticket option job" where
  "try_build vid =
     bnd (modify (\<lambda>s. s\<lparr>st_scan_cursor := vid\<rparr>)) (\<lambda>_.
     bnd (attempt (load vid)) (\<lambda>r.
       case r of
         Inl _ \<Rightarrow> ret None
       | Inr v \<Rightarrow>
           if \<not> eligible v then ret None
           else
             bnd (version_handle vid) (\<lambda>h.
             let generation = md_generation (vs_meta h);
                 reserved = ticket_reservation (g_length (md_geometry (vs_meta h)));
                 give_up = bnd (attempt (defer_build vid)) (\<lambda>d. bnd (drop_handle h) (\<lambda>_. bnd (lift d) (\<lambda>_. ret None))) in
             bnd (attempt (remove_unpublished generation)) (\<lambda>cleaned.
               if is_err cleaned then give_up
               else bnd (attempt (evict reserved)) (\<lambda>room.
                 if is_err room then give_up
                 else bnd (attempt (prepare_file generation)) (\<lambda>prepared.
                   case prepared of
                     Inl _ \<Rightarrow> give_up
                   | Inr file \<Rightarrow>
                       bnd (attempt (allocated file)) (\<lambda>n.
                         case n of
                           Inl e \<Rightarrow> bnd (drop_handle h) (\<lambda>_. raise e)
                         | Inr n \<Rightarrow>
                             bnd (modify (put_size (data_name generation ''ok.tmp'') (n, md_kind (vs_meta h)))) (\<lambda>_.
                             bnd (modify (\<lambda>s. s\<lparr>st_building := Some \<lparr>bd_id = vid, bd_remaining = reserved\<rparr>\<rparr>)) (\<lambda>_.
                             ret (Some \<lparr>tk_version = h, tk_file = file\<rparr>))))))))))"

fun build_loop :: "int list \<Rightarrow> ticket option job" where
  "build_loop [] = ret None"
| "build_loop (vid # rest) =
     bnd (try_build vid) (\<lambda>r. case r of Some t \<Rightarrow> ret (Some t) | None \<Rightarrow> build_loop rest)"

definition next_build :: "ticket option job" where
  "next_build =
     bnd (gets st_files_enabled) (\<lambda>enabled.
       if \<not> enabled then ret None
       else
         bnd expire_leases (\<lambda>_.
         bnd cleanup_garbage (\<lambda>_.
         bnd cleanup_plain_data (\<lambda>_.
         bnd (ignore (evict 0)) (\<lambda>_.
         bnd (gets (\<lambda>s. (as_i64 (lease_now s), st_scan_cursor s))) (\<lambda>p.
         bnd (query (build_candidates (fst p) (snd p))) (\<lambda>ids.
           if ids = [] then bnd (modify (\<lambda>s. s\<lparr>st_scan_cursor := 0\<rparr>)) (\<lambda>_. ret None)
           else build_loop ids)))))))"

definition check_build :: "int \<Rightarrow> unit job" where
  "check_build vid =
     bnd (gets st_building) (\<lambda>b.
     bnd (require (case b of None \<Rightarrow> False | Some b \<Rightarrow> bd_id b = vid) ''stale file ticket'') (\<lambda>_.
     bnd (query (find_version vid)) (\<lambda>row.
     require (case row of None \<Rightarrow> False | Some r \<Rightarrow> vr_obsolete r = 0) ''file generation retired'')))"

definition copied_block :: "int \<Rightarrow> nat \<Rightarrow> unit job" where
  "copied_block vid n =
     bnd (check_build vid) (\<lambda>_.
     bnd (load vid) (\<lambda>v.
     bnd (modify (put_size (data_name (md_generation (rs_meta v)) ''ok.tmp'') (n, md_kind (rs_meta v)))) (\<lambda>_.
     modify (\<lambda>s. s\<lparr>st_building := map_option (\<lambda>b. b\<lparr>bd_remaining :=
        ticket_reservation (g_length (md_geometry (rs_meta v))) - n\<rparr>) (st_building s)\<rparr>))))"

text \<open>
  One block of the worker's \<^verbatim>\<open>copy_blocks\<close>: the block is read through the storage thread, appended to
  the ticket's file at \<open>len\<close>, and the reservation is updated.
\<close>

definition copy_step :: "ticket \<Rightarrow> nat \<Rightarrow> bytes \<Rightarrow> bytes job" where
  "copy_step t block sofar =
     bnd (check_build (vs_id (tk_version t))) (\<lambda>_.
     bnd (read (vs_id (tk_version t)) block) (\<lambda>r.
     bnd (lift (ok_or r ''conversion block missing'')) (\<lambda>data.
     bnd (write_at (tk_file t) (length sofar) data) (\<lambda>_.
     bnd (allocated (tk_file t)) (\<lambda>n.
     bnd (copied_block (vs_id (tk_version t)) n) (\<lambda>_.
     ret (sofar @ data)))))))"

text \<open>
  \<^verbatim>\<open>copy_blocks\<close> without cancellation: the incremental hasher is the digest of all the bytes fed to it,
  and the file is read back and compared before the digest is returned.
\<close>

definition copy_blocks :: "ticket \<Rightarrow> bytes job" where
  "copy_blocks t =
     bnd (fold_act (copy_step t) [0..<geometry_count (md_geometry (vs_meta (tk_version t)))] []) (\<lambda>data.
     bnd (require (length data = g_length (md_geometry (vs_meta (tk_version t)))) ''conversion length mismatch'') (\<lambda>_.
     bnd sync_file (\<lambda>_.
     bnd (hash_of data) (\<lambda>digest.
     bnd io (\<lambda>_.
     bnd (gets (contents (tk_file t))) (\<lambda>verified.
     bnd (require (length verified \<le> length data) ''file grew during verification'') (\<lambda>_.
     bnd (hash_of verified) (\<lambda>checked.
     bnd (require (length verified = length data \<and> checked = digest) ''file verification failed'') (\<lambda>_.
     ret digest)))))))))"

definition upsert_file :: "int \<Rightarrow> nat \<Rightarrow> bytes \<Rightarrow> db \<Rightarrow> db" where
  "upsert_file vid len digest d =
     (if find_file vid d = None
      then d\<lparr>db_files := db_files d @ [\<lparr>fr_version = vid, fr_ready = 1, fr_length = as_i64 len, fr_digest = digest,
             fr_retry_at = 0, fr_format = 1\<rparr>]\<rparr>
      else d\<lparr>db_files := map (\<lambda>r. if fr_version r = vid
             then r\<lparr>fr_ready := 1, fr_length := as_i64 len, fr_digest := digest, fr_retry_at := 0\<rparr> else r) (db_files d)\<rparr>)"

definition publish_file :: "version \<Rightarrow> bytes \<Rightarrow> unit job" where
  "publish_file h digest =
     (let vid = vs_id h; generation = md_generation (vs_meta h);
          temp = data_name generation ''ok.tmp''; final = data_name generation ''ok'' in
      bnd (check_build vid) (\<lambda>_.
      bnd (gets (is_valid h)) (\<lambda>valid.
      bnd (require valid ''file provider invalidated'') (\<lambda>_.
      bnd (load vid) (\<lambda>v.
      bnd (require (index_full v \<and> \<not> rs_plain v) ''file index not committed'') (\<lambda>_.
      bnd (regular_file temp) (\<lambda>_.
      bnd (open_file temp) (\<lambda>f.
      bnd (gets (\<lambda>s. length (contents f s))) (\<lambda>len.
      bnd (require (len = g_length (md_geometry (vs_meta h))) ''file output size changed'') (\<lambda>_.
      bnd io (\<lambda>_.
      bnd (gets (dirent_of final)) (\<lambda>old.
      bnd (require (old = None) ''file already published'') (\<lambda>_.
      bnd (rename temp final) (\<lambda>_.
      bnd (modify (drop_size temp)) (\<lambda>_.
      bnd (allocated f) (\<lambda>n.
      bnd (modify (put_size final (n, md_kind (vs_meta h)))) (\<lambda>_.
      bnd (modify (\<lambda>s. s\<lparr>st_building := map_option (\<lambda>b. b\<lparr>bd_remaining := 0\<rparr>) (st_building s)\<rparr>)) (\<lambda>_.
      bnd sync_directory (\<lambda>_.
      bnd (open_file final) (\<lambda>file.
      bnd (transaction (exec (upsert_file vid (g_length (md_geometry (vs_meta h))) digest))) (\<lambda>_.
      bnd (get_resident vid) (\<lambda>_.
      bnd (modify (upd_resident vid (\<lambda>v. v\<lparr>rs_file := Some file, rs_plain := True\<rparr>))) (\<lambda>_.
      bnd (modify (\<lambda>s. s\<lparr>st_building := None\<rparr>)) (\<lambda>_.
      ignore cleanup_plain_data))))))))))))))))))))))))"

definition finish_failed :: "int \<Rightarrow> unit job" where
  "finish_failed vid =
     bnd (modify (\<lambda>s. s\<lparr>st_building := None\<rparr>)) (\<lambda>_.
     bnd (defer_build vid) (\<lambda>_.
     bnd (load vid) (\<lambda>v.
     bnd (plain_length vid) (\<lambda>plain.
       if plain \<noteq> None then ret ()
       else for_each [''ok.tmp'', ''ok''] (\<lambda>suffix.
         let name = data_name (md_generation (rs_meta v)) suffix in
         bnd (attempt (bnd (open_file name) allocated)) (\<lambda>n.
         bnd (case n of Inl _ \<Rightarrow> ret () | Inr k \<Rightarrow> modify (put_size name (k, md_kind (rs_meta v)))) (\<lambda>_.
         remove_managed name)))))))"

subsection \<open>Leases\<close>

record local_file =
  lf_path :: string
  lf_generation :: string
  lf_token :: string
  lf_lifetime :: nat

definition protected_bytes :: "int \<Rightarrow> db \<Rightarrow> nat" where
  "protected_bytes vid d =
     as_u64 (sum_list (map fr_length (filter (\<lambda>f. list_ex (\<lambda>l. lr_version l \<noteq> vid \<and> lr_version l = fr_version f) (db_leases d))
       (db_files d))))"

text \<open>\<^verbatim>\<open>regular_file(&path).is_err() || fs::metadata(&path)?.len() != length\<close>\<close>

definition plain_intact :: "string \<Rightarrow> nat \<Rightarrow> bool job" where
  "plain_intact name len =
     bnd (attempt (regular_file name)) (\<lambda>r.
       if is_err r then ret False
       else bnd (open_file name) (\<lambda>f. gets (\<lambda>s. length (contents f s) = len)))"

definition insert_lease :: "string \<Rightarrow> int \<Rightarrow> string \<Rightarrow> unit job" where
  "insert_lease token vid client =
     bnd (gets (\<lambda>s. as_i64 (lease_now s + LEASE_SECONDS))) (\<lambda>t.
     bnd (gets (\<lambda>s. list_ex (\<lambda>l. lr_token l = token) (db_leases (st_db s)))) (\<lambda>clash.
     bnd (require (\<not> clash) ''UNIQUE constraint failed: file_leases.token'') (\<lambda>_.
     exec (\<lambda>d. d\<lparr>db_leases := db_leases d @ [\<lparr>lr_token = token, lr_version = vid, lr_client = client, lr_expires = t\<rparr>]\<rparr>))))"

text \<open>The end of \<^verbatim>\<open>acquire_file\<close>: the limit on the bytes under lease, and the new lease.\<close>

definition lend_file :: "int \<Rightarrow> string \<Rightarrow> string \<Rightarrow> nat \<Rightarrow> local_file option job" where
  "lend_file vid client generation len =
     bnd (query (protected_bytes vid)) (\<lambda>protected.
     bnd (gets (\<lambda>s. min (st_capacity s div 2) (512 * 1024 * 1024))) (\<lambda>limit.
     if limit < sat_add protected len then ret None
     else bnd new_uuid (\<lambda>token.
     bnd persist_clock (\<lambda>_.
     bnd (insert_lease token vid client) (\<lambda>_.
     ret (Some \<lparr>lf_path = data_name generation ''ok'', lf_generation = generation, lf_token = token,
                lf_lifetime = LEASE_SECONDS\<rparr>))))))"

definition acquire_file :: "int \<Rightarrow> string \<Rightarrow> local_file option job" where
  "acquire_file vid client =
     bnd expire_leases (\<lambda>_.
     bnd (gets st_clock_uncertain) (\<lambda>uncertain.
       if uncertain then ret None
       else bnd (plain_length vid) (\<lambda>plain.
       if plain = None then ret None
       else bnd (query (find_version vid)) (\<lambda>row.
       if (case row of None \<Rightarrow> True | Some r \<Rightarrow> vr_obsolete r \<noteq> 0) then ret None
       else bnd (load vid) (\<lambda>v.
       let generation = md_generation (rs_meta v); len = g_length (md_geometry (rs_meta v)) in
       if md_kind (rs_meta v) \<noteq> 0 then ret None
       else bnd (plain_intact (data_name generation ''ok'') len) (\<lambda>intact.
       if \<not> intact then bnd (retire_corrupt vid) (\<lambda>_. raise PLAIN_CORRUPT)
       else bnd (query (\<lambda>d. length (db_leases d))) (\<lambda>count.
       if MAX_LEASES \<le> count then ret None
       else lend_file vid client generation len)))))))"

definition select_lease :: "string \<Rightarrow> string \<Rightarrow> int \<Rightarrow> db \<Rightarrow> int option" where
  "select_lease token client t d =
     map_option lr_version (find (\<lambda>l. lr_token l = token \<and> lr_client l = client \<and> t < lr_expires l
       \<and> (case find_version (lr_version l) d of None \<Rightarrow> False | Some v \<Rightarrow> vr_obsolete v = 0)) (db_leases d))"

definition renew_file :: "string \<Rightarrow> string \<Rightarrow> bool job" where
  "renew_file token client =
     bnd expire_leases (\<lambda>_.
     bnd (gets st_clock_uncertain) (\<lambda>uncertain.
       if uncertain then ret False
       else bnd (gets (\<lambda>s. as_i64 (lease_now s))) (\<lambda>t.
       bnd (query (select_lease token client t)) (\<lambda>row.
         case row of
           None \<Rightarrow> ret False
         | Some vid \<Rightarrow>
             bnd (load vid) (\<lambda>v.
             bnd (plain_intact (data_name (md_generation (rs_meta v)) ''ok'') (g_length (md_geometry (rs_meta v)))) (\<lambda>intact.
               if \<not> intact then bnd (retire_corrupt vid) (\<lambda>_. ret False)
               else
                 bnd persist_clock (\<lambda>_.
                 bnd (gets (\<lambda>s. as_i64 (lease_now s + LEASE_SECONDS))) (\<lambda>t.
                 bnd (exec (\<lambda>d. d\<lparr>db_leases := map (\<lambda>l. if lr_token l = token \<and> lr_client l = client
                        then l\<lparr>lr_expires := t\<rparr> else l) (db_leases d)\<rparr>)) (\<lambda>_.
                 ret True)))))))))"

definition release_file :: "string \<Rightarrow> string \<Rightarrow> unit job" where
  "release_file token client =
     bnd (exec (\<lambda>d. d\<lparr>db_leases := filter (\<lambda>l. \<not> (lr_token l = token \<and> lr_client l = client)) (db_leases d)\<rparr>)) (\<lambda>_.
     evict 0)"

end
