(* ===== verification/Store_Machine.thy ===== *)
theory Store_Machine
  imports Store_Objects Store_Files
begin

section \<open>Start-up, crashes and the storage thread as a state machine\<close>

text \<open>
  \<^verbatim>\<open>Storage::open\<close> and \<^verbatim>\<open>Storage::recover\<close>, and the storage thread: it runs one job after another,
  and between two jobs clients may drop their handles, time passes, other failures may be scheduled, and the
  process may be killed and started again. A restart forgets the memory of the process and an open
  transaction; files and committed rows stay.
\<close>

subsection \<open>Recovery\<close>

fun classify_rows ::
    "(int \<times> metadata option \<times> bool) list \<Rightarrow> int list \<times> (string \<times> int) list
     \<Rightarrow> (int list \<times> (string \<times> int) list) result" where
  "classify_rows [] acc = Inr acc"
| "classify_rows ((vid, None, ready) # rows) acc = Inl ''invalid metadata''"
| "classify_rows ((vid, Some meta, ready) # rows) (invalid, retained) =
     classify_rows rows
       (if valid_generation (md_generation meta)
        then (invalid,
              if md_layout meta = Blocks
              then AList.update (data_name (md_generation meta) (if ready then ''ok'' else ''data''))
                     (md_kind meta) retained
              else retained)
        else (invalid @ [vid], retained))"

definition version_rows :: "db \<Rightarrow> (int \<times> metadata option \<times> bool) list" where
  "version_rows d =
     map (\<lambda>v. (vr_id v, vr_meta v, case find_file (vr_id v) d of None \<Rightarrow> False | Some f \<Rightarrow> fr_ready f = 1))
       (db_versions d)"

definition leased_names :: "db \<Rightarrow> (string \<times> int) list" where
  "leased_names d =
     map (\<lambda>v. (data_name (vr_generation v) ''ok'', vr_kind v))
       (filter (\<lambda>v. list_ex (\<lambda>l. lr_version l = vr_id v) (db_leases d) \<and> valid_generation (vr_generation v))
         (db_versions d))"

definition segment_names :: "db \<Rightarrow> (string \<times> int) list" where
  "segment_names d =
     concat (map (\<lambda>r. case Option.bind (find_version (sr_version r) d) vr_meta of
          None \<Rightarrow> []
        | Some meta \<Rightarrow>
            if \<not> valid_generation (md_generation meta) \<or> segment_bytes (md_layout meta) = None
               \<or> sr_number r < 0 \<or> \<not> valid_generation (sr_token r) then []
            else [(segment_name \<lparr>sg_number = as_u64 (sr_number r), sg_token = sr_token r,
                     sg_length = as_u64 (sr_length r), sg_deleting = False\<rparr> meta, md_kind meta)]) (db_segments d))"

definition add_names :: "(string \<times> int) list \<Rightarrow> (string \<times> int) list \<Rightarrow> (string \<times> int) list" where
  "add_names new retained = fold (\<lambda>(n, k) al. AList.update n k al) new retained"

definition entry_allocated :: "string \<Rightarrow> nat job" where
  "entry_allocated name =
     bnd io (\<lambda>_. gets (\<lambda>s. case dirent_of name s of
        Some (Regular n) \<Rightarrow> min u64_max (e_blocks (st_env s) (contents n s) * 512)
      | _ \<Rightarrow> 0))"

definition recover_entry :: "(string \<times> int) list \<Rightarrow> string \<Rightarrow> unit job" where
  "recover_entry retained name =
     (case map_of retained name of
        Some kind \<Rightarrow> bnd (entry_allocated name) (\<lambda>n. modify (put_size name (n, kind)))
      | None \<Rightarrow>
          if managed_name name then
            bnd (entry_allocated name) (\<lambda>n.
            bnd (modify (put_size name (n, 0))) (\<lambda>_.
            ignore (remove_managed name)))
          else ret ())"

definition recover :: "unit job" where
  "recover =
     bnd (query version_rows) (\<lambda>rows.
     bnd (lift (classify_rows rows ([], []))) (\<lambda>p.
     bnd (query leased_names) (\<lambda>leases.
     let retained = add_names leases (snd p) in
     bnd (for_each (fst p) (\<lambda>vid.
       bnd (exec (set_obsolete (\<lambda>r. vr_id r = vid) 2)) (\<lambda>_. ignore (delete vid)))) (\<lambda>_.
     bnd (query segment_names) (\<lambda>segs.
     bnd (retain_packs (add_names segs retained)) (\<lambda>retained.
     bnd io (\<lambda>_.
     bnd (gets (\<lambda>s. map fst (dk_dir (st_disk s)))) (\<lambda>names.
     bnd (for_each names (recover_entry retained)) (\<lambda>_.
     ignore (evict 0))))))))))"

text \<open>The state a new process finds: what a crash leaves on disk, with the memory of \<^verbatim>\<open>Storage::open\<close>.\<close>

definition boot :: "storage \<Rightarrow> storage" where
  "boot s = s\<lparr>st_db := (case st_tx s of None \<Rightarrow> st_db s | Some d \<Rightarrow> d), st_tx := None, st_elapsed := 0,
     st_versions := [], st_pins := [], st_segment_clock := 0, st_sizes := [], st_building := None,
     st_scan_cursor := 0, st_clock := now_secs s, st_clock_uncertain := False, st_files_enabled := True,
     st_restart_grace := None, st_garbage := [], st_strong := (\<lambda>_. 0), st_valid := (\<lambda>_. False), st_arc_next := 0\<rparr>"

definition open_storage :: "unit job" where
  "open_storage =
     bnd (modify boot) (\<lambda>_.
     bnd restore_segment_clock (\<lambda>_.
     bnd restore_leases (\<lambda>_.
     recover)))"

subsection \<open>Steps\<close>

inductive store_step :: "storage \<Rightarrow> storage \<Rightarrow> bool" where
  step_create: "create meta s = (r, s') \<Longrightarrow> store_step s s'"
| step_lookup: "lookup key s = (r, s') \<Longrightarrow> store_step s s'"
| step_read: "read vid block s = (r, s') \<Longrightarrow> store_step s s'"
| step_write: "write_version vid blocks s = (r, s') \<Longrightarrow> store_step s s'"
| step_complete: "complete vid s = (r, s') \<Longrightarrow> store_step s s'"
| step_covered: "version_covered vid first stop s = (r, s') \<Longrightarrow> store_step s s'"
| step_missing: "missing_range vid first stop s = (r, s') \<Longrightarrow> store_step s s'"
| step_window: "window vid first stop s = (r, s') \<Longrightarrow> store_step s s'"
| step_update: "update vid meta s = (r, s') \<Longrightarrow> store_step s s'"
| step_invalidate: "invalidate provider s = (r, s') \<Longrightarrow> store_step s s'"
| step_retire: "retire vid s = (r, s') \<Longrightarrow> store_step s s'"
| step_get_object: "get_object key s = (r, s') \<Longrightarrow> store_step s s'"
| step_put_object: "store_put_object before after ometa bs s = (r, s') \<Longrightarrow> store_step s s'"
| step_remove_object: "remove_object key s = (r, s') \<Longrightarrow> store_step s s'"
| step_update_object: "update_object ometa s = (r, s') \<Longrightarrow> store_step s s'"
| step_next_build: "next_build s = (r, s') \<Longrightarrow> store_step s s'"
| step_copy: "copy_step t block sofar s = (r, s') \<Longrightarrow> store_step s s'"
| step_publish: "publish_file v digest s = (r, s') \<Longrightarrow> store_step s s'"
| step_failed: "finish_failed vid s = (r, s') \<Longrightarrow> store_step s s'"
| step_acquire: "acquire_file vid client s = (r, s') \<Longrightarrow> store_step s s'"
| step_renew: "renew_file token client s = (r, s') \<Longrightarrow> store_step s s'"
| step_release: "release_file token client s = (r, s') \<Longrightarrow> store_step s s'"
| step_drop: "drop_handle v s = (r, s') \<Longrightarrow> store_step s s'"
| step_drop_pins: "drop_pins pins s = (r, s') \<Longrightarrow> store_step s s'"
| step_faults: "store_step s (s\<lparr>st_faults := fs\<rparr>)"
| step_time: "st_elapsed s \<le> e \<Longrightarrow> store_step s (s\<lparr>st_micros := t, st_elapsed := e\<rparr>)"
| step_sqlite: "store_step s (s\<lparr>st_sqlite_files := sizes\<rparr>)"
| step_restart: "open_storage s = (r, s') \<Longrightarrow> store_step s s'"

inductive store_reachable :: "storage \<Rightarrow> storage \<Rightarrow> bool" for s0 where
  reach_start: "store_reachable s0 s0"
| reach_step: "store_reachable s0 s \<Longrightarrow> store_step s s' \<Longrightarrow> store_reachable s0 s'"

lemma store_reachable_inv:
  assumes "store_reachable s0 s" and "I s0" and "\<And>s s'. I s \<Longrightarrow> store_step s s' \<Longrightarrow> I s'"
  shows "I s"
  using assms by (induction rule: store_reachable.induct) auto

end
