(* ===== verification/Store_Tables.thy ===== *)
theory Store_Tables
  imports Store_Machine
begin

section \<open>Invariants of the tables under every failure\<close>

text \<open>
  Which conditions on the tables every job keeps, whatever fails inside it and wherever the process is
  killed. The interface \<open>db_base\<close> names the effects that the SQL statements of eviction and of loading a
  version have on the tables, \<open>db_contract\<close> adds those of the other jobs; their lemmas carry a condition that
  survives the effects through the jobs, and each condition is one interpretation.
\<close>

subsection \<open>Steps that do not touch the database\<close>

lemma db_inv_same:
  assumes "\<And>s r s'. m s = (r, s') \<Longrightarrow> st_db s' = st_db s \<and> st_tx s' = st_tx s"
  shows "keeps (db_inv P) m"
  by (rule keepsI) (use assms in \<open>simp add: db_inv_def\<close>)

lemma db_inv_put_contents [simp]: "db_inv P (put_contents n bs s) = db_inv P s"
  by (simp add: put_contents_def db_inv_def)

lemma db_inv_write_at [keeps_intros]: "keeps (db_inv P) (write_at n at new)"
  by (rule db_inv_same) (auto simp: write_at_def put_contents_def Let_def split: list.splits option.splits)

lemma db_inv_modifies [keeps_intros]:
  "keeps (db_inv P) (modify (put_resident vid v))"
  "keeps (db_inv P) (modify (upd_resident vid f))"
  "keeps (db_inv P) (modify (drop_resident vid))"
  "keeps (db_inv P) (modify (put_size name p))"
  "keeps (db_inv P) (modify (drop_size name))"
  "keeps (db_inv P) (modify (unlink name))"
  "keeps (db_inv P) (modify (retain_arc a))"
  "keeps (db_inv P) (modify (release_arc a))"
  "keeps (db_inv P) (modify (invalidate_handles provider))"
  by (rule db_inv_modify; simp add: put_resident_def upd_resident_def drop_resident_def put_size_def
      drop_size_def unlink_def retain_arc_def release_arc_def invalidate_handles_def)+

lemma db_inv_drop_pins [keeps_intros]: "keeps (db_inv P) (drop_pins pins)"
proof -
  have "st_db (fold release_arc pins s) = st_db s \<and> st_tx (fold release_arc pins s) = st_tx s" for s
    by (induction pins arbitrary: s) (auto simp: release_arc_def)
  then show ?thesis unfolding drop_pins_def by (rule db_inv_modify)
qed

lemma db_inv_case_dirent [keeps_intros]:
  "(\<And>n. keeps I (f n)) \<Longrightarrow> keeps I m \<Longrightarrow> keeps I (case d of Regular n \<Rightarrow> f n | Irregular \<Rightarrow> m)"
  by (cases d) simp_all

lemma db_inv_system_calls [keeps_intros]:
  "keeps (db_inv P) (regular_file name)"
  "keeps (db_inv P) (open_file name)"
  "keeps (db_inv P) (create_new name)"
  "keeps (db_inv P) (read_exact_at n at len)"
  "keeps (db_inv P) (file_len n)"
  "keeps (db_inv P) (set_len n len)"
  "keeps (db_inv P) (allocated n)"
  "keeps (db_inv P) private_file"
  "keeps (db_inv P) sync_file"
  "keeps (db_inv P) sync_directory"
  "keeps (db_inv P) (remove_file name)"
  "keeps (db_inv P) (rename name name')"
  "keeps (db_inv P) new_uuid"
  "keeps (db_inv P) (hash_of data)"
  "keeps (db_inv P) usage"
  "keeps (db_inv P) (get_resident vid)"
  unfolding regular_file_def open_file_def create_new_def read_exact_at_def file_len_def set_len_def
    allocated_def private_file_def sync_file_def sync_directory_def remove_file_def rename_def new_uuid_def
    hash_of_def usage_def get_resident_def
  by (intro keeps_intros db_inv_modify; simp add: put_contents_def)+

lemma db_inv_segment_calls [keeps_intros]:
  "keeps (db_inv P) (segment_header g meta)"
  "keeps (db_inv P) (segment_of vid number)"
  "keeps (db_inv P) (plain_length vid)"
  "keeps (db_inv P) (check_active vid)"
  "keeps (db_inv P) segment_tick"
  "keeps (db_inv P) restore_segment_clock"
  "keeps (db_inv P) new_arc"
  unfolding segment_header_def segment_of_def plain_length_def check_active_def segment_tick_def
    restore_segment_clock_def new_arc_def
  by (intro keeps_intros db_inv_modify; simp)+

lemma db_inv_remove_managed [keeps_intros]: "keeps (db_inv P) (remove_managed name)"
  unfolding remove_managed_def by (intro keeps_intros db_inv_modify; simp)

lemma db_inv_segment_file [keeps_intros]: "keeps (db_inv P) (segment_file meta g)"
  unfolding segment_file_def by (intro keeps_intros)

lemma db_inv_segment_is_valid [keeps_intros]: "keeps (db_inv P) (segment_is_valid vid meta number)"
  unfolding segment_is_valid_def by (intro keeps_intros)

lemma db_inv_upgrade_or [keeps_intros]: "keeps (db_inv P) (upgrade_or w)"
  unfolding upgrade_or_def by (intro keeps_intros)

lemma db_inv_drop_handle [keeps_intros]: "keeps (db_inv P) (drop_handle v)"
  unfolding drop_handle_def by (intro keeps_intros)

lemma db_inv_pin_segments [keeps_intros]: "keeps (db_inv P) (pin_segments vid numbers)"
  unfolding pin_segments_def pin_segment_def by (intro keeps_intros db_inv_modify; simp)

lemma db_inv_read_verified [keeps_intros]: "keeps (db_inv P) (read_verified file at len digest)"
  unfolding read_verified_def by (intro keeps_intros)

subsection \<open>The effects of the statements\<close>

definition add_version :: "version_row \<Rightarrow> db \<Rightarrow> db" where
  "add_version r d = d\<lparr>db_versions := db_versions d @ [r]\<rparr>"

definition add_pack :: "pack_row \<Rightarrow> db \<Rightarrow> db" where
  "add_pack r d = d\<lparr>db_packs := db_packs d @ [r]\<rparr>"

definition add_lease :: "lease_row \<Rightarrow> db \<Rightarrow> db" where
  "add_lease l d = d\<lparr>db_leases := db_leases d @ [l]\<rparr>"

definition version_row_of :: "metadata \<Rightarrow> bytes \<Rightarrow> storage \<Rightarrow> version_row" where
  "version_row_of meta blocks s =
     \<lparr>vr_id = insert_id (st_db s), vr_key = md_key meta, vr_provider = md_provider meta, vr_kind = md_kind meta,
      vr_generation = md_generation meta, vr_meta = Some meta, vr_blocks = blocks,
      vr_last_use = as_i64 (now_secs s), vr_obsolete = 0\<rparr>"

lemma insert_version_eq:
  "insert_version meta blocks s =
     (if list_ex (\<lambda>r. vr_generation r = md_generation meta) (db_versions (st_db s))
      then (Inl ''UNIQUE constraint failed: versions.generation'', s)
      else (case io s of
              (Inl e, s1) \<Rightarrow> (Inl e, s1)
            | (Inr _, s1) \<Rightarrow>
                (Inr (insert_id (st_db s)), s1\<lparr>st_db := add_version (version_row_of meta blocks s) (st_db s1)\<rparr>)))"
  by (simp add: insert_version_def exec_def bnd_def act_simps add_version_def version_row_of_def
      split: sum.split prod.split)

lemma io_db: "io s = (r, s') \<Longrightarrow> st_db s' = st_db s \<and> st_tx s' = st_tx s"
  by (auto simp: io_def split: list.splits)

lemma exec_InrD:
  assumes "exec f s = (Inr u, s')"
  shows "st_db s' = f (st_db s)"
proof -
  obtain o1 s1 where io: "io s = (o1, s1)" by fastforce
  with assms show ?thesis using io_db [OF io] by (cases o1) (auto simp: exec_def bnd_def act_simps)
qed

lemma active_ids_retired: "active_ids key (set_obsolete (\<lambda>r. vr_key r = key \<and> vr_obsolete r = 0) 1 d) = []"
  by (simp add: active_ids_def set_obsolete_def upd_versions_def filter_map o_def)

text \<open>Between counting the leases and inserting one, \<^verbatim>\<open>acquire_file\<close> does not change their number.\<close>

definition lease_room :: "storage \<Rightarrow> bool" where
  "lease_room s \<longleftrightarrow> length (db_leases (st_db s)) < MAX_LEASES"

lemma lease_room_io: "keeps lease_room io"
  by (rule keepsI) (auto simp: lease_room_def dest: io_db)

lemma lease_room_persist: "keeps lease_room persist_clock"
  unfolding persist_clock_def exec_def
  by (intro keeps_intros lease_room_io keeps_modify) (simp add: lease_room_def)

lemma lease_room_query: "keeps lease_room (query q)"
  unfolding query_def by (intro keeps_intros lease_room_io)

lemma lease_room_new_uuid: "keeps lease_room new_uuid"
  unfolding new_uuid_def by (intro keeps_intros keeps_modify) (simp add: lease_room_def)

lemma insert_lease_eq:
  "insert_lease token vid client s =
     (if list_ex (\<lambda>l. lr_token l = token) (db_leases (st_db s))
      then (Inl ''UNIQUE constraint failed: file_leases.token'', s)
      else exec (add_lease \<lparr>lr_token = token, lr_version = vid, lr_client = client,
                   lr_expires = as_i64 (lease_now s + LEASE_SECONDS)\<rparr>) s)"
  by (simp add: insert_lease_def bnd_def act_simps add_lease_def [abs_def])

locale db_base =
  fixes P :: "db \<Rightarrow> bool"
  assumes segments_mark:
      "P d \<Longrightarrow> P (d\<lparr>db_segments := map (\<lambda>r. if sp r then r\<lparr>sr_deleting := 1\<rparr> else r) (db_segments d)\<rparr>)"
    and segments_delete: "P d \<Longrightarrow> P (d\<lparr>db_segments := filter sp (db_segments d)\<rparr>)"
    and files_delete: "P d \<Longrightarrow> P (d\<lparr>db_files := filter fp (db_files d)\<rparr>)"
    and packs_mark: "P d \<Longrightarrow> P (d\<lparr>db_packs := map (\<lambda>r. if pp r then r\<lparr>pr_deleting := 1\<rparr> else r) (db_packs d)\<rparr>)"
    and packs_delete: "P d \<Longrightarrow> P (d\<lparr>db_packs := filter pp (db_packs d)\<rparr>)"
    and objects_delete: "P d \<Longrightarrow> P (d\<lparr>db_objects := filter op (db_objects d)\<rparr>)"
    and clock_any: "P d \<Longrightarrow> P (d\<lparr>db_clock := clock\<rparr>)"
    and versions_touch: "P d \<Longrightarrow> P (upd_versions p (\<lambda>r. r\<lparr>vr_last_use := t\<rparr>) d)"
    and versions_meta: "P d \<Longrightarrow> P (upd_versions p (\<lambda>r. r\<lparr>vr_meta := meta\<rparr>) d)"
    and versions_patch: "P d \<Longrightarrow> P (patch_blob vid bs rg d)"
    and versions_obsolete: "P d \<Longrightarrow> n \<noteq> 0 \<Longrightarrow> P (set_obsolete p n d)"
    and leases_delete: "P d \<Longrightarrow> P (d\<lparr>db_leases := filter lp (db_leases d)\<rparr>)"
begin

lemma exec_rows:
  "keeps (db_inv P) (exec (\<lambda>d. d\<lparr>db_segments := map (\<lambda>r. if sp r then r\<lparr>sr_deleting := 1\<rparr> else r) (db_segments d)\<rparr>))"
  "keeps (db_inv P) (exec (\<lambda>d. d\<lparr>db_segments := filter sp (db_segments d)\<rparr>))"
  "keeps (db_inv P) (exec (\<lambda>d. d\<lparr>db_files := filter fp (db_files d)\<rparr>))"
  "keeps (db_inv P) (exec (\<lambda>d. d\<lparr>db_packs := map (\<lambda>r. if pp r then r\<lparr>pr_deleting := 1\<rparr> else r) (db_packs d)\<rparr>))"
  "keeps (db_inv P) (exec (\<lambda>d. d\<lparr>db_packs := filter pp (db_packs d)\<rparr>))"
  "keeps (db_inv P) (exec (\<lambda>d. d\<lparr>db_objects := filter op (db_objects d)\<rparr>))"
  by (rule db_inv_exec; (rule segments_mark segments_delete files_delete packs_mark packs_delete objects_delete;
      assumption))+

lemma exec_clock: "keeps (db_inv P) (exec (\<lambda>d. d\<lparr>db_clock := f d\<rparr>))"
  by (rule db_inv_exec) (rule clock_any)

lemma exec_leases_delete: "keeps (db_inv P) (exec (\<lambda>d. d\<lparr>db_leases := filter q (db_leases d)\<rparr>))"
  by (rule db_inv_exec) (rule leases_delete)

lemma exec_obsolete: "n \<noteq> 0 \<Longrightarrow> keeps (db_inv P) (exec (set_obsolete p n))"
  by (rule db_inv_exec) (rule versions_obsolete)

lemma exec_touch: "keeps (db_inv P) (exec (upd_versions p (\<lambda>r. r\<lparr>vr_last_use := t\<rparr>)))"
  by (rule db_inv_exec) (rule versions_touch)

lemma exec_meta: "keeps (db_inv P) (exec (upd_versions p (\<lambda>r. r\<lparr>vr_meta := meta\<rparr>)))"
  by (rule db_inv_exec) (rule versions_meta)

lemma patch: "keeps (db_inv P) (db_patch vid bs ranges)"
  by (rule db_inv_patch) (rule versions_patch)

lemmas sql = exec_rows exec_clock exec_leases_delete
  exec_touch exec_meta patch

subsubsection \<open>Versions and segments\<close>

lemma expire: "keeps (db_inv P) expire_leases"
  unfolding expire_leases_def by (intro keeps_intros sql db_inv_modify; simp)

lemma external: "keeps (db_inv P) (externally_pinned vid)"
  unfolding externally_pinned_def by (intro keeps_intros expire)

lemma persist: "keeps (db_inv P) persist_clock"
  unfolding persist_clock_def by (intro keeps_intros sql)

lemma commits: "keeps (db_inv P) (commit vid)"
  unfolding commit_def Let_def by (intro keeps_intros sql)

lemma reserve: "keeps (db_inv P) (reserve_index required)"
  by (rule keeps_reserve_index [OF commits]) (simp add: db_inv_def drop_resident_def)

lemma publish_segment: "keeps (db_inv P) op \<Longrightarrow> keeps (db_inv P) (publish_segment_index vid ix op)"
  unfolding publish_segment_index_def Let_def by (intro keeps_intros sql)

lemma remove_resident: "keeps (db_inv P) (remove_segment_resident vid number)"
  unfolding remove_segment_resident_def Let_def by (intro keeps_intros sql publish_segment)

lemma repair: "keeps (db_inv P) (repair_resident vid)"
  unfolding repair_resident_def Let_def by (intro keeps_intros remove_resident)

lemma loads: "keeps (db_inv P) (load vid)"
  unfolding load_def load_segmented_def load_blocks_def Let_def
  by (intro keeps_intros reserve repair)

lemma repair_all: "keeps (db_inv P) (repair_segments vid)"
  unfolding repair_segments_def by (intro keeps_intros loads repair)

lemma removes: "keeps (db_inv P) (remove_segment vid number)"
  unfolding remove_segment_def by (intro keeps_intros loads remove_resident)

lemma handle: "keeps (db_inv P) (version_handle vid)"
  unfolding version_handle_def by (intro keeps_intros loads db_inv_modify; simp)

subsubsection \<open>Eviction\<close>

lemma delete_pack_keeps: "keeps (db_inv P) (delete_pack token)"
  unfolding delete_pack_def by (intro keeps_intros sql)

lemma evict_packs_loop_keeps: "keeps (db_inv P) (evict_packs_loop required packs)"
  by (induction required packs rule: evict_packs_loop.induct)
    (simp_all add: keeps_intros delete_pack_keeps)

lemma evict_packs_keeps: "keeps (db_inv P) (evict_packs required)"
  unfolding evict_packs_def by (intro keeps_intros evict_packs_loop_keeps)

lemma evict_segments_keeps: "keeps (db_inv P) (evict_segments required)"
  unfolding evict_segments_def by (intro keeps_intros removes)

lemma delete_with:
  assumes "\<And>d. P d \<Longrightarrow> P (d\<lparr>db_versions := filter (\<lambda>r. vr_id r \<noteq> vid) (db_versions d)\<rparr>)"
  shows "keeps (db_inv P) (delete vid)"
proof -
  have rows: "keeps (db_inv P) (exec (\<lambda>d. d\<lparr>db_versions := filter (\<lambda>r. vr_id r \<noteq> vid) (db_versions d)\<rparr>))"
    by (rule db_inv_exec) (rule assms)
  show ?thesis
    unfolding delete_def delete_unpinned_def delete_all_segments_def delete_rows_def
    by (intro keeps_intros external removes sql rows exec_obsolete) simp
qed

end

locale db_contract = db_base +
  assumes versions_delete: "P d \<Longrightarrow> P (d\<lparr>db_versions := filter p (db_versions d)\<rparr>)"
    and versions_insert: "P d \<Longrightarrow> active_ids (vr_key r) d = [] \<Longrightarrow> vr_id r = insert_id d \<Longrightarrow>
          vr_generation r \<notin> vr_generation ` set (db_versions d) \<Longrightarrow> vr_obsolete r = 0 \<Longrightarrow> P (add_version r d)"
    and segments_touch:
      "P d \<Longrightarrow> P (d\<lparr>db_segments := map (\<lambda>r. if sp r then r\<lparr>sr_last_use := t\<rparr> else r) (db_segments d)\<rparr>)"
    and segments_upsert: "P d \<Longrightarrow> P (upsert_segment vid touched g d)"
    and files_defer: "P d \<Longrightarrow> P (defer_file vid t d)"
    and files_ready: "P d \<Longrightarrow> P (upsert_file vid len digest d)"
    and packs_touch: "P d \<Longrightarrow> P (d\<lparr>db_packs := map (\<lambda>r. if pp r then r\<lparr>pr_last_use := t\<rparr> else r) (db_packs d)\<rparr>)"
    and packs_length: "P d \<Longrightarrow> P (set_pack_length token t t' d)"
    and packs_insert: "P d \<Longrightarrow> pr_token pk \<notin> pr_token ` set (db_packs d) \<Longrightarrow> P (add_pack pk d)"
    and objects_insert: "P d \<Longrightarrow> P (insert_object ob d)"
    and objects_meta: "P d \<Longrightarrow> P (d\<lparr>db_objects := map (\<lambda>r. if op r then r\<lparr>or_meta := m\<rparr> else r) (db_objects d)\<rparr>)"
    and leases_renew: "P d \<Longrightarrow> P (d\<lparr>db_leases := map (\<lambda>l. if lp l then l\<lparr>lr_expires := t\<rparr> else l) (db_leases d)\<rparr>)"
    and leases_insert: "P d \<Longrightarrow> length (db_leases d) < MAX_LEASES \<Longrightarrow>
          lr_token l \<notin> lr_token ` set (db_leases d) \<Longrightarrow> P (add_lease l d)"
begin

lemma exec_more:
  "keeps (db_inv P) (exec (\<lambda>d. d\<lparr>db_segments := map (\<lambda>r. if sp r then r\<lparr>sr_last_use := t\<rparr> else r) (db_segments d)\<rparr>))"
  "keeps (db_inv P) (exec (upsert_segment vid touched g))"
  "keeps (db_inv P) (exec (defer_file vid t))"
  "keeps (db_inv P) (exec (upsert_file vid len digest))"
  "keeps (db_inv P) (exec (\<lambda>d. d\<lparr>db_packs := map (\<lambda>r. if pp r then r\<lparr>pr_last_use := t\<rparr> else r) (db_packs d)\<rparr>))"
  "keeps (db_inv P) (exec (set_pack_length token t t'))"
  "keeps (db_inv P) (exec (insert_object ob))"
  "keeps (db_inv P) (exec (\<lambda>d. d\<lparr>db_objects := map (\<lambda>r. if op r then r\<lparr>or_meta := m\<rparr> else r) (db_objects d)\<rparr>))"
  by (rule db_inv_exec; (rule segments_touch segments_upsert files_defer files_ready packs_touch packs_length
      objects_insert objects_meta; assumption))+

lemma insert_pack_keeps: "keeps (db_inv P) (insert_pack token meta)"
proof (rule keepsI)
  fix s r s'
  assume inv: "db_inv P s" and run: "insert_pack token meta s = (r, s')"
  let ?pk = "\<lparr>pr_token = token, pr_group = om_group meta, pr_provider = om_provider meta,
    pr_length = int PACK_HEADER, pr_last_use = 0, pr_deleting = 0\<rparr>"
  have eq: "insert_pack token meta s =
      (if find_pack token (st_db s) = None then exec (add_pack ?pk) s
       else (Inl ''UNIQUE constraint failed: packs.token'', s))"
    by (simp add: insert_pack_def bnd_def act_simps add_pack_def [abs_def])
  show "db_inv P s'"
  proof (cases "find_pack token (st_db s) = None")
    case False
    with run eq inv show ?thesis by simp
  next
    case True
    then have "pr_token ?pk \<notin> pr_token ` set (db_packs (st_db s))"
      by (auto simp: find_pack_def find_None_iff)
    with inv have "P (add_pack ?pk (st_db s))" by (intro packs_insert) (simp_all add: db_inv_def)
    moreover obtain o1 s1 where io: "io s = (o1, s1)" by fastforce
    ultimately show ?thesis
      using run eq inv True io_db [OF io] by (cases o1) (auto simp: exec_def bnd_def act_simps db_inv_def io)
  qed
qed

lemma exec_leases_renew:
  "keeps (db_inv P) (exec (\<lambda>d. d\<lparr>db_leases := map (\<lambda>l. if q l then l\<lparr>lr_expires := t\<rparr> else l) (db_leases d)\<rparr>))"
  by (rule db_inv_exec) (rule leases_renew)

lemma delete_keeps: "keeps (db_inv P) (delete vid)"
  by (rule delete_with) (rule versions_delete)

lemma evict_keeps: "keeps (db_inv P) (evict required)"
  unfolding evict_def evict_step_def
  by (intro keeps_intros evict_packs_keeps evict_segments_keeps delete_keeps)

subsubsection \<open>Creating, reading and writing\<close>

lemma insert_version_keeps:
  "triple (\<lambda>s. db_inv P s \<and> active_ids (md_key meta) (st_db s) = []) (insert_version meta blocks)
     (\<lambda>_. db_inv P) (db_inv P)"
proof -
  have "db_inv P s'"
    if pre: "db_inv P s" "active_ids (md_key meta) (st_db s) = []"
      and run: "insert_version meta blocks s = (r, s')" for s r s'
  proof -
    obtain o1 s1 where io: "io s = (o1, s1)" by fastforce
    have db: "st_db s1 = st_db s" and tx: "st_tx s1 = st_tx s" using io_db [OF io] by simp_all
    show ?thesis
    proof (cases "list_ex (\<lambda>r. vr_generation r = md_generation meta) (db_versions (st_db s))")
      case True
      then show ?thesis using pre run by (simp add: insert_version_eq)
    next
      case False
      then have "vr_generation (version_row_of meta blocks s) \<notin> vr_generation ` set (db_versions (st_db s))"
        by (auto simp: list_ex_iff version_row_of_def)
      with pre have "P (add_version (version_row_of meta blocks s) (st_db s))"
        by (intro versions_insert) (simp_all add: db_inv_def version_row_of_def)
      with False pre run io db tx show ?thesis
        by (cases o1) (auto simp: insert_version_eq db_inv_def)
    qed
  qed
  then show ?thesis by (blast intro: tripleI)
qed

lemma retire_key:
  "triple (db_inv P) (exec (set_obsolete (\<lambda>r. vr_key r = key \<and> vr_obsolete r = 0) 1))
     (\<lambda>_ s. db_inv P s \<and> active_ids key (st_db s) = []) (db_inv P)"
proof -
  have retire: "keeps (db_inv P) (exec (set_obsolete (\<lambda>r. vr_key r = key \<and> vr_obsolete r = 0) 1))"
    by (rule exec_obsolete) simp
  show ?thesis
  proof (rule tripleI)
  fix s u s'
  assume inv: "db_inv P s" and run: "exec (set_obsolete (\<lambda>r. vr_key r = key \<and> vr_obsolete r = 0) 1) s = (Inr u, s')"
  have "db_inv P s'" using retire inv run by (rule keepsD)
  moreover have "active_ids key (st_db s') = []"
    unfolding exec_InrD [OF run] by (rule active_ids_retired)
  ultimately show "db_inv P s' \<and> active_ids key (st_db s') = []" ..
next
  fix s e s'
  assume inv: "db_inv P s" and run: "exec (set_obsolete (\<lambda>r. vr_key r = key \<and> vr_obsolete r = 0) 1) s = (Inl e, s')"
  show "db_inv P s'" using retire inv run by (rule keepsD)
qed
qed

lemma replace_version:
  "keeps (db_inv P) (bnd (exec (set_obsolete (\<lambda>r. vr_key r = md_key meta \<and> vr_obsolete r = 0) 1)) (\<lambda>_.
     bnd (insert_version meta blocks) (\<lambda>vid. bnd commit_tx (\<lambda>_. ret vid))))"
  unfolding keeps_triple
proof (rule triple_bnd [OF retire_key])
  show "triple (\<lambda>s. db_inv P s \<and> active_ids (md_key meta) (st_db s) = [])
      (bnd (insert_version meta blocks) (\<lambda>vid. bnd commit_tx (\<lambda>_. ret vid))) (\<lambda>_. db_inv P) (db_inv P)" for u
    by (rule triple_bnd [OF insert_version_keeps]) (intro keeps_triple [THEN iffD1] keeps_intros)
qed

lemma create_keeps: "keeps (db_inv P) (create meta)"
  unfolding create_def create_layout_def create_data_file_def Let_def
  by (intro keeps_intros reserve evict_keeps replace_version handle)

lemma lookup_keeps: "keeps (db_inv P) (lookup key)"
  unfolding lookup_def by (intro keeps_intros handle delete_keeps sql)

lemma retire_corrupt_keeps: "keeps (db_inv P) (retire_corrupt vid)"
  unfolding retire_corrupt_def
  by (intro keeps_intros exec_obsolete db_inv_modify) (auto split: option.splits)

lemma read_keeps: "keeps (db_inv P) (read vid block)"
  unfolding read_def read_segment_def read_block_def Let_def
  by (intro keeps_intros loads removes publish_segment retire_corrupt_keeps commits exec_more)

lemma write_data_keeps: "keeps (db_inv P) (write_data vid blocks)"
  unfolding write_data_def append_block_def set_resident_block_def Let_def
  by (intro keeps_intros loads evict_keeps commits)

lemma write_groups_keeps: "keeps (db_inv P) (write_groups vid meta sz groups ix written created)"
  by (induction vid meta sz groups ix written created rule: write_groups.induct)
    (simp_all add: Let_def choose_segment_def write_group_def open_segment_def write_segment_block_def
      keeps_intros removes)

lemma write_segments_keeps: "keeps (db_inv P) (write_segments vid blocks)"
  unfolding write_segments_def publish_groups_def check_blocks_def Let_def
  by (intro keeps_intros repair_all evict_keeps write_groups_keeps publish_segment exec_more)

lemma write_keeps: "keeps (db_inv P) (write_version vid blocks)"
  unfolding write_version_def Let_def by (intro keeps_intros loads write_data_keeps write_segments_keeps)

lemma query_keeps:
  "keeps (db_inv P) (complete vid)" "keeps (db_inv P) (version_covered vid first stop)"
  "keeps (db_inv P) (missing_range vid first stop)" "keeps (db_inv P) (window vid first stop)"
  unfolding complete_def version_covered_def missing_range_def window_def Let_def
  by (intro keeps_intros repair_all loads)+

lemma update_keeps: "keeps (db_inv P) (update vid meta)"
  unfolding update_def by (intro keeps_intros sql loads)

lemma invalidate_keeps: "keeps (db_inv P) (invalidate provider)"
  unfolding invalidate_def invalidate_packs_def
  by (intro keeps_intros delete_pack_keeps exec_obsolete evict_keeps) simp

lemma retire_keeps: "keeps (db_inv P) (retire vid)"
  unfolding retire_def by (rule exec_obsolete) simp

subsubsection \<open>Objects\<close>

lemma put_object_keeps: "keeps (db_inv P) (put_object meta bs)"
  unfolding put_object_def choose_pack_def create_pack_def append_object_def Let_def
  by (intro keeps_intros evict_keeps insert_pack_keeps exec_more)

lemma object_keeps:
  "keeps (db_inv P) (store_put_object before after meta bs)" "keeps (db_inv P) (remove_object key)"
  "keeps (db_inv P) (update_object meta)" "keeps (db_inv P) (get_object key)"
  unfolding store_put_object_def remove_object_def update_object_def get_object_def object_bytes_def Let_def
  by (intro keeps_intros sql exec_more put_object_keeps)+

lemma retain_packs_keeps: "keeps (db_inv P) (retain_packs retained)"
  unfolding retain_packs_def retain_pack_def check_pack_def by (intro keeps_intros delete_pack_keeps sql)

subsubsection \<open>Complete files and leases\<close>

lemma defer_keeps: "keeps (db_inv P) (defer_build vid)"
  unfolding defer_build_def by (intro keeps_intros exec_more)

lemma cleanup_keeps: "keeps (db_inv P) cleanup_garbage" "keeps (db_inv P) cleanup_plain_data"
  unfolding cleanup_garbage_def cleanup_plain_data_def by (intro keeps_intros)+

lemma try_build_keeps: "keeps (db_inv P) (try_build vid)"
  unfolding try_build_def remove_unpublished_def prepare_file_def Let_def
  by (intro keeps_intros loads handle defer_keeps evict_keeps db_inv_modify; simp)

lemma build_loop_keeps: "keeps (db_inv P) (build_loop ids)"
  by (induction ids rule: build_loop.induct) (simp_all add: keeps_intros try_build_keeps)

lemma next_build_keeps: "keeps (db_inv P) next_build"
  unfolding next_build_def
  by (intro keeps_intros expire cleanup_keeps evict_keeps build_loop_keeps db_inv_modify; simp)

lemma copy_keeps: "keeps (db_inv P) (copy_step t block sofar)"
  unfolding copy_step_def check_build_def copied_block_def
  by (intro keeps_intros loads read_keeps db_inv_modify; simp)

lemma publish_keeps: "keeps (db_inv P) (publish_file v digest)"
  unfolding publish_file_def check_build_def Let_def
  by (intro keeps_intros loads exec_more cleanup_keeps db_inv_modify; simp)

lemma failed_keeps: "keeps (db_inv P) (finish_failed vid)"
  unfolding finish_failed_def Let_def
  by (intro keeps_intros loads defer_keeps db_inv_modify; simp)

lemma insert_lease_triple:
  "triple (\<lambda>s. db_inv P s \<and> lease_room s) (insert_lease token vid client) (\<lambda>_. db_inv P) (db_inv P)"
proof -
  have "db_inv P s'"
    if pre: "db_inv P s" "lease_room s" and run: "insert_lease token vid client s = (r, s')" for s r s'
  proof (cases "list_ex (\<lambda>l. lr_token l = token) (db_leases (st_db s))")
    case True
    then show ?thesis using pre run by (simp add: insert_lease_eq)
  next
    case False
    obtain o1 s1 where io: "io s = (o1, s1)" by fastforce
    note same = io_db [OF io]
    let ?l = "\<lparr>lr_token = token, lr_version = vid, lr_client = client,
      lr_expires = as_i64 (lease_now s + LEASE_SECONDS)\<rparr>"
    have "lr_token ?l \<notin> lr_token ` set (db_leases (st_db s))" using False by (auto simp: list_ex_iff)
    with pre have "P (add_lease ?l (st_db s))"
      by (intro leases_insert) (simp_all add: db_inv_def lease_room_def)
    with False pre run io same show ?thesis
      by (cases o1) (auto simp: insert_lease_eq exec_def bnd_def act_simps db_inv_def)
  qed
  then show ?thesis by (blast intro: tripleI)
qed

lemma lend_triple:
  "triple (\<lambda>s. db_inv P s \<and> lease_room s) (lend_file vid client generation len) (\<lambda>_. db_inv P) (db_inv P)"
proof -
  let ?J = "\<lambda>s. db_inv P s \<and> lease_room s"
  have step: "triple ?J m (\<lambda>_. ?J) (db_inv P)"
    if "keeps (db_inv P) m" "keeps lease_room m" for m :: "'x job"
    by (rule triple_conseq [OF keeps_conj [OF that, unfolded keeps_triple]]) simp_all
  have finish: "triple ?J (ret x) (\<lambda>_. db_inv P) (db_inv P)" for x :: 'y
    by (simp add: triple_def act_simps)
  have lend: "triple ?J (bnd (insert_lease token vid client) (\<lambda>_. ret y)) (\<lambda>_. db_inv P) (db_inv P)"
    for token and y :: 'y
    by (rule triple_bnd [OF insert_lease_triple]) (simp add: triple_def act_simps)
  show ?thesis
    unfolding lend_file_def
    by (intro triple_bnd [OF step] triple_if finish lend keeps_intros lease_room_query lease_room_new_uuid
        lease_room_persist persist)
qed

lemma acquire_keeps: "keeps (db_inv P) (acquire_file vid client)"
proof -
  have count: "triple (db_inv P) (query (\<lambda>d. length (db_leases d)))
      (\<lambda>n s. db_inv P s \<and> length (db_leases (st_db s)) = n) (db_inv P)"
  proof (rule tripleI)
    fix s n s'
    assume inv: "db_inv P s" and run: "query (\<lambda>d. length (db_leases d)) s = (Inr n, s')"
    from run have "length (db_leases (st_db s')) = n" by (auto simp: query_def elim!: bnd_InrE)
    with keepsD [OF db_inv_query inv run] show "db_inv P s' \<and> length (db_leases (st_db s')) = n" ..
  next
    fix s e s'
    assume inv: "db_inv P s" and run: "query (\<lambda>d. length (db_leases d)) s = (Inl e, s')"
    show "db_inv P s'" using db_inv_query inv run by (rule keepsD)
  qed
  have lend: "keeps (db_inv P) (bnd (query (\<lambda>d. length (db_leases d))) (\<lambda>n.
      if MAX_LEASES \<le> n then ret None else lend_file vid client generation len))" for generation len
    unfolding keeps_triple
  proof (rule triple_bnd [OF count])
    fix n
    show "triple (\<lambda>s. db_inv P s \<and> length (db_leases (st_db s)) = n)
        (if MAX_LEASES \<le> n then ret None else lend_file vid client generation len) (\<lambda>_. db_inv P) (db_inv P)"
      by (rule triple_if; rule triple_conseq [OF lend_triple] triple_conseq [OF keeps_basic(1) [unfolded keeps_triple]])
        (simp_all add: lease_room_def)
  qed
  show ?thesis
    unfolding acquire_file_def plain_intact_def Let_def
    by (intro keeps_intros lend expire loads retire_corrupt_keeps)
qed

lemma renew_keeps: "keeps (db_inv P) (renew_file token client)" "keeps (db_inv P) (release_file token client)"
  unfolding renew_file_def release_file_def plain_intact_def
  by (intro keeps_intros expire loads retire_corrupt_keeps persist sql exec_leases_renew evict_keeps)+

subsubsection \<open>Start-up and the whole machine\<close>

lemma recover_keeps: "keeps (db_inv P) recover"
  unfolding recover_def recover_entry_def entry_allocated_def Let_def
  by (intro keeps_intros exec_obsolete delete_keeps retain_packs_keeps evict_keeps) simp

lemma open_keeps: "keeps (db_inv P) open_storage"
proof -
  have boot: "keeps (db_inv P) (modify boot)"
    by (rule keeps_modify) (auto simp: db_inv_def boot_def split: option.splits)
  have leases: "keeps (db_inv P) restore_leases"
    unfolding restore_leases_def Let_def by (intro keeps_intros persist db_inv_modify) simp_all
  show ?thesis
    unfolding open_storage_def by (intro keeps_intros boot leases recover_keeps)
qed

lemma step_keeps: "store_step s s' \<Longrightarrow> db_inv P s \<Longrightarrow> db_inv P s'"
proof (induction rule: store_step.induct)
  case (step_faults s fs)
  then show ?case by (simp add: db_inv_def)
next
  case (step_time s e t)
  then show ?case by (simp add: db_inv_def)
next
  case (step_sqlite s sizes)
  then show ?case by (simp add: db_inv_def)
qed (blast intro: keepsD create_keeps lookup_keeps read_keeps write_keeps query_keeps update_keeps
    invalidate_keeps retire_keeps object_keeps next_build_keeps copy_keeps publish_keeps failed_keeps
    acquire_keeps renew_keeps db_inv_drop_handle db_inv_drop_pins open_keeps)+

lemma reachable_inv: "store_reachable s0 s \<Longrightarrow> db_inv P s0 \<Longrightarrow> db_inv P s"
  by (erule store_reachable_inv) (auto intro: step_keeps)

end

subsection \<open>The conditions\<close>

definition one_active :: "db \<Rightarrow> bool" where
  "one_active d \<longleftrightarrow> (\<forall>key. length (active_ids key d) \<le> 1)"

definition segment_key :: "segment_row \<Rightarrow> int \<times> int" where
  "segment_key r = (sr_version r, sr_number r)"

text \<open>The \<^verbatim>\<open>PRIMARY KEY\<close> and \<^verbatim>\<open>UNIQUE\<close> constraints of the schema.\<close>

definition keys_unique :: "db \<Rightarrow> bool" where
  "keys_unique d \<longleftrightarrow> distinct (map vr_id (db_versions d)) \<and> distinct (map vr_generation (db_versions d))
     \<and> distinct (map segment_key (db_segments d)) \<and> distinct (map fr_version (db_files d))
     \<and> distinct (map pr_token (db_packs d)) \<and> distinct (map or_key (db_objects d))"

definition leases_bounded :: "db \<Rightarrow> bool" where
  "leases_bounded d \<longleftrightarrow> length (db_leases d) \<le> MAX_LEASES \<and> distinct (map lr_token (db_leases d))"

lemma map_keys:
  "(\<And>r. p r \<Longrightarrow> key (f r) = key r) \<Longrightarrow> map key (map (\<lambda>r. if p r then f r else r) rs) = map key rs"
  by (induction rs) auto

lemmas row_ops = upsert_segment_def defer_file_def upsert_file_def set_pack_length_def add_pack_def
  insert_object_def upd_versions_def patch_blob_def set_obsolete_def add_version_def add_lease_def Let_def

lemma active_ids_upd:
  assumes "\<And>r. vr_id (f r) = vr_id r" "\<And>r. vr_key (f r) = vr_key r" "\<And>r. vr_obsolete (f r) = vr_obsolete r"
  shows "active_ids key (upd_versions p f d) = active_ids key d"
proof -
  have "map vr_id (filter (\<lambda>r. vr_key r = key \<and> vr_obsolete r = 0) (map (\<lambda>r. if p r then f r else r) rs)) =
      map vr_id (filter (\<lambda>r. vr_key r = key \<and> vr_obsolete r = 0) rs)" for rs
    by (induction rs) (auto simp: assms)
  then show ?thesis by (simp add: active_ids_def upd_versions_def)
qed

lemma active_ids_other_tables [simp]:
  "active_ids key (d\<lparr>db_segments := segs\<rparr>) = active_ids key d"
  "active_ids key (d\<lparr>db_files := files\<rparr>) = active_ids key d"
  "active_ids key (d\<lparr>db_packs := packs\<rparr>) = active_ids key d"
  "active_ids key (d\<lparr>db_objects := objs\<rparr>) = active_ids key d"
  "active_ids key (d\<lparr>db_clock := clock\<rparr>) = active_ids key d"
  "active_ids key (d\<lparr>db_leases := leases\<rparr>) = active_ids key d"
  by (simp_all add: active_ids_def)

lemma active_ids_obsolete: "n \<noteq> 0 \<Longrightarrow> length (active_ids key (set_obsolete p n d)) \<le> length (active_ids key d)"
proof -
  assume n: "n \<noteq> 0"
  have "length (filter (\<lambda>r. vr_key r = key \<and> vr_obsolete r = 0) (map (\<lambda>r. if p r then r\<lparr>vr_obsolete := n\<rparr> else r) rs))
      \<le> length (filter (\<lambda>r. vr_key r = key \<and> vr_obsolete r = 0) rs)" for rs
    using n by (induction rs) auto
  then show ?thesis by (simp add: active_ids_def set_obsolete_def upd_versions_def)
qed

lemma active_ids_delete:
  "length (active_ids key (d\<lparr>db_versions := filter p (db_versions d)\<rparr>)) \<le> length (active_ids key d)"
proof -
  have "length (filter q (filter p rs)) \<le> length (filter q rs)" for q and rs :: "version_row list"
    by (induction rs) auto
  then show ?thesis by (simp add: active_ids_def)
qed

lemma active_ids_insert:
  "active_ids key (add_version r d) = active_ids key d @ (if vr_key r = key \<and> vr_obsolete r = 0 then [vr_id r] else [])"
  by (simp add: active_ids_def add_version_def)

interpretation active: db_contract one_active
proof
  fix d p and n :: int
  assume "one_active d" "n \<noteq> 0"
  then show "one_active (set_obsolete p n d)"
    unfolding one_active_def using active_ids_obsolete order_trans by blast
next
  fix d p
  assume "one_active d"
  then show "one_active (d\<lparr>db_versions := filter p (db_versions d)\<rparr>)"
    unfolding one_active_def using active_ids_delete order_trans by blast
next
  fix d and r :: version_row
  assume "one_active d" "active_ids (vr_key r) d = []"
  then show "one_active (add_version r d)"
    by (auto simp: one_active_def active_ids_insert)
qed (simp_all add: one_active_def active_ids_upd row_ops(1-6) row_ops(8) add_lease_def Let_def)

lemma insert_id_fresh: "vr_id ` set (db_versions d) \<subseteq> {..<insert_id d}"
proof -
  have "\<forall>x \<in> set xs. x \<le> fold max xs y" and "y \<le> fold max xs y" for xs :: "int list" and y
    by (induction xs arbitrary: y) (auto, (meson dual_order.trans max.cobounded1 max.cobounded2)+)
  then show ?thesis unfolding insert_id_def by force
qed

lemma find_None_keys: "find (\<lambda>r. key r = k) rs = None \<longleftrightarrow> k \<notin> key ` set rs"
  by (auto simp: find_None_iff)

lemma segment_key_simps:
  "segment_key (r\<lparr>sr_deleting := n\<rparr>) = segment_key r" "segment_key (r\<lparr>sr_last_use := n\<rparr>) = segment_key r"
  "segment_key \<lparr>sr_version = v, sr_number = k, sr_token = t, sr_length = l, sr_last_use = u, sr_deleting = x\<rparr> = (v, k)"
  by (simp_all add: segment_key_def)

lemma segment_found: "find_segment vid n d = None \<longleftrightarrow> (vid, n) \<notin> segment_key ` set (db_segments d)"
  unfolding find_segment_def using find_None_keys [of segment_key "(vid, n)" "db_segments d"]
  by (simp add: segment_key_def)

lemma file_found: "find_file vid d = None \<longleftrightarrow> vid \<notin> fr_version ` set (db_files d)"
  unfolding find_file_def by (rule find_None_keys)

interpretation keys: db_contract keys_unique
proof
  fix d and r :: version_row
  assume "keys_unique d" "vr_id r = insert_id d" "vr_generation r \<notin> vr_generation ` set (db_versions d)"
  then show "keys_unique (add_version r d)"
    using insert_id_fresh [of d] by (auto simp: keys_unique_def add_version_def)
next
  fix d vid touched g
  assume "keys_unique d"
  moreover have "map segment_key (map (\<lambda>r. if sr_version r = vid \<and> sr_number r = n then row else r) rs) =
      map segment_key rs" if "segment_key row = (vid, n)" for row n rs
    by (rule map_keys) (use that in \<open>simp add: segment_key_def\<close>)
  ultimately show "keys_unique (upsert_segment vid touched g d)"
    by (simp add: keys_unique_def upsert_segment_def Let_def segment_found segment_key_simps del: map_map)
qed (auto simp: keys_unique_def row_ops map_keys file_found segment_key_simps
    simp del: map_map intro: distinct_map_filter split: if_splits)

interpretation leases: db_contract leases_bounded
proof
  fix d and l :: lease_row
  assume "leases_bounded d" "length (db_leases d) < MAX_LEASES" "lr_token l \<notin> lr_token ` set (db_leases d)"
  then show "leases_bounded (add_lease l d)" by (auto simp: leases_bounded_def add_lease_def)
next
  fix d q
  assume "leases_bounded d"
  then show "leases_bounded (d\<lparr>db_leases := filter q (db_leases d)\<rparr>)"
    by (auto simp: leases_bounded_def intro: distinct_map_filter le_trans [OF length_filter_le])
qed (simp_all add: leases_bounded_def row_ops map_keys del: map_map)

end
