(* ===== verification/Store_Frames.thy ===== *)
theory Store_Frames
  imports Store_Machine
begin

section \<open>What the jobs leave alone\<close>

text \<open>
  Two interfaces for predicates that do not depend on parts of the state. \<open>io_frame\<close> extends
  \<open>db_frame\<close> by files, file sizes and the other bookkeeping of system calls: its predicates survive every step
  that does not touch the resident versions. \<open>job_frame\<close> extends it by the resident versions, pins and
  handles: its predicates, about the environment and the configuration, survive every job.
\<close>

locale io_frame = db_frame +
  assumes frame_disk [simp]: "I (s\<lparr>st_disk := d\<rparr>) \<longleftrightarrow> I s"
    and frame_sizes [simp]: "I (s\<lparr>st_sizes := sizes\<rparr>) \<longleftrightarrow> I s"
    and frame_garbage [simp]: "I (s\<lparr>st_garbage := names\<rparr>) \<longleftrightarrow> I s"
    and frame_uuid [simp]: "I (s\<lparr>st_uuid_next := n\<rparr>) \<longleftrightarrow> I s"
    and frame_tick [simp]: "I (s\<lparr>st_segment_clock := n\<rparr>) \<longleftrightarrow> I s"
    and frame_uncertain [simp]: "I (s\<lparr>st_clock_uncertain := b\<rparr>) \<longleftrightarrow> I s"
begin

lemma keeps_mod: "(\<And>s. I s \<Longrightarrow> I (g s)) \<Longrightarrow> keeps I (modify g)"
  by (rule keeps_modify)

lemma frame_put [simp]: "I (put_contents n bs s) \<longleftrightarrow> I s"
  by (simp add: put_contents_def)

lemma keeps_write_at: "keeps I (write_at n at new)"
proof (rule keepsI)
  fix s r s'
  assume "I s" "write_at n at new s = (r, s')"
  then show "I s'" by (auto simp: write_at_def Let_def split: list.splits option.splits)
qed

lemma keeps_dirent: "(\<And>n. keeps I (f n)) \<Longrightarrow> keeps I m \<Longrightarrow> keeps I (case d of Regular n \<Rightarrow> f n | Irregular \<Rightarrow> m)"
  by (cases d) simp_all

lemma keeps_system_calls:
  "keeps I (regular_file name)"
  "keeps I (open_file name)"
  "keeps I (create_new name)"
  "keeps I (read_exact_at n at len)"
  "keeps I (file_len n)"
  "keeps I (set_len n len)"
  "keeps I (allocated n)"
  "keeps I private_file"
  "keeps I sync_file"
  "keeps I sync_directory"
  "keeps I (remove_file name)"
  "keeps I (rename name name')"
  "keeps I new_uuid"
  "keeps I (hash_of data)"
  "keeps I usage"
  "keeps I (get_resident vid)"
  "keeps I segment_tick"
  "keeps I (modify (put_size name p))"
  "keeps I (modify (drop_size name))"
  unfolding regular_file_def open_file_def create_new_def read_exact_at_def file_len_def set_len_def
    allocated_def private_file_def sync_file_def sync_directory_def remove_file_def rename_def new_uuid_def
    hash_of_def usage_def get_resident_def segment_tick_def
  by (intro keeps_intros keeps_mod keeps_io keeps_dirent;
      simp add: unlink_def put_size_def drop_size_def)+

lemma keeps_remove_managed: "keeps I (remove_managed name)"
  unfolding remove_managed_def by (intro keeps_intros keeps_system_calls keeps_mod; simp)

lemma keeps_segment_reads:
  "keeps I (segment_header g meta)"
  "keeps I (segment_of vid number)"
  "keeps I (plain_length vid)"
  "keeps I (check_active vid)"
  "keeps I (read_verified file at len digest)"
  unfolding segment_header_def segment_of_def plain_length_def check_active_def read_verified_def
  by (intro keeps_intros keeps_system_calls keeps_query)+

lemma keeps_segment_file: "keeps I (segment_file meta g)"
  unfolding segment_file_def by (intro keeps_intros keeps_system_calls keeps_segment_reads)

lemma keeps_segment_is_valid: "keeps I (segment_is_valid vid meta number)"
  unfolding segment_is_valid_def by (intro keeps_intros keeps_segment_reads keeps_segment_file)

lemma keeps_leases: "keeps I expire_leases" "keeps I (externally_pinned vid)" "keeps I persist_clock"
  unfolding externally_pinned_def expire_leases_def persist_clock_def
  by (intro keeps_intros keeps_sql keeps_mod; simp)+

lemma keeps_delete_pack: "keeps I (delete_pack token)"
  unfolding delete_pack_def by (intro keeps_intros keeps_sql keeps_remove_managed)

lemma keeps_evict_packs_loop: "keeps I (evict_packs_loop required packs)"
  by (induction required packs rule: evict_packs_loop.induct)
    (simp_all add: keeps_intros keeps_delete_pack keeps_system_calls)

lemma keeps_packs: "keeps I (evict_packs required)" "keeps I (invalidate_packs provider)"
  unfolding evict_packs_def invalidate_packs_def
  by (intro keeps_intros keeps_sql keeps_evict_packs_loop keeps_delete_pack)+

lemmas keeps_calls = keeps_sql keeps_system_calls keeps_write_at keeps_remove_managed keeps_segment_reads
  keeps_segment_file keeps_segment_is_valid keeps_leases keeps_packs

end

locale job_frame = io_frame +
  assumes frame_versions [simp]: "I (s\<lparr>st_versions := vs\<rparr>) \<longleftrightarrow> I s"
    and frame_pins [simp]: "I (s\<lparr>st_pins := pins\<rparr>) \<longleftrightarrow> I s"
    and frame_strong [simp]: "I (s\<lparr>st_strong := c\<rparr>) \<longleftrightarrow> I s"
    and frame_valid [simp]: "I (s\<lparr>st_valid := v\<rparr>) \<longleftrightarrow> I s"
    and frame_arcs [simp]: "I (s\<lparr>st_arc_next := n\<rparr>) \<longleftrightarrow> I s"
begin

lemma keeps_residents:
  "keeps I (modify (put_resident vid v))"
  "keeps I (modify (upd_resident vid f))"
  "keeps I (modify (drop_resident vid))"
  "keeps I (modify (retain_arc a))"
  "keeps I (modify (release_arc a))"
  "keeps I new_arc"
proof -
  have "I (s\<lparr>st_arc_next := n, st_strong := c\<rparr>) \<longleftrightarrow> I s" for s n c
    using frame_strong [where s = "s\<lparr>st_arc_next := n\<rparr>"] by simp
  then show "keeps I new_arc"
    unfolding new_arc_def by (intro keeps_intros keeps_mod) simp
qed (rule keeps_mod; simp add: put_resident_def upd_resident_def drop_resident_def retain_arc_def release_arc_def)+

lemma keeps_commit: "keeps I (commit vid)"
  unfolding commit_def Let_def by (intro keeps_intros keeps_sql keeps_residents)

lemma keeps_reserve: "keeps I (reserve_index required)"
  by (rule keeps_reserve_index [OF keeps_commit]) (simp add: drop_resident_def)

lemma keeps_publish: "keeps I op \<Longrightarrow> keeps I (publish_segment_index vid ix op)"
  unfolding publish_segment_index_def Let_def by (intro keeps_intros keeps_calls keeps_residents)

lemma keeps_remove_resident: "keeps I (remove_segment_resident vid number)"
  unfolding remove_segment_resident_def Let_def by (intro keeps_intros keeps_calls keeps_publish)

lemma keeps_repair: "keeps I (repair_resident vid)"
  unfolding repair_resident_def Let_def by (intro keeps_intros keeps_calls keeps_remove_resident)

lemma keeps_load: "keeps I (load vid)"
  unfolding load_def load_segmented_def load_blocks_def Let_def
  by (intro keeps_intros keeps_calls keeps_reserve keeps_repair keeps_residents)

lemma keeps_segments: "keeps I (repair_segments vid)" "keeps I (remove_segment vid number)"
  unfolding repair_segments_def remove_segment_def
  by (intro keeps_intros keeps_load keeps_repair keeps_remove_resident)+

lemma keeps_delete: "keeps I (delete vid)"
  unfolding delete_def delete_unpinned_def delete_all_segments_def delete_rows_def
  by (intro keeps_intros keeps_calls keeps_segments keeps_residents)

lemma keeps_evict_segments: "keeps I (evict_segments required)"
  unfolding evict_segments_def by (intro keeps_intros keeps_calls keeps_segments)

lemma keeps_evict: "keeps I (evict required)"
  unfolding evict_def evict_step_def
  by (intro keeps_intros keeps_calls keeps_evict_segments keeps_delete)

end

interpretation memory: io_frame "\<lambda>s. st_versions s = vs \<and> st_env s = e" for vs e
  by unfold_locales simp_all

interpretation config: job_frame "\<lambda>s. st_env s = e \<and> st_capacity s = c \<and> st_building s = b" for e c b
  by unfold_locales simp_all

interpretation handles: io_frame "\<lambda>s. st_versions s = vs \<and> st_strong s = c \<and> st_pins s = pins" for vs c pins
  by unfold_locales simp_all

end
