(* ===== verification/Store_Reads.thy ===== *)
theory Store_Reads
  imports Store_Frames Store_Write
begin

section \<open>Integrity of what is read\<close>

text \<open>
  Every path by which \<^verbatim>\<open>read\<close> returns bytes goes through \<open>read_verified\<close>: the bytes have the digest
  that the index records for the block, and the length of the block.
\<close>

lemma memory_same:
  assumes "\<And>vs e. keeps (\<lambda>s. st_versions s = vs \<and> st_env s = e) m" and "m s = (r, s')"
  shows "st_versions s' = st_versions s \<and> st_env s' = st_env s"
  using keepsD [OF assms(1) _ assms(2)] by blast

lemmas segment_of_same = memory_same [OF memory.keeps_segment_reads(2)]
  and segment_file_same = memory_same [OF memory.keeps_segment_file]
  and read_verified_same = memory_same [OF memory.keeps_segment_reads(5)]
  and segment_tick_same = memory_same [OF memory.keeps_system_calls(17)]
  and exec_same = memory_same [OF memory.keeps_exec]
  and check_active_same = memory_same [OF memory.keeps_segment_reads(4)]

definition returns :: "'a job \<Rightarrow> ('a \<Rightarrow> storage \<Rightarrow> bool) \<Rightarrow> bool" where
  "returns m Q \<longleftrightarrow> (\<forall>s x s'. m s = (Inr x, s') \<longrightarrow> Q x s')"

lemma returnsD: "returns m Q \<Longrightarrow> m s = (Inr x, s') \<Longrightarrow> Q x s'"
  by (simp add: returns_def)

lemma returns_bnd: "(\<And>x. returns (f x) Q) \<Longrightarrow> returns (bnd m f) Q"
  unfolding returns_def by (blast elim: bnd_InrE)

lemma returns_raise: "returns (raise e) Q"
  by (simp add: returns_def)

lemma returns_get_resident: "returns (get_resident vid) (\<lambda>v s. resident_of vid s = Some v)"
  unfolding returns_def get_resident_def by (auto elim!: bnd_InrE split: option.splits)

lemma load_resident:
  assumes "load vid s = (Inr v, s')"
  shows "resident_of vid s' = Some v"
proof (cases "resident_of vid s")
  case (Some w)
  with assms show ?thesis by (auto simp: load_def elim!: bnd_InrE)
next
  case None
  have "returns (load_segmented vid meta bs sz) (\<lambda>v s. resident_of vid s = Some v)" for meta bs sz
    unfolding load_segmented_def by (intro returns_bnd returns_get_resident)
  from returnsD [OF this] have seg:
    "load_segmented vid meta bs sz s1 = (Inr v, s') \<Longrightarrow> resident_of vid s' = Some v" for meta bs sz s1 .
  have "returns (load_blocks vid meta bs) (\<lambda>v s. resident_of vid s = Some v)" for meta bs
    unfolding load_blocks_def Let_def by (intro returns_bnd returns_get_resident)
  from returnsD [OF this] have blk:
    "load_blocks vid meta bs s1 = (Inr v, s') \<Longrightarrow> resident_of vid s' = Some v" for meta bs s1 .
  from assms None show ?thesis
    by (auto simp: load_def elim!: bnd_InrE split: option.splits) (erule seg blk)+
qed

lemma hash_of_Inr:
  "hash_of data s = (Inr h, s') \<longleftrightarrow> format_hash (e_sha (st_env s)) data = Inr h \<and> s' = s"
  by (auto simp: hash_of_def bnd_def act_simps)

lemma read_exact_length: "read_exact_at file at len s = (Inr data, s') \<Longrightarrow> length data = len"
  by (auto simp: read_exact_at_def get_range_def elim!: bnd_InrE split: if_splits)

lemma read_verified_Some:
  assumes "read_verified file at len digest s = (Inr (Some data), s')"
  shows "length data = len \<and> format_hash (e_sha (st_env s')) data = Inr digest"
proof -
  from assms obtain r s1 where read: "read_exact_at file at len s = (Inr r, s1)"
    and hash: "bnd (hash_of r) (\<lambda>h. ret (if h = digest then Some r else None)) s1 = (Inr (Some data), s')"
    by (auto simp: read_verified_def attempt_def elim!: bnd_InrE split: sum.splits prod.splits)
  from hash have "r = data" "format_hash (e_sha (st_env s')) data = Inr digest"
    by (auto simp: hash_of_Inr elim!: bnd_InrE split: if_splits)
  with read_exact_length [OF read] show ?thesis by simp
qed

definition genuine :: "int \<Rightarrow> nat \<Rightarrow> bytes \<Rightarrow> storage \<Rightarrow> bool" where
  "genuine vid block data s \<longleftrightarrow>
     (\<exists>v slot digest a b. resident_of vid s = Some v \<and> index_get (rs_index v) block = Some (slot, digest)
        \<and> format_hash (e_sha (st_env s)) data = Inr digest
        \<and> geometry_range (md_geometry (rs_meta v)) block = Inr (a, b) \<and> length data = b - a)"

lemma genuineI:
  assumes "resident_of vid s1 = Some v" "st_versions s' = st_versions s1" "index_get (rs_index v) block = Some e"
    and "geometry_range (md_geometry (rs_meta v)) block = Inr r"
    and "length data = snd r - fst r \<and> format_hash (e_sha (st_env s')) data = Inr (snd e)"
  shows "genuine vid block data s'"
  using assms unfolding genuine_def resident_of_def by (cases e; cases r) auto

lemma read_block_genuine:
  assumes "read_block vid block s = (Inr (Some data), s')"
  shows "genuine vid block data s'"
proof -
  from assms obtain v s1 where load: "load vid s = (Inr v, s1)"
    and rest: "(case index_get (rs_index v) block of
         None \<Rightarrow> ret None
       | Some entry \<Rightarrow>
           bnd (lift (geometry_range (md_geometry (rs_meta v)) block)) (\<lambda>r.
           bnd (case rs_file v of None \<Rightarrow> raise ''panic'' | Some f \<Rightarrow> ret f) (\<lambda>file.
           bnd (if rs_plain v then ret (fst r)
                else lift (geometry_offset (md_geometry (rs_meta v)) (fst entry))) (\<lambda>at.
           bnd (read_verified file at (snd r - fst r) (snd entry)) (\<lambda>data.
             case data of
               Some bs \<Rightarrow> ret (Some bs)
             | None \<Rightarrow>
                 if rs_plain v then bnd (retire_corrupt vid) (\<lambda>_. raise PLAIN_CORRUPT)
                 else
                   bnd (modify (upd_resident vid (\<lambda>v. v\<lparr>rs_index := remove_block (rs_index v) block\<rparr>))) (\<lambda>_.
                   bnd (commit vid) (\<lambda>_. ret None))))))) s1 = (Inr (Some data), s')"
    unfolding read_block_def by (rule bnd_InrE)
  from rest obtain entry r fd pos where idx: "index_get (rs_index v) block = Some entry"
    and range: "geometry_range (md_geometry (rs_meta v)) block = Inr r"
    and read: "read_verified fd pos (snd r - fst r) (snd entry) s1 = (Inr (Some data), s')"
    by (auto elim!: bnd_InrE split: option.splits if_splits)
  show ?thesis
    using load_resident [OF load] read_verified_same [OF read] idx range read_verified_Some [OF read]
    by (intro genuineI) auto
qed

lemma read_segment_genuine:
  assumes "read_segment vid block s = (Inr (Some data), s')"
  shows "genuine vid block data s'"
proof -
  from assms obtain v s1 entry r where load: "load vid s = (Inr v, s1)"
    and idx: "index_get (rs_index v) block = Some entry"
    and range: "geometry_range (md_geometry (rs_meta v)) block = Inr r"
    and rest: "\<exists>number g s2 fd s3 s4 pos touched s5 f.
       segment_of vid number s1 = (Inr (Some g), s2) \<and> attempt (segment_file (rs_meta v) g) s2 = (Inr (Inr fd), s3)
       \<and> read_verified fd pos (snd r - fst r) (snd entry) s3 = (Inr (Some data), s4)
       \<and> segment_tick s4 = (Inr touched, s5) \<and> exec f s5 = (Inr (), s')"
    unfolding read_segment_def Let_def
    by (auto elim!: bnd_InrE split: option.splits sum.splits) blast+
  from rest obtain number g s2 fd s3 s4 pos touched s5 f where
    seg: "segment_of vid number s1 = (Inr (Some g), s2)"
    and open': "attempt (segment_file (rs_meta v) g) s2 = (Inr (Inr fd), s3)"
    and read: "read_verified fd pos (snd r - fst r) (snd entry) s3 = (Inr (Some data), s4)"
    and tick: "segment_tick s4 = (Inr touched, s5)" and upd: "exec f s5 = (Inr (), s')"
    by blast
  have "segment_file (rs_meta v) g s2 = (Inr fd, s3)"
    using open' by (auto simp: attempt_def split: prod.splits)
  note same = segment_of_same [OF seg] segment_file_same [OF this] read_verified_same [OF read]
    segment_tick_same [OF tick] exec_same [OF upd]
  show ?thesis
    using load_resident [OF load] same idx range read_verified_Some [OF read]
    by (intro genuineI) auto
qed

lemma read_genuine: "read vid block s = (Inr (Some data), s') \<Longrightarrow> genuine vid block data s'"
  unfolding read_def by (auto elim!: bnd_InrE split: if_splits intro: read_block_genuine read_segment_genuine)

end
