(* ===== verification/Store_Bounds.thy ===== *)
theory Store_Bounds
  imports Store_Frames Store_Tables
begin

section \<open>The capacity bound and the protection of versions in use\<close>

text \<open>
  \<^verbatim>\<open>evict\<close> only succeeds when the accounted usage plus the space asked for fits the capacity, whatever
  fails on the way, and neither eviction nor deletion touches a version that is in use.
\<close>

subsection \<open>Capacity\<close>

lemma io_usage: "io s = (r, s') \<Longrightarrow> current_usage s' = current_usage s"
  by (auto simp: io_def current_usage_def split: list.splits)

lemma usage_current:
  assumes "usage s = (Inr u, s')"
  shows "u = current_usage s'"
  using assms unfolding usage_def by (auto elim!: bnd_InrE)

lemma evict_step_usage:
  assumes run: "evict_step required c bytes s = (Inr bytes', s')" and acc: "bytes = usage_total (current_usage s)"
  shows "bytes' = usage_total (current_usage s')"
proof (cases c)
  case (Pair vid obsolete)
  with assms show ?thesis
    by (auto simp: evict_step_def elim!: bnd_InrE split: if_splits) (drule usage_current, simp)+
qed

lemma fold_evict_usage:
  "fold_act (evict_step required) ids bytes s = (Inr bytes', s') \<Longrightarrow> bytes = usage_total (current_usage s) \<Longrightarrow>
     bytes' = usage_total (current_usage s')"
proof (induction ids arbitrary: bytes s)
  case (Cons c ids)
  from Cons.prems(1) obtain b1 s1 where step: "evict_step required c bytes s = (Inr b1, s1)"
    and rest: "fold_act (evict_step required) ids b1 s1 = (Inr bytes', s')"
    by (auto simp: fold_act.simps elim!: bnd_InrE)
  from Cons.IH [OF rest] evict_step_usage [OF step Cons.prems(2)] show ?case by simp
qed (simp add: fold_act.simps)

lemma evict_success:
  assumes run: "evict required s = (Inr (), s')"
  shows "sat_add (usage_total (current_usage s')) (sat_add required (build_remaining s)) \<le> st_capacity s"
proof -
  from run obtain u0 s0 where usage: "usage s = (Inr u0, s0)"
    and rest: "\<exists>ids s1 s2 s3 u s4 bytes.
       query (evict_candidates (st_capacity s0 < usage_total u0 + sat_add required (build_remaining s0))) s0 = (Inr ids, s1)
       \<and> evict_packs (sat_add required (build_remaining s0)) s1 = (Inr (), s2)
       \<and> evict_segments (sat_add required (build_remaining s0)) s2 = (Inr (), s3)
       \<and> usage s3 = (Inr u, s4)
       \<and> fold_act (evict_step (sat_add required (build_remaining s0))) ids (usage_total u) s4 = (Inr bytes, s')
       \<and> sat_add bytes (sat_add required (build_remaining s0)) \<le> st_capacity s0"
    unfolding evict_def by (auto elim!: bnd_InrE)
  have keep: "keeps (\<lambda>s. st_env s = e \<and> st_capacity s = c \<and> st_building s = b) usage" for e c b
    by (rule config.keeps_system_calls)
  have "st_capacity s0 = st_capacity s" "build_remaining s0 = build_remaining s"
    using keepsD [OF keep _ usage] by (auto simp: build_remaining_def)
  with rest show ?thesis using fold_evict_usage usage_current by (metis (no_types, lifting))
qed

subsection \<open>Versions in use\<close>

text \<open>A version is held while a client has a handle on it: it is resident and its lease is alive.\<close>

definition held :: "int \<Rightarrow> storage \<Rightarrow> bool" where
  "held w s \<longleftrightarrow> distinct (map fst (st_versions s)) \<and> leased w s"

interpretation held: io_frame "held w" for w
  by unfold_locales (simp_all add: held_def leased_def resident_of_def alive_def cong: option.case_cong)

lemma held_upd:
  assumes "\<And>v. rs_lease (f v) = rs_lease v" and "held w s"
  shows "held w (upd_resident vid f s)"
proof -
  have "map_of (AList.map_entry vid f al) w = map_option (\<lambda>v. if w = vid then f v else v) (map_of al w)"
    for al :: "(int \<times> resident) list"
    by (induction vid f al rule: AList.map_entry.induct) (auto simp: option.map_ident)
  with assms show ?thesis
    by (cases "map_of (st_versions s) w")
      (auto simp: held_def leased_def resident_of_def alive_def upd_resident_def map_entry_keys
        simp del: map_of_eq_None_iff cong: option.case_cong)
qed

lemma held_put: "held w s \<Longrightarrow> vid \<noteq> w \<Longrightarrow> held w (put_resident vid v s)"
  by (simp add: held_def leased_def resident_of_def alive_def put_resident_def distinct_update update_conv'
      cong: option.case_cong)

lemma held_drop: "held w s \<Longrightarrow> vid \<noteq> w \<Longrightarrow> held w (drop_resident vid s)"
  by (simp add: held_def leased_def resident_of_def alive_def drop_resident_def distinct_delete delete_conv'
      cong: option.case_cong)

lemma held_commit: "keeps (held w) (commit vid)"
  unfolding commit_def Let_def
  by (intro keeps_intros held.keeps_calls keeps_modify held_upd) simp_all

lemma held_reserve: "keeps (held w) (reserve_index required)"
proof (rule keeps_reserve_index_if [OF held_commit])
  fix old v s s1
  assume h: "held w s" and found: "find (\<lambda>(_, v). \<not> alive (rs_lease v) s) (st_versions s) = Some (old, v)"
    and h1: "held w s1"
  from found have "(old, v) \<in> set (st_versions s)" "\<not> alive (rs_lease v) s"
    by (auto simp: find_Some_iff in_set_conv_nth)
  with h have "old \<noteq> w" by (auto simp: held_def leased_def resident_of_def)
  with h1 show "held w (drop_resident old s1)" by (rule held_drop)
qed

lemma held_publish: "keeps (held w) op \<Longrightarrow> keeps (held w) (publish_segment_index vid ix op)"
  unfolding publish_segment_index_def Let_def
  by (intro keeps_intros held.keeps_calls keeps_modify held_upd) simp_all

lemma held_remove_resident: "keeps (held w) (remove_segment_resident vid number)"
  unfolding remove_segment_resident_def Let_def by (intro keeps_intros held.keeps_calls held_publish)

lemma held_repair: "keeps (held w) (repair_resident vid)"
  unfolding repair_resident_def Let_def by (intro keeps_intros held.keeps_calls held_remove_resident)

lemma held_load: "keeps (held w) (load vid)"
proof (cases "vid = w")
  case True
  show ?thesis
    by (rule keepsI) (auto simp: True load_def bnd_def act_simps held_def leased_def split: option.splits)
next
  case False
  then have put: "keeps (held w) (modify (put_resident vid v))" for v
    by (intro keeps_modify held_put)
  show ?thesis
    unfolding load_def load_segmented_def load_blocks_def Let_def
    by (intro keeps_intros held.keeps_calls held_reserve held_repair put)
qed

lemma held_remove_segment: "keeps (held w) (remove_segment vid number)"
  unfolding remove_segment_def by (intro keeps_intros held_load held_remove_resident)

lemma held_delete: "keeps (held w) (delete vid)"
proof (cases "vid = w")
  case True
  show ?thesis
    by (rule keepsI) (auto simp: True delete_def bnd_def act_simps held_def split: if_splits)
next
  case False
  then have drop: "keeps (held w) (modify (drop_resident vid))"
    by (intro keeps_modify held_drop)
  show ?thesis
    unfolding delete_def delete_unpinned_def delete_all_segments_def delete_rows_def
    by (intro keeps_intros held.keeps_calls held_remove_segment drop)
qed

lemma held_evict_segments: "keeps (held w) (evict_segments required)"
  unfolding evict_segments_def by (intro keeps_intros held.keeps_calls held_remove_segment)

text \<open>The row of the version, whatever the transaction and failure state.\<close>

definition row_present :: "int \<Rightarrow> string \<Rightarrow> db \<Rightarrow> bool" where
  "row_present w g d \<longleftrightarrow> (\<exists>r \<in> set (db_versions d). vr_id r = w \<and> vr_generation r = g)"

lemma row_present_upd:
  assumes "\<And>r. vr_id (f r) = vr_id r" "\<And>r. vr_generation (f r) = vr_generation r"
  shows "row_present w g (upd_versions p f d) \<longleftrightarrow> row_present w g d"
proof -
  have "vr_id (if p r then f r else r) = vr_id r" "vr_generation (if p r then f r else r) = vr_generation r" for r
    by (simp_all add: assms)
  then show ?thesis by (simp add: row_present_def upd_versions_def del: if_image_distrib)
qed

lemma row_present_other_tables [simp]:
  "row_present w g (d\<lparr>db_segments := segs\<rparr>) \<longleftrightarrow> row_present w g d"
  "row_present w g (d\<lparr>db_files := files\<rparr>) \<longleftrightarrow> row_present w g d"
  "row_present w g (d\<lparr>db_packs := packs\<rparr>) \<longleftrightarrow> row_present w g d"
  "row_present w g (d\<lparr>db_objects := objs\<rparr>) \<longleftrightarrow> row_present w g d"
  "row_present w g (d\<lparr>db_clock := clock\<rparr>) \<longleftrightarrow> row_present w g d"
  "row_present w g (d\<lparr>db_leases := leases\<rparr>) \<longleftrightarrow> row_present w g d"
  by (simp_all add: row_present_def)

interpretation row: db_base "row_present w g" for w g
  by unfold_locales (simp_all add: row_present_upd set_obsolete_def patch_blob_def)

definition protected :: "int \<Rightarrow> string \<Rightarrow> storage \<Rightarrow> bool" where
  "protected w g s \<longleftrightarrow> held w s \<and> db_inv (row_present w g) s"

lemma protected_both:
  "keeps (held w) m \<Longrightarrow> keeps (db_inv (row_present w g)) m \<Longrightarrow> keeps (protected w g) m"
  unfolding protected_def by (rule keeps_conj)

lemma protected_delete: "keeps (protected w g) (delete vid)"
proof (cases "vid = w")
  case True
  show ?thesis
    by (rule keepsI) (auto simp: True delete_def bnd_def act_simps held_def protected_def split: if_splits)
next
  case False
  have "keeps (db_inv (row_present w g)) (delete vid)"
    by (rule row.delete_with) (use False in \<open>auto simp: row_present_def\<close>)
  with held_delete show ?thesis by (rule protected_both)
qed

lemma protected_calls:
  "keeps (protected w g) usage" "keeps (protected w g) (query q)" "keeps (protected w g) (evict_packs required)"
  "keeps (protected w g) (evict_segments required)"
  by (intro protected_both held.keeps_calls held_evict_segments keeps_intros row.evict_packs_keeps
      row.evict_segments_keeps)+

lemma protected_evict: "keeps (protected w g) (evict required)"
  unfolding evict_def evict_step_def
  by (intro keeps_intros protected_calls protected_delete)

end
