(* ===== verification/Store_Commit.thy ===== *)
theory Store_Commit
  imports Store_Bounds
begin

section \<open>Transactions and the durability of the index\<close>

text \<open>
  What a restart would find: \<open>durable\<close> is the committed database, the tables of the last \<^verbatim>\<open>BEGIN\<close> while a
  transaction is open. A transaction that fails leaves it as it was, also when \<^verbatim>\<open>ROLLBACK\<close> fails, and
  committing an index makes the stored blob equal to the index in memory.
\<close>

definition durable :: "storage \<Rightarrow> db" where
  "durable s = (case st_tx s of None \<Rightarrow> st_db s | Some d \<Rightarrow> d)"

lemma boot_durable: "st_db (boot s) = durable s"
  by (simp add: boot_def durable_def)

lemma io_fields:
  assumes "io s = (r, s')"
  shows "st_db s' = st_db s" "st_tx s' = st_tx s" "st_versions s' = st_versions s"
  using assms by (auto simp: io_def split: list.splits)

lemma begin_InrD:
  assumes "begin_immediate s = (Inr u, s')"
  shows "st_tx s = None" "st_tx s' = Some (st_db s)" "st_db s' = st_db s"
proof -
  obtain o1 s1 where io: "io s = (o1, s1)" by fastforce
  note f = io_fields [OF io]
  show "st_tx s = None" "st_tx s' = Some (st_db s)" "st_db s' = st_db s"
    using assms io f by (cases o1; auto simp: begin_immediate_def bnd_def act_simps split: option.splits)+
qed

lemma begin_InlD:
  assumes "begin_immediate s = (Inl e, s')"
  shows "st_tx s' = st_tx s" "st_db s' = st_db s"
proof -
  obtain o1 s1 where io: "io s = (o1, s1)" by fastforce
  note f = io_fields [OF io]
  show "st_tx s' = st_tx s" "st_db s' = st_db s"
    using assms io f by (cases o1; auto simp: begin_immediate_def bnd_def act_simps split: option.splits)+
qed

lemma commit_tx_cases:
  assumes "commit_tx s = (r, s')" "st_tx s = Some d"
  shows "st_db s' = st_db s" "r = Inr () \<Longrightarrow> st_tx s' = None" "r \<noteq> Inr () \<Longrightarrow> st_tx s' = Some d"
proof -
  obtain o1 s1 where io: "io s = (o1, s1)" by fastforce
  note f = io_fields [OF io]
  show "st_db s' = st_db s" "r = Inr () \<Longrightarrow> st_tx s' = None" "r \<noteq> Inr () \<Longrightarrow> st_tx s' = Some d"
    using assms io f by (cases o1; auto simp: commit_tx_def bnd_def act_simps split: option.splits)+
qed

lemma rollback_durable:
  assumes "ignore rollback_tx s = (r, s')" "st_tx s = Some d"
  shows "durable s' = d"
proof -
  obtain o1 s1 where io: "io s = (o1, s1)" by fastforce
  note f = io_fields [OF io]
  show ?thesis
    using assms io f
    by (cases o1) (auto simp: ignore_def rollback_tx_def bnd_def act_simps durable_def attempt_def)
qed

lemma exec_fields:
  assumes "exec f s = (Inr u, s')"
  shows "st_db s' = f (st_db s)" "st_tx s' = st_tx s" "st_versions s' = st_versions s"
proof -
  obtain o1 s1 where io: "io s = (o1, s1)" by fastforce
  note g = io_fields [OF io]
  show "st_db s' = f (st_db s)" "st_tx s' = st_tx s" "st_versions s' = st_versions s"
    using assms io g by (cases o1; auto simp: exec_def bnd_def act_simps)+
qed

text \<open>A body that neither begins nor ends a transaction.\<close>

definition tx_body :: "'a job \<Rightarrow> bool" where
  "tx_body m \<longleftrightarrow> (\<forall>t. keeps (\<lambda>s. st_tx s = t) m)"

lemma tx_bodyD: "tx_body m \<Longrightarrow> m s = (r, s') \<Longrightarrow> st_tx s' = st_tx s"
  unfolding tx_body_def using keepsD by fastforce

lemma tx_body_io: "tx_body io"
  unfolding tx_body_def by (auto intro!: keepsI simp: io_fields)

lemma tx_body_exec: "tx_body (exec f)"
  unfolding tx_body_def exec_def
  by (intro allI keeps_intros keeps_modify tx_body_io [unfolded tx_body_def, rule_format]) simp

lemma tx_body_query: "tx_body (query f)"
  unfolding tx_body_def query_def by (intro allI keeps_intros tx_body_io [unfolded tx_body_def, rule_format])

lemma tx_body_bnd: "tx_body m \<Longrightarrow> (\<And>x. tx_body (f x)) \<Longrightarrow> tx_body (bnd m f)"
  unfolding tx_body_def by (intro allI keeps_intros) auto

lemma tx_body_patch: "tx_body (db_patch vid bs ranges)"
  unfolding tx_body_def db_patch_def
  by (intro allI keeps_intros tx_body_io [unfolded tx_body_def, rule_format]
      tx_body_exec [unfolded tx_body_def, rule_format] tx_body_query [unfolded tx_body_def, rule_format])

lemma transaction_fails_clean:
  fixes body :: "'a job"
  assumes body: "tx_body body" and tx: "st_tx s = None" and run: "transaction body s = (Inl e, s')"
  shows "durable s' = st_db s"
proof -
  from run show ?thesis
    unfolding transaction_def
  proof (cases rule: bnd_cases)
    case (fail e')
    with tx show ?thesis by (simp add: begin_InlD durable_def)
  next
    case (go u s1)
    note b = begin_InrD [OF go(1)]
    let ?inner = "bnd body (\<lambda>x. bnd commit_tx (\<lambda>_. ret x))"
    obtain r2 s2 where inner: "?inner s1 = (r2, s2)" by fastforce
    have "(case r2 of Inr x \<Rightarrow> ret x | Inl e \<Rightarrow> bnd (ignore rollback_tx) (\<lambda>_. raise e)) s2 = (Inl e, s')"
      using go(2) inner by (simp add: bnd_def [of "attempt ?inner"] attempt_def)
    then obtain e2 where r2: "r2 = Inl e2" and rb: "bnd (ignore rollback_tx) (\<lambda>_. raise e2 :: 'a job) s2 = (Inl e, s')"
      by (cases r2) (simp_all add: act_simps)
    have "st_tx s2 = Some (st_db s)"
      using inner unfolding r2
    proof (cases rule: bnd_cases)
      case (fail e3)
      then show ?thesis using tx_bodyD [OF body] b by fastforce
    next
      case (go x s3)
      have "st_tx s3 = Some (st_db s)" using tx_bodyD [OF body go(1)] b by simp
      with go(2) show ?thesis
        by (auto elim!: bnd_cases simp: act_simps dest: commit_tx_cases(3))
    qed
    moreover from rb obtain r3 s3 where "ignore rollback_tx s2 = (r3, s3)" "s' = s3"
      by (auto elim!: bnd_cases simp: act_simps)
    ultimately show ?thesis using rollback_durable by blast
  qed
qed

lemma transaction_InrD:
  assumes body: "tx_body body" and run: "transaction body s = (Inr x, s')"
  obtains s1 s2 where "st_tx s = None" "st_db s1 = st_db s" "body s1 = (Inr x, s2)"
    "st_db s' = st_db s2" "st_tx s' = None"
proof -
  from run obtain u s1 where beg: "begin_immediate s = (Inr u, s1)"
    and rest: "bnd (attempt (bnd body (\<lambda>x. bnd commit_tx (\<lambda>_. ret x)))) (\<lambda>r.
       case r of Inr x \<Rightarrow> ret x | Inl e \<Rightarrow> bnd (ignore rollback_tx) (\<lambda>_. raise e)) s1 = (Inr x, s')"
    unfolding transaction_def by (rule bnd_InrE)
  note b = begin_InrD [OF beg]
  from rest have "bnd body (\<lambda>x. bnd commit_tx (\<lambda>_. ret x)) s1 = (Inr x, s')"
    by (auto simp: bnd_def attempt_def act_simps split: prod.splits sum.splits)
  then obtain s2 where run: "body s1 = (Inr x, s2)" and com: "commit_tx s2 = (Inr (), s')"
    by (auto elim!: bnd_InrE)
  have "st_tx s2 = Some (st_db s)" using tx_bodyD [OF body run] b by simp
  from commit_tx_cases [OF com this] show thesis using that [OF b(1,3) run] by auto
qed

subsection \<open>Patching the stored blob\<close>

definition write_range :: "bytes \<Rightarrow> bytes \<Rightarrow> nat \<times> nat \<Rightarrow> bytes" where
  "write_range bs old q = put_at (fst q) (get_range (fst q) (snd q) bs) old"

lemma find_map_same:
  assumes "\<And>x. P (f x) \<longleftrightarrow> P x"
  shows "find P (map f xs) = map_option f (find P xs)"
  by (induction xs) (auto simp: assms)

lemma find_version_patch:
  "find_version vid (patch_blob vid bs q d) =
     map_option (\<lambda>v. v\<lparr>vr_blocks := write_range bs (vr_blocks v) q\<rparr>) (find_version vid d)"
proof -
  have "find_version vid (patch_blob vid bs q d) =
      map_option (\<lambda>r. if vr_id r = vid then r\<lparr>vr_blocks := write_range bs (vr_blocks r) q\<rparr> else r) (find_version vid d)"
    unfolding find_version_def patch_blob_def upd_versions_def write_range_def
    by (simp, rule find_map_same) auto
  moreover have "vr_id r = vid" if "find_version vid d = Some r" for r
    using that by (auto simp: find_version_def find_Some_iff)
  ultimately show ?thesis by (cases "find_version vid d") auto
qed

lemma patch_ranges_run:
  assumes "for_each ranges (\<lambda>q. bnd (require (ok q) msg) (\<lambda>_. exec (patch_blob vid bs q))) s = (Inr u, s')"
  shows "find_version vid (st_db s') =
    map_option (\<lambda>v. v\<lparr>vr_blocks := foldl (write_range bs) (vr_blocks v) ranges\<rparr>) (find_version vid (st_db s))"
  using assms
proof (induction ranges arbitrary: s)
  case Nil
  then show ?case by (cases "find_version vid (st_db s)") (auto simp: for_each.simps)
next
  case (Cons q ranges)
  then obtain s1 where step: "exec (patch_blob vid bs q) s = (Inr (), s1)"
    and rest: "for_each ranges (\<lambda>q. bnd (require (ok q) msg) (\<lambda>_. exec (patch_blob vid bs q))) s1 = (Inr u, s')"
    by (auto simp: for_each.simps elim!: bnd_InrE)
  show ?case
    unfolding Cons.IH [OF rest] exec_fields(1) [OF step] find_version_patch
    by (cases "find_version vid (st_db s)") auto
qed

lemma write_ranges:
  assumes "length old = length bs" and "\<forall>q \<in> set ranges. fst q \<le> snd q \<and> snd q \<le> length bs"
  shows "length (foldl (write_range bs) old ranges) = length bs"
    and "i < length bs \<Longrightarrow> foldl (write_range bs) old ranges ! i = (if i \<in> covered ranges then bs ! i else old ! i)"
proof -
  have "length (foldl (write_range bs) old ranges) = length bs \<and>
    (\<forall>i < length bs. foldl (write_range bs) old ranges ! i = (if i \<in> covered ranges then bs ! i else old ! i))"
    using assms
  proof (induction ranges arbitrary: old)
    case (Cons q ranges)
    let ?new = "write_range bs old q"
    have q: "fst q \<le> snd q" "snd q \<le> length bs" using Cons.prems(2) by simp_all
    then have fits: "fst q + length (get_range (fst q) (snd q) bs) \<le> length old" using Cons.prems(1) by simp
    then have len: "length ?new = length bs" using Cons.prems(1) by (simp add: write_range_def)
    have at: "?new ! i = (if i \<in> {fst q..<snd q} then bs ! i else old ! i)" if "i < length bs" for i
      using q fits that Cons.prems(1) by (auto simp: write_range_def nth_put_at nth_get_range)
    show ?case using Cons.IH [OF len] Cons.prems(2) at by simp
  qed simp
  then show "length (foldl (write_range bs) old ranges) = length bs"
    and "i < length bs \<Longrightarrow> foldl (write_range bs) old ranges ! i = (if i \<in> covered ranges then bs ! i else old ! i)"
    by auto
qed

lemma query_InrD: "query f s = (Inr x, s') \<Longrightarrow> x = f (st_db s) \<and> st_db s' = st_db s"
  unfolding query_def by (auto elim!: bnd_InrE simp: io_fields)

lemma attempt_io_db:
  assumes "attempt io s = (Inr x, s')"
  shows "st_db s' = st_db s"
proof -
  obtain o1 s1 where io: "io s = (o1, s1)" by fastforce
  with assms io_fields [OF io] show ?thesis by (simp add: attempt_def)
qed

lemma db_patch_run:
  assumes "db_patch vid bs ranges s = (Inr u, s')"
  obtains row where "find_version vid (st_db s) = Some row" "length (vr_blocks row) = length bs"
    "find_version vid (st_db s') = Some (row\<lparr>vr_blocks := foldl (write_range bs) (vr_blocks row) ranges\<rparr>)"
proof -
  from assms obtain row s1 where q: "query (find_version vid) s = (Inr (Some row), s1)"
    and rest: "bnd (attempt
             (bnd (require (length (vr_blocks row) = length bs) ''BLOB length changed'') (\<lambda>_.
              for_each ranges (\<lambda>q.
                bnd (require (snd q - fst q < 2 ^ 31 \<and> fst q < 2 ^ 31) ''out of range integral type conversion'') (\<lambda>_.
                exec (patch_blob vid bs q)))))) (\<lambda>result.
           bnd (attempt io) (\<lambda>closed.
             case result of
               Inl e \<Rightarrow> raise e
             | Inr _ \<Rightarrow> lift closed)) s1 = (Inr u, s')"
    unfolding db_patch_def by (auto elim!: bnd_InrE split: option.splits)
  have row: "find_version vid (st_db s) = Some row" "st_db s1 = st_db s" using query_InrD [OF q] by simp_all
  from rest obtain s2 where len: "length (vr_blocks row) = length bs"
    and run: "for_each ranges (\<lambda>q.
                bnd (require (snd q - fst q < 2 ^ 31 \<and> fst q < 2 ^ 31) ''out of range integral type conversion'') (\<lambda>_.
                exec (patch_blob vid bs q))) s1 = (Inr (), s2)"
    and fin: "st_db s' = st_db s2"
    by (auto elim!: bnd_InrE simp: attempt_def [of "bnd _ _"] split: prod.splits sum.splits dest!: attempt_io_db)
  show thesis using that [OF row(1) len] patch_ranges_run [OF run] by (simp add: fin row)
qed

subsection \<open>Committing an index\<close>

lemma dirty_push_bounds:
  "\<forall>q \<in> set rs. fst q \<le> snd q \<and> snd q \<le> n \<Longrightarrow> fst r \<le> snd r \<and> snd r \<le> n \<Longrightarrow>
     \<forall>q \<in> set (dirty_push rs r). fst q \<le> snd q \<and> snd q \<le> n"
proof (cases "rs \<noteq> [] \<and> fst r \<le> snd (last rs)")
  case True
  assume a: "\<forall>q \<in> set rs. fst q \<le> snd q \<and> snd q \<le> n" "fst r \<le> snd r \<and> snd r \<le> n"
  have "last rs \<in> set rs" using True by simp
  with a(1) have "fst (last rs) \<le> snd (last rs) \<and> snd (last rs) \<le> n" by blast
  with a True show ?thesis by (auto simp: dirty_push_def le_max_iff_disj dest: in_set_butlastD)
qed (auto simp: dirty_push_def)

lemma dirty_fold_bounds:
  "\<forall>q \<in> set rs. fst q \<le> snd q \<and> snd q \<le> n \<Longrightarrow> \<forall>q \<in> set d. fst q \<le> snd q \<and> snd q \<le> n \<Longrightarrow>
     \<forall>q \<in> set (foldl dirty_push rs d). fst q \<le> snd q \<and> snd q \<le> n"
proof (induction d arbitrary: rs)
  case (Cons r d)
  show ?case
    using Cons.IH [OF dirty_push_bounds [of rs n r]] Cons.prems by simp
qed simp

lemma index_dirty_bounds:
  assumes wf: "index_wf i" and d: "index_dirty i = (rs, i')"
  shows "\<forall>q \<in> set rs. fst q \<le> snd q \<and> snd q \<le> length (ix_bytes i)"
proof -
  have rs: "rs = foldl dirty_push [] (sort_key fst (ix_dirty i))"
    using d by (simp add: index_dirty_def Let_def)
  have dirty: "fst q \<le> snd q \<and> snd q \<le> length (ix_bytes i)" if "q \<in> set (ix_dirty i)" for q
  proof -
    from wf that obtain k where "k < geometry_count (ix_geometry i)" "q = (k * ENTRY_LEN, k * ENTRY_LEN + ENTRY_LEN)"
      unfolding index_wf_def by blast
    with entry_in_range wf show ?thesis by (auto simp: index_wf_def)
  qed
  show ?thesis unfolding rs by (rule dirty_fold_bounds) (simp_all add: dirty)
qed

text \<open>The stored blob agrees with the index in memory wherever the index is not dirty.\<close>

definition in_sync :: "index \<Rightarrow> bytes \<Rightarrow> bool" where
  "in_sync ix blob \<longleftrightarrow> length blob = length (ix_bytes ix)
     \<and> (\<forall>i < length blob. i \<notin> covered (ix_dirty ix) \<longrightarrow> blob ! i = ix_bytes ix ! i)"

lemma in_sync_patched:
  assumes wf: "index_wf ix" and sync: "in_sync ix blob" and d: "index_dirty ix = (rs, ix')"
  shows "foldl (write_range (ix_bytes ix)) blob rs = ix_bytes ix"
proof (rule nth_equalityI)
  note bounds = index_dirty_bounds [OF wf d] and props = index_dirty_props [OF d]
  have len: "length blob = length (ix_bytes ix)" using sync by (simp add: in_sync_def)
  show "length (foldl (write_range (ix_bytes ix)) blob rs) = length (ix_bytes ix)"
    by (rule write_ranges [OF len bounds])
  fix i
  assume "i < length (foldl (write_range (ix_bytes ix)) blob rs)"
  then have i: "i < length (ix_bytes ix)" using write_ranges(1) [OF len bounds] by simp
  show "foldl (write_range (ix_bytes ix)) blob rs ! i = ix_bytes ix ! i"
    unfolding write_ranges(2) [OF len bounds i] props(2) using sync i len by (auto simp: in_sync_def)
qed

lemma index_dirty_clean:
  assumes wf: "index_wf ix" and d: "index_dirty ix = ([], ix')"
  shows "ix_dirty ix = [] \<and> ix_dirty ix' = []"
proof -
  have "covered (ix_dirty ix) = {}" using index_dirty_props(2) [OF d] by simp
  moreover have "fst q < snd q" if "q \<in> set (ix_dirty ix)" for q
    using wf that by (auto simp: index_wf_def ENTRY_LEN_def)
  ultimately have "ix_dirty ix = []" by (cases "ix_dirty ix") (fastforce simp: covered_def)+
  with index_dirty_props(5) [OF d] show ?thesis by simp
qed

lemma resident_of_upd: "resident_of vid (upd_resident vid f s) = map_option f (resident_of vid s)"
proof -
  have "map_of (AList.map_entry vid f al) vid = map_option f (map_of al vid)" for al :: "(int \<times> resident) list"
    by (induction vid f al rule: AList.map_entry.induct) auto
  then show ?thesis by (simp add: resident_of_def upd_resident_def)
qed

lemma commit_cases:
  assumes res: "resident_of vid s = Some v" and d: "index_dirty (rs_index v) = (rs, ix)"
    and run: "commit vid s = (r, s')"
  obtains (clean) "rs = []" "r = Inr ()" "s' = upd_resident vid (\<lambda>v. v\<lparr>rs_index := ix\<rparr>) s"
    | (fail) e where "rs \<noteq> []" "r = Inl e"
        "transaction (db_patch vid (ix_bytes ix) rs) (upd_resident vid (\<lambda>v. v\<lparr>rs_index := ix\<rparr>) s) = (Inl e, s')"
    | (finished) s1 where "rs \<noteq> []" "r = Inr ()"
        "transaction (db_patch vid (ix_bytes ix) rs) (upd_resident vid (\<lambda>v. v\<lparr>rs_index := ix\<rparr>) s) = (Inr (), s1)"
        "s' = upd_resident vid (\<lambda>v. v\<lparr>rs_index := index_committed (rs_index v)\<rparr>) s1"
proof (cases "rs = []")
  case True
  with run res d clean show thesis by (auto simp: commit_def bnd_def act_simps)
next
  case False
  obtain r1 s1 where t: "transaction (db_patch vid (ix_bytes ix) rs)
      (upd_resident vid (\<lambda>v. v\<lparr>rs_index := ix\<rparr>) s) = (r1, s1)" by fastforce
  show thesis
  proof (cases r1)
    case (Inl e)
    with run res d t False fail [of e] show thesis by (auto simp: commit_def bnd_def act_simps)
  next
    case (Inr u)
    with run res d t False finished [of s1] show thesis by (auto simp: commit_def bnd_def act_simps)
  qed
qed

lemma commit_outcome:
  assumes res: "resident_of vid s = Some v" and wf: "index_wf (rs_index v)" and tx: "st_tx s = None"
    and row: "find_version vid (st_db s) = Some row" and sync: "in_sync (rs_index v) (vr_blocks row)"
    and run: "commit vid s = (r, s')"
  shows "case r of
      Inl _ \<Rightarrow> durable s' = st_db s
    | Inr _ \<Rightarrow> map_option vr_blocks (find_version vid (durable s')) = Some (ix_bytes (rs_index v))
        \<and> (\<exists>v'. resident_of vid s' = Some v' \<and> ix_bytes (rs_index v') = ix_bytes (rs_index v)
              \<and> index_is_committed (rs_index v'))"
proof -
  obtain rs ix where d: "index_dirty (rs_index v) = (rs, ix)" by fastforce
  note props = index_dirty_props [OF d]
  let ?s0 = "upd_resident vid (\<lambda>v. v\<lparr>rs_index := ix\<rparr>) s"
  have s0: "st_tx ?s0 = None" "st_db ?s0 = st_db s" "resident_of vid ?s0 = Some (v\<lparr>rs_index := ix\<rparr>)"
    by (simp_all add: resident_of_upd res) (simp_all add: upd_resident_def tx)
  from res d run show ?thesis
  proof (cases rule: commit_cases)
    case clean
    then have "ix_dirty (rs_index v) = [] \<and> ix_dirty ix = []" using index_dirty_clean [OF wf] d by simp
    moreover from this sync have "vr_blocks row = ix_bytes (rs_index v)"
      by (intro nth_equalityI) (auto simp: in_sync_def)
    ultimately show ?thesis
      using clean s0 row props(3) by (simp add: durable_def index_is_committed_def)
  next
    case (fail e)
    then show ?thesis using transaction_fails_clean [OF tx_body_patch s0(1)] s0(2) by simp
  next
    case (finished s1)
    from finished(3) obtain t1 t2 where t: "st_db t1 = st_db ?s0" "db_patch vid (ix_bytes ix) rs t1 = (Inr (), t2)"
      "st_db s1 = st_db t2" "st_tx s1 = None"
      by (rule transaction_InrD [OF tx_body_patch])
    from t(2) obtain row' where "find_version vid (st_db t1) = Some row'"
      and "find_version vid (st_db t2) = Some (row'\<lparr>vr_blocks := foldl (write_range (ix_bytes ix)) (vr_blocks row') rs\<rparr>)"
      by (rule db_patch_run)
    with t row s0(2) have blob: "find_version vid (st_db s1) =
        Some (row\<lparr>vr_blocks := foldl (write_range (ix_bytes ix)) (vr_blocks row) rs\<rparr>)" by simp
    have "keeps (\<lambda>s. st_versions s = vs \<and> st_env s = e) (transaction (db_patch vid (ix_bytes ix) rs))" for vs e
      by (rule memory.keeps_db_transaction) (rule memory.keeps_db_patch)
    from keepsD [OF this _ finished(3)] have "st_versions s1 = st_versions ?s0" by blast
    then have "resident_of vid s1 = Some (v\<lparr>rs_index := ix\<rparr>)" using s0(3) by (simp add: resident_of_def)
    then show ?thesis
      using finished blob t(4) in_sync_patched [OF wf sync d] props(3)
      by (simp add: resident_of_upd index_is_committed_def index_committed_def)
        (simp add: durable_def upd_resident_def)
  qed
qed

end
