(* ===== verification/Store_Sample.thy ===== *)
theory Store_Sample
  imports Store_Machine "HOL-Library.Code_Target_Nat"
begin

section \<open>A concrete cache\<close>

text \<open>
  An empty cache with a concrete environment, a small resource and the states a few jobs lead to. The
  theorems of the storage components are applied here to show that their hypotheses can hold.
\<close>

definition empty_db :: db where
  "empty_db = \<lparr>db_versions = [], db_files = [], db_leases = [], db_clock = None, db_segments = [],
     db_packs = [], db_objects = []\<rparr>"

definition sample_env :: env where
  "sample_env = \<lparr>e_sha = (\<lambda>b. Inr (take 32 (b @ replicate 32 0))), e_blocks = (\<lambda>b. length b div 512 + 1),
     e_uuid_bytes = (\<lambda>_. Some (replicate 16 0)), e_uuid = show_hex 32\<rparr>"

definition sample_storage :: storage where
  "sample_storage = \<lparr>st_env = sample_env, st_uuid_next = 0, st_micros = 5000000, st_elapsed = 0, st_faults = [],
     st_db = empty_db, st_tx = None, st_disk = \<lparr>dk_dir = [], dk_data = (\<lambda>_. []), dk_next = 0\<rparr>,
     st_sqlite_files = [Some 4096, None, None], st_versions = [], st_capacity = 1000000, st_pins = [],
     st_segment_clock = 0, st_sizes = [], st_building = None, st_scan_cursor = 0, st_clock = 5,
     st_clock_uncertain = False, st_files_enabled = True, st_restart_grace = None, st_garbage = [],
     st_strong = (\<lambda>_. 0), st_valid = (\<lambda>_. False), st_arc_next = 0\<rparr>"

definition sample_generation :: string where
  "sample_generation = replicate 32 (CHR ''a'')"

definition sample_meta :: metadata where
  "sample_meta = \<lparr>md_key = ''k'', md_provider = 1, md_kind = 0, md_generation = sample_generation,
     md_geometry = \<lparr>g_length = 3, g_block = 262144\<rparr>, md_headers = [], md_policy =
       \<lparr>po_stored = 0, po_initial_age = 0, po_lifetime = 60, po_no_cache = False, po_store = True,
        po_etag = None, po_modified = None, po_range_validator = None\<rparr>,
     md_target = ''origin'', md_ranges = True, md_layout = Blocks\<rparr>"

end
