(* ===== verification/Store_Props.thy ===== *)
theory Store_Props
  imports Store_Tables Store_Reads Store_Bounds Store_Commit Store_Sample
begin

section \<open>Properties of the cache storage\<close>

text \<open>
  What the storage thread guarantees to its clients, in every state that any sequence of jobs, failures,
  restarts and passing time can reach from an empty cache.
\<close>

lemma start_inv:
  assumes "st_db s0 = empty_db" and "st_tx s0 = None"
  shows "db_inv one_active s0" "db_inv keys_unique s0" "db_inv leases_bounded s0"
  by (simp_all add: db_inv_def assms one_active_def keys_unique_def leases_bounded_def empty_db_def active_ids_def)

definition sample_created :: storage where
  "sample_created = snd (create sample_meta sample_storage)"

lemma sample_created_reachable: "store_reachable sample_storage sample_created"
proof -
  have "store_step sample_storage sample_created"
    by (rule step_create [of sample_meta _ "fst (create sample_meta sample_storage)"]) (simp add: sample_created_def)
  then show ?thesis by (rule reach_step [OF reach_start])
qed

lemma sample_start: "st_db sample_storage = empty_db" "st_tx sample_storage = None"
  by (simp_all add: sample_storage_def)

lemma sample_created_rows:
  "map (\<lambda>r. (vr_id r, vr_key r, vr_obsolete r)) (db_versions (st_db sample_created)) = [(1, ''k'', 0)]"
  by code_simp

text \<open>C5: whatever fails and whenever the process is killed, a resource key never has two active
  versions: publishing a new version retires the old one in the same transaction.\<close>

theorem one_active_version:
  assumes "store_reachable s0 s" and "st_db s0 = empty_db" and "st_tx s0 = None"
  shows "length (active_ids key (st_db s)) \<le> 1"
proof -
  have "db_inv one_active s"
    using assms(1) start_inv(1) [OF assms(2,3)] by (rule active.reachable_inv)
  then show ?thesis by (simp add: db_inv_def one_active_def)
qed

theorem one_active_version_witness:
  "length (active_ids ''k'' (st_db sample_created)) \<le> 1 \<and> db_versions (st_db sample_created) \<noteq> []"
  using one_active_version [OF sample_created_reachable sample_start, of "''k''"] sample_created_rows by auto

text \<open>At most 256 leases on published files exist at any time, each with its own token.\<close>

theorem leases_within_limit:
  assumes "store_reachable s0 s" and "st_db s0 = empty_db" and "st_tx s0 = None"
  shows "length (db_leases (st_db s)) \<le> MAX_LEASES \<and> distinct (map lr_token (db_leases (st_db s)))"
proof -
  have "db_inv leases_bounded s"
    using assms(1) start_inv(3) [OF assms(2,3)] by (rule leases.reachable_inv)
  then show ?thesis by (simp add: db_inv_def leases_bounded_def)
qed

theorem leases_within_limit_witness:
  "length (db_leases (st_db sample_created)) \<le> MAX_LEASES"
  using leases_within_limit [OF sample_created_reachable sample_start] by simp

text \<open>The primary keys of all tables stay unique: no two rows share a version id, a generation (hence a
  data file), a segment group, a published file, a pack token or an object key.\<close>

theorem primary_keys_unique:
  assumes "store_reachable s0 s" and "st_db s0 = empty_db" and "st_tx s0 = None"
  shows "distinct (map vr_id (db_versions (st_db s))) \<and> distinct (map vr_generation (db_versions (st_db s)))
    \<and> distinct (map segment_key (db_segments (st_db s))) \<and> distinct (map fr_version (db_files (st_db s)))
    \<and> distinct (map pr_token (db_packs (st_db s))) \<and> distinct (map or_key (db_objects (st_db s)))"
proof -
  have "db_inv keys_unique s"
    using assms(1) start_inv(2) [OF assms(2,3)] by (rule keys.reachable_inv)
  then show ?thesis by (simp add: db_inv_def keys_unique_def)
qed

theorem primary_keys_unique_witness:
  "distinct (map vr_id (db_versions (st_db sample_created)))"
  using primary_keys_unique [OF sample_created_reachable sample_start] by simp

subsection \<open>Reading, space and versions in use\<close>

definition sample_row :: version_row where
  "sample_row = \<lparr>vr_id = 1, vr_key = ''k'', vr_provider = 1, vr_kind = 0, vr_generation = sample_generation,
     vr_meta = Some sample_meta, vr_blocks = replicate 36 7, vr_last_use = 5, vr_obsolete = 0\<rparr>"

definition sample_resident :: "index \<Rightarrow> resident" where
  "sample_resident ix = \<lparr>rs_meta = sample_meta, rs_index = ix, rs_file = Some 0, rs_lease = Some 0, rs_plain = False\<rparr>"

definition sample_entry :: index where
  "sample_entry = \<lparr>ix_bytes = [1, 0, 0, 0, 1, 2, 3] @ replicate 29 0, ix_dirty = [(0, 36)],
     ix_geometry = \<lparr>g_length = 3, g_block = 262144\<rparr>\<rparr>"

definition sample_open :: storage where
  "sample_open = sample_storage\<lparr>st_db := empty_db\<lparr>db_versions := [sample_row]\<rparr>,
     st_disk := \<lparr>dk_dir = [(data_name sample_generation ''data'', Regular 0)],
        dk_data = (\<lambda>_. replicate 64 0 @ [1, 2, 3]), dk_next = 1\<rparr>,
     st_versions := [(1, sample_resident sample_entry)], st_strong := (\<lambda>_. 1), st_valid := (\<lambda>_. True),
     st_arc_next := 1\<rparr>"

text \<open>C6: bytes that \<^verbatim>\<open>read\<close> returns are the bytes that were stored: they have the length of the block
  and the SHA-256 digest that the index holds for it, whatever has happened to the files.\<close>

theorem read_returns_genuine_bytes:
  assumes "read vid block s = (Inr (Some data), s')"
  shows "\<exists>v slot digest a b. resident_of vid s' = Some v \<and> index_get (rs_index v) block = Some (slot, digest)
    \<and> format_hash (e_sha (st_env s')) data = Inr digest
    \<and> geometry_range (md_geometry (rs_meta v)) block = Inr (a, b) \<and> length data = b - a"
  using read_genuine [OF assms] by (simp add: genuine_def)

theorem read_returns_genuine_bytes_witness:
  "\<exists>v. resident_of 1 (snd (read 1 0 sample_open)) = Some v"
proof -
  have "fst (read 1 0 sample_open) = Inr (Some [1, 2, 3])" by code_simp
  then have "read 1 0 sample_open = (Inr (Some [1, 2, 3]), snd (read 1 0 sample_open))"
    by (simp add: prod_eq_iff)
  from read_returns_genuine_bytes [OF this] show ?thesis by blast
qed

text \<open>C8: when \<^verbatim>\<open>evict\<close> succeeds, the space in use, the space asked for and the space still reserved for a
  conversion fit into the capacity together, whatever failed meanwhile.\<close>

theorem evict_makes_room:
  assumes "evict required s = (Inr (), s')" and "st_capacity s < u64_max"
  shows "usage_total (current_usage s') + required + build_remaining s \<le> st_capacity s"
  using evict_success [OF assms(1)] assms(2) by (auto simp: sat_add_def min_def split: if_splits)

theorem evict_makes_room_witness:
  "usage_total (current_usage (snd (evict 4096 sample_open))) + 4096 \<le> 1000000"
proof -
  have "fst (evict 4096 sample_open) = Inr ()" by code_simp
  then have run: "evict 4096 sample_open = (Inr (), snd (evict 4096 sample_open))" by (simp add: prod_eq_iff)
  have cap: "st_capacity sample_open = 1000000" "build_remaining sample_open = 0"
    by (simp_all add: sample_open_def sample_storage_def build_remaining_def)
  show ?thesis using evict_makes_room [OF run] by (simp add: cap u64_max_eq)
qed

text \<open>C20: eviction leaves a version alone while a client has a handle on it, even an obsolete one and even when
  deletions fail half way: its row survives, also in what a crash would leave, and it stays resident.\<close>

theorem evict_spares_leased_versions:
  assumes run: "evict required s = (r, s')"
    and keys: "distinct (map fst (st_versions s))" and leased: "leased w s"
    and row: "row_present w g (st_db s)" "row_present w g (durable s)"
  shows "leased w s' \<and> row_present w g (st_db s') \<and> row_present w g (durable s')"
proof -
  have "protected w g s"
    using keys leased row by (auto simp: protected_def held_def db_inv_def durable_def split: option.splits)
  with protected_evict have "protected w g s'" using run by (rule keepsD)
  then show ?thesis by (auto simp: protected_def held_def db_inv_def durable_def split: option.splits)
qed

definition sample_full :: storage where
  "sample_full = sample_open\<lparr>st_capacity := 0, st_db := empty_db\<lparr>db_versions := [sample_row\<lparr>vr_obsolete := 2\<rparr>]\<rparr>\<rparr>"

theorem evict_spares_leased_versions_witness:
  "leased 1 (snd (evict 0 sample_full)) \<and> is_err (fst (evict 0 sample_full))"
proof -
  have err: "is_err (fst (evict 0 sample_full))" by code_simp
  have "leased 1 sample_full" "distinct (map fst (st_versions sample_full))"
    "row_present 1 sample_generation (st_db sample_full)" "st_tx sample_full = None"
    by (simp_all add: sample_full_def sample_open_def sample_storage_def leased_def resident_of_def alive_def
        sample_resident_def row_present_def sample_row_def)
  with evict_spares_leased_versions [of 0 sample_full "fst (evict 0 sample_full)" "snd (evict 0 sample_full)" 1
      sample_generation] err
  show ?thesis by (simp add: durable_def)
qed



subsection \<open>Two behaviours of the error paths\<close>

text \<open>Start-up fails as a whole when one row holds metadata that does not decode, although the
  recovery has a branch that discards invalid rows.\<close>

theorem recover_fails_on_undecodable_row:
  assumes "\<exists>r \<in> set (db_versions (st_db s)). vr_meta r = None"
  shows "is_err (fst (recover s))"
proof -
  have classify: "is_err (classify_rows rows acc)" if "\<exists>r \<in> set rows. fst (snd r) = None" for rows acc
    using that by (induction rows acc rule: classify_rows.induct) auto
  obtain o1 s1 where io: "io s = (o1, s1)" by fastforce
  have "\<exists>r \<in> set (version_rows (st_db s1)). fst (snd r) = None"
    using assms io_db [OF io] by (auto simp: version_rows_def)
  from classify [OF this, of "([], [])"]
  obtain e where "classify_rows (version_rows (st_db s1)) ([], []) = Inl e"
    by (auto simp: is_err_def split: sum.splits)
  with io show ?thesis
    by (cases o1) (simp_all add: recover_def query_def bnd_def act_simps)
qed

definition sample_damaged :: storage where
  "sample_damaged = sample_open\<lparr>st_db := empty_db\<lparr>db_versions := [sample_row\<lparr>vr_meta := None\<rparr>]\<rparr>\<rparr>"

theorem recover_fails_on_undecodable_row_witness: "is_err (fst (recover sample_damaged))"
  by (rule recover_fails_on_undecodable_row) (simp add: sample_damaged_def sample_row_def)

text \<open>C21: a version whose provider was invalidated can be read again once some task has retired it:
  \<^verbatim>\<open>retire\<close> lowers the mark of invalidation instead of keeping it.\<close>

theorem retire_reactivates_invalidated:
  assumes "find_version vid (st_db s) = Some row" and "retire vid s = (Inr (), s')" and "st_faults s' = []"
  shows "fst (check_active vid s') = Inr ()"
proof -
  have db: "st_db s' = set_obsolete (\<lambda>r. vr_id r = vid) 1 (st_db s)"
    using exec_InrD assms(2) unfolding retire_def by blast
  have "find_version vid (st_db s') = map_option (\<lambda>r. if vr_id r = vid then r\<lparr>vr_obsolete := 1\<rparr> else r)
      (find_version vid (st_db s))"
    unfolding db find_version_def set_obsolete_def upd_versions_def by (simp, rule find_map_same) auto
  moreover have "vr_id row = vid" using assms(1) by (auto simp: find_version_def find_Some_iff)
  ultimately have "find_version vid (st_db s') = Some (row\<lparr>vr_obsolete := 1\<rparr>)" using assms(1) by simp
  then show ?thesis
    using assms(3) by (simp add: check_active_def query_def bnd_def act_simps io_def)
qed

theorem retire_reactivates_invalidated_witness:
  "is_err (fst (check_active 1 sample_full)) \<and> fst (check_active 1 (snd (retire 1 sample_full))) = Inr ()"
proof -
  have before: "is_err (fst (check_active 1 sample_full))" by code_simp
  have run: "fst (retire 1 sample_full) = Inr ()" by code_simp
  have faults: "st_faults (snd (retire 1 sample_full)) = []" by code_simp
  have row: "find_version 1 (st_db sample_full) = Some (sample_row\<lparr>vr_obsolete := 2\<rparr>)"
    by (simp add: find_version_def sample_full_def sample_row_def)
  have "retire 1 sample_full = (Inr (), snd (retire 1 sample_full))" using run by (simp add: prod_eq_iff)
  from retire_reactivates_invalidated [OF row this faults] before show ?thesis by simp
qed

end
