(* ===== verification/Json.thy ===== *)
theory Json
  imports Prelude
begin

section \<open>JSON values\<close>

text \<open>
  The values of \<^verbatim>\<open>serde_json::Value\<close> with its accessors. A number is an unsigned integer, a negative integer
  or a finite double; an object is the list of its members.
\<close>

datatype json_number = PosInt nat | NegInt int | Double "64 word"

datatype json = Null | Bool bool | Number json_number | Str string | Arr "json list" | Obj "(string \<times> json) list"

definition is_boolean :: "json \<Rightarrow> bool" where
  "is_boolean v = (case v of Bool _ \<Rightarrow> True | _ \<Rightarrow> False)"

definition is_string :: "json \<Rightarrow> bool" where
  "is_string v = (case v of Str _ \<Rightarrow> True | _ \<Rightarrow> False)"

definition as_str :: "json \<Rightarrow> string option" where
  "as_str v = (case v of Str s \<Rightarrow> Some s | _ \<Rightarrow> None)"

definition as_int :: "json \<Rightarrow> int option" where
  "as_int v = (case v of
      Number (PosInt n) \<Rightarrow> if n \<le> i64_max then Some (int n) else None
    | Number (NegInt i) \<Rightarrow> Some i
    | _ \<Rightarrow> None)"

definition as_array :: "json \<Rightarrow> json list option" where
  "as_array v = (case v of Arr vs \<Rightarrow> Some vs | _ \<Rightarrow> None)"

text \<open>\<^verbatim>\<open>f64::is_finite\<close>: the exponent bits are not all ones.\<close>

definition is_finite :: "64 word \<Rightarrow> bool" where
  "is_finite w \<longleftrightarrow> (unat w div 2 ^ 52) mod 2 ^ 11 \<noteq> 2 ^ 11 - 1"

end
