(* ===== verification/Catalog.thy ===== *)
theory Catalog
  imports Actions Json
begin

section \<open>The library database\<close>

text \<open>
  The tables of the library database that a provider synchronises (\<^verbatim>\<open>src/backend/core/src/model\<close>), with the
  constraints of \<^verbatim>\<open>src/backend/main/migration\<close>: primary and unique keys, foreign keys and what a deletion
  takes with it. A row is a record with the columns of the \<^verbatim>\<open>Model\<close>, a table is the list of its rows in
  insertion order, and an \<^verbatim>\<open>AUTOINCREMENT\<close> key is drawn from the sequence of its table, which never goes back.
\<close>

datatype item_type = UnSpecified | Provider | Library | Album | AlbumArtist | Artist | Mix | Radio | Song | Program

definition item_code :: "item_type \<Rightarrow> int" where
  "item_code t = (case t of UnSpecified \<Rightarrow> 0 | Provider \<Rightarrow> 1 | Library \<Rightarrow> 2 | Album \<Rightarrow> 51 | AlbumArtist \<Rightarrow> 52
     | Artist \<Rightarrow> 53 | Mix \<Rightarrow> 54 | Radio \<Rightarrow> 55 | Song \<Rightarrow> 101 | Program \<Rightarrow> 102)"

definition item_type_of :: "int \<Rightarrow> item_type option" where
  "item_type_of n = find (\<lambda>t. item_code t = n)
     [UnSpecified, Provider, Library, Album, AlbumArtist, Artist, Mix, Radio, Song, Program]"

datatype album_type = UnknownAlbum | PlainAlbum | EP | Single | Soundtrack | Compilation | Live
datatype image_type = Primary | Backdrop | Banner | Thumb | Logo
datatype mix_type = NormalMix | LinkMix | CacheMix

record library_row =
  lb_id :: int
  lb_name :: string
  lb_provider :: int
  lb_native :: string
  lb_edit :: int

record item_row =
  it_id :: int
  it_native :: string
  it_library :: "int option"
  it_provider :: int
  it_type :: item_type
  it_create :: int
  it_update :: int
  it_sync :: int

record album_row =
  al_id :: int
  al_name :: string
  al_sort_name :: "string option"
  al_track_count :: int
  al_disc_count :: int
  al_type :: album_type
  al_duration :: int
  al_language :: "string option"
  al_description :: "string option"
  al_company :: "string option"
  al_publish_time :: "int option"
  al_added_at :: "int option"

record artist_row =
  ar_id :: int
  ar_name :: string
  ar_sort_name :: "string option"
  ar_description :: string
  ar_album_count :: int
  ar_music_count :: int
  ar_added_at :: "int option"

record song_row =
  so_id :: int
  so_name :: string
  so_sort_name :: "string option"
  so_album :: "int option"
  so_track_number :: int
  so_disc_number :: int
  so_duration :: int
  so_can_play :: bool
  so_popularity :: "64 word"
  so_tags :: json
  so_publish_time :: "int option"
  so_added_at :: "int option"

record remote_mix_row =
  rx_id :: int
  rx_name :: string
  rx_description :: "string option"
  rx_track_count :: int
  rx_mix_type :: string

record mix_row =
  mx_id :: int
  mx_name :: string
  mx_track_count :: int
  mx_type :: mix_type
  mx_sort_name :: "string option"
  mx_description :: string
  mx_remote :: "int option"
  mx_create :: int
  mx_update :: int
  mx_content_update :: int

record dynamic_row =
  dy_id :: int
  dy_is_external :: bool
  dy_play_count :: int
  dy_remote_play_count :: int
  dy_last_position :: "int option"
  dy_last_played_at :: "int option"
  dy_remote_last_played_at :: "int option"
  dy_favorite_at :: "int option"
  dy_update :: int

record image_row =
  im_id :: int
  im_item :: int
  im_type :: image_type
  im_native :: "string option"
  im_db :: "string option"
  im_fresh :: string
  im_timestamp :: int

text \<open>A row of \<^verbatim>\<open>rel_album_artist\<close> or \<^verbatim>\<open>rel_song_artist\<close>; the owner is the album or the song.\<close>

record rel_row =
  rl_id :: int
  rl_owner :: int
  rl_artist :: int
  rl_update :: int

record mix_song_row =
  ms_id :: int
  ms_song :: int
  ms_mix :: int
  ms_order :: int
  ms_update :: int

datatype table = LibraryTable | ItemTable | MixTable | ImageTable | AlbumArtistTable | SongArtistTable | MixSongTable

record catalog =
  ct_providers :: "int list"
  ct_libraries :: "library_row list"
  ct_items :: "item_row list"
  ct_albums :: "album_row list"
  ct_artists :: "artist_row list"
  ct_songs :: "song_row list"
  ct_remote_mixes :: "remote_mix_row list"
  ct_mixes :: "mix_row list"
  ct_dynamics :: "dynamic_row list"
  ct_images :: "image_row list"
  ct_album_artists :: "rel_row list"
  ct_song_artists :: "rel_row list"
  ct_mix_songs :: "mix_song_row list"
  ct_sequence :: "table \<Rightarrow> int"

subsection \<open>Lookups\<close>

definition find_library :: "int \<Rightarrow> catalog \<Rightarrow> library_row option" where
  "find_library i d = find (\<lambda>r. lb_id r = i) (ct_libraries d)"

definition find_item :: "int \<Rightarrow> catalog \<Rightarrow> item_row option" where
  "find_item i d = find (\<lambda>r. it_id r = i) (ct_items d)"

definition find_key :: "int \<Rightarrow> string \<Rightarrow> item_type \<Rightarrow> int option \<Rightarrow> catalog \<Rightarrow> item_row option" where
  "find_key p native t lib d =
     find (\<lambda>r. it_provider r = p \<and> it_native r = native \<and> it_type r = t \<and> it_library r = lib) (ct_items d)"

definition find_album :: "int \<Rightarrow> catalog \<Rightarrow> album_row option" where
  "find_album i d = find (\<lambda>r. al_id r = i) (ct_albums d)"

definition find_artist :: "int \<Rightarrow> catalog \<Rightarrow> artist_row option" where
  "find_artist i d = find (\<lambda>r. ar_id r = i) (ct_artists d)"

definition find_song :: "int \<Rightarrow> catalog \<Rightarrow> song_row option" where
  "find_song i d = find (\<lambda>r. so_id r = i) (ct_songs d)"

definition find_remote_mix :: "int \<Rightarrow> catalog \<Rightarrow> remote_mix_row option" where
  "find_remote_mix i d = find (\<lambda>r. rx_id r = i) (ct_remote_mixes d)"

definition find_cache_mix :: "int \<Rightarrow> catalog \<Rightarrow> mix_row option" where
  "find_cache_mix remote d = find (\<lambda>r. mx_remote r = Some remote) (ct_mixes d)"

definition find_dynamic :: "int \<Rightarrow> catalog \<Rightarrow> dynamic_row option" where
  "find_dynamic i d = find (\<lambda>r. dy_id r = i) (ct_dynamics d)"

definition find_image :: "int \<Rightarrow> image_type \<Rightarrow> catalog \<Rightarrow> image_row option" where
  "find_image i t d = find (\<lambda>r. im_item r = i \<and> im_type r = t) (ct_images d)"

text \<open>The next key of an \<^verbatim>\<open>AUTOINCREMENT\<close> column.\<close>

definition next_id :: "table \<Rightarrow> catalog \<Rightarrow> int" where
  "next_id t d = ct_sequence d t + 1"

definition advance :: "table \<Rightarrow> catalog \<Rightarrow> catalog" where
  "advance t d = d\<lparr>ct_sequence := (ct_sequence d)(t := next_id t d)\<rparr>"

subsection \<open>Deletions\<close>

text \<open>\<^verbatim>\<open>ON DELETE CASCADE\<close> of the foreign keys, one definition per referenced table.\<close>

definition delete_songs :: "(int \<Rightarrow> bool) \<Rightarrow> catalog \<Rightarrow> catalog" where
  "delete_songs p d =
     d\<lparr>ct_songs := filter (\<lambda>r. \<not> p (so_id r)) (ct_songs d),
       ct_song_artists := filter (\<lambda>r. \<not> p (rl_owner r)) (ct_song_artists d),
       ct_mix_songs := filter (\<lambda>r. \<not> p (ms_song r)) (ct_mix_songs d)\<rparr>"

definition delete_albums :: "(int \<Rightarrow> bool) \<Rightarrow> catalog \<Rightarrow> catalog" where
  "delete_albums p d =
     delete_songs (\<lambda>i. \<exists>r \<in> set (ct_songs d). so_id r = i \<and> (case so_album r of None \<Rightarrow> False | Some a \<Rightarrow> p a))
       (d\<lparr>ct_albums := filter (\<lambda>r. \<not> p (al_id r)) (ct_albums d),
          ct_album_artists := filter (\<lambda>r. \<not> p (rl_owner r)) (ct_album_artists d)\<rparr>)"

definition delete_artists :: "(int \<Rightarrow> bool) \<Rightarrow> catalog \<Rightarrow> catalog" where
  "delete_artists p d =
     d\<lparr>ct_artists := filter (\<lambda>r. \<not> p (ar_id r)) (ct_artists d),
       ct_album_artists := filter (\<lambda>r. \<not> p (rl_artist r)) (ct_album_artists d),
       ct_song_artists := filter (\<lambda>r. \<not> p (rl_artist r)) (ct_song_artists d)\<rparr>"

definition delete_mixes :: "(int \<Rightarrow> bool) \<Rightarrow> catalog \<Rightarrow> catalog" where
  "delete_mixes p d =
     d\<lparr>ct_mixes := filter (\<lambda>r. \<not> p (mx_id r)) (ct_mixes d),
       ct_mix_songs := filter (\<lambda>r. \<not> p (ms_mix r)) (ct_mix_songs d)\<rparr>"

definition delete_remote_mixes :: "(int \<Rightarrow> bool) \<Rightarrow> catalog \<Rightarrow> catalog" where
  "delete_remote_mixes p d =
     delete_mixes (\<lambda>i. \<exists>r \<in> set (ct_mixes d). mx_id r = i \<and> (case mx_remote r of None \<Rightarrow> False | Some x \<Rightarrow> p x))
       (d\<lparr>ct_remote_mixes := filter (\<lambda>r. \<not> p (rx_id r)) (ct_remote_mixes d)\<rparr>)"

definition delete_items :: "(int \<Rightarrow> bool) \<Rightarrow> catalog \<Rightarrow> catalog" where
  "delete_items p d =
     (let d1 = d\<lparr>ct_items := filter (\<lambda>r. \<not> p (it_id r)) (ct_items d),
                 ct_dynamics := filter (\<lambda>r. \<not> p (dy_id r)) (ct_dynamics d),
                 ct_images := filter (\<lambda>r. \<not> p (im_item r)) (ct_images d)\<rparr>
      in delete_remote_mixes p (delete_songs p (delete_artists p (delete_albums p d1))))"

definition delete_library :: "int \<Rightarrow> catalog \<Rightarrow> catalog" where
  "delete_library lib d =
     delete_items (\<lambda>i. \<exists>r \<in> set (ct_items d). it_id r = i \<and> it_library r = Some lib)
       (d\<lparr>ct_libraries := filter (\<lambda>r. lb_id r \<noteq> lib) (ct_libraries d)\<rparr>)"

end
