(* ===== verification/Coordinator.thy ===== *)
theory Coordinator
  imports Catalog "HOL-Library.AList"
begin

section \<open>The synchronisation coordinator\<close>

text \<open>
  \<^verbatim>\<open>src/backend/core/src/db/sync_run.rs\<close>, the shared part: per provider the write revision, the read revision,
  the favourites changed while a full sync runs, the token of the active run, the sequence of tokens and the
  retained items; globally the projection revision and the scope epochs.

  Whoever holds the mutex \<^verbatim>\<open>writes\<close> of a provider excludes every other operation of that provider, so an
  operation is one action. What can happen in the middle of it is what takes no such lock: a run is cancelled
  or dropped, a provider is replaced (its generation moves), a retention is dropped, time passes. The state
  holds a schedule of such events, and \<open>preempt\<close> lets the next group of them happen; it stands before every
  atomic load and lock that can observe them. A SQL statement fails when the schedule of faults says so, and a
  transaction that is dropped without a commit leaves the database as it was.
\<close>

definition MAX_SEEN :: nat where "MAX_SEEN = 200000"

record provider_state =
  ps_revision :: nat
  ps_changes :: nat
  ps_favorites :: "(int \<times> nat) list"
  ps_overflow :: nat
  ps_active :: nat
  ps_sequence :: nat
  ps_retained :: "(int \<times> nat) list"

definition provider_state_default :: provider_state where
  "provider_state_default = \<lparr>ps_revision = 0, ps_changes = 0, ps_favorites = [], ps_overflow = 0,
     ps_active = 0, ps_sequence = 0, ps_retained = []\<rparr>"

record sync_scope =
  sc_library :: "int option"
  sc_type :: int

definition scope_new :: "int option \<Rightarrow> item_type \<Rightarrow> sync_scope" where
  "scope_new lib t = \<lparr>sc_library = lib, sc_type = item_code t\<rparr>"

record write_generation =
  wg_current :: nat
  wg_expected :: nat

record sync_run =
  sr_provider :: int
  sr_token :: nat
  sr_revision :: nat
  sr_scopes :: "sync_scope set"
  sr_complete :: "sync_scope set"
  sr_seen :: "int set"
  sr_libraries :: "int set"
  sr_libraries_complete :: bool
  sr_declared :: bool
  sr_sealed :: bool
  sr_failed :: bool
  sr_generation :: "write_generation option"

record item_retention =
  rt_owner :: int
  rt_roots :: "item_row list"
  rt_ids :: "int list"

datatype sync_event =
    Cancelled int nat
  | NewGeneration nat
  | Released nat
  | Elapsed nat

record sync_state =
  sy_db :: catalog
  sy_faults :: "bool list"
  sy_events :: "sync_event list list"
  sy_now :: int
  sy_providers :: "int \<Rightarrow> provider_state"
  sy_projection :: nat
  sy_epochs :: "int \<rightharpoonup> nat"
  sy_instance :: string
  sy_generations :: "nat \<Rightarrow> nat"
  sy_runs :: "nat \<Rightarrow> sync_run"
  sy_next_run :: nat
  sy_retentions :: "(nat \<times> item_retention) list"
  sy_next_retention :: nat

type_synonym 'a op = "(sync_state, 'a) act"

definition upd_provider :: "int \<Rightarrow> (provider_state \<Rightarrow> provider_state) \<Rightarrow> sync_state \<Rightarrow> sync_state" where
  "upd_provider p f s = s\<lparr>sy_providers := (sy_providers s)(p := f (sy_providers s p))\<rparr>"

definition upd_run :: "nat \<Rightarrow> (sync_run \<Rightarrow> sync_run) \<Rightarrow> sync_state \<Rightarrow> sync_state" where
  "upd_run h f s = s\<lparr>sy_runs := (sy_runs s)(h := f (sy_runs s h))\<rparr>"

subsection \<open>What happens concurrently\<close>

text \<open>\<^verbatim>\<open>compare_exchange(token, 0)\<close>, by \<^verbatim>\<open>SyncCancellation::cancel\<close> and the drop of a run.\<close>

definition cancel :: "int \<Rightarrow> nat \<Rightarrow> sync_state \<Rightarrow> sync_state" where
  "cancel p token = upd_provider p (\<lambda>st. if ps_active st = token then st\<lparr>ps_active := 0\<rparr> else st)"

definition drop_run :: "nat \<Rightarrow> sync_state \<Rightarrow> sync_state" where
  "drop_run h s = cancel (sr_provider (sy_runs s h)) (sr_token (sy_runs s h)) s"

definition release_id :: "int \<Rightarrow> (int \<times> nat) list \<Rightarrow> (int \<times> nat) list" where
  "release_id i counts =
     (case map_of counts i of
        None \<Rightarrow> counts
      | Some n \<Rightarrow> if n - 1 = 0 then AList.delete i counts else AList.update i (n - 1) counts)"

definition drop_retention :: "nat \<Rightarrow> sync_state \<Rightarrow> sync_state" where
  "drop_retention h s =
     (case map_of (sy_retentions s) h of
        None \<Rightarrow> s
      | Some rt \<Rightarrow> upd_provider (rt_owner rt) (\<lambda>st. st\<lparr>ps_retained := fold release_id (rt_ids rt) (ps_retained st)\<rparr>)
          (s\<lparr>sy_retentions := AList.delete h (sy_retentions s)\<rparr>))"

definition happen :: "sync_event \<Rightarrow> sync_state \<Rightarrow> sync_state" where
  "happen e s = (case e of
      Cancelled p token \<Rightarrow> cancel p token s
    | NewGeneration g \<Rightarrow> s\<lparr>sy_generations := (sy_generations s)(g := sy_generations s g + 1)\<rparr>
    | Released h \<Rightarrow> drop_retention h s
    | Elapsed n \<Rightarrow> s\<lparr>sy_now := sy_now s + int n\<rparr>)"

definition preempt :: "unit op" where
  "preempt = modify (\<lambda>s. case sy_events s of
      [] \<Rightarrow> s
    | es # rest \<Rightarrow> fold happen es (s\<lparr>sy_events := rest\<rparr>))"

subsection \<open>Statements and transactions\<close>

definition statement :: "unit op" where
  "statement s = (case sy_faults s of
      [] \<Rightarrow> (Inr (), s)
    | f # fs \<Rightarrow> (if f then Inl ''database error'' else Inr (), s\<lparr>sy_faults := fs\<rparr>))"

definition select :: "(catalog \<Rightarrow> 'a) \<Rightarrow> 'a op" where
  "select f = bnd statement (\<lambda>_. gets (\<lambda>s. f (sy_db s)))"

definition change :: "(catalog \<Rightarrow> catalog) \<Rightarrow> unit op" where
  "change f = bnd statement (\<lambda>_. modify (\<lambda>s. s\<lparr>sy_db := f (sy_db s)\<rparr>))"

text \<open>A statement that the database refuses when a constraint does not hold.\<close>

definition constrained :: "(catalog \<Rightarrow> bool) \<Rightarrow> string \<Rightarrow> (catalog \<Rightarrow> catalog) \<Rightarrow> unit op" where
  "constrained ok msg f =
     bnd statement (\<lambda>_.
     bnd (gets (\<lambda>s. ok (sy_db s))) (\<lambda>b.
     bnd (require b msg) (\<lambda>_.
     modify (\<lambda>s. s\<lparr>sy_db := f (sy_db s)\<rparr>))))"

definition rollback :: "catalog \<Rightarrow> sync_state \<Rightarrow> sync_state" where
  "rollback d s = s\<lparr>sy_db := d\<rparr>"

definition in_txn :: "'a op \<Rightarrow> 'a op" where
  "in_txn m = bnd statement (\<lambda>_ s.
     case bnd m (\<lambda>x. bnd statement (\<lambda>_. ret x)) s of
       (Inl e, s') \<Rightarrow> (Inl e, rollback (sy_db s) s')
     | (Inr x, s') \<Rightarrow> (Inr x, s'))"

definition now :: "int op" where
  "now = bnd preempt (\<lambda>_. gets sy_now)"

subsection \<open>Writes\<close>

definition load_active :: "int \<Rightarrow> nat op" where
  "load_active p = bnd preempt (\<lambda>_. gets (\<lambda>s. ps_active (sy_providers s p)))"

definition INACTIVE :: string where
  "INACTIVE = ''sync session is no longer active''"

definition check_origin :: "int \<Rightarrow> nat option \<Rightarrow> unit op" where
  "check_origin p token =
     (case token of
        None \<Rightarrow> ret ()
      | Some t \<Rightarrow> bnd (load_active p) (\<lambda>a. require (a = t) INACTIVE))"

definition incremented :: "nat \<Rightarrow> string \<Rightarrow> nat op" where
  "incremented n msg = lift (ok_or (checked_add n 1) msg)"

text \<open>
  \<^verbatim>\<open>write_guard\<close>: after it the caller holds the guard of the provider. Every write that does not come from a
  full sync moves the write revision, every write the read revision and the projection revision.
\<close>

definition bump_revision :: "int \<Rightarrow> unit op" where
  "bump_revision p =
     bnd (gets (\<lambda>s. ps_revision (sy_providers s p))) (\<lambda>n.
     bnd (incremented n ''write revision exhausted'') (\<lambda>n'.
     modify (upd_provider p (\<lambda>st. st\<lparr>ps_revision := n'\<rparr>))))"

definition bump_changes :: "int \<Rightarrow> unit op" where
  "bump_changes p =
     bnd (gets (\<lambda>s. ps_changes (sy_providers s p))) (\<lambda>n.
     bnd (incremented n ''read revision exhausted'') (\<lambda>n'.
     modify (upd_provider p (\<lambda>st. st\<lparr>ps_changes := n'\<rparr>))))"

definition bump_projection :: "unit op" where
  "bump_projection =
     bnd (gets sy_projection) (\<lambda>n.
     bnd (incremented n ''projection revision exhausted'') (\<lambda>n'.
     modify (\<lambda>s. s\<lparr>sy_projection := n'\<rparr>)))"

definition write_guard :: "int \<Rightarrow> nat option \<Rightarrow> unit op" where
  "write_guard p origin =
     bnd (case origin of None \<Rightarrow> bump_revision p | Some _ \<Rightarrow> check_origin p origin) (\<lambda>_.
     bnd (bump_changes p) (\<lambda>_.
     bump_projection))"

definition read_revision :: "int \<Rightarrow> nat op" where
  "read_revision p = gets (\<lambda>s. ps_changes (sy_providers s p))"

record projection_read =
  pj_instance :: string
  pj_revision :: nat
  pj_epochs :: "int \<rightharpoonup> nat"

definition read_snapshot :: "projection_read op" where
  "read_snapshot = gets (\<lambda>s. \<lparr>pj_instance = sy_instance s, pj_revision = sy_projection s, pj_epochs = sy_epochs s\<rparr>)"

text \<open>\<^verbatim>\<open>write_items\<close>: the guards of all providers that own the items, provider 0 (local data) first.\<close>

definition write_items :: "int list \<Rightarrow> int list op" where
  "write_items ids =
     bnd (select (\<lambda>d. remdups (map it_provider (filter (\<lambda>r. it_id r \<in> set ids) (ct_items d))))) (\<lambda>found.
     let providers = remdups_adj (0 # sort found) in
     bnd (for_each providers (\<lambda>p. write_guard p None)) (\<lambda>_. ret providers))"

definition write_mixes :: "int list \<Rightarrow> int list \<Rightarrow> int list op" where
  "write_mixes ids items =
     bnd (select (\<lambda>d. map mx_remote (filter (\<lambda>r. mx_id r \<in> set ids) (ct_mixes d)))) (\<lambda>remotes.
     write_items (items @ List.map_filter (\<lambda>x. x) remotes))"

subsection \<open>What a guard allows\<close>

definition bump_epoch :: "int \<Rightarrow> string \<Rightarrow> unit op" where
  "bump_epoch p msg =
     bnd (gets (\<lambda>s. case sy_epochs s p of None \<Rightarrow> 0 | Some n \<Rightarrow> n)) (\<lambda>n.
     bnd (modify (\<lambda>s. s\<lparr>sy_epochs := (sy_epochs s)(p \<mapsto> n)\<rparr>)) (\<lambda>_.
     bnd (incremented n msg) (\<lambda>n'.
     modify (\<lambda>s. s\<lparr>sy_epochs := (sy_epochs s)(p \<mapsto> n')\<rparr>))))"

definition invalidate_scope :: "int \<Rightarrow> unit op" where
  "invalidate_scope owner =
     bnd (bump_epoch owner ''scope epoch exhausted'') (\<lambda>_.
     if owner \<noteq> 0 then bump_epoch 0 ''local scope epoch exhausted'' else ret ())"

definition retained_items :: "int \<Rightarrow> int list op" where
  "retained_items p = bnd preempt (\<lambda>_. gets (\<lambda>s. map fst (ps_retained (sy_providers s p))))"

definition invalidate_sync :: "int \<Rightarrow> unit op" where
  "invalidate_sync p = modify (upd_provider p (\<lambda>st. st\<lparr>ps_active := 0\<rparr>))"

definition favorite :: "int \<Rightarrow> int \<Rightarrow> unit op" where
  "favorite p i =
     bnd (load_active p) (\<lambda>a.
     if a \<noteq> 0 then
       modify (upd_provider p (\<lambda>st.
         if length (ps_favorites st) < MAX_SEEN
         then st\<lparr>ps_favorites := AList.update i (ps_revision st) (ps_favorites st)\<rparr>
         else st\<lparr>ps_overflow := ps_revision st\<rparr>))
     else ret ())"

definition favorite_changed_after :: "int \<Rightarrow> nat \<Rightarrow> provider_state \<Rightarrow> bool" where
  "favorite_changed_after i revision st \<longleftrightarrow>
     revision < ps_overflow st
     \<or> (case map_of (ps_favorites st) i of None \<Rightarrow> False | Some r \<Rightarrow> revision < r)"

subsection \<open>Starting a run\<close>

definition run_new :: "int \<Rightarrow> nat \<Rightarrow> nat \<Rightarrow> sync_run" where
  "run_new p token revision = \<lparr>sr_provider = p, sr_token = token, sr_revision = revision, sr_scopes = {},
     sr_complete = {}, sr_seen = {}, sr_libraries = {}, sr_libraries_complete = False, sr_declared = False,
     sr_sealed = False, sr_failed = False, sr_generation = None\<rparr>"

text \<open>\<^verbatim>\<open>fetch_add\<close> wraps around; the token of the run is the old value plus one.\<close>

definition start :: "int \<Rightarrow> nat op" where
  "start p =
     bnd (load_active p) (\<lambda>a.
     bnd (require (a = 0) ''full sync is already running'') (\<lambda>_.
     bnd (gets (\<lambda>s. ps_sequence (sy_providers s p))) (\<lambda>n.
     bnd (modify (upd_provider p (\<lambda>st. st\<lparr>ps_sequence := (n + 1) mod 2 ^ 64\<rparr>))) (\<lambda>_.
     bnd (incremented n ''sync generation exhausted'') (\<lambda>token.
     bnd (modify (upd_provider p (\<lambda>st. st\<lparr>ps_active := token, ps_favorites := [], ps_overflow := 0\<rparr>))) (\<lambda>_.
     bnd (gets (\<lambda>s. (ps_revision (sy_providers s p), sy_next_run s))) (\<lambda>rh.
     bnd (modify (\<lambda>s. upd_run (snd rh) (\<lambda>_. run_new p token (fst rh)) (s\<lparr>sy_next_run := snd rh + 1\<rparr>))) (\<lambda>_.
     ret (snd rh)))))))))"

end
