(* ===== verification/Sync_Writer.thy ===== *)
theory Sync_Writer
  imports Coordinator
begin

section \<open>The provider writer: references and identities\<close>

text \<open>
  \<^verbatim>\<open>src/backend/core/src/db/sync_batch.rs\<close>, first half: patches, masks, references to items, and how a writer
  resolves a reference of its provider or allocates a new item for it.
\<close>

datatype 'a patch = Missing | Set 'a

record item_key =
  ik_native :: string
  ik_library :: "int option patch"
  ik_type :: item_type
  ik_id :: "int option"

datatype item_ref = Id int | Key item_key

record mask =
  mk_include :: "string list option"
  mk_exclude :: "string list option"

definition mask_default :: mask where
  "mask_default = \<lparr>mk_include = None, mk_exclude = None\<rparr>"

definition mask_names :: "mask \<Rightarrow> string list" where
  "mask_names mk = (case mk_include mk of None \<Rightarrow> [] | Some ns \<Rightarrow> ns)
     @ (case mk_exclude mk of None \<Rightarrow> [] | Some ns \<Rightarrow> ns)"

definition mask_validate :: "mask \<Rightarrow> string list \<Rightarrow> unit result" where
  "mask_validate mk names =
     (if mk_include mk \<noteq> None \<and> mk_exclude mk \<noteq> None then Inl ''include and exclude are mutually exclusive''
      else case find (\<lambda>n. n \<notin> set names) (mask_names mk) of
        None \<Rightarrow> Inr ()
      | Some n \<Rightarrow> Inl (''unknown mask field: '' @ n))"

definition mask_allows :: "mask \<Rightarrow> string \<Rightarrow> bool" where
  "mask_allows mk name \<longleftrightarrow>
     (case mk_include mk of None \<Rightarrow> True | Some ns \<Rightarrow> name \<in> set ns)
     \<and> (case mk_exclude mk of None \<Rightarrow> True | Some ns \<Rightarrow> name \<notin> set ns)"

text \<open>
  One field of the macro \<^verbatim>\<open>entity_input!\<close>: a new row takes the default of \<^verbatim>\<open>on_insert\<close> and then the value, an
  existing row takes the value when the mask allows the field.
\<close>

definition patch_field :: "bool \<Rightarrow> mask \<Rightarrow> string \<Rightarrow> 'a patch \<Rightarrow> 'a patch \<Rightarrow> 'a \<Rightarrow> 'a" where
  "patch_field inserted mk name dflt val old =
     (let x = (if inserted then (case dflt of Set v \<Rightarrow> v | Missing \<Rightarrow> old) else old)
      in if inserted \<or> mask_allows mk name then (case val of Set v \<Rightarrow> v | Missing \<Rightarrow> x) else x)"

definition on_insert :: "'f option \<Rightarrow> ('f \<Rightarrow> 'a patch) \<Rightarrow> 'a patch" where
  "on_insert d f = (case d of None \<Rightarrow> Missing | Some x \<Rightarrow> f x)"

record writer =
  wr_provider :: int
  wr_run :: "(nat \<times> nat) option"
  wr_generation :: "write_generation option"

definition writer_new :: "int \<Rightarrow> writer" where
  "writer_new p = \<lparr>wr_provider = p, wr_run = None, wr_generation = None\<rparr>"

subsection \<open>Resolving\<close>

definition owns_library :: "writer \<Rightarrow> int \<Rightarrow> bool op" where
  "owns_library w i =
     bnd (select (find_library i)) (\<lambda>lib.
       case lib of
         None \<Rightarrow> ret False
       | Some l \<Rightarrow>
           bnd (require (lb_provider l = wr_provider w) ''library belongs to another provider'') (\<lambda>_.
           ret True))"

definition validate_library :: "writer \<Rightarrow> int \<Rightarrow> unit op" where
  "validate_library w i = bnd (owns_library w i) (\<lambda>b. require b ''missing library'')"

definition library_optional :: "writer \<Rightarrow> item_key \<Rightarrow> int option option op" where
  "library_optional w key =
     bnd (require (ik_native key \<noteq> [] \<and> length (ik_native key) \<le> 4096) ''invalid native_id'') (\<lambda>_.
       case ik_library key of
         Missing \<Rightarrow> raise ''library_id is required; use null for global items''
       | Set lib \<Rightarrow>
           (case lib of
              Some i \<Rightarrow> bnd (owns_library w i) (\<lambda>b. ret (if b then Some lib else None))
            | None \<Rightarrow>
                bnd (require (ik_type key \<in> {Mix, Radio}) ''only mixes and radio queues may be global'') (\<lambda>_.
                ret (Some lib))))"

definition library_of :: "writer \<Rightarrow> item_key \<Rightarrow> int option op" where
  "library_of w key = bnd (library_optional w key) (\<lambda>l. lift (ok_or l ''missing library''))"

definition resolve_key :: "writer \<Rightarrow> item_key \<Rightarrow> item_type list \<Rightarrow> item_row option op" where
  "resolve_key w key expected =
     bnd (require (expected = [] \<or> ik_type key \<in> set expected) ''item reference has wrong type'') (\<lambda>_.
     bnd (library_optional w key) (\<lambda>library.
       case library of
         None \<Rightarrow> ret None
       | Some lib \<Rightarrow>
           bnd (select (find_key (wr_provider w) (ik_native key) (ik_type key) lib)) (\<lambda>found.
           bnd (require (case (ik_id key, found) of (Some i, Some m) \<Rightarrow> i = it_id m | _ \<Rightarrow> True)
                  ''item id does not match key'') (\<lambda>_.
           ret found))))"

definition resolve_optional :: "writer \<Rightarrow> item_ref \<Rightarrow> item_type list \<Rightarrow> item_row option op" where
  "resolve_optional w item expected =
     bnd (case item of Id i \<Rightarrow> select (find_item i) | Key key \<Rightarrow> resolve_key w key expected) (\<lambda>model.
       case model of
         None \<Rightarrow> ret None
       | Some m \<Rightarrow>
           bnd (require (it_provider m = wr_provider w \<and> (expected = [] \<or> it_type m \<in> set expected))
                  ''item reference has wrong provider or type'') (\<lambda>_.
           ret (Some m)))"

definition resolve :: "writer \<Rightarrow> item_ref \<Rightarrow> item_type list \<Rightarrow> item_row op" where
  "resolve w item expected =
     bnd (resolve_optional w item expected) (\<lambda>m. lift (ok_or m ''missing item reference''))"

definition resolve_unique :: "writer \<Rightarrow> string \<Rightarrow> item_type \<Rightarrow> item_row op" where
  "resolve_unique w native kind =
     bnd (select (\<lambda>d. take 2 (filter (\<lambda>r. it_provider r = wr_provider w \<and> it_native r = native \<and> it_type r = kind)
        (ct_items d)))) (\<lambda>found.
       case found of
         [r] \<Rightarrow> ret r
       | [] \<Rightarrow> raise ''missing item reference''
       | _ \<Rightarrow> raise ''ambiguous item reference; supply a library'')"

subsection \<open>Allocating\<close>

text \<open>
  \<^verbatim>\<open>INSERT INTO item\<close>: the native id, the type and the library are a unique key, for global items the
  provider takes the place of the library.
\<close>

definition item_unique :: "item_row \<Rightarrow> catalog \<Rightarrow> bool" where
  "item_unique row d \<longleftrightarrow>
     (\<forall>r \<in> set (ct_items d). it_native r = it_native row \<and> it_type r = it_type row \<and> it_library r = it_library row
        \<longrightarrow> it_library row = None \<and> it_provider r \<noteq> it_provider row)"

definition insert_item :: "item_row \<Rightarrow> item_row op" where
  "insert_item row =
     bnd (gets (\<lambda>s. next_id ItemTable (sy_db s))) (\<lambda>i.
     let row' = row\<lparr>it_id := i\<rparr> in
     bnd (constrained
       (\<lambda>d. item_unique row d
          \<and> (case it_library row of None \<Rightarrow> True | Some l \<Rightarrow> find_library l d \<noteq> None))
       ''constraint failed: item''
       (\<lambda>d. (advance ItemTable d)\<lparr>ct_items := ct_items d @ [row']\<rparr>)) (\<lambda>_.
     ret row'))"

definition touch_item :: "int \<Rightarrow> item_row \<Rightarrow> item_row op" where
  "touch_item t row =
     (let row' = row\<lparr>it_sync := t, it_update := t\<rparr> in
      bnd (change (\<lambda>d. d\<lparr>ct_items := map (\<lambda>r. if it_id r = it_id row then r\<lparr>it_sync := t, it_update := t\<rparr> else r)
         (ct_items d)\<rparr>)) (\<lambda>_.
      ret row'))"

definition allocate :: "writer \<Rightarrow> item_ref \<Rightarrow> item_type list \<Rightarrow> item_row op" where
  "allocate w item expected =
     (case item of
        Id _ \<Rightarrow> resolve w item expected
      | Key key \<Rightarrow>
          bnd (library_of w key) (\<lambda>lib.
          bnd (require (ik_type key \<in> set expected) ''wrong entity type'') (\<lambda>_.
          bnd now (\<lambda>t.
          bnd (select (find_key (wr_provider w) (ik_native key) (ik_type key) lib)) (\<lambda>found.
            case found of
              Some m \<Rightarrow>
                bnd (require (case ik_id key of None \<Rightarrow> True | Some i \<Rightarrow> i = it_id m) ''item id does not match key'') (\<lambda>_.
                touch_item t m)
            | None \<Rightarrow>
                bnd (require (ik_id key = None) ''supplied item id does not exist'') (\<lambda>_.
                insert_item \<lparr>it_id = 0, it_native = ik_native key, it_library = lib, it_provider = wr_provider w,
                  it_type = ik_type key, it_create = t, it_update = t, it_sync = t\<rparr>))))))"

subsection \<open>The generation of the provider\<close>

definition check_generation :: "write_generation option \<Rightarrow> unit op" where
  "check_generation g =
     (case g of
        None \<Rightarrow> ret ()
      | Some g \<Rightarrow>
          bnd preempt (\<lambda>_.
          bnd (gets (\<lambda>s. sy_generations s (wg_current g))) (\<lambda>n.
          require (n = wg_expected g) ''provider generation changed'')))"

end
