(* ===== verification/Sync_Batch.thy ===== *)
theory Sync_Batch
  imports Sync_Writer
begin

section \<open>Writing a batch\<close>

text \<open>
  \<^verbatim>\<open>src/backend/core/src/db/sync_batch.rs\<close>, second half: the input types, and \<^verbatim>\<open>apply\<close> as the sequence of its
  loops, one definition per loop. The two macros \<^verbatim>\<open>write_entities!\<close> and \<^verbatim>\<open>relations!\<close> are higher-order
  functions. A \<^verbatim>\<open>HashSet\<close> that is iterated is iterated in insertion order; the order of the rows of a
  relation and their ids are the only things that depend on it.
\<close>

subsection \<open>Input\<close>

record album_fields =
  af_name :: "string patch"
  af_sort_name :: "string option patch"
  af_track_count :: "int patch"
  af_disc_count :: "int patch"
  af_type :: "album_type patch"
  af_duration :: "int patch"
  af_language :: "string option patch"
  af_description :: "string option patch"
  af_company :: "string option patch"
  af_publish_time :: "int option patch"
  af_added_at :: "int option patch"

record artist_fields =
  rf_name :: "string patch"
  rf_sort_name :: "string option patch"
  rf_description :: "string patch"
  rf_album_count :: "int patch"
  rf_music_count :: "int patch"
  rf_added_at :: "int option patch"

record song_fields =
  sf_name :: "string patch"
  sf_sort_name :: "string option patch"
  sf_track_number :: "int patch"
  sf_disc_number :: "int patch"
  sf_duration :: "int patch"
  sf_can_play :: "bool patch"
  sf_popularity :: "64 word patch"
  sf_tags :: "string list patch"
  sf_publish_time :: "int option patch"
  sf_added_at :: "int option patch"

record remote_mix_fields =
  xf_name :: "string patch"
  xf_description :: "string option patch"
  xf_track_count :: "int patch"
  xf_mix_type :: "string patch"

record dynamic_fields =
  df_is_external :: "bool patch"
  df_remote_play_count :: "int patch"
  df_remote_last_played_at :: "int option patch"
  df_favorite_at :: "int option patch"

record 'f entity_input =
  ei_item :: item_ref
  ei_on_insert :: "'f option"
  ei_fields :: 'f

record song_input = "song_fields entity_input" +
  si_album :: "item_ref option patch"

record dynamic_input = "dynamic_fields entity_input" +
  di_favorite :: "bool patch"

record library_input =
  li_native :: string
  li_name :: string

record image_input =
  ii_item :: item_ref
  ii_type :: image_type
  ii_native :: "string option patch"
  ii_fresh :: "string patch"
  ii_remove :: bool

datatype relation_mode = Merge | Replace

record relation_input =
  ri_owner :: item_ref
  ri_mode :: relation_mode
  ri_targets :: "item_ref list"

record song_album_input =
  sa_song :: item_ref
  sa_album :: "item_ref option"

record mix_contents =
  mc_mix :: item_ref
  mc_mode :: relation_mode
  mc_songs :: "item_ref list"

record batch_options =
  bo_albums :: mask
  bo_artists :: mask
  bo_songs :: mask
  bo_remote_mixes :: mask
  bo_dynamics :: mask

record sync_batch =
  bt_libraries :: "library_input list"
  bt_albums :: "album_fields entity_input list"
  bt_artists :: "artist_fields entity_input list"
  bt_songs :: "song_input list"
  bt_remote_mixes :: "remote_mix_fields entity_input list"
  bt_dynamics :: "dynamic_input list"
  bt_images :: "image_input list"
  bt_song_albums :: "song_album_input list"
  bt_album_artists :: "relation_input list"
  bt_song_artists :: "relation_input list"
  bt_contents :: "mix_contents list"
  bt_options :: batch_options

record sync_result =
  out_libraries :: "library_row list"
  out_items :: "item_row list"
  out_albums :: "album_row list"
  out_artists :: "artist_row list"
  out_songs :: "song_row list"
  out_remote_mixes :: "remote_mix_row list"

definition album_names :: "string list" where
  "album_names = [''name'', ''sort_name'', ''track_count'', ''disc_count'', ''type'', ''duration'', ''language'',
     ''description'', ''company'', ''publish_time'', ''added_at'']"

definition artist_names :: "string list" where
  "artist_names = [''name'', ''sort_name'', ''description'', ''album_count'', ''music_count'', ''added_at'']"

definition song_names :: "string list" where
  "song_names = [''name'', ''sort_name'', ''track_number'', ''disc_number'', ''duration'', ''can_play'',
     ''popularity'', ''tags'', ''publish_time'', ''added_at'', ''album_id'']"

definition remote_mix_names :: "string list" where
  "remote_mix_names = [''name'', ''description'', ''track_count'', ''mix_type'']"

definition dynamic_names :: "string list" where
  "dynamic_names = [''is_external'', ''remote_play_count'', ''remote_last_played_at'', ''favorite_at'', ''favorite'']"

subsection \<open>The macro \<^verbatim>\<open>apply\<close>\<close>

definition album_apply :: "album_fields entity_input \<Rightarrow> bool \<Rightarrow> mask \<Rightarrow> album_row \<Rightarrow> album_row result" where
  "album_apply e new mk m =
     and_then (mask_validate mk album_names) (\<lambda>_.
     let d = ei_on_insert e; f = ei_fields e in
     Inr (m\<lparr>
       al_name := patch_field new mk ''name'' (on_insert d af_name) (af_name f) (al_name m),
       al_sort_name := patch_field new mk ''sort_name'' (on_insert d af_sort_name) (af_sort_name f) (al_sort_name m),
       al_track_count := patch_field new mk ''track_count'' (on_insert d af_track_count) (af_track_count f) (al_track_count m),
       al_disc_count := patch_field new mk ''disc_count'' (on_insert d af_disc_count) (af_disc_count f) (al_disc_count m),
       al_type := patch_field new mk ''type'' (on_insert d af_type) (af_type f) (al_type m),
       al_duration := patch_field new mk ''duration'' (on_insert d af_duration) (af_duration f) (al_duration m),
       al_language := patch_field new mk ''language'' (on_insert d af_language) (af_language f) (al_language m),
       al_description := patch_field new mk ''description'' (on_insert d af_description) (af_description f) (al_description m),
       al_company := patch_field new mk ''company'' (on_insert d af_company) (af_company f) (al_company m),
       al_publish_time := patch_field new mk ''publish_time'' (on_insert d af_publish_time) (af_publish_time f) (al_publish_time m),
       al_added_at := patch_field new mk ''added_at'' (on_insert d af_added_at) (af_added_at f) (al_added_at m)\<rparr>))"

definition artist_apply :: "artist_fields entity_input \<Rightarrow> bool \<Rightarrow> mask \<Rightarrow> artist_row \<Rightarrow> artist_row result" where
  "artist_apply e new mk m =
     and_then (mask_validate mk artist_names) (\<lambda>_.
     let d = ei_on_insert e; f = ei_fields e in
     Inr (m\<lparr>
       ar_name := patch_field new mk ''name'' (on_insert d rf_name) (rf_name f) (ar_name m),
       ar_sort_name := patch_field new mk ''sort_name'' (on_insert d rf_sort_name) (rf_sort_name f) (ar_sort_name m),
       ar_description := patch_field new mk ''description'' (on_insert d rf_description) (rf_description f) (ar_description m),
       ar_album_count := patch_field new mk ''album_count'' (on_insert d rf_album_count) (rf_album_count f) (ar_album_count m),
       ar_music_count := patch_field new mk ''music_count'' (on_insert d rf_music_count) (rf_music_count f) (ar_music_count m),
       ar_added_at := patch_field new mk ''added_at'' (on_insert d rf_added_at) (rf_added_at f) (ar_added_at m)\<rparr>))"

definition tags_patch :: "string list patch \<Rightarrow> json patch" where
  "tags_patch p = (case p of Missing \<Rightarrow> Missing | Set ts \<Rightarrow> Set (Arr (map Str ts)))"

definition song_apply :: "song_input \<Rightarrow> bool \<Rightarrow> mask \<Rightarrow> song_row \<Rightarrow> song_row result" where
  "song_apply e new mk m =
     and_then (mask_validate mk song_names) (\<lambda>_.
     let d = ei_on_insert e; f = ei_fields e in
     Inr (m\<lparr>
       so_name := patch_field new mk ''name'' (on_insert d sf_name) (sf_name f) (so_name m),
       so_sort_name := patch_field new mk ''sort_name'' (on_insert d sf_sort_name) (sf_sort_name f) (so_sort_name m),
       so_track_number := patch_field new mk ''track_number'' (on_insert d sf_track_number) (sf_track_number f) (so_track_number m),
       so_disc_number := patch_field new mk ''disc_number'' (on_insert d sf_disc_number) (sf_disc_number f) (so_disc_number m),
       so_duration := patch_field new mk ''duration'' (on_insert d sf_duration) (sf_duration f) (so_duration m),
       so_can_play := patch_field new mk ''can_play'' (on_insert d sf_can_play) (sf_can_play f) (so_can_play m),
       so_popularity := patch_field new mk ''popularity'' (on_insert d sf_popularity) (sf_popularity f) (so_popularity m),
       so_tags := patch_field new mk ''tags'' (tags_patch (on_insert d sf_tags)) (tags_patch (sf_tags f)) (so_tags m),
       so_publish_time := patch_field new mk ''publish_time'' (on_insert d sf_publish_time) (sf_publish_time f) (so_publish_time m),
       so_added_at := patch_field new mk ''added_at'' (on_insert d sf_added_at) (sf_added_at f) (so_added_at m)\<rparr>))"

definition remote_mix_apply ::
    "remote_mix_fields entity_input \<Rightarrow> bool \<Rightarrow> mask \<Rightarrow> remote_mix_row \<Rightarrow> remote_mix_row result" where
  "remote_mix_apply e new mk m =
     and_then (mask_validate mk remote_mix_names) (\<lambda>_.
     let d = ei_on_insert e; f = ei_fields e in
     Inr (m\<lparr>
       rx_name := patch_field new mk ''name'' (on_insert d xf_name) (xf_name f) (rx_name m),
       rx_description := patch_field new mk ''description'' (on_insert d xf_description) (xf_description f) (rx_description m),
       rx_track_count := patch_field new mk ''track_count'' (on_insert d xf_track_count) (xf_track_count f) (rx_track_count m),
       rx_mix_type := patch_field new mk ''mix_type'' (on_insert d xf_mix_type) (xf_mix_type f) (rx_mix_type m)\<rparr>))"

definition dynamic_apply :: "dynamic_input \<Rightarrow> bool \<Rightarrow> mask \<Rightarrow> dynamic_row \<Rightarrow> dynamic_row result" where
  "dynamic_apply e new mk m =
     and_then (mask_validate mk dynamic_names) (\<lambda>_.
     let d = ei_on_insert e; f = ei_fields e in
     Inr (m\<lparr>
       dy_is_external := patch_field new mk ''is_external'' (on_insert d df_is_external) (df_is_external f) (dy_is_external m),
       dy_remote_play_count := patch_field new mk ''remote_play_count'' (on_insert d df_remote_play_count) (df_remote_play_count f) (dy_remote_play_count m),
       dy_remote_last_played_at := patch_field new mk ''remote_last_played_at'' (on_insert d df_remote_last_played_at) (df_remote_last_played_at f) (dy_remote_last_played_at m),
       dy_favorite_at := patch_field new mk ''favorite_at'' (on_insert d df_favorite_at) (df_favorite_at f) (dy_favorite_at m)\<rparr>))"

subsection \<open>Rows of the entities\<close>

text \<open>\<^verbatim>\<open>INSERT\<close> and \<^verbatim>\<open>UPDATE\<close> of one row by its primary key, with the foreign keys.\<close>

definition NO_RECORD :: string where
  "NO_RECORD = ''None of the records are updated''"

definition FOREIGN_KEY :: string where
  "FOREIGN_KEY = ''constraint failed''"

definition insert_album :: "album_row \<Rightarrow> unit op" where
  "insert_album m = constrained (\<lambda>d. find_album (al_id m) d = None \<and> find_item (al_id m) d \<noteq> None) FOREIGN_KEY
     (\<lambda>d. d\<lparr>ct_albums := ct_albums d @ [m]\<rparr>)"

definition update_album :: "album_row \<Rightarrow> unit op" where
  "update_album m = constrained (\<lambda>d. find_album (al_id m) d \<noteq> None) NO_RECORD
     (\<lambda>d. d\<lparr>ct_albums := map (\<lambda>r. if al_id r = al_id m then m else r) (ct_albums d)\<rparr>)"

definition insert_artist :: "artist_row \<Rightarrow> unit op" where
  "insert_artist m = constrained (\<lambda>d. find_artist (ar_id m) d = None \<and> find_item (ar_id m) d \<noteq> None) FOREIGN_KEY
     (\<lambda>d. d\<lparr>ct_artists := ct_artists d @ [m]\<rparr>)"

definition update_artist :: "artist_row \<Rightarrow> unit op" where
  "update_artist m = constrained (\<lambda>d. find_artist (ar_id m) d \<noteq> None) NO_RECORD
     (\<lambda>d. d\<lparr>ct_artists := map (\<lambda>r. if ar_id r = ar_id m then m else r) (ct_artists d)\<rparr>)"

definition album_present :: "int option \<Rightarrow> catalog \<Rightarrow> bool" where
  "album_present a d \<longleftrightarrow> (case a of None \<Rightarrow> True | Some i \<Rightarrow> find_album i d \<noteq> None)"

definition insert_song :: "song_row \<Rightarrow> unit op" where
  "insert_song m = constrained
     (\<lambda>d. find_song (so_id m) d = None \<and> find_item (so_id m) d \<noteq> None \<and> album_present (so_album m) d) FOREIGN_KEY
     (\<lambda>d. d\<lparr>ct_songs := ct_songs d @ [m]\<rparr>)"

definition update_song :: "song_row \<Rightarrow> unit op" where
  "update_song m =
     bnd (constrained (\<lambda>d. find_song (so_id m) d \<noteq> None) NO_RECORD (\<lambda>d. d)) (\<lambda>_.
     constrained (album_present (so_album m)) FOREIGN_KEY
     (\<lambda>d. d\<lparr>ct_songs := map (\<lambda>r. if so_id r = so_id m then m else r) (ct_songs d)\<rparr>))"

definition set_song_album :: "int \<Rightarrow> int option \<Rightarrow> unit op" where
  "set_song_album i a =
     bnd (constrained (\<lambda>d. find_song i d \<noteq> None) NO_RECORD (\<lambda>d. d)) (\<lambda>_.
     constrained (album_present a) FOREIGN_KEY
     (\<lambda>d. d\<lparr>ct_songs := map (\<lambda>r. if so_id r = i then r\<lparr>so_album := a\<rparr> else r) (ct_songs d)\<rparr>))"

definition insert_remote_mix :: "remote_mix_row \<Rightarrow> unit op" where
  "insert_remote_mix m =
     constrained (\<lambda>d. find_remote_mix (rx_id m) d = None \<and> find_item (rx_id m) d \<noteq> None) FOREIGN_KEY
     (\<lambda>d. d\<lparr>ct_remote_mixes := ct_remote_mixes d @ [m]\<rparr>)"

definition update_remote_mix :: "remote_mix_row \<Rightarrow> unit op" where
  "update_remote_mix m = constrained (\<lambda>d. find_remote_mix (rx_id m) d \<noteq> None) NO_RECORD
     (\<lambda>d. d\<lparr>ct_remote_mixes := map (\<lambda>r. if rx_id r = rx_id m then m else r) (ct_remote_mixes d)\<rparr>)"

end
