(* ===== verification/Sync_Apply.thy ===== *)
theory Sync_Apply
  imports Sync_Batch
begin

section \<open>Applying a batch\<close>

text \<open>The loops of \<^verbatim>\<open>ProviderWriter::apply\<close> in the order the source runs them, and \<^verbatim>\<open>sync_batch\<close> around them.\<close>

subsection \<open>Libraries and identities\<close>

definition write_library :: "writer \<Rightarrow> library_input \<Rightarrow> library_row op" where
  "write_library w li =
     bnd (select (\<lambda>d. find (\<lambda>r. lb_provider r = wr_provider w \<and> lb_native r = li_native li) (ct_libraries d))) (\<lambda>old.
     bnd now (\<lambda>t.
       case old of
         Some l \<Rightarrow>
           let l' = l\<lparr>lb_name := li_name li, lb_edit := t\<rparr> in
           bnd (change (\<lambda>d. d\<lparr>ct_libraries := map (\<lambda>r. if lb_id r = lb_id l then l' else r) (ct_libraries d)\<rparr>)) (\<lambda>_.
           ret l')
       | None \<Rightarrow>
           bnd (gets (\<lambda>s. next_id LibraryTable (sy_db s))) (\<lambda>i.
           let l' = \<lparr>lb_id = i, lb_name = li_name li, lb_provider = wr_provider w, lb_native = li_native li,
                     lb_edit = t\<rparr> in
           bnd (constrained (\<lambda>d. wr_provider w \<in> set (ct_providers d)) FOREIGN_KEY
             (\<lambda>d. (advance LibraryTable d)\<lparr>ct_libraries := ct_libraries d @ [l']\<rparr>)) (\<lambda>_.
           ret l'))))"

definition write_libraries :: "writer \<Rightarrow> library_input list \<Rightarrow> library_row list op" where
  "write_libraries w lis =
     bnd (fold_act (\<lambda>li acc.
       bnd (require (li_native li \<noteq> [] \<and> li_native li \<notin> set (fst acc)) ''duplicate or empty library identity'') (\<lambda>_.
       bnd (write_library w li) (\<lambda>l.
       ret (li_native li # fst acc, snd acc @ [l])))) lis ([], [])) (\<lambda>acc.
     ret (snd acc))"

definition allocate_group :: "writer \<Rightarrow> item_type list \<Rightarrow> item_ref list \<Rightarrow> item_row list \<Rightarrow> item_row list op" where
  "allocate_group w types =
     fold_act (\<lambda>i acc.
       bnd (allocate w i types) (\<lambda>it.
       bnd (require (it_id it \<notin> it_id ` set acc) ''duplicate entity identity'') (\<lambda>_.
       ret (acc @ [it]))))"

definition allocate_all :: "writer \<Rightarrow> sync_batch \<Rightarrow> item_row list op" where
  "allocate_all w b =
     bnd (allocate_group w [Album] (map ei_item (bt_albums b)) []) (\<lambda>items.
     bnd (allocate_group w [Artist] (map ei_item (bt_artists b)) items) (\<lambda>items.
     bnd (allocate_group w [Song] (map ei_item (bt_songs b)) items) (\<lambda>items.
     allocate_group w [Mix, Radio] (map ei_item (bt_remote_mixes b)) items)))"

subsection \<open>Entities\<close>

text \<open>
  \<^verbatim>\<open>write_entities!\<close>: the lookup, the default row, the patch, the name and the two statements of the entity are
  its arguments. It returns the rows written and the ids of those that are new.
\<close>

definition write_entity ::
    "writer \<Rightarrow> item_type list \<Rightarrow> (int \<Rightarrow> catalog \<Rightarrow> 'm option) \<Rightarrow> (int \<Rightarrow> 'm) \<Rightarrow> (bool \<Rightarrow> 'm \<Rightarrow> 'm result) \<Rightarrow>
     ('m \<Rightarrow> string) \<Rightarrow> ('m \<Rightarrow> unit op) \<Rightarrow> ('m \<Rightarrow> unit op) \<Rightarrow> item_ref \<Rightarrow> (int \<times> bool \<times> 'm) op" where
  "write_entity w types find_row default_row apply_row name_of ins upd r =
     bnd (resolve w r types) (\<lambda>it.
     bnd (select (find_row (it_id it))) (\<lambda>old.
     bnd (lift (apply_row (old = None) (case old of None \<Rightarrow> default_row (it_id it) | Some m \<Rightarrow> m))) (\<lambda>m.
     bnd (require (name_of m \<noteq> []) ''entity name is required'') (\<lambda>_.
     bnd (if old = None then ins m else upd m) (\<lambda>_.
     ret (it_id it, old = None, m))))))"

definition album_default :: "int \<Rightarrow> album_row" where
  "album_default i = \<lparr>al_id = i, al_name = [], al_sort_name = None, al_track_count = 0, al_disc_count = 0,
     al_type = PlainAlbum, al_duration = 0, al_language = None, al_description = None, al_company = None,
     al_publish_time = None, al_added_at = None\<rparr>"

definition artist_default :: "int \<Rightarrow> artist_row" where
  "artist_default i = \<lparr>ar_id = i, ar_name = [], ar_sort_name = None, ar_description = [], ar_album_count = 0,
     ar_music_count = 0, ar_added_at = None\<rparr>"

definition song_default :: "int \<Rightarrow> song_row" where
  "song_default i = \<lparr>so_id = i, so_name = [], so_sort_name = None, so_album = None, so_track_number = 0,
     so_disc_number = 0, so_duration = 0, so_can_play = True, so_popularity = 0, so_tags = Arr [],
     so_publish_time = None, so_added_at = None\<rparr>"

definition remote_mix_default :: "int \<Rightarrow> remote_mix_row" where
  "remote_mix_default i = \<lparr>rx_id = i, rx_name = [], rx_description = None, rx_track_count = 0,
     rx_mix_type = ''normal''\<rparr>"

definition write_albums :: "writer \<Rightarrow> mask \<Rightarrow> album_fields entity_input list \<Rightarrow> album_row list op" where
  "write_albums w mk es =
     fold_act (\<lambda>e acc.
       bnd (write_entity w [Album] find_album album_default (\<lambda>new. album_apply e new mk) al_name
              insert_album update_album (ei_item e)) (\<lambda>r.
       ret (acc @ [snd (snd r)]))) es []"

definition write_artists :: "writer \<Rightarrow> mask \<Rightarrow> artist_fields entity_input list \<Rightarrow> artist_row list op" where
  "write_artists w mk es =
     fold_act (\<lambda>e acc.
       bnd (write_entity w [Artist] find_artist artist_default (\<lambda>new. artist_apply e new mk) ar_name
              insert_artist update_artist (ei_item e)) (\<lambda>r.
       ret (acc @ [snd (snd r)]))) es []"

definition write_songs :: "writer \<Rightarrow> mask \<Rightarrow> song_input list \<Rightarrow> (song_row list \<times> int list) op" where
  "write_songs w mk es =
     fold_act (\<lambda>e acc.
       bnd (write_entity w [Song] find_song song_default (\<lambda>new. song_apply e new mk) so_name
              insert_song update_song (ei_item e)) (\<lambda>r.
       ret (fst acc @ [snd (snd r)], if fst (snd r) then fst r # snd acc else snd acc))) es ([], [])"

definition write_remote_mixes ::
    "writer \<Rightarrow> mask \<Rightarrow> remote_mix_fields entity_input list \<Rightarrow> remote_mix_row list op" where
  "write_remote_mixes w mk es =
     fold_act (\<lambda>e acc.
       bnd (write_entity w [Mix, Radio] find_remote_mix remote_mix_default (\<lambda>new. remote_mix_apply e new mk) rx_name
              insert_remote_mix update_remote_mix (ei_item e)) (\<lambda>r.
       ret (acc @ [snd (snd r)]))) es []"

definition album_quantities :: "album_row \<Rightarrow> bool" where
  "album_quantities m \<longleftrightarrow> 0 \<le> al_duration m \<and> 0 \<le> al_track_count m \<and> 0 \<le> al_disc_count m"

definition artist_quantities :: "artist_row \<Rightarrow> bool" where
  "artist_quantities m \<longleftrightarrow> 0 \<le> ar_album_count m \<and> 0 \<le> ar_music_count m"

definition song_quantities :: "song_row \<Rightarrow> bool" where
  "song_quantities m \<longleftrightarrow> 0 \<le> so_duration m \<and> 0 \<le> so_track_number m \<and> 0 \<le> so_disc_number m
     \<and> is_finite (so_popularity m)"

definition song_tags_ok :: "song_row \<Rightarrow> bool" where
  "song_tags_ok m \<longleftrightarrow> (case as_array (so_tags m) of None \<Rightarrow> False | Some ts \<Rightarrow> list_all is_string ts)"

definition check_quantities :: "album_row list \<Rightarrow> artist_row list \<Rightarrow> song_row list \<Rightarrow> unit op" where
  "check_quantities albums artists songs =
     bnd (for_each albums (\<lambda>m. require (album_quantities m) ''negative album quantity'')) (\<lambda>_.
     bnd (for_each artists (\<lambda>m. require (artist_quantities m) ''negative artist quantity'')) (\<lambda>_.
     for_each songs (\<lambda>m.
       bnd (require (song_quantities m) ''invalid song quantity'') (\<lambda>_.
       require (song_tags_ok m) ''song tags must be an array of strings''))))"

subsection \<open>Cache mixes\<close>

definition insert_mix :: "mix_row \<Rightarrow> unit op" where
  "insert_mix m =
     constrained (\<lambda>d. \<forall>r \<in> set (ct_mixes d). mx_remote m = None \<or> mx_remote r \<noteq> mx_remote m) FOREIGN_KEY
       (\<lambda>d. (advance MixTable d)\<lparr>ct_mixes := ct_mixes d @ [m\<lparr>mx_id := next_id MixTable d\<rparr>]\<rparr>)"

definition update_mix :: "int \<Rightarrow> (mix_row \<Rightarrow> mix_row) \<Rightarrow> unit op" where
  "update_mix i f = constrained (\<lambda>d. \<exists>r \<in> set (ct_mixes d). mx_id r = i) NO_RECORD
     (\<lambda>d. d\<lparr>ct_mixes := map (\<lambda>r. if mx_id r = i then f r else r) (ct_mixes d)\<rparr>)"

definition some_or_empty :: "string option \<Rightarrow> string" where
  "some_or_empty x = (case x of None \<Rightarrow> [] | Some s \<Rightarrow> s)"

definition mirror_mix :: "remote_mix_row \<Rightarrow> unit op" where
  "mirror_mix r =
     bnd (require (0 \<le> rx_track_count r) ''negative mix quantity'') (\<lambda>_.
     bnd (select (find_cache_mix (rx_id r))) (\<lambda>old.
     bnd now (\<lambda>t.
       case old of
         Some m \<Rightarrow> update_mix (mx_id m) (\<lambda>m. m\<lparr>mx_name := rx_name r,
             mx_description := some_or_empty (rx_description r), mx_track_count := rx_track_count r, mx_update := t\<rparr>)
       | None \<Rightarrow> insert_mix \<lparr>mx_id = 0, mx_name = rx_name r, mx_track_count = rx_track_count r, mx_type = CacheMix,
             mx_sort_name = None, mx_description = some_or_empty (rx_description r), mx_remote = Some (rx_id r),
             mx_create = t, mx_update = t, mx_content_update = 0\<rparr>)))"

subsection \<open>Dynamic data and images\<close>

definition dynamic_default :: "int \<Rightarrow> dynamic_row" where
  "dynamic_default i = \<lparr>dy_id = i, dy_is_external = False, dy_play_count = 0, dy_remote_play_count = 0,
     dy_last_position = None, dy_last_played_at = None, dy_remote_last_played_at = None, dy_favorite_at = None,
     dy_update = 0\<rparr>"

definition insert_dynamic :: "dynamic_row \<Rightarrow> unit op" where
  "insert_dynamic m =
     constrained (\<lambda>d. find_dynamic (dy_id m) d = None \<and> find_item (dy_id m) d \<noteq> None) FOREIGN_KEY
       (\<lambda>d. d\<lparr>ct_dynamics := ct_dynamics d @ [m]\<rparr>)"

definition update_dynamic :: "dynamic_row \<Rightarrow> unit op" where
  "update_dynamic m = constrained (\<lambda>d. find_dynamic (dy_id m) d \<noteq> None) NO_RECORD
     (\<lambda>d. d\<lparr>ct_dynamics := map (\<lambda>r. if dy_id r = dy_id m then r\<lparr>dy_is_external := dy_is_external m,
        dy_remote_play_count := dy_remote_play_count m, dy_remote_last_played_at := dy_remote_last_played_at m,
        dy_favorite_at := dy_favorite_at m, dy_update := dy_update m\<rparr> else r) (ct_dynamics d)\<rparr>)"

definition seed_dynamic :: "int \<Rightarrow> unit op" where
  "seed_dynamic i =
     bnd now (\<lambda>t.
     constrained (\<lambda>d. find_dynamic i d \<noteq> None \<or> find_item i d \<noteq> None) FOREIGN_KEY
       (\<lambda>d. if find_dynamic i d \<noteq> None then d
            else d\<lparr>ct_dynamics := ct_dynamics d @ [(dynamic_default i)\<lparr>dy_update := t\<rparr>]\<rparr>))"

text \<open>The switch \<^verbatim>\<open>favorite\<close>: on keeps the time of an existing favourite, off clears it.\<close>

definition switch_favorite :: "dynamic_input \<Rightarrow> bool \<Rightarrow> mask \<Rightarrow> dynamic_row \<Rightarrow> dynamic_row op" where
  "switch_favorite e new mk m =
     (case di_favorite e of
        Missing \<Rightarrow> ret m
      | Set on \<Rightarrow>
          bnd (require (df_favorite_at (ei_fields e) = Missing) ''favorite and favorite_at conflict'') (\<lambda>_.
          if new \<or> mask_allows mk ''favorite'' then
            if on then
              (case dy_favorite_at m of
                 Some _ \<Rightarrow> ret m
               | None \<Rightarrow> bnd now (\<lambda>t. ret (m\<lparr>dy_favorite_at := Some t\<rparr>)))
            else ret (m\<lparr>dy_favorite_at := None\<rparr>)
          else ret m))"

definition local_favorite :: "writer \<Rightarrow> int \<Rightarrow> bool op" where
  "local_favorite w i =
     (case wr_run w of
        None \<Rightarrow> ret False
      | Some r \<Rightarrow> gets (\<lambda>s. favorite_changed_after i (snd r) (sy_providers s (wr_provider w))))"

definition patched_dynamic :: "writer \<Rightarrow> mask \<Rightarrow> dynamic_input \<Rightarrow> int \<Rightarrow> bool \<Rightarrow> dynamic_row \<Rightarrow> dynamic_row op" where
  "patched_dynamic w mk e i new m0 =
     bnd (switch_favorite e new mk m0) (\<lambda>m1.
     bnd (lift (dynamic_apply e new mk m1)) (\<lambda>m2.
     bnd (local_favorite w i) (\<lambda>changed.
     ret (if changed then m2\<lparr>dy_favorite_at := dy_favorite_at m0\<rparr> else m2))))"

definition write_dynamic :: "writer \<Rightarrow> mask \<Rightarrow> dynamic_input \<Rightarrow> int list \<Rightarrow> int list op" where
  "write_dynamic w mk e done =
     bnd (resolve w (ei_item e) []) (\<lambda>it.
     bnd (require (it_id it \<notin> set done) ''duplicate dynamic identity'') (\<lambda>_.
     bnd (select (find_dynamic (it_id it))) (\<lambda>old.
     bnd (patched_dynamic w mk e (it_id it) (old = None)
            (case old of None \<Rightarrow> dynamic_default (it_id it) | Some m \<Rightarrow> m)) (\<lambda>m.
     bnd (require (0 \<le> dy_remote_play_count m) ''negative remote play count'') (\<lambda>_.
     bnd now (\<lambda>t.
     bnd (if old = None then insert_dynamic (m\<lparr>dy_update := t\<rparr>) else update_dynamic (m\<lparr>dy_update := t\<rparr>)) (\<lambda>_.
     ret (it_id it # done))))))))"

definition write_dynamics :: "writer \<Rightarrow> mask \<Rightarrow> dynamic_input list \<Rightarrow> unit op" where
  "write_dynamics w mk es = bnd (fold_act (write_dynamic w mk) es []) (\<lambda>_. ret ())"

definition insert_image :: "image_row \<Rightarrow> unit op" where
  "insert_image m =
     constrained (\<lambda>d. find_image (im_item m) (im_type m) d = None \<and> find_item (im_item m) d \<noteq> None) FOREIGN_KEY
       (\<lambda>d. (advance ImageTable d)\<lparr>ct_images := ct_images d @ [m\<lparr>im_id := next_id ImageTable d\<rparr>]\<rparr>)"

definition set_patch :: "'a patch \<Rightarrow> 'a \<Rightarrow> 'a" where
  "set_patch p old = (case p of Missing \<Rightarrow> old | Set v \<Rightarrow> v)"

definition write_image :: "writer \<Rightarrow> image_input \<Rightarrow> (int \<times> image_type) list \<Rightarrow> (int \<times> image_type) list op" where
  "write_image w e done =
     bnd (resolve w (ii_item e) []) (\<lambda>it.
     bnd (require ((it_id it, ii_type e) \<notin> set done) ''duplicate image identity'') (\<lambda>_.
     bnd (select (find_image (it_id it) (ii_type e))) (\<lambda>old.
     bnd (if ii_remove e then
            (case old of
               None \<Rightarrow> ret ()
             | Some m \<Rightarrow> change (\<lambda>d. d\<lparr>ct_images := filter (\<lambda>r. im_id r \<noteq> im_id m) (ct_images d)\<rparr>))
          else
            bnd now (\<lambda>t.
            case old of
              None \<Rightarrow> insert_image \<lparr>im_id = 0, im_item = it_id it, im_type = ii_type e,
                  im_native = set_patch (ii_native e) None, im_db = None, im_fresh = set_patch (ii_fresh e) [],
                  im_timestamp = t\<rparr>
            | Some m \<Rightarrow> change (\<lambda>d. d\<lparr>ct_images := map (\<lambda>r. if im_id r = im_id m
                  then r\<lparr>im_native := set_patch (ii_native e) (im_native r),
                         im_fresh := set_patch (ii_fresh e) (im_fresh r), im_timestamp := t\<rparr> else r)
                  (ct_images d)\<rparr>))) (\<lambda>_.
     ret ((it_id it, ii_type e) # done)))))"

definition write_images :: "writer \<Rightarrow> image_input list \<Rightarrow> unit op" where
  "write_images w es = bnd (fold_act (write_image w) es []) (\<lambda>_. ret ())"

subsection \<open>Relations\<close>

definition album_target :: "writer \<Rightarrow> item_row \<Rightarrow> item_ref option \<Rightarrow> int option op" where
  "album_target w song target =
     (case target of
        None \<Rightarrow> ret None
      | Some r \<Rightarrow>
          bnd (resolve w r [Album]) (\<lambda>album.
          bnd (require (it_library song = it_library album) ''song and album must share a library'') (\<lambda>_.
          ret (Some (it_id album)))))"

definition link_song_album :: "writer \<Rightarrow> mask \<Rightarrow> int list \<Rightarrow> song_input \<Rightarrow> int list \<Rightarrow> int list op" where
  "link_song_album w mk fresh e linked =
     (case si_album e of
        Missing \<Rightarrow> ret linked
      | Set album \<Rightarrow>
          bnd (resolve w (ei_item e) [Song]) (\<lambda>song.
          if it_id song \<notin> set fresh \<and> \<not> mask_allows mk ''album_id'' then ret linked
          else
            bnd (album_target w song album) (\<lambda>a.
            bnd (set_song_album (it_id song) a) (\<lambda>_.
            ret (it_id song # linked)))))"

definition write_song_album :: "writer \<Rightarrow> song_album_input \<Rightarrow> int list \<Rightarrow> int list op" where
  "write_song_album w e linked =
     bnd (resolve w (sa_song e) [Song]) (\<lambda>song.
     bnd (require (it_id song \<notin> set linked) ''duplicate song album relation'') (\<lambda>_.
     bnd (album_target w song (sa_album e)) (\<lambda>a.
     bnd (set_song_album (it_id song) a) (\<lambda>_.
     ret (it_id song # linked)))))"

text \<open>
  The macro \<^verbatim>\<open>relations!\<close>: a relation table is given by how to read and replace its rows and by the foreign
  key of its owner.
\<close>

record relation_table =
  tb_rows :: "catalog \<Rightarrow> rel_row list"
  tb_put :: "rel_row list \<Rightarrow> catalog \<Rightarrow> catalog"
  tb_owner :: "int \<Rightarrow> catalog \<Rightarrow> bool"
  tb_table :: table
  tb_types :: "item_type list"

definition album_artist_table :: relation_table where
  "album_artist_table = \<lparr>tb_rows = ct_album_artists, tb_put = (\<lambda>rs d. d\<lparr>ct_album_artists := rs\<rparr>),
     tb_owner = (\<lambda>i d. find_album i d \<noteq> None), tb_table = AlbumArtistTable, tb_types = [Album]\<rparr>"

definition song_artist_table :: relation_table where
  "song_artist_table = \<lparr>tb_rows = ct_song_artists, tb_put = (\<lambda>rs d. d\<lparr>ct_song_artists := rs\<rparr>),
     tb_owner = (\<lambda>i d. find_song i d \<noteq> None), tb_table = SongArtistTable, tb_types = [Song]\<rparr>"

definition upsert_relation :: "relation_table \<Rightarrow> int \<Rightarrow> int \<Rightarrow> unit op" where
  "upsert_relation tb owner artist =
     bnd now (\<lambda>t.
     constrained (\<lambda>d. tb_owner tb owner d \<and> find_artist artist d \<noteq> None) FOREIGN_KEY
       (\<lambda>d. if \<exists>r \<in> set (tb_rows tb d). rl_owner r = owner \<and> rl_artist r = artist
            then tb_put tb (map (\<lambda>r. if rl_owner r = owner \<and> rl_artist r = artist then r\<lparr>rl_update := t\<rparr> else r)
                   (tb_rows tb d)) d
            else tb_put tb (tb_rows tb d @ [\<lparr>rl_id = next_id (tb_table tb) d, rl_owner = owner, rl_artist = artist,
                   rl_update = t\<rparr>]) (advance (tb_table tb) d)))"

definition relation_target :: "writer \<Rightarrow> item_row \<Rightarrow> item_ref \<Rightarrow> int list \<Rightarrow> int list op" where
  "relation_target w owner r targets =
     bnd (resolve w r [Artist]) (\<lambda>artist.
     bnd (require (it_library artist = it_library owner) ''artist relation crosses libraries'') (\<lambda>_.
     bnd (require (it_id artist \<notin> set targets) ''duplicate relation target'') (\<lambda>_.
     ret (targets @ [it_id artist]))))"

definition write_relation :: "writer \<Rightarrow> relation_table \<Rightarrow> relation_input \<Rightarrow> int list \<Rightarrow> int list op" where
  "write_relation w tb e owners =
     bnd (resolve w (ri_owner e) (tb_types tb)) (\<lambda>owner.
     bnd (require (it_id owner \<notin> set owners) ''duplicate relation owner'') (\<lambda>_.
     bnd (fold_act (relation_target w owner) (ri_targets e) []) (\<lambda>targets.
     bnd (if ri_mode e = Replace
          then change (\<lambda>d. tb_put tb (filter (\<lambda>r. rl_owner r \<noteq> it_id owner) (tb_rows tb d)) d)
          else ret ()) (\<lambda>_.
     bnd (for_each targets (upsert_relation tb (it_id owner))) (\<lambda>_.
     ret (it_id owner # owners))))))"

definition write_relations :: "writer \<Rightarrow> relation_table \<Rightarrow> relation_input list \<Rightarrow> unit op" where
  "write_relations w tb es = bnd (fold_act (write_relation w tb) es []) (\<lambda>_. ret ())"

subsection \<open>Contents of remote mixes\<close>

definition content_song :: "writer \<Rightarrow> item_ref \<Rightarrow> int list \<Rightarrow> int list op" where
  "content_song w r songs =
     bnd (resolve w r [Song]) (\<lambda>song.
     bnd (require (it_id song \<notin> set songs) ''duplicate_member'') (\<lambda>_.
     ret (songs @ [it_id song])))"

definition insert_mix_song :: "int \<Rightarrow> nat \<times> int \<Rightarrow> unit op" where
  "insert_mix_song mix p =
     bnd now (\<lambda>t.
     constrained (\<lambda>d. find_song (snd p) d \<noteq> None \<and> (\<exists>m \<in> set (ct_mixes d). mx_id m = mix)
         \<and> (\<forall>r \<in> set (ct_mix_songs d). ms_mix r \<noteq> mix \<or> ms_song r \<noteq> snd p)) FOREIGN_KEY
       (\<lambda>d. (advance MixSongTable d)\<lparr>ct_mix_songs := ct_mix_songs d @ [\<lparr>ms_id = next_id MixSongTable d,
          ms_song = snd p, ms_mix = mix, ms_order = int (fst p), ms_update = t\<rparr>]\<rparr>))"

definition set_track_count :: "int \<Rightarrow> int \<Rightarrow> unit op" where
  "set_track_count i n = constrained (\<lambda>d. find_remote_mix i d \<noteq> None) NO_RECORD
     (\<lambda>d. d\<lparr>ct_remote_mixes := map (\<lambda>r. if rx_id r = i then r\<lparr>rx_track_count := n\<rparr> else r) (ct_remote_mixes d)\<rparr>)"

definition write_contents :: "writer \<Rightarrow> mix_contents \<Rightarrow> int list \<Rightarrow> int list op" where
  "write_contents w e mixes =
     bnd (require (mc_mode e = Replace) ''ordered mix contents require replace'') (\<lambda>_.
     bnd (resolve w (mc_mix e) [Mix, Radio]) (\<lambda>remote.
     bnd (require (it_id remote \<notin> set mixes) ''duplicate mix contents'') (\<lambda>_.
     bnd (select (find_cache_mix (it_id remote))) (\<lambda>mix.
     bnd (lift (ok_or mix ''missing cache mix'')) (\<lambda>mix.
     bnd (fold_act (content_song w) (mc_songs e) []) (\<lambda>songs.
     bnd (change (\<lambda>d. d\<lparr>ct_mix_songs := filter (\<lambda>r. ms_mix r \<noteq> mx_id mix) (ct_mix_songs d)\<rparr>)) (\<lambda>_.
     bnd (for_each (enumerate 0 songs) (insert_mix_song (mx_id mix))) (\<lambda>_.
     bnd (set_track_count (it_id remote) (int (length songs))) (\<lambda>_.
     bnd now (\<lambda>t.
     bnd (update_mix (mx_id mix) (\<lambda>m. m\<lparr>mx_track_count := int (length songs), mx_update := t,
            mx_content_update := t\<rparr>)) (\<lambda>_.
     ret (it_id remote # mixes))))))))))))"

subsection \<open>The whole batch\<close>

definition reload :: "('m \<Rightarrow> int) \<Rightarrow> (int \<Rightarrow> catalog \<Rightarrow> 'm option) \<Rightarrow> string \<Rightarrow> 'm list \<Rightarrow> 'm list op" where
  "reload id_of find_row msg rows =
     fold_act (\<lambda>m acc.
       bnd (select (find_row (id_of m))) (\<lambda>r.
       bnd (lift (ok_or r msg)) (\<lambda>r'.
       ret (acc @ [r'])))) rows []"

definition apply_batch :: "writer \<Rightarrow> sync_batch \<Rightarrow> sync_result op" where
  "apply_batch w b =
     (let opts = bt_options b in
     bnd (write_libraries w (bt_libraries b)) (\<lambda>libraries.
     bnd (allocate_all w b) (\<lambda>items.
     bnd (write_albums w (bo_albums opts) (bt_albums b)) (\<lambda>albums.
     bnd (write_artists w (bo_artists opts) (bt_artists b)) (\<lambda>artists.
     bnd (write_songs w (bo_songs opts) (bt_songs b)) (\<lambda>sn.
     bnd (write_remote_mixes w (bo_remote_mixes opts) (bt_remote_mixes b)) (\<lambda>remotes.
     bnd (check_quantities albums artists (fst sn)) (\<lambda>_.
     bnd (for_each remotes mirror_mix) (\<lambda>_.
     bnd (write_dynamics w (bo_dynamics opts) (bt_dynamics b)) (\<lambda>_.
     bnd (for_each (map it_id items) seed_dynamic) (\<lambda>_.
     bnd (write_images w (bt_images b)) (\<lambda>_.
     bnd (fold_act (link_song_album w (bo_songs opts) (snd sn)) (bt_songs b) []) (\<lambda>linked.
     bnd (fold_act (write_song_album w) (bt_song_albums b) linked) (\<lambda>_.
     bnd (write_relations w album_artist_table (bt_album_artists b)) (\<lambda>_.
     bnd (write_relations w song_artist_table (bt_song_artists b)) (\<lambda>_.
     bnd (fold_act (write_contents w) (bt_contents b) []) (\<lambda>_.
     bnd (reload rx_id find_remote_mix ''missing remote mix'' remotes) (\<lambda>remotes.
     bnd (reload so_id find_song ''missing song'' (fst sn)) (\<lambda>songs.
     ret \<lparr>out_libraries = libraries, out_items = items, out_albums = albums, out_artists = artists,
          out_songs = songs, out_remote_mixes = remotes\<rparr>)))))))))))))))))))"

definition validate_masks :: "sync_batch \<Rightarrow> unit result" where
  "validate_masks b =
     (let opts = bt_options b in
      and_then (mask_validate (bo_albums opts) album_names) (\<lambda>_.
      and_then (mask_validate (bo_artists opts) artist_names) (\<lambda>_.
      and_then (mask_validate (bo_songs opts) song_names) (\<lambda>_.
      and_then (mask_validate (bo_remote_mixes opts) remote_mix_names) (\<lambda>_.
      mask_validate (bo_dynamics opts) dynamic_names)))))"

definition batch_entities :: "sync_batch \<Rightarrow> nat" where
  "batch_entities b = length (bt_libraries b) + length (bt_albums b) + length (bt_artists b) + length (bt_songs b)
     + length (bt_remote_mixes b) + length (bt_dynamics b) + length (bt_images b) + length (bt_contents b)"

definition batch_references :: "sync_batch \<Rightarrow> nat" where
  "batch_references b = length (bt_song_albums b) * 2
     + sum_list (map (\<lambda>r. length (ri_targets r) + 1) (bt_album_artists b @ bt_song_artists b))"

definition batch_members :: "sync_batch \<Rightarrow> nat" where
  "batch_members b = sum_list (map (\<lambda>m. length (mc_songs m)) (bt_contents b))"

text \<open>
  The limits of a batch; \<open>json_length\<close> is the length of its JSON text, which the source counts while it
  serialises into a sink.
\<close>

definition validate_batch :: "(sync_batch \<Rightarrow> nat) \<Rightarrow> sync_batch \<Rightarrow> unit result" where
  "validate_batch json_length b =
     and_then (validate_masks b) (\<lambda>_.
     and_then (ensure (batch_entities b \<le> 500) ''batch entity limit exceeded'') (\<lambda>_.
     and_then (ensure (batch_references b \<le> 5000 \<and> batch_members b \<le> 10000) ''batch reference limit exceeded'') (\<lambda>_.
     ensure (json_length b \<le> 4 * 1024 * 1024) ''batch byte limit exceeded'')))"

definition write_batch :: "(sync_batch \<Rightarrow> nat) \<Rightarrow> writer \<Rightarrow> sync_batch \<Rightarrow> sync_result op" where
  "write_batch json_length w b =
     bnd (lift (validate_batch json_length b)) (\<lambda>_.
     bnd (check_generation (wr_generation w)) (\<lambda>_.
     bnd (write_guard (wr_provider w) (map_option fst (wr_run w))) (\<lambda>_.
     in_txn
       (bnd (apply_batch w b) (\<lambda>r.
        bnd (check_generation (wr_generation w)) (\<lambda>_.
        bnd (check_origin (wr_provider w) (map_option fst (wr_run w))) (\<lambda>_.
        ret r)))))))"

end
