(* ===== verification/Sync_Run.thy ===== *)
theory Sync_Run
  imports Sync_Apply
begin

section \<open>Full synchronisation runs and retentions\<close>

text \<open>
  \<^verbatim>\<open>src/backend/core/src/db/sync_run.rs\<close>, the run: it declares the scopes it will enumerate, observes libraries
  and items, completes its scopes, is sealed and finally prunes what it has not seen;
  \<^verbatim>\<open>src/backend/core/src/db/retention.rs\<close> keeps items from being pruned while somebody uses them. A run and a
  retention are owned values of the source; here the state holds them under a handle.
\<close>

subsection \<open>Retention\<close>

definition MAX_ROOT_ITEMS :: nat where "MAX_ROOT_ITEMS = 4096"

definition retain_id :: "int \<Rightarrow> (int \<times> nat) list \<Rightarrow> (int \<times> nat) list" where
  "retain_id i counts = AList.update i ((case map_of counts i of None \<Rightarrow> 0 | Some n \<Rightarrow> n) + 1) counts"

definition provider_items :: "int \<Rightarrow> int list \<Rightarrow> catalog \<Rightarrow> item_row list" where
  "provider_items p ids d = filter (\<lambda>r. it_provider r = p \<and> it_id r \<in> set ids) (ct_items d)"

definition relation_artists :: "(catalog \<Rightarrow> rel_row list) \<Rightarrow> int list \<Rightarrow> catalog \<Rightarrow> int list" where
  "relation_artists rows ids d = map rl_artist (filter (\<lambda>r. rl_owner r \<in> set ids) (rows d))"

definition song_albums :: "int list \<Rightarrow> catalog \<Rightarrow> int option list" where
  "song_albums ids d = map so_album (filter (\<lambda>r. so_id r \<in> set ids) (ct_songs d))"

text \<open>The media dependencies: the albums of the songs, and the artists of the songs and of the albums.\<close>

definition dependency_ids :: "int list \<Rightarrow> int list op" where
  "dependency_ids ids =
     bnd (select (song_albums ids)) (\<lambda>albums.
     let ids = remdups (ids @ List.map_filter (\<lambda>x. x) albums) in
     bnd (select (relation_artists ct_song_artists ids)) (\<lambda>song_artists.
     bnd (select (relation_artists ct_album_artists ids)) (\<lambda>album_artists.
     ret (remdups (ids @ song_artists @ album_artists)))))"

definition retain_items :: "int \<Rightarrow> int list \<Rightarrow> nat op" where
  "retain_items p roots_ids =
     (let ids = remdups roots_ids in
     bnd (require (length ids \<le> MAX_ROOT_ITEMS \<and> (\<forall>i \<in> set ids. 0 < i)) ''invalid retained item set'') (\<lambda>_.
     bnd (select (provider_items p ids)) (\<lambda>roots.
     bnd (require (length roots = length ids) ''retained item is missing or belongs to another provider'') (\<lambda>_.
     bnd (dependency_ids ids) (\<lambda>deps.
     bnd (select (provider_items p deps)) (\<lambda>found.
     bnd (require (length found = length deps)
            ''retained item dependency is missing or belongs to another provider'') (\<lambda>_.
     bnd (gets sy_next_retention) (\<lambda>h.
     bnd (modify (\<lambda>s. upd_provider p (\<lambda>st. st\<lparr>ps_retained := fold retain_id deps (ps_retained st)\<rparr>)
            (s\<lparr>sy_next_retention := h + 1,
               sy_retentions := (h, \<lparr>rt_owner = p, rt_roots = roots, rt_ids = deps\<rparr>) # sy_retentions s\<rparr>))) (\<lambda>_.
     ret h)))))))))"

subsection \<open>Observing\<close>

definition run_of :: "nat \<Rightarrow> sync_run op" where
  "run_of h = gets (\<lambda>s. sy_runs s h)"

definition fail :: "nat \<Rightarrow> unit op" where
  "fail h = modify (upd_run h (\<lambda>r. r\<lparr>sr_failed := True\<rparr>))"

definition fail_with :: "nat \<Rightarrow> string \<Rightarrow> 'a op" where
  "fail_with h msg = bnd (fail h) (\<lambda>_. raise msg)"

definition bind_generation :: "nat \<Rightarrow> write_generation \<Rightarrow> unit op" where
  "bind_generation h g = modify (upd_run h (\<lambda>r. r\<lparr>sr_generation := Some g\<rparr>))"

definition NOT_WRITABLE :: string where
  "NOT_WRITABLE = ''sync session is not writable''"

definition running :: "nat \<Rightarrow> unit op" where
  "running h =
     bnd (run_of h) (\<lambda>r.
     bnd (check_generation (sr_generation r)) (\<lambda>_.
     bnd (require (\<not> sr_failed r \<and> \<not> sr_sealed r) NOT_WRITABLE) (\<lambda>_.
     bnd (load_active (sr_provider r)) (\<lambda>a.
     require (a = sr_token r) NOT_WRITABLE))))"

definition observe_library :: "nat \<Rightarrow> int \<Rightarrow> unit op" where
  "observe_library h i =
     bnd (select (find_library i)) (\<lambda>lib.
     bnd (lift (ok_or lib ''missing observed library'')) (\<lambda>lib.
     bnd (run_of h) (\<lambda>r.
     if lb_provider lib \<noteq> sr_provider r then fail_with h ''observed library belongs to another provider''
     else modify (upd_run h (\<lambda>r. r\<lparr>sr_libraries := insert i (sr_libraries r)\<rparr>)))))"

definition observe_libraries :: "nat \<Rightarrow> int list \<Rightarrow> unit op" where
  "observe_libraries h ids =
     bnd (running h) (\<lambda>_.
     bnd (run_of h) (\<lambda>r.
     bnd (require (\<not> sr_declared r) ''libraries must be observed before scopes are declared'') (\<lambda>_.
     if MAX_SEEN < length ids + card (sr_libraries r) then fail_with h ''observation limit exceeded''
     else for_each ids (observe_library h))))"

definition check_scope :: "sync_run \<Rightarrow> item_type list \<Rightarrow> sync_scope \<Rightarrow> unit result" where
  "check_scope r required sc =
     and_then (ok_or (item_type_of (sc_type sc)) ''invalid scope type'') (\<lambda>kind.
       case sc_library sc of
         Some i \<Rightarrow> ensure (i \<in> sr_libraries r \<and> kind \<in> set required)
           ''scope is outside discovered libraries or required types''
       | None \<Rightarrow> ensure (kind \<in> {Mix, Radio}) ''only remote mixes and radios have a global full-sync scope'')"

definition declare_scopes :: "nat \<Rightarrow> sync_scope list \<Rightarrow> item_type list \<Rightarrow> unit op" where
  "declare_scopes h scopes required =
     bnd (running h) (\<lambda>_.
     bnd (run_of h) (\<lambda>r.
     bnd (require (\<not> sr_declared r) ''scopes have already been declared'') (\<lambda>_.
     bnd (require (distinct scopes \<and> length scopes \<le> MAX_SEEN) ''duplicate or excessive scopes'') (\<lambda>_.
     bnd (for_each scopes (\<lambda>sc. lift (check_scope r required sc))) (\<lambda>_.
     bnd (require (\<forall>i \<in> sr_libraries r. \<forall>kind \<in> set required. scope_new (Some i) kind \<in> set scopes)
            ''required library scope is missing'') (\<lambda>_.
     bnd (require (scope_new None Mix \<in> set scopes) ''global mix scope is missing'') (\<lambda>_.
     modify (upd_run h (\<lambda>r. r\<lparr>sr_scopes := set scopes, sr_declared := True\<rparr>)))))))))"

definition complete_libraries :: "nat \<Rightarrow> unit op" where
  "complete_libraries h =
     bnd (running h) (\<lambda>_. modify (upd_run h (\<lambda>r. r\<lparr>sr_libraries_complete := True\<rparr>)))"

definition complete_scope :: "nat \<Rightarrow> sync_scope \<Rightarrow> unit op" where
  "complete_scope h sc =
     bnd (running h) (\<lambda>_.
     bnd (run_of h) (\<lambda>r.
     bnd (require (sc \<in> sr_scopes r) ''unknown sync scope'') (\<lambda>_.
     modify (upd_run h (\<lambda>r. r\<lparr>sr_complete := insert sc (sr_complete r)\<rparr>)))))"

definition observe_item :: "nat \<Rightarrow> writer \<Rightarrow> sync_scope \<Rightarrow> item_ref \<Rightarrow> int list \<Rightarrow> int list op" where
  "observe_item h w sc key ids =
     bnd (resolve w key []) (\<lambda>it.
     if it_library it \<noteq> sc_library sc \<or> item_code (it_type it) \<noteq> sc_type sc
     then fail_with h ''observed item is outside scope''
     else ret (ids @ [it_id it]))"

definition observe_items :: "nat \<Rightarrow> sync_scope \<Rightarrow> item_ref list \<Rightarrow> unit op" where
  "observe_items h sc items =
     bnd (running h) (\<lambda>_.
     bnd (run_of h) (\<lambda>r.
     bnd (require (sc \<in> sr_scopes r \<and> sc \<notin> sr_complete r) ''scope is not writable'') (\<lambda>_.
     if MAX_SEEN < length items + card (sr_seen r) then fail_with h ''observation limit exceeded''
     else
       bnd (write_guard (sr_provider r) (Some (sr_token r))) (\<lambda>_.
       bnd (in_txn (fold_act (observe_item h (writer_new (sr_provider r)) sc) items [])) (\<lambda>ids.
       modify (upd_run h (\<lambda>r. r\<lparr>sr_seen := sr_seen r \<union> set ids\<rparr>)))))))"

definition run_writer :: "sync_run \<Rightarrow> writer" where
  "run_writer r = \<lparr>wr_provider = sr_provider r, wr_run = Some (sr_token r, sr_revision r),
     wr_generation = sr_generation r\<rparr>"

definition run_batch :: "(sync_batch \<Rightarrow> nat) \<Rightarrow> nat \<Rightarrow> sync_batch \<Rightarrow> sync_result op" where
  "run_batch json_length h b =
     bnd (running h) (\<lambda>_.
     bnd (run_of h) (\<lambda>r.
     bnd (attempt (write_batch json_length (run_writer r) b)) (\<lambda>result.
     bnd (if is_err result then fail h else ret ()) (\<lambda>_.
     lift result))))"

subsection \<open>Sealing and pruning\<close>

definition seal :: "nat \<Rightarrow> unit op" where
  "seal h =
     bnd (running h) (\<lambda>_.
     bnd (run_of h) (\<lambda>r.
     bnd (require (sr_declared r \<and> sr_libraries_complete r \<and> sr_complete r = sr_scopes r)
            ''sync enumeration is incomplete'') (\<lambda>_.
     modify (upd_run h (\<lambda>r. r\<lparr>sr_sealed := True\<rparr>)))))"

definition prunable :: "sync_run \<Rightarrow> int list \<Rightarrow> item_row \<Rightarrow> bool" where
  "prunable r retained it \<longleftrightarrow>
     scope_new (it_library it) (it_type it) \<in> sr_scopes r \<and> it_id it \<notin> sr_seen r \<and> it_id it \<notin> set retained"

definition prune_item :: "sync_run \<Rightarrow> int list \<Rightarrow> item_row \<Rightarrow> unit op" where
  "prune_item r retained it =
     (if prunable r retained it then
        bnd (if it_type it \<in> {Mix, Radio}
             then change (\<lambda>d. delete_mixes (\<lambda>i. \<exists>m \<in> set (ct_mixes d). mx_id m = i \<and> mx_remote m = Some (it_id it)) d)
             else ret ()) (\<lambda>_.
        change (delete_items (\<lambda>i. i = it_id it)))
      else ret ())"

definition prune_library :: "sync_run \<Rightarrow> library_row \<Rightarrow> unit op" where
  "prune_library r l =
     (if lb_id l \<in> sr_libraries r then ret () else change (delete_library (lb_id l)))"

definition prune :: "nat \<Rightarrow> sync_run \<Rightarrow> unit op" where
  "prune h r =
     bnd (select (\<lambda>d. take (MAX_SEEN + 1) (filter (\<lambda>i. it_provider i = sr_provider r) (ct_items d)))) (\<lambda>candidates.
     bnd (if MAX_SEEN < length candidates then fail_with h ''prune candidate limit exceeded'' else ret ()) (\<lambda>_.
     bnd (retained_items (sr_provider r)) (\<lambda>retained.
     bnd (for_each candidates (prune_item r retained)) (\<lambda>_.
     bnd (select (\<lambda>d. take (MAX_SEEN + 1) (filter (\<lambda>l. lb_provider l = sr_provider r) (ct_libraries d)))) (\<lambda>libraries.
     bnd (require (length libraries \<le> MAX_SEEN) ''library limit exceeded'') (\<lambda>_.
     for_each libraries (prune_library r)))))))"

definition finalize :: "nat \<Rightarrow> unit op" where
  "finalize h =
     bnd (run_of h) (\<lambda>r.
     bnd (require (\<not> sr_failed r \<and> sr_sealed r) ''sync was not sealed successfully'') (\<lambda>_.
     bnd (write_guard (sr_provider r) (Some (sr_token r))) (\<lambda>_.
     bnd (gets (\<lambda>s. ps_revision (sy_providers s (sr_provider r)))) (\<lambda>revision.
     bnd (if revision \<noteq> sr_revision r
          then fail_with h ''sync prune conflicted with another write; retry required'' else ret ()) (\<lambda>_.
     bnd (in_txn
       (bnd (prune h r) (\<lambda>_.
        bnd (check_generation (sr_generation r)) (\<lambda>_.
        check_origin (sr_provider r) (Some (sr_token r)))))) (\<lambda>_.
     invalidate_sync (sr_provider r)))))))"

end
