(* ===== verification/Sync_Frames.thy ===== *)
theory Sync_Frames
  imports Sync_Run
begin

section \<open>What the operations of the synchronisation leave alone\<close>

text \<open>
  A property of the coordinator that does not look at the tables, the schedules and the revisions, and that
  survives concurrent events, survives every operation that only reads and writes the library: the locale
  \<open>sync_frame\<close> is that contract, with one lemma per operation.
\<close>

locale sync_frame =
  fixes I :: "sync_state \<Rightarrow> bool"
  assumes faults: "I s \<Longrightarrow> I (s\<lparr>sy_faults := fs\<rparr>)"
    and db: "I s \<Longrightarrow> I (s\<lparr>sy_db := d\<rparr>)"
    and events: "I s \<Longrightarrow> I (s\<lparr>sy_events := es\<rparr>)"
    and happens: "I s \<Longrightarrow> I (happen e s)"
    and revision: "I s \<Longrightarrow> I (upd_provider p (\<lambda>st. st\<lparr>ps_revision := n\<rparr>) s)"
    and changes: "I s \<Longrightarrow> I (upd_provider p (\<lambda>st. st\<lparr>ps_changes := n\<rparr>) s)"
    and projection: "I s \<Longrightarrow> I (s\<lparr>sy_projection := n\<rparr>)"
begin

lemma happen_all: "I s \<Longrightarrow> I (fold happen es s)"
  by (induction es arbitrary: s) (auto intro: happens)

lemma keeps_preempt [keeps_intros]: "keeps I preempt"
  unfolding preempt_def by (rule keeps_modify) (auto split: list.splits intro: happen_all events)

lemma keeps_statement [keeps_intros]: "keeps I statement"
  by (rule keepsI) (auto simp: statement_def split: list.splits intro: faults)

lemma keeps_select [keeps_intros]: "keeps I (select f)"
  unfolding select_def by (intro keeps_intros)

lemma keeps_change [keeps_intros]: "keeps I (change f)"
  unfolding change_def by (intro keeps_intros keeps_modify db)

lemma keeps_constrained [keeps_intros]: "keeps I (constrained ok msg f)"
  unfolding constrained_def by (intro keeps_intros keeps_modify db)

lemma keeps_in_txn [keeps_intros]:
  assumes "keeps I m"
  shows "keeps I (in_txn m)"
proof -
  have body: "keeps I (bnd m (\<lambda>x. bnd statement (\<lambda>_. ret x)))"
    by (intro keeps_intros assms)
  show ?thesis
    unfolding in_txn_def
  proof (intro keeps_bnd keeps_statement keepsI)
    fix x s r s'
    assume I: "I s" and run: "(case bnd m (\<lambda>x. bnd statement (\<lambda>_. ret x)) s of
       (Inl e, s') \<Rightarrow> (Inl e, rollback (sy_db s) s') | (Inr x, s') \<Rightarrow> (Inr x, s')) = (r, s')"
    obtain q t where m: "bnd m (\<lambda>x. bnd statement (\<lambda>_. ret x)) s = (q, t)" by fastforce
    have "I t" using body I m by (rule keepsD)
    with run m show "I s'" by (auto simp: rollback_def split: sum.splits intro: db)
  qed
qed

lemma keeps_now [keeps_intros]: "keeps I now"
  unfolding now_def by (intro keeps_intros)

lemma keeps_load_active [keeps_intros]: "keeps I (load_active p)"
  unfolding load_active_def by (intro keeps_intros)

lemma keeps_check_origin [keeps_intros]: "keeps I (check_origin p t)"
  unfolding check_origin_def by (intro keeps_intros)

lemma keeps_incremented [keeps_intros]: "keeps I (incremented n msg)"
  unfolding incremented_def by (intro keeps_intros)

lemma keeps_write_guard [keeps_intros]: "keeps I (write_guard p origin)"
  unfolding write_guard_def bump_revision_def bump_changes_def bump_projection_def
  by (intro keeps_intros keeps_modify revision changes projection)

lemma keeps_write_items [keeps_intros]: "keeps I (write_items ids)"
  unfolding write_items_def Let_def by (intro keeps_intros)

lemma keeps_write_mixes [keeps_intros]: "keeps I (write_mixes ids items)"
  unfolding write_mixes_def by (intro keeps_intros)

lemma keeps_retained_items [keeps_intros]: "keeps I (retained_items p)"
  unfolding retained_items_def by (intro keeps_intros)

lemma keeps_check_generation [keeps_intros]: "keeps I (check_generation g)"
  unfolding check_generation_def by (intro keeps_intros)

lemma keeps_resolve [keeps_intros]: "keeps I (resolve w r types)"
  unfolding resolve_def resolve_optional_def resolve_key_def library_optional_def owns_library_def
  by (cases r) (auto intro!: keeps_intros split: patch.splits)

lemma keeps_allocate [keeps_intros]: "keeps I (allocate w r types)"
  unfolding allocate_def library_of_def library_optional_def owns_library_def insert_item_def touch_item_def Let_def
  by (cases r) (auto intro!: keeps_intros split: patch.splits)

lemma keeps_write_libraries [keeps_intros]: "keeps I (write_libraries w ls)"
  unfolding write_libraries_def write_library_def Let_def by (intro keeps_intros)

lemma keeps_allocate_all [keeps_intros]: "keeps I (allocate_all w b)"
  unfolding allocate_all_def allocate_group_def by (intro keeps_intros)

lemma keeps_write_entity:
  "(\<And>m. keeps I (ins m)) \<Longrightarrow> (\<And>m. keeps I (upd m)) \<Longrightarrow>
    keeps I (write_entity w types find_row default_row apply_row name_of ins upd r)"
  unfolding write_entity_def by (intro keeps_intros) auto

lemma keeps_entities [keeps_intros]:
  "keeps I (write_albums w mk1 es1)" "keeps I (write_artists w mk2 es2)" "keeps I (write_songs w mk3 es3)"
  "keeps I (write_remote_mixes w mk4 es4)"
  unfolding write_albums_def write_artists_def write_songs_def write_remote_mixes_def insert_album_def update_album_def
    insert_artist_def update_artist_def insert_song_def update_song_def insert_remote_mix_def update_remote_mix_def
  by (intro keeps_intros keeps_write_entity)+

lemma keeps_check_quantities [keeps_intros]: "keeps I (check_quantities as bs cs)"
  unfolding check_quantities_def by (intro keeps_intros)

lemma keeps_mirror_mix [keeps_intros]: "keeps I (mirror_mix r)"
  unfolding mirror_mix_def insert_mix_def update_mix_def by (intro keeps_intros)

lemma keeps_write_dynamics [keeps_intros]: "keeps I (write_dynamics w mk es)"
  unfolding write_dynamics_def write_dynamic_def patched_dynamic_def switch_favorite_def local_favorite_def insert_dynamic_def
    update_dynamic_def Let_def
  by (intro keeps_intros; auto intro!: keeps_intros split: patch.splits)

lemma keeps_seed_dynamic [keeps_intros]: "keeps I (seed_dynamic i)"
  unfolding seed_dynamic_def by (intro keeps_intros)

lemma keeps_write_images [keeps_intros]: "keeps I (write_images w es)"
  unfolding write_images_def write_image_def insert_image_def by (intro keeps_intros)

lemma keeps_set_song_album [keeps_intros]: "keeps I (set_song_album i a)"
  unfolding set_song_album_def by (intro keeps_intros)

lemma keeps_links [keeps_intros]:
  "keeps I (link_song_album w mk fresh e1 linked)" "keeps I (write_song_album w e2 linked)"
  unfolding link_song_album_def write_song_album_def album_target_def
  by (cases "si_album e1"; auto intro!: keeps_intros) (intro keeps_intros)

lemma keeps_write_relations [keeps_intros]: "keeps I (write_relations w tb es)"
  unfolding write_relations_def write_relation_def relation_target_def upsert_relation_def
  by (intro keeps_intros)

lemma keeps_write_contents [keeps_intros]: "keeps I (write_contents w e mixes)"
  unfolding write_contents_def content_song_def insert_mix_song_def set_track_count_def update_mix_def
  by (intro keeps_intros)

lemma keeps_reload [keeps_intros]: "keeps I (reload id_of find_row msg rows)"
  unfolding reload_def by (intro keeps_intros)

lemma keeps_apply_batch [keeps_intros]: "keeps I (apply_batch w b)"
  unfolding apply_batch_def Let_def by (intro keeps_intros)

lemma keeps_write_batch [keeps_intros]: "keeps I (write_batch json_length w b)"
  unfolding write_batch_def by (intro keeps_intros)

lemma keeps_run_of [keeps_intros]: "keeps I (run_of h)"
  unfolding run_of_def by (intro keeps_intros)

lemma keeps_running [keeps_intros]: "keeps I (running h)"
  unfolding running_def by (intro keeps_intros)

lemma keeps_dependency_ids [keeps_intros]: "keeps I (dependency_ids ids)"
  unfolding dependency_ids_def Let_def by (intro keeps_intros)

lemma keeps_prune:
  assumes "keeps I (fail h)"
  shows "keeps I (prune h r)"
  unfolding prune_def prune_item_def prune_library_def fail_with_def by (intro keeps_intros assms)

lemma keeps_run_batch:
  assumes "keeps I (fail h)"
  shows "keeps I (run_batch json_length h b)"
  unfolding run_batch_def by (intro keeps_intros assms)

lemma keeps_finalize:
  assumes "keeps I (fail h)" and "\<And>p. keeps I (invalidate_sync p)"
  shows "keeps I (finalize h)"
  unfolding finalize_def fail_with_def by (intro keeps_intros keeps_prune assms)

end

end
