(* ===== verification/Sync_Machine.thy ===== *)
theory Sync_Machine
  imports Sync_Frames
begin

section \<open>Everything that can happen to the coordinator\<close>

text \<open>
  The step relation of the synchronisation: any operation with any outcome, a write from elsewhere, a
  concurrent event between two operations, and new schedules of faults and events. A provider starts fewer
  than \<open>2 ^ 64\<close> runs. Three invariants of the reachable states: tokens are unique, a run has only completed
  what it declared and is sealed only when it has completed all of it, and the retention counts are the number
  of the retentions alive.
\<close>

inductive sync_step :: "sync_state \<Rightarrow> sync_state \<Rightarrow> bool" where
  step_schedule: "sync_step s (s\<lparr>sy_faults := fs, sy_events := es\<rparr>)"
| step_event: "sync_step s (happen e s)"
| step_start: "ps_sequence (sy_providers s p) < u64_max \<Longrightarrow> start p s = (r, s') \<Longrightarrow> sync_step s s'"
| step_write: "write_guard p None s = (r1, s1) \<Longrightarrow> sync_step s (s1\<lparr>sy_db := d\<rparr>)"
| step_favorite: "write_guard p None s = (r1, s1) \<Longrightarrow> favorite p i s1 = (r2, s') \<Longrightarrow> sync_step s s'"
| step_invalidate: "write_guard p None s = (r1, s1) \<Longrightarrow> invalidate_sync p s1 = (r2, s') \<Longrightarrow> sync_step s s'"
| step_batch: "write_batch jl w b s = (r3, s') \<Longrightarrow> sync_step s s'"
| step_retain: "retain_items p ids s = (r4, s') \<Longrightarrow> sync_step s s'"
| step_bind: "bind_generation h g s = (r1, s') \<Longrightarrow> sync_step s s'"
| step_fail: "fail h s = (r1, s') \<Longrightarrow> sync_step s s'"
| step_drop: "sync_step s (drop_run h s)"
| step_observe_libraries: "observe_libraries h ids s = (r1, s') \<Longrightarrow> sync_step s s'"
| step_declare: "declare_scopes h scs ts s = (r1, s') \<Longrightarrow> sync_step s s'"
| step_complete_libraries: "complete_libraries h s = (r1, s') \<Longrightarrow> sync_step s s'"
| step_complete: "complete_scope h sc s = (r1, s') \<Longrightarrow> sync_step s s'"
| step_observe_items: "observe_items h sc refs s = (r1, s') \<Longrightarrow> sync_step s s'"
| step_run_batch: "run_batch jl h b s = (r3, s') \<Longrightarrow> sync_step s s'"
| step_seal: "seal h s = (r1, s') \<Longrightarrow> sync_step s s'"
| step_finalize: "finalize h s = (r1, s') \<Longrightarrow> sync_step s s'"

inductive sync_reachable :: "sync_state \<Rightarrow> sync_state \<Rightarrow> bool" for s0 where
  sync_start: "sync_reachable s0 s0"
| sync_more: "sync_reachable s0 s \<Longrightarrow> sync_step s s' \<Longrightarrow> sync_reachable s0 s'"

text \<open>
  What a run does to itself is a change of its own record. An invariant of the machine follows from the frame
  and from the changes that the run operations make.
\<close>

locale sync_machine = sync_frame +
  assumes started: "I s \<Longrightarrow> ps_sequence (sy_providers s p) < u64_max \<Longrightarrow> start p s = (r, s') \<Longrightarrow> I s'"
    and favored: "keeps I (favorite p i)"
    and stopped: "keeps I (invalidate_sync p)"
    and retaining: "keeps I (retain_items p ids)"
    and failing: "keeps I (fail h)"
    and binding: "keeps I (bind_generation h g)"
    and declaring: "keeps I (declare_scopes h scs ts)"
    and sealing: "keeps I (seal h)"
    and completing: "keeps I (complete_scope h sc)"
    and libraries_completing: "keeps I (complete_libraries h)"
    and library_seen: "I s \<Longrightarrow> I (upd_run h (\<lambda>r. r\<lparr>sr_libraries := ls\<rparr>) s)"
    and items_seen: "I s \<Longrightarrow> I (upd_run h (\<lambda>r. r\<lparr>sr_seen := is\<rparr>) s)"
begin

lemma keeps_library_seen: "keeps I (modify (upd_run h (\<lambda>r. r\<lparr>sr_libraries := insert i (sr_libraries r)\<rparr>)))"
proof (rule keeps_modify)
  fix s assume "I s"
  then have "I (upd_run h (\<lambda>r. r\<lparr>sr_libraries := insert i (sr_libraries (sy_runs s h))\<rparr>) s)" by (rule library_seen)
  then show "I (upd_run h (\<lambda>r. r\<lparr>sr_libraries := insert i (sr_libraries r)\<rparr>) s)" by (simp add: upd_run_def)
qed

lemma keeps_items_seen: "keeps I (modify (upd_run h (\<lambda>r. r\<lparr>sr_seen := sr_seen r \<union> is\<rparr>)))"
proof (rule keeps_modify)
  fix s assume "I s"
  then have "I (upd_run h (\<lambda>r. r\<lparr>sr_seen := sr_seen (sy_runs s h) \<union> is\<rparr>) s)" by (rule items_seen)
  then show "I (upd_run h (\<lambda>r. r\<lparr>sr_seen := sr_seen r \<union> is\<rparr>) s)" by (simp add: upd_run_def)
qed

lemma keeps_observe_libraries: "keeps I (observe_libraries h ids)"
  unfolding observe_libraries_def observe_library_def fail_with_def
  by (intro keeps_intros failing keeps_library_seen)

lemma keeps_observe_items: "keeps I (observe_items h sc refs)"
  unfolding observe_items_def observe_item_def fail_with_def
  by (intro keeps_intros failing keeps_items_seen)

lemma step: "sync_step s s' \<Longrightarrow> I s \<Longrightarrow> I s'"
proof (induction rule: sync_step.induct)
  case (step_schedule s es fs)
  then have "I (s\<lparr>sy_faults := fs\<rparr>\<lparr>sy_events := es\<rparr>)" by (intro events faults)
  then show ?case by simp
next
  case (step_event s e)
  then show ?case by (rule happens)
next
  case (step_start s p r s')
  then show ?case using started by blast
next
  case (step_write p s r1 s1 d)
  from keeps_write_guard step_write(2,1) have "I s1" by (rule keepsD)
  then show ?case by (rule db)
next
  case (step_favorite p s r1 s1 i r2 s')
  from keeps_write_guard step_favorite(3,1) have "I s1" by (rule keepsD)
  with favored show ?case using step_favorite(2) by (rule keepsD)
next
  case (step_invalidate p s r1 s1 r2 s')
  from keeps_write_guard step_invalidate(3,1) have "I s1" by (rule keepsD)
  with stopped show ?case using step_invalidate(2) by (rule keepsD)
next
  case (step_drop s h)
  have "I (happen (Cancelled (sr_provider (sy_runs s h)) (sr_token (sy_runs s h))) s)"
    using step_drop by (rule happens)
  then show ?case by (simp add: happen_def drop_run_def)
next
  case (step_batch jl w b s r s')
  with keeps_write_batch show ?case by (blast dest: keepsD)
next
  case (step_run_batch jl h b s r s')
  with keeps_run_batch [OF failing] show ?case by (blast dest: keepsD)
next
  case (step_finalize h s r s')
  with keeps_finalize [OF failing stopped] show ?case by (blast dest: keepsD)
qed (rule retaining [THEN keepsD] binding [THEN keepsD] failing [THEN keepsD] keeps_observe_libraries [THEN keepsD]
    declaring [THEN keepsD] libraries_completing [THEN keepsD] completing [THEN keepsD]
    keeps_observe_items [THEN keepsD] sealing [THEN keepsD], assumption, assumption)+

lemma reachable_inv: "sync_reachable s0 s \<Longrightarrow> I s0 \<Longrightarrow> I s"
  by (induction rule: sync_reachable.induct) (auto intro: step)

end

end
