(* ===== verification/Sync_Invariants.thy ===== *)
theory Sync_Invariants
  imports Sync_Machine
begin

section \<open>Invariants of the coordinator\<close>

lemma upd_provider_simps [simp]:
  "sy_providers (upd_provider p f s) q = (if q = p then f (sy_providers s p) else sy_providers s q)"
  "sy_runs (upd_provider p f s) = sy_runs s" "sy_next_run (upd_provider p f s) = sy_next_run s"
  "sy_retentions (upd_provider p f s) = sy_retentions s" "sy_db (upd_provider p f s) = sy_db s"
  "sy_next_retention (upd_provider p f s) = sy_next_retention s"
  "sy_generations (upd_provider p f s) = sy_generations s"
  "sy_events (upd_provider p f s) = sy_events s" "sy_faults (upd_provider p f s) = sy_faults s"
  by (simp_all add: upd_provider_def)

lemma upd_run_simps [simp]:
  "sy_runs (upd_run h f s) k = (if k = h then f (sy_runs s h) else sy_runs s k)"
  "sy_providers (upd_run h f s) = sy_providers s" "sy_next_run (upd_run h f s) = sy_next_run s"
  "sy_retentions (upd_run h f s) = sy_retentions s" "sy_db (upd_run h f s) = sy_db s"
  "sy_next_retention (upd_run h f s) = sy_next_retention s"
  "sy_generations (upd_run h f s) = sy_generations s"
  "sy_events (upd_run h f s) = sy_events s" "sy_faults (upd_run h f s) = sy_faults s"
  by (simp_all add: upd_run_def)

lemmas happen_defs = happen_def cancel_def drop_retention_def

subsection \<open>Tokens\<close>

definition tokens_ok :: "sync_state \<Rightarrow> bool" where
  "tokens_ok s \<longleftrightarrow>
     (\<forall>p. ps_active (sy_providers s p) \<le> ps_sequence (sy_providers s p))
     \<and> (\<forall>h < sy_next_run s. 0 < sr_token (sy_runs s h)
          \<and> sr_token (sy_runs s h) \<le> ps_sequence (sy_providers s (sr_provider (sy_runs s h))))
     \<and> (\<forall>h < sy_next_run s. \<forall>k < sy_next_run s. h \<noteq> k \<longrightarrow> sr_provider (sy_runs s h) = sr_provider (sy_runs s k)
          \<longrightarrow> sr_token (sy_runs s h) \<noteq> sr_token (sy_runs s k))"

lemma tokens_ok_frame:
  assumes "tokens_ok s" "\<And>h. sr_token (sy_runs s' h) = sr_token (sy_runs s h)"
    "\<And>h. sr_provider (sy_runs s' h) = sr_provider (sy_runs s h)" "sy_next_run s' = sy_next_run s"
    "\<And>p. ps_sequence (sy_providers s' p) = ps_sequence (sy_providers s p)"
    "\<And>p. ps_active (sy_providers s' p) \<le> ps_active (sy_providers s p)"
  shows "tokens_ok s'"
  using assms by (fastforce simp: tokens_ok_def intro: le_trans)

text \<open>What a concurrent event can change: it clears an active token, drops retained items, moves the clock.\<close>

definition calm_provider :: "provider_state \<Rightarrow> provider_state \<Rightarrow> bool" where
  "calm_provider a b \<longleftrightarrow> ps_sequence b = ps_sequence a \<and> ps_revision b = ps_revision a
     \<and> ps_favorites b = ps_favorites a \<and> ps_overflow b = ps_overflow a
     \<and> (ps_active b = ps_active a \<or> ps_active b = 0) \<and> fst ` set (ps_retained b) \<subseteq> fst ` set (ps_retained a)"

definition calm :: "sync_state \<Rightarrow> sync_state \<Rightarrow> bool" where
  "calm s t \<longleftrightarrow> sy_runs t = sy_runs s \<and> sy_next_run t = sy_next_run s \<and> sy_db t = sy_db s
     \<and> (\<forall>p. calm_provider (sy_providers s p) (sy_providers t p))"

lemma calm_refl [simp]: "calm s s"
  by (simp add: calm_def calm_provider_def)

lemma calm_provider_trans: "calm_provider a b \<Longrightarrow> calm_provider b c \<Longrightarrow> calm_provider a c"
  unfolding calm_provider_def using subset_trans by metis

lemma calm_trans: "calm s t \<Longrightarrow> calm t u \<Longrightarrow> calm s u"
  unfolding calm_def using calm_provider_trans by metis

lemma release_ids: "fst ` set (fold release_id is counts) \<subseteq> fst ` set counts"
proof (induction "is" arbitrary: counts)
  case (Cons i "is")
  have "fst ` set (release_id i counts) \<subseteq> fst ` set counts"
    by (auto simp: release_id_def AList.delete_eq dom_update split: option.splits dest!: map_of_SomeD intro: rev_image_eqI)
  with Cons [of "release_id i counts"] show ?case by simp
qed simp

lemma calm_happen: "calm s (happen e s)"
  using release_ids by (cases e) (fastforce simp: calm_def calm_provider_def happen_defs split: option.splits)+

lemma calm_happens: "calm s (fold happen es s)"
  by (induction es arbitrary: s) (use calm_happen calm_trans in \<open>fastforce+\<close>)

lemma calm_preempt: "preempt s = (r, s') \<Longrightarrow> calm s s'"
proof -
  have "calm s (fold happen es (s\<lparr>sy_events := rest\<rparr>))" for es rest
    using calm_happens [of "s\<lparr>sy_events := rest\<rparr>" es] by (simp add: calm_def)
  then show "preempt s = (r, s') \<Longrightarrow> calm s s'"
    by (auto simp: preempt_def act_simps split: list.splits)
qed

lemma preempt_runs:
  assumes "preempt s = (r, s')"
  shows "sy_runs s' = sy_runs s" "sy_next_run s' = sy_next_run s" "sy_db s' = sy_db s"
    "ps_sequence (sy_providers s' p) = ps_sequence (sy_providers s p)"
    "ps_revision (sy_providers s' p) = ps_revision (sy_providers s p)"
    "ps_active (sy_providers s' p) = ps_active (sy_providers s p) \<or> ps_active (sy_providers s' p) = 0"
  using calm_preempt [OF assms] by (simp_all add: calm_def calm_provider_def)

lemma start_run:
  assumes "start p s = (r, s')" "ps_sequence (sy_providers s p) < u64_max"
  obtains (refused) e where "r = Inl e" "preempt s = (Inr (), s')" "ps_active (sy_providers s' p) \<noteq> 0"
    | (running) s1 where "preempt s = (Inr (), s1)" "ps_active (sy_providers s1 p) = 0" "r = Inr (sy_next_run s)"
        "s' = upd_run (sy_next_run s) (\<lambda>_. run_new p (ps_sequence (sy_providers s p) + 1) (ps_revision (sy_providers s p)))
            ((upd_provider p (\<lambda>st. st\<lparr>ps_sequence := ps_sequence (sy_providers s p) + 1,
                ps_active := ps_sequence (sy_providers s p) + 1, ps_favorites := [], ps_overflow := 0\<rparr>) s1)\<lparr>sy_next_run := sy_next_run s + 1\<rparr>)"
proof -
  obtain q s1 where pre: "preempt s = (q, s1)" by fastforce
  then have q: "q = Inr ()" by (auto simp: preempt_def act_simps)
  note same = preempt_runs [OF pre]
  have seq: "ps_sequence (sy_providers s1 p) + 1 < 2 ^ 64" using assms(2) same by (simp add: u64_max_def)
  show thesis
  proof (cases "ps_active (sy_providers s1 p) = 0")
    case False
    with assms(1) pre q have "r = Inl ''full sync is already running'' \<and> s' = s1"
      by (simp add: start_def load_active_def bnd_def act_simps)
    with refused pre q False show thesis by blast
  next
    case True
    have "start p s = (Inr (sy_next_run s), upd_run (sy_next_run s)
        (\<lambda>_. run_new p (ps_sequence (sy_providers s p) + 1) (ps_revision (sy_providers s p)))
            ((upd_provider p (\<lambda>st. st\<lparr>ps_sequence := ps_sequence (sy_providers s p) + 1,
                ps_active := ps_sequence (sy_providers s p) + 1, ps_favorites := [], ps_overflow := 0\<rparr>) s1)\<lparr>sy_next_run := sy_next_run s + 1\<rparr>))"
      using True pre q same seq
      by (simp add: start_def load_active_def bnd_def act_simps incremented_def checked_add_def u64_max_def
          ok_or_def upd_provider_def upd_run_def)
    with assms(1) running pre q True show thesis by auto
  qed
qed

interpretation token_frame: sync_frame tokens_ok
proof unfold_locales
  fix s e assume "tokens_ok s"
  then show "tokens_ok (happen e s)"
    by (rule tokens_ok_frame) (cases e; auto simp: happen_defs split: option.splits)+
qed (erule tokens_ok_frame; simp)+

lemma tokens_started:
  assumes ok: "tokens_ok s" and seq: "ps_sequence (sy_providers s p) < u64_max" and run: "start p s = (r, s')"
  shows "tokens_ok s'"
  using run seq
proof (cases rule: start_run)
  case (refused e)
  with token_frame.keeps_preempt ok show ?thesis by (blast dest: keepsD)
next
  case (running s1)
  from token_frame.keeps_preempt ok running(1) have "tokens_ok s1" by (rule keepsD)
  with running(4) preempt_runs [OF running(1)] show ?thesis
    by (fastforce simp: tokens_ok_def run_new_def less_Suc_eq)
qed

lemma run_change_tokens:
  assumes "\<And>r. sr_token (f r) = sr_token r" "\<And>r. sr_provider (f r) = sr_provider r"
  shows "keeps tokens_ok (modify (upd_run h f))"
  by (rule keeps_modify, erule tokens_ok_frame) (simp_all add: assms)

lemmas run_op_defs = fail_def bind_generation_def declare_scopes_def seal_def complete_scope_def complete_libraries_def

interpretation tokens: sync_machine tokens_ok
proof unfold_locales
  fix s p r s'
  assume "tokens_ok s" "ps_sequence (sy_providers s p) < u64_max" "start p s = (r, s')"
  then show "tokens_ok s'" by (rule tokens_started)
next
  fix p i
  show "keeps tokens_ok (favorite p i)"
    unfolding favorite_def by (intro keeps_intros keeps_modify) (auto elim!: tokens_ok_frame)
next
  fix p ids
  show "keeps tokens_ok (retain_items p ids)"
    unfolding retain_items_def Let_def by (intro keeps_intros keeps_modify) (erule tokens_ok_frame; simp)
next
  fix p
  show "keeps tokens_ok (invalidate_sync p)"
    unfolding invalidate_sync_def by (intro keeps_modify) (erule tokens_ok_frame; simp)
next
  fix s h ls
  assume "tokens_ok s"
  then show "tokens_ok (upd_run h (\<lambda>r. r\<lparr>sr_libraries := ls\<rparr>) s)" by (rule tokens_ok_frame) auto
next
  fix s h x
  assume "tokens_ok s"
  then show "tokens_ok (upd_run h (\<lambda>r. r\<lparr>sr_seen := x\<rparr>) s)" by (rule tokens_ok_frame) auto
qed (unfold run_op_defs, (intro keeps_intros run_change_tokens; simp)+)

subsection \<open>Runs\<close>

definition run_shape :: "sync_run \<Rightarrow> bool" where
  "run_shape r \<longleftrightarrow> sr_complete r \<subseteq> sr_scopes r
     \<and> (if sr_declared r then scope_new None Mix \<in> sr_scopes r else sr_scopes r = {})
     \<and> (sr_sealed r \<longrightarrow> sr_declared r \<and> sr_libraries_complete r \<and> sr_complete r = sr_scopes r)"

definition runs_ok :: "sync_state \<Rightarrow> bool" where
  "runs_ok s \<longleftrightarrow> (\<forall>h. run_shape (sy_runs s h))"

lemma runs_ok_same: "runs_ok s \<Longrightarrow> sy_runs s' = sy_runs s \<Longrightarrow> runs_ok s'"
  by (simp add: runs_ok_def)

interpretation run_frame: sync_frame runs_ok
proof unfold_locales
  fix s e assume "runs_ok s"
  then show "runs_ok (happen e s)"
    by (rule runs_ok_same) (cases e; auto simp: happen_defs split: option.splits)
qed (erule runs_ok_same; simp)+

lemma calm_generation: "check_generation g s = (r, s') \<Longrightarrow> calm s s'"
  by (auto simp: check_generation_def act_simps elim!: bnd_cases split: option.splits dest: calm_preempt)

lemma calm_active: "load_active p s = (r, s') \<Longrightarrow> calm s s'"
  by (auto simp: load_active_def act_simps elim!: bnd_cases dest: calm_preempt)

lemma active_Inr: "load_active p s = (Inr a, s') \<Longrightarrow> a = ps_active (sy_providers s' p)"
  by (auto simp: load_active_def elim!: bnd_InrE)

lemma calm_runs: "calm s t \<Longrightarrow> sy_runs t = sy_runs s"
  by (simp add: calm_def)

lemma running_Inr:
  assumes "running h s = (Inr u, s')"
  shows "calm s s' \<and> \<not> sr_failed (sy_runs s' h) \<and> \<not> sr_sealed (sy_runs s' h)
    \<and> ps_active (sy_providers s' (sr_provider (sy_runs s' h))) = sr_token (sy_runs s' h)"
proof -
  obtain s1 a where gen: "check_generation (sr_generation (sy_runs s h)) s = (Inr (), s1)"
    and flags: "\<not> sr_failed (sy_runs s h)" "\<not> sr_sealed (sy_runs s h)"
    and act: "load_active (sr_provider (sy_runs s h)) s1 = (Inr a, s')" and a: "a = sr_token (sy_runs s h)"
    using assms by (auto simp: running_def run_of_def elim!: bnd_InrE)
  have calm: "calm s s'" using calm_generation [OF gen] calm_active [OF act] by (rule calm_trans)
  with flags active_Inr [OF act] a show ?thesis by (simp add: calm_runs)
qed

lemma run_change:
  assumes "runs_ok s" "run_shape (f (sy_runs s h))"
  shows "runs_ok (upd_run h f s)"
  using assms by (simp add: runs_ok_def)

lemma keeps_run_change:
  "(\<And>r. run_shape r \<Longrightarrow> run_shape (f r)) \<Longrightarrow> keeps runs_ok (modify (upd_run h f))"
  by (rule keeps_modify, rule run_change) (simp_all add: runs_ok_def)

lemma keeps_when_running:
  assumes "\<And>s r s'. runs_ok s \<Longrightarrow> \<not> sr_sealed (sy_runs s h) \<Longrightarrow> m s = (r, s') \<Longrightarrow> runs_ok s'"
  shows "keeps runs_ok (bnd (running h) (\<lambda>_. m))"
proof (rule keepsI)
  fix s r s'
  assume ok: "runs_ok s" and "bnd (running h) (\<lambda>_. m) s = (r, s')"
  from this(2) show "runs_ok s'"
  proof (cases rule: bnd_cases)
    case (fail e)
    from run_frame.keeps_running ok fail(1) show ?thesis by (rule keepsD)
  next
    case (go u s1)
    from run_frame.keeps_running ok go(1) have "runs_ok s1" by (rule keepsD)
    with assms running_Inr [OF go(1)] go(2) show ?thesis by blast
  qed
qed

lemma for_each_lift: "for_each xs (\<lambda>x. lift (f x)) s = (r, s') \<Longrightarrow> s' = s"
  by (induction xs arbitrary: s) (auto simp: for_each.simps act_simps elim!: bnd_cases)

interpretation runs: sync_machine runs_ok
proof unfold_locales
  fix s p r s'
  assume ok: "runs_ok s" and seq: "ps_sequence (sy_providers s p) < u64_max" and run: "start p s = (r, s')"
  from run seq show "runs_ok s'"
  proof (cases rule: start_run)
    case (refused e)
    with ok show ?thesis by (auto simp: runs_ok_def preempt_runs)
  next
    case (running s1)
    have "run_shape (run_new p t v)" for t v by (simp add: run_shape_def run_new_def)
    with running ok show ?thesis by (simp add: runs_ok_def preempt_runs)
  qed
next
  fix p i
  show "keeps runs_ok (favorite p i)"
    unfolding favorite_def by (intro keeps_intros keeps_modify) (auto elim!: runs_ok_same)
next
  fix p ids
  show "keeps runs_ok (retain_items p ids)"
    unfolding retain_items_def Let_def by (intro keeps_intros keeps_modify) (erule runs_ok_same; simp)
next
  fix p
  show "keeps runs_ok (invalidate_sync p)"
    unfolding invalidate_sync_def by (intro keeps_modify) (erule runs_ok_same; simp)
next
  fix h scs ts
  show "keeps runs_ok (declare_scopes h scs ts)"
    unfolding declare_scopes_def
  proof (rule keeps_when_running)
    fix s r s'
    let ?body = "bnd (run_of h) (\<lambda>r. bnd (require (\<not> sr_declared r) ''scopes have already been declared'') (\<lambda>_.
      bnd (require (distinct scs \<and> length scs \<le> MAX_SEEN) ''duplicate or excessive scopes'') (\<lambda>_.
      bnd (for_each scs (\<lambda>sc. lift (check_scope r ts sc))) (\<lambda>_.
      bnd (require (\<forall>i \<in> sr_libraries r. \<forall>kind \<in> set ts. scope_new (Some i) kind \<in> set scs)
        ''required library scope is missing'') (\<lambda>_.
      bnd (require (scope_new None Mix \<in> set scs) ''global mix scope is missing'') (\<lambda>_.
      modify (upd_run h (\<lambda>r. r\<lparr>sr_scopes := set scs, sr_declared := True\<rparr>))))))))"
    assume ok: "runs_ok s" and open_run: "\<not> sr_sealed (sy_runs s h)" and run: "?body s = (r, s')"
    have "s' = s \<or> \<not> sr_declared (sy_runs s h) \<and> scope_new None Mix \<in> set scs
        \<and> s' = upd_run h (\<lambda>r. r\<lparr>sr_scopes := set scs, sr_declared := True\<rparr>) s"
      using run by (auto simp: run_of_def act_simps elim!: bnd_cases split: if_splits dest!: for_each_lift)
    moreover have "run_shape (sy_runs s h)" using ok by (simp add: runs_ok_def)
    ultimately show "runs_ok s'"
      using ok open_run by (auto simp: run_shape_def intro!: run_change)
  qed
next
  fix h
  show "keeps runs_ok (seal h)"
    unfolding seal_def
    by (rule keeps_when_running)
      (auto simp: run_of_def act_simps elim!: bnd_cases split: if_splits intro!: run_change,
        auto simp: runs_ok_def run_shape_def)
next
  fix h sc
  show "keeps runs_ok (complete_scope h sc)"
    unfolding complete_scope_def
    by (rule keeps_when_running)
      (auto simp: run_of_def act_simps elim!: bnd_cases split: if_splits intro!: run_change,
        auto simp: runs_ok_def run_shape_def)
next
  fix h
  show "keeps runs_ok (complete_libraries h)"
    unfolding complete_libraries_def
    by (intro keeps_intros keeps_run_change) (simp add: run_shape_def split: if_splits)
next
  fix h
  show "keeps runs_ok (fail h)"
    unfolding fail_def by (rule keeps_run_change) (simp add: run_shape_def)
next
  fix h g
  show "keeps runs_ok (bind_generation h g)"
    unfolding bind_generation_def by (rule keeps_run_change) (simp add: run_shape_def)
next
  fix s h ls
  assume "runs_ok s"
  then show "runs_ok (upd_run h (\<lambda>r. r\<lparr>sr_libraries := ls\<rparr>) s)"
    by (rule run_change) (use \<open>runs_ok s\<close> in \<open>simp add: runs_ok_def run_shape_def\<close>)
next
  fix s h x
  assume "runs_ok s"
  then show "runs_ok (upd_run h (\<lambda>r. r\<lparr>sr_seen := x\<rparr>) s)"
    by (rule run_change) (use \<open>runs_ok s\<close> in \<open>simp add: runs_ok_def run_shape_def\<close>)
qed

end
