(* ===== verification/Retention.thy ===== *)
theory Retention
  imports Sync_Invariants
begin

section \<open>Retention counts\<close>

text \<open>
  The count of a retained item is the number of the retentions alive that hold it, and an item without
  retention has no entry, so that \<^verbatim>\<open>retained_items\<close> is the union of the retentions alive.
\<close>

definition holders :: "int \<Rightarrow> int \<Rightarrow> (nat \<times> item_retention) list \<Rightarrow> nat" where
  "holders p i rs = length (filter (\<lambda>r. rt_owner (snd r) = p \<and> i \<in> set (rt_ids (snd r))) rs)"

definition count_of :: "nat \<Rightarrow> nat option" where
  "count_of n = (if n = 0 then None else Some n)"

definition counts_ok :: "sync_state \<Rightarrow> bool" where
  "counts_ok s \<longleftrightarrow> distinct (map fst (sy_retentions s))
     \<and> (\<forall>r \<in> set (sy_retentions s). fst r < sy_next_retention s \<and> distinct (rt_ids (snd r)))
     \<and> (\<forall>p i. map_of (ps_retained (sy_providers s p)) i = count_of (holders p i (sy_retentions s)))"

lemma counts_ok_frame:
  assumes "counts_ok s" "sy_retentions s' = sy_retentions s" "sy_next_retention s' = sy_next_retention s"
    "\<And>p. ps_retained (sy_providers s' p) = ps_retained (sy_providers s p)"
  shows "counts_ok s'"
  using assms by (simp add: counts_ok_def)

lemma map_of_retain_id:
  "map_of (retain_id i c) j = (if j = i then Some ((case map_of c i of None \<Rightarrow> 0 | Some n \<Rightarrow> n) + 1) else map_of c j)"
  by (simp add: retain_id_def update_conv')

lemma map_of_retain_ids:
  "distinct is \<Longrightarrow> map_of (fold retain_id is c) j =
     (if j \<in> set is then Some ((case map_of c j of None \<Rightarrow> 0 | Some n \<Rightarrow> n) + 1) else map_of c j)"
  by (induction "is" arbitrary: c) (auto simp: map_of_retain_id)

lemma map_of_release_id:
  "map_of (release_id i c) j =
     (if j = i then (case map_of c i of None \<Rightarrow> None | Some n \<Rightarrow> count_of (n - 1)) else map_of c j)"
  by (auto simp: release_id_def count_of_def update_conv' delete_conv' split: option.splits)

lemma map_of_release_ids:
  "distinct is \<Longrightarrow> map_of (fold release_id is c) j =
     (if j \<in> set is then (case map_of c j of None \<Rightarrow> None | Some n \<Rightarrow> count_of (n - 1)) else map_of c j)"
  by (induction "is" arbitrary: c) (auto simp: map_of_release_id)

lemma holders_delete:
  "distinct (map fst rs) \<Longrightarrow> map_of rs h = Some rt \<Longrightarrow>
    holders p i rs = holders p i (AList.delete h rs) + (if rt_owner rt = p \<and> i \<in> set (rt_ids rt) then 1 else 0)"
proof (induction rs)
  case (Cons r rs)
  show ?case
  proof (cases "fst r = h")
    case True
    with Cons.prems have "AList.delete h rs = rs" "snd r = rt"
      by (auto simp: AList.delete_eq filter_id_conv image_iff)
    with True show ?thesis by (cases r) (simp add: holders_def)
  next
    case False
    with Cons show ?thesis by (cases r) (auto simp: holders_def)
  qed
qed simp

lemma drop_retention_counts:
  assumes ok: "counts_ok s"
  shows "counts_ok (drop_retention h s)"
proof (cases "map_of (sy_retentions s) h")
  case (Some rt)
  have mem: "(h, rt) \<in> set (sy_retentions s)" using Some by (rule map_of_SomeD)
  then have ids: "distinct (rt_ids rt)" using ok by (force simp: counts_ok_def)
  have dist: "distinct (map fst (sy_retentions s))" using ok by (simp add: counts_ok_def)
  let ?rs = "AList.delete h (sy_retentions s)"
  have count: "map_of (ps_retained (sy_providers (drop_retention h s) p)) i = count_of (holders p i ?rs)" for p i
    using ok holders_delete [OF dist Some, of p i]
    by (auto simp: drop_retention_def Some counts_ok_def map_of_release_ids [OF ids] count_of_def)
  have "distinct (map fst ?rs)" using dist by (simp add: distinct_delete)
  moreover have "set ?rs \<subseteq> set (sy_retentions s)" by (auto simp: AList.delete_eq)
  ultimately show ?thesis
    using ok count by (auto simp: counts_ok_def drop_retention_def Some)
qed (simp add: drop_retention_def assms)

interpretation count_frame: sync_frame counts_ok
proof unfold_locales
  fix s e assume "counts_ok s"
  then show "counts_ok (happen e s)"
    by (cases e) (auto simp: happen_def cancel_def drop_retention_counts elim!: counts_ok_frame)
qed (erule counts_ok_frame; simp)+

definition same_but_faults :: "sync_state \<Rightarrow> sync_state \<Rightarrow> bool" where
  "same_but_faults s t \<longleftrightarrow> (\<exists>fs. t = s\<lparr>sy_faults := fs\<rparr>)"

lemma same_but_faults_trans [trans]:
  "same_but_faults s t \<Longrightarrow> same_but_faults t u \<Longrightarrow> same_but_faults s u"
  by (auto simp: same_but_faults_def)

lemma select_same: "select f s = (r, s') \<Longrightarrow> same_but_faults s s' \<and> (\<forall>x. r = Inr x \<longrightarrow> x = f (sy_db s))"
proof -
  have refl: "\<exists>fs. s = s\<lparr>sy_faults := fs\<rparr>" by (rule exI [of _ "sy_faults s"]) simp
  assume "select f s = (r, s')"
  with refl show ?thesis
    by (auto simp: select_def statement_def same_but_faults_def act_simps bnd_def split: list.splits if_splits)
qed

lemma same_but_faults_simps:
  assumes "same_but_faults s t"
  shows "sy_db t = sy_db s" "sy_providers t = sy_providers s" "sy_retentions t = sy_retentions s"
    "sy_next_retention t = sy_next_retention s" "sy_runs t = sy_runs s" "sy_next_run t = sy_next_run s"
  using assms by (auto simp: same_but_faults_def)

lemma same_counts: "same_but_faults s t \<Longrightarrow> counts_ok s \<Longrightarrow> counts_ok t"
  by (rule counts_ok_frame) (simp_all add: same_but_faults_simps)

lemma same_but_faults_refl [simp]: "same_but_faults s s"
  by (auto simp: same_but_faults_def intro: exI [of _ "sy_faults s"])

lemma bnd_select_cases:
  assumes "bnd (select f) m s = (r, s')"
  obtains (failed) e where "r = Inl e" "same_but_faults s s'"
    | (selected) t where "same_but_faults s t" "m (f (sy_db s)) t = (r, s')"
  using assms
proof (cases rule: bnd_cases)
  case (fail e)
  then show thesis using select_same failed by blast
next
  case (go x s1)
  then show thesis using select_same selected by blast
qed

lemma bnd_require_cases:
  assumes "bnd (require b msg) m s = (r, s')"
  obtains (refused) "r = Inl msg" "s' = s" | (granted) b "m () s = (r, s')"
  using assms by (cases b) (auto simp: bnd_def act_simps)

text \<open>The items that a retention of the roots protects.\<close>

definition media_of :: "int list \<Rightarrow> catalog \<Rightarrow> int list" where
  "media_of ids d =
     (let is = remdups (ids @ List.map_filter (\<lambda>x. x) (song_albums ids d))
      in remdups (is @ relation_artists ct_song_artists is d @ relation_artists ct_album_artists is d))"

lemma dependency_ids_result:
  assumes "dependency_ids ids s = (r, s')"
  shows "same_but_faults s s' \<and> (\<forall>deps. r = Inr deps \<longrightarrow> deps = media_of ids (sy_db s))"
  using assms unfolding dependency_ids_def Let_def
proof (cases rule: bnd_select_cases)
  case (selected t1)
  from selected(2) show ?thesis
  proof (cases rule: bnd_select_cases)
    case failed
    then show ?thesis using selected(1) same_but_faults_trans by blast
  next
    case (selected t2)
    note s1 = \<open>same_but_faults s t1\<close> and s2 = selected(1)
    from selected(2) show ?thesis
    proof (cases rule: bnd_select_cases)
      case failed
      then show ?thesis using s1 s2 same_but_faults_trans by blast
    next
      case (selected t3)
      then show ?thesis
        using s1 s2 same_but_faults_trans [OF same_but_faults_trans [OF s1 s2] selected(1)]
        by (auto simp: act_simps media_of_def Let_def same_but_faults_simps(1))
    qed
  qed
qed simp

text \<open>A retention that was granted holds the roots it was asked for, all of this provider, and their media.\<close>

lemma retain_items_result:
  assumes "retain_items p ids s = (r, s')"
  shows "(case r of
      Inl e \<Rightarrow> same_but_faults s s'
    | Inr h \<Rightarrow> h = sy_next_retention s \<and> (\<exists>s1. same_but_faults s s1
        \<and> length (provider_items p (media_of (remdups ids) (sy_db s)) (sy_db s)) = length (media_of (remdups ids) (sy_db s))
        \<and> s' = upd_provider p (\<lambda>st. st\<lparr>ps_retained := fold retain_id (media_of (remdups ids) (sy_db s)) (ps_retained st)\<rparr>)
             (s1\<lparr>sy_next_retention := h + 1, sy_retentions := (h, \<lparr>rt_owner = p,
                 rt_roots = provider_items p (remdups ids) (sy_db s),
                 rt_ids = media_of (remdups ids) (sy_db s)\<rparr>) # sy_retentions s1\<rparr>)))"
  using assms unfolding retain_items_def Let_def
proof (cases rule: bnd_require_cases)
  case granted
  from granted(2) show ?thesis
  proof (cases rule: bnd_select_cases)
    case (selected t1)
    note s1 = selected(1)
    from selected(2) show ?thesis
    proof (cases rule: bnd_require_cases)
      case refused
      with s1 show ?thesis by simp
    next
      case granted
      from granted(2) show ?thesis
      proof (cases rule: bnd_cases)
        case (fail e)
        with s1 dependency_ids_result show ?thesis by (auto intro: same_but_faults_trans)
      next
        case (go deps t2)
        from dependency_ids_result [OF go(1)] s1
        have s2: "same_but_faults s t2" and deps: "deps = media_of (remdups ids) (sy_db s)"
          by (auto intro: same_but_faults_trans simp: same_but_faults_simps)
        from go(2) show ?thesis
        proof (cases rule: bnd_select_cases)
          case failed
          then show ?thesis using s2 by (auto intro: same_but_faults_trans)
        next
          case (selected t3)
          have s3: "same_but_faults s t3" using s2 selected(1) by (rule same_but_faults_trans)
          have db: "sy_db t2 = sy_db s" using s2 by (rule same_but_faults_simps)
          from selected(2) show ?thesis
            by (cases rule: bnd_require_cases)
              (auto simp: s3 db deps act_simps bnd_def same_but_faults_simps [OF s3] intro!: exI [of _ t3])
        qed
      qed
    qed
  qed simp
qed simp

lemma retain_counts:
  assumes ok: "counts_ok s" and run: "retain_items p ids s = (r, s')"
  shows "counts_ok s'"
proof (cases r)
  case (Inl e)
  with retain_items_result [OF run] same_counts ok show ?thesis by simp
next
  case (Inr h)
  let ?ids = "media_of (remdups ids) (sy_db s)"
  have dist: "distinct ?ids" by (simp add: media_of_def Let_def)
  from retain_items_result [OF run] Inr obtain s1 rt where s1: "same_but_faults s s1" and h: "h = sy_next_retention s"
    and rt: "rt_owner rt = p" "rt_ids rt = ?ids"
    and s': "s' = upd_provider p (\<lambda>st. st\<lparr>ps_retained := fold retain_id ?ids (ps_retained st)\<rparr>)
             (s1\<lparr>sy_next_retention := h + 1, sy_retentions := (h, rt) # sy_retentions s1\<rparr>)"
    by force
  have s1_ok: "counts_ok s1" using s1 ok by (rule same_counts)
  have next_id: "sy_next_retention s1 = h" using s1 h by (simp add: same_but_faults_simps)
  have fresh: "h \<notin> fst ` set (sy_retentions s1)"
    using s1_ok next_id by (force simp: counts_ok_def)
  have new: "sy_retentions s' = (h, rt) # sy_retentions s1" "sy_next_retention s' = h + 1"
    unfolding s' by simp_all
  have count: "map_of (ps_retained (sy_providers s' q)) i = count_of (holders q i (sy_retentions s'))" for q i
  proof -
    have old: "map_of (ps_retained (sy_providers s1 q)) i = count_of (holders q i (sy_retentions s1))"
      using s1_ok by (simp add: counts_ok_def)
    have "sy_providers s' q = (if q = p then (sy_providers s1 p)\<lparr>ps_retained :=
        fold retain_id ?ids (ps_retained (sy_providers s1 p))\<rparr> else sy_providers s1 q)"
      unfolding s' by simp
    then show ?thesis
      using old by (cases "q = p") (auto simp: new holders_def rt map_of_retain_ids [OF dist] count_of_def)
  qed
  have "\<forall>r \<in> set (sy_retentions s1). fst r < h + 1 \<and> distinct (rt_ids (snd r))"
    using s1_ok next_id by (force simp: counts_ok_def)
  with count fresh s1_ok show ?thesis
    by (simp add: counts_ok_def new rt dist)
qed

lemma run_change_counts: "keeps counts_ok (modify (upd_run h f))"
  by (rule keeps_modify, erule counts_ok_frame) simp_all

interpretation counts: sync_machine counts_ok
proof unfold_locales
  fix s p r s'
  assume ok: "counts_ok s" and seq: "ps_sequence (sy_providers s p) < u64_max" and run: "start p s = (r, s')"
  from run seq show "counts_ok s'"
  proof (cases rule: start_run)
    case (refused e)
    with count_frame.keeps_preempt ok show ?thesis by (blast dest: keepsD)
  next
    case (running s1)
    from count_frame.keeps_preempt ok running(1) have "counts_ok s1" by (rule keepsD)
    then show ?thesis unfolding running(4) by (rule counts_ok_frame) simp_all
  qed
next
  fix p i
  show "keeps counts_ok (favorite p i)"
    unfolding favorite_def by (intro keeps_intros keeps_modify) (auto elim!: counts_ok_frame)
next
  fix p ids
  show "keeps counts_ok (retain_items p ids)" by (rule keepsI, rule retain_counts)
next
  fix p
  show "keeps counts_ok (invalidate_sync p)"
    unfolding invalidate_sync_def by (intro keeps_modify) (erule counts_ok_frame; simp)
next
  fix s h ls
  assume "counts_ok s"
  then show "counts_ok (upd_run h (\<lambda>r. r\<lparr>sr_libraries := ls\<rparr>) s)" by (rule counts_ok_frame) simp_all
next
  fix s h x
  assume "counts_ok s"
  then show "counts_ok (upd_run h (\<lambda>r. r\<lparr>sr_seen := x\<rparr>) s)" by (rule counts_ok_frame) simp_all
qed (unfold run_op_defs, (intro keeps_intros run_change_counts)+)

end
