(* ===== verification/Sync_Prune.thy ===== *)
theory Sync_Prune
  imports Retention
begin

section \<open>What pruning removes\<close>

text \<open>
  The loops of \<^verbatim>\<open>finalize\<close> as filters on the tables of items and libraries, and the outcome of a whole
  \<^verbatim>\<open>finalize\<close>.
\<close>

subsection \<open>Transactions and the tables\<close>

abbreviation db_is :: "catalog \<Rightarrow> sync_state \<Rightarrow> bool" where
  "db_is d s \<equiv> sy_db s = d"

lemma db_preempt [keeps_intros]: "keeps (db_is d) preempt"
  by (rule keepsI) (simp add: preempt_runs)

lemma db_statement [keeps_intros]: "keeps (db_is d) statement"
  by (rule keepsI) (auto simp: statement_def split: list.splits)

lemma db_select [keeps_intros]: "keeps (db_is d) (select f)"
  unfolding select_def by (intro keeps_intros)

lemma db_generation [keeps_intros]: "keeps (db_is d) (check_generation g)"
  unfolding check_generation_def by (intro keeps_intros)

lemma db_active [keeps_intros]: "keeps (db_is d) (load_active p)"
  unfolding load_active_def by (intro keeps_intros)

lemma db_origin [keeps_intros]: "keeps (db_is d) (check_origin p t)"
  unfolding check_origin_def by (intro keeps_intros)

lemma db_write_guard [keeps_intros]: "keeps (db_is d) (write_guard p origin)"
  unfolding write_guard_def bump_revision_def bump_changes_def bump_projection_def incremented_def
  by (intro keeps_intros keeps_modify) simp_all

lemma db_retained [keeps_intros]: "keeps (db_is d) (retained_items p)"
  unfolding retained_items_def by (intro keeps_intros)

lemma db_run_change [keeps_intros]: "keeps (db_is d) (modify (upd_run h f))"
  by (rule keeps_modify) simp

lemma db_fail_with [keeps_intros]: "keeps (db_is d) (fail_with h msg)"
  unfolding fail_with_def fail_def by (intro keeps_intros)

lemma db_running [keeps_intros]: "keeps (db_is d) (running h)"
  unfolding running_def run_of_def by (intro keeps_intros)

lemma in_txn_result:
  assumes "in_txn m s = (r, s')"
  obtains (failed) e where "r = Inl e" "sy_db s' = sy_db s"
    | (committed) x s1 s2 where "r = Inr x" "same_but_faults s s1" "m s1 = (Inr x, s2)" "same_but_faults s2 s'"
proof -
  have same: "same_but_faults t u" if "statement t = (q, u)" for t q u
    using that by (auto simp: statement_def same_but_faults_def split: list.splits intro: exI [of _ "sy_faults t"])
  obtain q1 s1 where st: "statement s = (q1, s1)" by fastforce
  note s1 = same [OF st]
  show thesis
  proof (cases q1)
    case (Inl e)
    with assms st failed s1 show thesis by (auto simp: in_txn_def bnd_def same_but_faults_simps)
  next
    case (Inr u)
    obtain q2 s2 where m: "m s1 = (q2, s2)" by fastforce
    obtain q3 s3 where st2: "statement s2 = (q3, s3)" by fastforce
    show thesis
      using assms st Inr m st2 s1 same [OF st2] failed committed
      by (cases q2; cases q3) (auto simp: in_txn_def bnd_def act_simps rollback_def same_but_faults_simps)
  qed
qed

lemma change_Inr: "change f s = (Inr u, s') \<Longrightarrow> sy_db s' = f (sy_db s)"
  by (auto simp: change_def statement_def elim!: bnd_InrE split: list.splits if_splits)

lemma fail_with_Inr [simp]: "fail_with h msg s = (Inr x, s') \<longleftrightarrow> False"
  by (auto simp: fail_with_def elim!: bnd_InrE)

subsection \<open>Items and libraries after a deletion\<close>

lemma delete_items_tables [simp]:
  "ct_items (delete_items p d) = filter (\<lambda>r. \<not> p (it_id r)) (ct_items d)"
  "ct_libraries (delete_items p d) = ct_libraries d"
  by (simp_all add: delete_items_def Let_def delete_remote_mixes_def delete_mixes_def delete_songs_def
      delete_artists_def delete_albums_def)

lemma delete_mixes_tables [simp]:
  "ct_items (delete_mixes p d) = ct_items d" "ct_libraries (delete_mixes p d) = ct_libraries d"
  by (simp_all add: delete_mixes_def)

lemma delete_library_tables:
  assumes "distinct (map it_id (ct_items d))"
  shows "ct_items (delete_library lib d) = filter (\<lambda>r. it_library r \<noteq> Some lib) (ct_items d)"
    and "ct_libraries (delete_library lib d) = filter (\<lambda>r. lb_id r \<noteq> lib) (ct_libraries d)"
proof -
  have "(\<exists>r' \<in> set (ct_items d). it_id r' = it_id r \<and> it_library r' = Some lib) \<longleftrightarrow> it_library r = Some lib"
    if "r \<in> set (ct_items d)" for r
    using that assms by (auto simp: distinct_map dest: inj_onD)
  then show "ct_items (delete_library lib d) = filter (\<lambda>r. it_library r \<noteq> Some lib) (ct_items d)"
    by (auto simp: delete_library_def intro: filter_cong)
qed (simp add: delete_library_def)

definition pruned_by :: "sync_run \<Rightarrow> int list \<Rightarrow> item_row list \<Rightarrow> item_row \<Rightarrow> bool" where
  "pruned_by r retained candidates it \<longleftrightarrow>
     (\<exists>c \<in> set candidates. it_id c = it_id it \<and> prunable r retained c)"

lemma prune_item_tables:
  assumes "prune_item r retained c s = (Inr (), s')"
  shows "ct_items (sy_db s') = filter (\<lambda>it. \<not> pruned_by r retained [c] it) (ct_items (sy_db s))
    \<and> ct_libraries (sy_db s') = ct_libraries (sy_db s)"
  using assms
  by (auto simp: prune_item_def pruned_by_def elim!: bnd_InrE dest!: change_Inr split: if_splits intro!: filter_cong)

lemma prune_items_tables:
  assumes "for_each cs (prune_item r retained) s = (Inr (), s')"
  shows "ct_items (sy_db s') = filter (\<lambda>it. \<not> pruned_by r retained cs it) (ct_items (sy_db s))
    \<and> ct_libraries (sy_db s') = ct_libraries (sy_db s)"
  using assms
proof (induction cs arbitrary: s)
  case Nil
  then show ?case by (simp add: for_each.simps pruned_by_def)
next
  case (Cons c cs)
  then obtain s1 where 1: "prune_item r retained c s = (Inr (), s1)"
    and 2: "for_each cs (prune_item r retained) s1 = (Inr (), s')"
    by (auto simp: for_each.simps elim!: bnd_InrE)
  from prune_item_tables [OF 1] Cons.IH [OF 2] show ?case
    by (auto simp: pruned_by_def intro: filter_cong)
qed

lemma prune_libraries_tables:
  assumes "for_each ls (prune_library r) s = (Inr (), s')" and "distinct (map it_id (ct_items (sy_db s)))"
  shows "ct_items (sy_db s') =
      filter (\<lambda>it. \<not> (\<exists>l \<in> set ls. lb_id l \<notin> sr_libraries r \<and> it_library it = Some (lb_id l))) (ct_items (sy_db s))
    \<and> ct_libraries (sy_db s') =
      filter (\<lambda>k. \<not> (\<exists>l \<in> set ls. lb_id l \<notin> sr_libraries r \<and> lb_id k = lb_id l)) (ct_libraries (sy_db s))"
  using assms
proof (induction ls arbitrary: s)
  case Nil
  then show ?case by (simp add: for_each.simps)
next
  case (Cons l ls)
  then obtain s1 where 1: "prune_library r l s = (Inr (), s1)"
    and 2: "for_each ls (prune_library r) s1 = (Inr (), s')"
    by (auto simp: for_each.simps elim!: bnd_InrE)
  have step: "ct_items (sy_db s1) = filter (\<lambda>it. \<not> (lb_id l \<notin> sr_libraries r \<and> it_library it = Some (lb_id l)))
        (ct_items (sy_db s))
    \<and> ct_libraries (sy_db s1) = filter (\<lambda>k. \<not> (lb_id l \<notin> sr_libraries r \<and> lb_id k = lb_id l)) (ct_libraries (sy_db s))"
    using 1 delete_library_tables [OF Cons.prems(2)]
    by (auto simp: prune_library_def dest!: change_Inr split: if_splits)
  then have "distinct (map it_id (ct_items (sy_db s1)))"
    using Cons.prems(2) by (simp add: distinct_map_filter)
  from Cons.IH [OF 2 this] step show ?case
    by (auto intro: filter_cong)
qed

subsection \<open>The outcome\<close>

text \<open>Items retained by a provider can only leave the given set while an operation runs.\<close>

definition retained_within :: "int \<Rightarrow> int set \<Rightarrow> sync_state \<Rightarrow> bool" where
  "retained_within p X s \<longleftrightarrow> fst ` set (ps_retained (sy_providers s p)) \<subseteq> X"

lemma retained_within_cong:
  "retained_within p X s \<Longrightarrow> ps_retained (sy_providers s' p) = ps_retained (sy_providers s p) \<Longrightarrow> retained_within p X s'"
  by (simp add: retained_within_def)

interpretation retained_within: sync_frame "retained_within p X" for p X
proof unfold_locales
  fix s e assume "retained_within p X s"
  moreover have "calm_provider (sy_providers s p) (sy_providers (happen e s) p)"
    using calm_happen [of s e] by (simp add: calm_def)
  ultimately show "retained_within p X (happen e s)"
    unfolding retained_within_def calm_provider_def by blast
qed (erule retained_within_cong; simp add: upd_provider_def)+

lemma take_all_if_short: "length (take (n + 1) xs) \<le> n \<Longrightarrow> take (n + 1) xs = xs"
  by (auto simp: min_def split: if_splits)

definition library_gone :: "sync_run \<Rightarrow> catalog \<Rightarrow> item_row \<Rightarrow> bool" where
  "library_gone r d it \<longleftrightarrow> (\<exists>l \<in> set (ct_libraries d). lb_provider l = sr_provider r \<and> lb_id l \<notin> sr_libraries r
     \<and> it_library it = Some (lb_id l))"

lemma prune_tables:
  assumes run: "prune h r s = (Inr (), s')"
    and items: "distinct (map it_id (ct_items (sy_db s)))" and libs: "distinct (map lb_id (ct_libraries (sy_db s)))"
  obtains s1 s2 retained where "same_but_faults s s1" "calm s1 s2"
    "retained = map fst (ps_retained (sy_providers s2 (sr_provider r)))"
    "retained_within (sr_provider r) (set retained) s'"
    "ct_items (sy_db s') = filter (\<lambda>it. \<not> (it_provider it = sr_provider r \<and> prunable r retained it)
        \<and> \<not> library_gone r (sy_db s) it) (ct_items (sy_db s))"
    "ct_libraries (sy_db s') = filter (\<lambda>l. lb_provider l = sr_provider r \<longrightarrow> lb_id l \<in> sr_libraries r)
        (ct_libraries (sy_db s))"
proof -
  let ?p = "sr_provider r" and ?d = "sy_db s"
  obtain s1 cs retained s2 s3 ls s4
    where sel: "select (\<lambda>d. take (MAX_SEEN + 1) (filter (\<lambda>i. it_provider i = ?p) (ct_items d))) s = (Inr cs, s1)"
      and short: "length cs \<le> MAX_SEEN" and ret: "retained_items ?p s1 = (Inr retained, s2)"
      and loop: "for_each cs (prune_item r retained) s2 = (Inr (), s3)"
      and sel4: "select (\<lambda>d. take (MAX_SEEN + 1) (filter (\<lambda>l. lb_provider l = ?p) (ct_libraries d))) s3 = (Inr ls, s4)"
      and short4: "length ls \<le> MAX_SEEN" and loop4: "for_each ls (prune_library r) s4 = (Inr (), s')"
    using run unfolding prune_def by (elim bnd_InrE) (simp split: if_splits)
  have s1: "same_but_faults s s1" and cs0: "cs = take (MAX_SEEN + 1) (filter (\<lambda>i. it_provider i = ?p) (ct_items ?d))"
    using select_same [OF sel] by simp_all
  have d1: "sy_db s1 = ?d" using s1 by (rule same_but_faults_simps)
  have cs: "cs = filter (\<lambda>i. it_provider i = ?p) (ct_items ?d)"
    using take_all_if_short short unfolding cs0 by blast
  have retained: "retained = map fst (ps_retained (sy_providers s2 ?p))" and calm: "calm s1 s2"
    using ret by (auto simp: retained_items_def elim!: bnd_InrE dest: calm_preempt)
  have d2: "sy_db s2 = ?d" using calm d1 by (simp add: calm_def)
  note t3 = prune_items_tables [OF loop, unfolded d2]
  have by_provider: "pruned_by r retained cs it \<longleftrightarrow> it_provider it = ?p \<and> prunable r retained it"
    if "it \<in> set (ct_items ?d)" for it
    using that items unfolding pruned_by_def cs by (auto simp: distinct_map dest: inj_onD)
  have d4: "sy_db s4 = sy_db s3" using select_same [OF sel4] same_but_faults_simps by blast
  have ls: "ls = filter (\<lambda>l. lb_provider l = ?p) (ct_libraries ?d)"
    using take_all_if_short short4 select_same [OF sel4] t3 by metis
  have items4: "distinct (map it_id (ct_items (sy_db s4)))"
    using t3 items d4 by (simp add: distinct_map_filter)
  note t5 = prune_libraries_tables [OF loop4 items4, unfolded d4]
  have "ct_items (sy_db s') = filter (\<lambda>it. \<not> (it_provider it = ?p \<and> prunable r retained it)
        \<and> \<not> library_gone r ?d it) (ct_items ?d)"
    using t5 t3 by_provider by (auto simp: ls library_gone_def intro!: filter_cong)
  moreover have "ct_libraries (sy_db s') = filter (\<lambda>l. lb_provider l = ?p \<longrightarrow> lb_id l \<in> sr_libraries r) (ct_libraries ?d)"
    using t5 t3 libs by (auto simp: ls distinct_map intro!: filter_cong dest: inj_onD)
  moreover have "retained_within ?p (set retained) s'"
  proof -
    have "retained_within ?p (set retained) s2" by (simp add: retained_within_def retained)
    moreover have "keeps (retained_within ?p (set retained)) (for_each cs (prune_item r retained))"
      "keeps (retained_within ?p (set retained)) (for_each ls (prune_library r))"
      unfolding prune_item_def prune_library_def by (intro keeps_intros)+
    ultimately show ?thesis
      using loop loop4 sel4 retained_within.keeps_select by (meson keepsD)
  qed
  ultimately show thesis using that [OF s1 calm retained] by blast
qed

end
