(* ===== verification/Sync_Outcome.thy ===== *)
theory Sync_Outcome
  imports Sync_Prune
begin

section \<open>Outcomes of guarded operations\<close>

text \<open>What is left when \<^verbatim>\<open>finalize\<close>, a batch or an observation returns, with success or with an error.\<close>

lemma calm_db: "calm s t \<Longrightarrow> sy_db t = sy_db s"
  by (simp add: calm_def)

lemma calm_revision: "calm s t \<Longrightarrow> ps_revision (sy_providers t p) = ps_revision (sy_providers s p)"
  by (simp add: calm_def calm_provider_def)

lemma calm_token: "calm s t \<Longrightarrow> ps_active (sy_providers s p) \<noteq> k \<Longrightarrow> k \<noteq> 0 \<Longrightarrow> ps_active (sy_providers t p) \<noteq> k"
  unfolding calm_def calm_provider_def by metis

lemma calm_retained: "calm s t \<Longrightarrow> fst ` set (ps_retained (sy_providers t p)) \<subseteq> fst ` set (ps_retained (sy_providers s p))"
  by (simp add: calm_def calm_provider_def)

lemma calm_faults: "same_but_faults s t \<Longrightarrow> calm s t"
  by (auto simp: same_but_faults_def calm_def calm_provider_def)

lemma calm_incremented: "incremented n msg s = (r, s') \<Longrightarrow> s' = s"
  by (auto simp: incremented_def act_simps)

lemma calm_bump_changes: "bump_changes p s = (r, s') \<Longrightarrow> calm s s'"
  by (auto simp: bump_changes_def act_simps elim!: bnd_cases dest!: calm_incremented)
    (simp add: calm_def calm_provider_def upd_provider_def)

lemma calm_bump_projection: "bump_projection s = (r, s') \<Longrightarrow> calm s s'"
  by (auto simp: bump_projection_def act_simps elim!: bnd_cases dest!: calm_incremented)
    (simp add: calm_def calm_provider_def)

lemma check_origin_Some:
  "check_origin p (Some t) s = (r, s') \<Longrightarrow> calm s s' \<and> (\<forall>u. r = Inr u \<longrightarrow> ps_active (sy_providers s' p) = t)"
  by (auto simp: check_origin_def act_simps elim!: bnd_cases dest: calm_active active_Inr split: if_splits)

lemma bump_changes_active: "bump_changes p s = (r, s') \<Longrightarrow> ps_active (sy_providers s' q) = ps_active (sy_providers s q)"
  by (auto simp: bump_changes_def act_simps elim!: bnd_cases dest!: calm_incremented)

lemma bump_projection_active: "bump_projection s = (r, s') \<Longrightarrow> sy_providers s' = sy_providers s"
  by (auto simp: bump_projection_def act_simps elim!: bnd_cases dest!: calm_incremented)

lemma guard_of_run:
  assumes "write_guard p (Some t) s = (r, s')"
  shows "calm s s'" and "r = Inr u \<Longrightarrow> ps_active (sy_providers s' p) = t"
proof -
  show "calm s s'"
    using assms unfolding write_guard_def option.case
    by (auto elim!: bnd_cases dest!: check_origin_Some calm_bump_changes calm_bump_projection intro: calm_trans)
  show "ps_active (sy_providers s' p) = t" if "r = Inr u"
    using assms that unfolding write_guard_def option.case
    by (auto elim!: bnd_InrE dest!: check_origin_Some simp: bump_changes_active bump_projection_active)
qed

lemma in_txn_db: "in_txn m s = (Inl e, s') \<Longrightarrow> sy_db s' = sy_db s"
  by (cases rule: in_txn_result) auto

subsection \<open>Pruning\<close>

lemma finalize_error:
  assumes "finalize h s = (Inl e, s')"
  shows "sy_db s' = sy_db s"
proof -
  have no_error: "invalidate_sync p t \<noteq> (Inl m, u)" for p t m u
    by (simp add: invalidate_sync_def act_simps)
  have failing: "fail_with h m t = (q, u) \<Longrightarrow> sy_db u = sy_db t" for m t and q :: "unit result" and u
    using db_fail_with [of "sy_db t" h m] by (auto dest: keepsD)
  from assms show ?thesis
    by (auto simp: finalize_def run_of_def act_simps no_error elim!: bnd_cases split: if_splits
        dest!: guard_of_run(1) in_txn_db failing calm_db)
qed

lemma finalize_success:
  assumes run: "finalize h s = (Inr (), s')"
  defines "r \<equiv> sy_runs s h"
  obtains s1 s2 where "\<not> sr_failed r" "sr_sealed r" "calm s s1"
    "ps_active (sy_providers s1 (sr_provider r)) = sr_token r"
    "ps_revision (sy_providers s (sr_provider r)) = sr_revision r"
    "prune h r s1 = (Inr (), s2)" "calm s2 s'" "ps_active (sy_providers s' (sr_provider r)) = 0"
proof -
  let ?p = "sr_provider r"
  obtain s1 s3 where flags: "\<not> sr_failed r" "sr_sealed r"
    and guard: "write_guard ?p (Some (sr_token r)) s = (Inr (), s1)"
    and rev: "ps_revision (sy_providers s1 ?p) = sr_revision r"
    and txn: "in_txn (bnd (prune h r) (\<lambda>_. bnd (check_generation (sr_generation r)) (\<lambda>_.
        check_origin ?p (Some (sr_token r))))) s1 = (Inr (), s3)"
    and s': "s' = upd_provider ?p (\<lambda>st. st\<lparr>ps_active := 0\<rparr>) s3"
    using run by (auto simp: finalize_def run_of_def r_def invalidate_sync_def elim!: bnd_InrE split: if_splits)
  note calm1 = guard_of_run [OF guard]
  have rev0: "ps_revision (sy_providers s ?p) = sr_revision r"
    using rev calm_revision [OF calm1(1)] by simp
  from txn show thesis
  proof (cases rule: in_txn_result)
    case (committed x t1 t2)
    from committed(3) obtain s2 t3 where prune: "prune h r t1 = (Inr (), s2)"
      and gen: "check_generation (sr_generation r) s2 = (Inr (), t3)"
      and orig: "check_origin ?p (Some (sr_token r)) t3 = (Inr (), t2)"
      by (auto elim!: bnd_InrE)
    have c1: "calm s t1" using calm1(1) calm_faults [OF committed(2)] by (rule calm_trans)
    have a1: "ps_active (sy_providers t1 ?p) = sr_token r"
      using calm1(2) committed(2) by (simp add: same_but_faults_simps)
    have "calm s2 t2" using calm_generation [OF gen] check_origin_Some [OF orig] calm_trans by blast
    then have "calm s2 s3" using calm_faults [OF committed(4)] calm_trans by blast
    moreover have "calm s3 s'" unfolding s' by (simp add: calm_def calm_provider_def)
    ultimately have "calm s2 s'" by (rule calm_trans)
    then show thesis using that [OF flags c1 a1 rev0 prune] by (simp add: s')
  qed simp
qed

subsection \<open>Batches\<close>

lemma write_batch_error: "write_batch jl w b s = (Inl e, s') \<Longrightarrow> sy_db s' = sy_db s"
proof -
  have gen: "check_generation g t = (q, u) \<Longrightarrow> sy_db u = sy_db t" for g t q u
    using calm_generation calm_db by blast
  have guard: "write_guard p o' t = (q, u) \<Longrightarrow> sy_db u = sy_db t" for p o' t q u
    using db_write_guard [of "sy_db t" p o'] by (auto dest: keepsD)
  show "write_batch jl w b s = (Inl e, s') \<Longrightarrow> sy_db s' = sy_db s"
    by (auto simp: write_batch_def act_simps elim!: bnd_cases dest!: gen guard in_txn_db)
qed

lemma write_batch_token:
  assumes "write_batch jl w b s = (Inr out, s')" and "wr_run w = Some (t, v)"
  shows "ps_active (sy_providers s' (wr_provider w)) = t"
proof -
  obtain s1 where "in_txn (bnd (apply_batch w b) (\<lambda>r. bnd (check_generation (wr_generation w)) (\<lambda>_.
      bnd (check_origin (wr_provider w) (Some t)) (\<lambda>_. ret r)))) s1 = (Inr out, s')"
    using assms by (auto simp: write_batch_def elim!: bnd_InrE)
  then show ?thesis
    by (cases rule: in_txn_result) (auto elim!: bnd_InrE dest!: check_origin_Some simp: same_but_faults_simps)
qed

text \<open>A token that is not active stays so, whatever happens concurrently.\<close>

lemma guard_refused:
  assumes "ps_active (sy_providers s p) \<noteq> t" and "t \<noteq> 0" and "write_guard p (Some t) s = (r, s')"
  shows "is_err r"
proof (cases r)
  case (Inr u)
  with guard_of_run [OF assms(3)] calm_token [OF _ assms(1,2)] show ?thesis by blast
qed simp

end
