(* ===== verification/Sync_Types.thy ===== *)
theory Sync_Types
  imports Sync_Outcome
begin

section \<open>The library stays well typed\<close>

text \<open>
  Every row of an entity table belongs to an item of its type, a song and its album, and an artist and what it
  is credited for, are in the same library, and item ids are unique. Batches, observations and pruning keep the
  library database so, whichever way they end. \<open>on_db\<close> is the triple of the development on the database.
\<close>

definition item_at :: "catalog \<Rightarrow> int \<Rightarrow> item_type \<Rightarrow> int option \<Rightarrow> bool" where
  "item_at d i t lib \<longleftrightarrow> (\<exists>it \<in> set (ct_items d). it_id it = i \<and> it_type it = t \<and> it_library it = lib)"

definition item_exists :: "catalog \<Rightarrow> int \<Rightarrow> bool" where
  "item_exists d i \<longleftrightarrow> i \<in> it_id ` set (ct_items d)"

definition album_ok :: "catalog \<Rightarrow> album_row \<Rightarrow> bool" where
  "album_ok d m \<longleftrightarrow> (\<exists>l. item_at d (al_id m) Album l)"

definition artist_ok :: "catalog \<Rightarrow> artist_row \<Rightarrow> bool" where
  "artist_ok d m \<longleftrightarrow> (\<exists>l. item_at d (ar_id m) Artist l)"

definition song_ok :: "catalog \<Rightarrow> song_row \<Rightarrow> bool" where
  "song_ok d m \<longleftrightarrow> (\<exists>l. item_at d (so_id m) Song l \<and> (\<forall>a. so_album m = Some a \<longrightarrow> item_at d a Album l))"

definition remote_mix_ok :: "catalog \<Rightarrow> remote_mix_row \<Rightarrow> bool" where
  "remote_mix_ok d m \<longleftrightarrow> (\<exists>l. item_at d (rx_id m) Mix l \<or> item_at d (rx_id m) Radio l)"

definition credit_ok :: "catalog \<Rightarrow> item_type \<Rightarrow> rel_row \<Rightarrow> bool" where
  "credit_ok d t r \<longleftrightarrow> (\<exists>l. item_at d (rl_owner r) t l \<and> item_at d (rl_artist r) Artist l)"

definition typed :: "catalog \<Rightarrow> bool" where
  "typed d \<longleftrightarrow> distinct (map it_id (ct_items d)) \<and> (\<forall>it \<in> set (ct_items d). it_id it \<le> ct_sequence d ItemTable)
     \<and> (\<forall>m \<in> set (ct_albums d). album_ok d m) \<and> (\<forall>m \<in> set (ct_artists d). artist_ok d m)
     \<and> (\<forall>m \<in> set (ct_songs d). song_ok d m) \<and> (\<forall>m \<in> set (ct_remote_mixes d). remote_mix_ok d m)
     \<and> (\<forall>m \<in> set (ct_dynamics d). item_exists d (dy_id m)) \<and> (\<forall>m \<in> set (ct_images d). item_exists d (im_item m))
     \<and> (\<forall>r \<in> set (ct_album_artists d). credit_ok d Album r) \<and> (\<forall>r \<in> set (ct_song_artists d). credit_ok d Song r)"

lemmas row_ok_defs = album_ok_def artist_ok_def song_ok_def remote_mix_ok_def credit_ok_def item_exists_def

text \<open>The conditions on rows only read the table of items.\<close>

lemma ok_cong:
  assumes "ct_items d' = ct_items d"
  shows "item_at d' = item_at d" "item_exists d' = item_exists d" "album_ok d' = album_ok d" "artist_ok d' = artist_ok d"
    "song_ok d' = song_ok d" "remote_mix_ok d' = remote_mix_ok d" "credit_ok d' = credit_ok d"
  by (simp_all add: fun_eq_iff item_at_def row_ok_defs assms)

lemma ok_mono:
  assumes "\<And>i t l. item_at d i t l \<Longrightarrow> item_at d' i t l"
  shows "album_ok d m1 \<Longrightarrow> album_ok d' m1" "artist_ok d m2 \<Longrightarrow> artist_ok d' m2" "song_ok d m3 \<Longrightarrow> song_ok d' m3"
    "remote_mix_ok d m4 \<Longrightarrow> remote_mix_ok d' m4" "credit_ok d t r \<Longrightarrow> credit_ok d' t r"
    "item_exists d i \<Longrightarrow> item_exists d' i"
proof -
  show "item_exists d i \<Longrightarrow> item_exists d' i"
    using assms unfolding item_exists_def item_at_def by (metis (no_types, lifting) image_iff)
qed (unfold album_ok_def artist_ok_def song_ok_def remote_mix_ok_def credit_ok_def, (use assms in \<open>blast\<close>)+)

lemma find_item_at: "find_item i d = Some it \<Longrightarrow> it \<in> set (ct_items d) \<and> it_id it = i"
  by (auto simp: find_item_def find_Some_iff)

lemma item_at_mem: "it \<in> set (ct_items d) \<Longrightarrow> item_at d (it_id it) (it_type it) (it_library it)"
  by (auto simp: item_at_def)

subsection \<open>Triples on the database\<close>

definition on_db :: "(catalog \<Rightarrow> bool) \<Rightarrow> 'a op \<Rightarrow> ('a \<Rightarrow> catalog \<Rightarrow> bool) \<Rightarrow> bool" where
  "on_db P m Q \<longleftrightarrow> triple (\<lambda>s. P (sy_db s)) m (\<lambda>x s. Q x (sy_db s)) (\<lambda>s. typed (sy_db s))"

definition reads :: "'a op \<Rightarrow> bool" where
  "reads m \<longleftrightarrow> (\<forall>d. keeps (db_is d) m)"

lemma on_bnd: "on_db P m R \<Longrightarrow> (\<And>x. on_db (R x) (f x) Q) \<Longrightarrow> on_db P (bnd m f) Q"
  unfolding on_db_def by (rule triple_bnd)

lemma on_conseq: "on_db P' m Q' \<Longrightarrow> (\<And>d. P d \<Longrightarrow> P' d) \<Longrightarrow> (\<And>x d. Q' x d \<Longrightarrow> Q x d) \<Longrightarrow> on_db P m Q"
  unfolding on_db_def by (erule triple_conseq) auto

lemma on_read:
  assumes "reads m" and "\<And>d. P d \<Longrightarrow> typed d" and "\<And>s x s'. P (sy_db s) \<Longrightarrow> m s = (Inr x, s') \<Longrightarrow> Q x (sy_db s)"
  shows "on_db P m (\<lambda>x d. P d \<and> Q x d)"
  unfolding on_db_def
proof (rule tripleI)
  fix s x s' assume P: "P (sy_db s)" and run: "m s = (Inr x, s')"
  then have "sy_db s' = sy_db s" using assms(1) by (auto simp: reads_def dest: keepsD)
  then show "P (sy_db s') \<and> Q x (sy_db s')" using P assms(3) [OF P run] by simp
next
  fix s e s' assume P: "P (sy_db s)" and run: "m s = (Inl e, s')"
  then have "sy_db s' = sy_db s" using assms(1) by (auto simp: reads_def dest: keepsD)
  then show "typed (sy_db s')" using P assms(2) by simp
qed

lemma on_skip: "reads m \<Longrightarrow> (\<And>d. P d \<Longrightarrow> typed d) \<Longrightarrow> on_db P m (\<lambda>_. P)"
  using on_read [of m P "\<lambda>_ _. True"] by simp

lemma on_bnd_skip: "reads m \<Longrightarrow> (\<And>d. P d \<Longrightarrow> typed d) \<Longrightarrow> (\<And>x. on_db P (f x) Q) \<Longrightarrow> on_db P (bnd m f) Q"
  by (rule on_bnd [OF on_skip])

lemma on_ret: "(\<And>d. P d \<Longrightarrow> Q x d) \<Longrightarrow> on_db P (ret x) Q"
  by (auto simp: on_db_def triple_def act_simps)

lemma on_require: "(\<And>d. P d \<Longrightarrow> typed d) \<Longrightarrow> (b \<Longrightarrow> on_db P (m ()) Q) \<Longrightarrow> on_db P (bnd (require b msg) m) Q"
  by (auto simp: on_db_def triple_def act_simps bnd_def)

lemma on_change: "(\<And>d. P d \<Longrightarrow> typed d) \<Longrightarrow> (\<And>d. P d \<Longrightarrow> Q () (f d)) \<Longrightarrow> on_db P (change f) Q"
  by (auto simp: on_db_def triple_def change_def statement_def bnd_def act_simps split: list.splits)

lemma on_constrained:
  "(\<And>d. P d \<Longrightarrow> typed d) \<Longrightarrow> (\<And>d. P d \<Longrightarrow> ok d \<Longrightarrow> Q () (f d)) \<Longrightarrow> on_db P (constrained ok msg f) Q"
  by (auto simp: on_db_def triple_def constrained_def statement_def bnd_def act_simps split: list.splits)

lemma on_fold: "(\<And>d. P d \<Longrightarrow> typed d) \<Longrightarrow> (\<And>x acc. on_db P (f x acc) (\<lambda>_. P)) \<Longrightarrow> on_db P (fold_act f xs acc) (\<lambda>_. P)"
  by (induction xs arbitrary: acc) (simp_all add: fold_act.simps on_ret on_bnd [where R = "\<lambda>_. P"])

lemma on_each: "(\<And>x. x \<in> set xs \<Longrightarrow> on_db P (f x) (\<lambda>_. P)) \<Longrightarrow> on_db P (for_each xs f) (\<lambda>_. P)"
  by (induction xs) (simp_all add: for_each.simps on_ret on_bnd [where R = "\<lambda>_. P"])

lemma on_fold_acc:
  "(\<And>d. P [] d) \<Longrightarrow> (\<And>x acc. on_db (\<lambda>d. R d \<and> P acc d) (f x acc) (\<lambda>acc d. R d \<and> P acc d)) \<Longrightarrow>
    on_db R (fold_act f xs []) (\<lambda>acc d. R d \<and> P acc d)"
proof -
  assume nil: "\<And>d. P [] d" and step: "\<And>x acc. on_db (\<lambda>d. R d \<and> P acc d) (f x acc) (\<lambda>acc d. R d \<and> P acc d)"
  have loop: "on_db (\<lambda>d. R d \<and> P acc d) (fold_act f xs acc) (\<lambda>acc d. R d \<and> P acc d)" for acc
  proof (induction xs arbitrary: acc)
    case Nil
    show ?case unfolding fold_act.simps by (rule on_ret)
  next
    case (Cons x xs)
    show ?case unfolding fold_act.simps by (rule on_bnd [OF step Cons.IH])
  qed
  show ?thesis by (rule on_conseq [OF loop [of "[]"]]) (simp_all add: nil)
qed

lemma on_if: "(b \<Longrightarrow> on_db P m Q) \<Longrightarrow> (\<not> b \<Longrightarrow> on_db P n Q) \<Longrightarrow> on_db P (if b then m else n) Q"
  by simp

named_theorems read_intros \<open>an operation does not change the database\<close>

lemma reads_bnd [read_intros]: "reads m \<Longrightarrow> (\<And>x. reads (f x)) \<Longrightarrow> reads (bnd m f)"
  by (simp add: reads_def keeps_bnd)

lemma reads_basic [read_intros]:
  "reads (ret x1)" "reads (raise e)" "reads (lift r)" "reads (gets g)" "reads (require b msg)" "reads (select f)"
  "reads statement" "reads preempt" "reads (check_generation gen)" "reads (check_origin p t)" "reads (load_active p)"
  "reads (write_guard p origin)" "reads (modify (upd_run h u))" "reads (fail_with h msg2)" "reads (run_of h)"
  "reads (running h)"
  unfolding run_of_def by (auto simp: reads_def intro: keeps_intros)

lemma reads_now [read_intros]: "reads now"
  unfolding now_def by (intro read_intros)

lemma reads_if [read_intros]: "(b \<Longrightarrow> reads m) \<Longrightarrow> (\<not> b \<Longrightarrow> reads n) \<Longrightarrow> reads (if b then m else n)"
  by simp

lemma reads_option [read_intros]: "reads m \<Longrightarrow> (\<And>x. reads (f x)) \<Longrightarrow> reads (case o' of None \<Rightarrow> m | Some x \<Rightarrow> f x)"
  by (cases o') simp_all

lemma reads_patch [read_intros]: "reads m \<Longrightarrow> (\<And>x. reads (f x)) \<Longrightarrow> reads (case p of Missing \<Rightarrow> m | Set x \<Rightarrow> f x)"
  by (cases p) simp_all

lemma reads_for_each [read_intros]: "(\<And>x. reads (f x)) \<Longrightarrow> reads (for_each xs f)"
  by (induction xs) (auto simp: for_each.simps intro: read_intros)

lemma reads_fold_act [read_intros]: "(\<And>x acc. reads (f x acc)) \<Longrightarrow> reads (fold_act f xs acc)"
  by (induction xs arbitrary: acc) (auto simp: fold_act.simps intro: read_intros)

lemma reads_resolve [read_intros]: "reads (resolve w r types)"
  unfolding resolve_def resolve_optional_def resolve_key_def library_optional_def owns_library_def
  by (cases r) (auto intro!: read_intros)

lemma reads_library_of [read_intros]: "reads (library_of w key)"
  unfolding library_of_def library_optional_def owns_library_def by (intro read_intros)

text \<open>A resolved reference is an item of the writer's provider with one of the types asked for.\<close>

lemma resolve_mem:
  assumes "resolve w r types s = (Inr it, s')"
  shows "it \<in> set (ct_items (sy_db s)) \<and> it_provider it = wr_provider w \<and> (types = [] \<or> it_type it \<in> set types)"
proof -
  obtain s1 where model: "(case r of Id i \<Rightarrow> select (find_item i) | Key key \<Rightarrow> resolve_key w key types) s = (Inr (Some it), s1)"
    and ok: "it_provider it = wr_provider w \<and> (types = [] \<or> it_type it \<in> set types)"
    using assms by (auto simp: resolve_def resolve_optional_def elim!: bnd_InrE split: option.splits)
  have "it \<in> set (ct_items (sy_db s))"
  proof (cases r)
    case (Id i)
    with model have "select (find_item i) s = (Inr (Some it), s1)" by simp
    from select_same [OF this] show ?thesis by (auto dest: find_item_at [OF sym])
  next
    case (Key key)
    with model obtain lib s2 s3 where lib: "library_optional w key s = (Inr (Some lib), s2)"
      and sel: "select (find_key (wr_provider w) (ik_native key) (ik_type key) lib) s2 = (Inr (Some it), s3)"
      by (auto simp: resolve_key_def elim!: bnd_InrE split: option.splits)
    have "reads (library_optional w key)"
      unfolding library_optional_def owns_library_def by (intro read_intros)
    then have "sy_db s2 = sy_db s" using lib by (auto simp: reads_def dest: keepsD)
    with select_same [OF sel] have "find_key (wr_provider w) (ik_native key) (ik_type key) lib (sy_db s) = Some it" by simp
    then show ?thesis by (auto simp: find_key_def find_Some_iff)
  qed
  with ok show ?thesis by simp
qed

lemma on_resolve:
  assumes "\<And>d. P d \<Longrightarrow> typed d"
    and "\<And>it. (types = [] \<or> it_type it \<in> set types) \<Longrightarrow> on_db (\<lambda>d. P d \<and> it \<in> set (ct_items d)) (f it) Q"
  shows "on_db P (bnd (resolve w r types) f) Q"
proof -
  have "on_db P (resolve w r types) (\<lambda>it d. P d \<and> (it \<in> set (ct_items d) \<and> (types = [] \<or> it_type it \<in> set types)))"
    by (rule on_read [OF reads_resolve assms(1)]) (use resolve_mem in blast)+
  then show ?thesis
  proof (rule on_bnd)
    fix it
    show "on_db (\<lambda>d. P d \<and> (it \<in> set (ct_items d) \<and> (types = [] \<or> it_type it \<in> set types))) (f it) Q"
      using assms(2) [of it] by (cases "types = [] \<or> it_type it \<in> set types") (auto simp: on_db_def triple_def)
  qed
qed

end
