(* ===== verification/Sync_Typing.thy ===== *)
theory Sync_Typing
  imports Sync_Types
begin

section \<open>Every write keeps the library well typed\<close>

abbreviation types :: "'a op \<Rightarrow> bool" where
  "types m \<equiv> on_db typed m (\<lambda>_. typed)"

subsection \<open>Tables\<close>

lemma typed_tables:
  "typed d \<Longrightarrow> \<forall>m \<in> set rs1. album_ok d m \<Longrightarrow> typed (d\<lparr>ct_albums := rs1\<rparr>)"
  "typed d \<Longrightarrow> \<forall>m \<in> set rs2. artist_ok d m \<Longrightarrow> typed (d\<lparr>ct_artists := rs2\<rparr>)"
  "typed d \<Longrightarrow> \<forall>m \<in> set rs3. song_ok d m \<Longrightarrow> typed (d\<lparr>ct_songs := rs3\<rparr>)"
  "typed d \<Longrightarrow> \<forall>m \<in> set rs4. remote_mix_ok d m \<Longrightarrow> typed (d\<lparr>ct_remote_mixes := rs4\<rparr>)"
  "typed d \<Longrightarrow> \<forall>m \<in> set rs5. item_exists d (dy_id m) \<Longrightarrow> typed (d\<lparr>ct_dynamics := rs5\<rparr>)"
  "typed d \<Longrightarrow> \<forall>m \<in> set rs6. item_exists d (im_item m) \<Longrightarrow> typed (d\<lparr>ct_images := rs6\<rparr>)"
  "typed d \<Longrightarrow> \<forall>m \<in> set rs7. credit_ok d Album m \<Longrightarrow> typed (d\<lparr>ct_album_artists := rs7\<rparr>)"
  "typed d \<Longrightarrow> \<forall>m \<in> set rs8. credit_ok d Song m \<Longrightarrow> typed (d\<lparr>ct_song_artists := rs8\<rparr>)"
  "typed d \<Longrightarrow> typed (d\<lparr>ct_libraries := rs9\<rparr>)" "typed d \<Longrightarrow> typed (d\<lparr>ct_mixes := rs10\<rparr>)"
  "typed d \<Longrightarrow> typed (d\<lparr>ct_mix_songs := rs11\<rparr>)"
  by (simp_all add: typed_def ok_cong [of "d\<lparr>ct_albums := rs1\<rparr>" d] ok_cong [of "d\<lparr>ct_artists := rs2\<rparr>" d]
      ok_cong [of "d\<lparr>ct_songs := rs3\<rparr>" d] ok_cong [of "d\<lparr>ct_remote_mixes := rs4\<rparr>" d]
      ok_cong [of "d\<lparr>ct_dynamics := rs5\<rparr>" d] ok_cong [of "d\<lparr>ct_images := rs6\<rparr>" d]
      ok_cong [of "d\<lparr>ct_album_artists := rs7\<rparr>" d] ok_cong [of "d\<lparr>ct_song_artists := rs8\<rparr>" d]
      ok_cong [of "d\<lparr>ct_libraries := rs9\<rparr>" d] ok_cong [of "d\<lparr>ct_mixes := rs10\<rparr>" d]
      ok_cong [of "d\<lparr>ct_mix_songs := rs11\<rparr>" d])

lemma typed_advance: "typed d \<Longrightarrow> typed (advance t d)"
  by (auto simp: typed_def advance_def next_id_def ok_cong [of "d\<lparr>ct_sequence := sq\<rparr>" d for sq])

lemma advance_ok [simp]:
  "item_at (advance t d) = item_at d" "item_exists (advance t d) = item_exists d" "album_ok (advance t d) = album_ok d"
  "artist_ok (advance t d) = artist_ok d" "song_ok (advance t d) = song_ok d"
  "remote_mix_ok (advance t d) = remote_mix_ok d" "credit_ok (advance t d) = credit_ok d"
  by (simp_all add: advance_def ok_cong [of "d\<lparr>ct_sequence := sq\<rparr>" d for sq])

lemma advance_tables [simp]:
  "ct_items (advance t d) = ct_items d" "ct_images (advance t d) = ct_images d" "ct_libraries (advance t d) = ct_libraries d"
  "ct_mixes (advance t d) = ct_mixes d" "ct_album_artists (advance t d) = ct_album_artists d"
  "ct_song_artists (advance t d) = ct_song_artists d" "ct_mix_songs (advance t d) = ct_mix_songs d"
  by (simp_all add: advance_def)

text \<open>A change of the table of items that keeps identities keeps everything.\<close>

lemma typed_items:
  assumes typed: "typed d" and dist: "distinct (map it_id is)"
    and bound: "\<forall>it \<in> set is. it_id it \<le> ct_sequence d' ItemTable"
    and mono: "\<And>i t l. item_at d i t l \<Longrightarrow> item_at d' i t l" and d': "d' = d\<lparr>ct_items := is, ct_sequence := sq\<rparr>"
  shows "typed d'"
  using typed dist bound ok_mono [OF mono] unfolding typed_def by (auto simp: d')

lemma find_rows:
  "find_album i d = Some m1 \<Longrightarrow> m1 \<in> set (ct_albums d) \<and> al_id m1 = i"
  "find_artist i d = Some m2 \<Longrightarrow> m2 \<in> set (ct_artists d) \<and> ar_id m2 = i"
  "find_song i d = Some m3 \<Longrightarrow> m3 \<in> set (ct_songs d) \<and> so_id m3 = i"
  "find_remote_mix i d = Some m4 \<Longrightarrow> m4 \<in> set (ct_remote_mixes d) \<and> rx_id m4 = i"
  by (auto simp: find_album_def find_artist_def find_song_def find_remote_mix_def find_Some_iff)

subsection \<open>Operations that keep the types whatever they read\<close>

named_theorems type_intros \<open>an operation keeps the library well typed\<close>

lemma types_reads: "reads m \<Longrightarrow> types m"
  by (rule on_skip)

lemmas types_basic [type_intros] = reads_basic [THEN types_reads] reads_now [THEN types_reads]
  reads_resolve [THEN types_reads] reads_library_of [THEN types_reads]

lemma types_bnd [type_intros]: "types m \<Longrightarrow> (\<And>x. types (f x)) \<Longrightarrow> types (bnd m f)"
  by (rule on_bnd)

lemma types_if [type_intros]: "(b \<Longrightarrow> types m) \<Longrightarrow> (\<not> b \<Longrightarrow> types n) \<Longrightarrow> types (if b then m else n)"
  by simp

lemma types_option [type_intros]: "types m \<Longrightarrow> (\<And>x. types (f x)) \<Longrightarrow> types (case o' of None \<Rightarrow> m | Some x \<Rightarrow> f x)"
  by (cases o') simp_all

lemma types_patch [type_intros]: "types m \<Longrightarrow> (\<And>x. types (f x)) \<Longrightarrow> types (case p of Missing \<Rightarrow> m | Set x \<Rightarrow> f x)"
  by (cases p) simp_all

lemma types_fold [type_intros]: "(\<And>x acc. types (f x acc)) \<Longrightarrow> types (fold_act f xs acc)"
  by (rule on_fold)

lemma types_each [type_intros]: "(\<And>x. types (f x)) \<Longrightarrow> types (for_each xs f)"
  by (rule on_each)

lemma types_change: "(\<And>d. typed d \<Longrightarrow> typed (f d)) \<Longrightarrow> types (change f)"
  by (rule on_change)

lemma types_constrained: "(\<And>d. typed d \<Longrightarrow> ok d \<Longrightarrow> typed (f d)) \<Longrightarrow> types (constrained ok msg f)"
  by (rule on_constrained)

subsection \<open>Libraries and items\<close>

lemma types_write_libraries [type_intros]: "types (write_libraries w ls)"
  unfolding write_libraries_def write_library_def Let_def
  by (intro type_intros types_change types_constrained)
    (auto intro: typed_tables typed_advance)

lemma item_at_image: "item_at d i t l \<longleftrightarrow> (i, t, l) \<in> (\<lambda>it. (it_id it, it_type it, it_library it)) ` set (ct_items d)"
  by (auto simp: item_at_def image_iff)

lemma types_touch_item: "types (touch_item t row)"
proof -
  have "typed (d\<lparr>ct_items := map (\<lambda>r. if it_id r = it_id row then r\<lparr>it_sync := t, it_update := t\<rparr> else r) (ct_items d)\<rparr>)"
    (is "typed (d\<lparr>ct_items := map ?f (ct_items d)\<rparr>)") if typed: "typed d" for d
  proof -
    let ?d = "d\<lparr>ct_items := map ?f (ct_items d), ct_sequence := ct_sequence d\<rparr>"
    have ids: "map it_id (map ?f (ct_items d)) = map it_id (ct_items d)" by (simp add: comp_def)
    have "item_at ?d i u l" if "item_at d i u l" for i u l
    proof -
      have "(\<lambda>it. (it_id it, it_type it, it_library it)) (?f r) = (\<lambda>it. (it_id it, it_type it, it_library it)) r" for r
        by simp
      with that show ?thesis by (simp add: item_at_image image_image del: if_image_distrib cong: if_cong)
    qed
    moreover have "\<forall>it \<in> set (map ?f (ct_items d)). it_id it \<le> ct_sequence ?d ItemTable"
      using typed by (auto simp: typed_def)
    moreover have "distinct (map it_id (map ?f (ct_items d)))" unfolding ids using typed by (simp add: typed_def)
    ultimately have "typed ?d" using typed by (intro typed_items [OF typed _ _ _ refl])
    then show ?thesis by simp
  qed
  then show ?thesis
    unfolding touch_item_def Let_def by (intro type_intros types_change)
qed

lemma types_insert_item: "types (insert_item row)"
proof -
  have grow: "typed ((advance ItemTable d)\<lparr>ct_items := ct_items d @ [row\<lparr>it_id := next_id ItemTable d\<rparr>]\<rparr>)"
    if typed: "typed d" for d
  proof -
    let ?is = "ct_items d @ [row\<lparr>it_id := next_id ItemTable d\<rparr>]"
    let ?d = "d\<lparr>ct_items := ?is, ct_sequence := (ct_sequence d)(ItemTable := next_id ItemTable d)\<rparr>"
    have below: "it_id it < next_id ItemTable d" if "it \<in> set (ct_items d)" for it
      using typed that by (auto simp: typed_def next_id_def)
    have "next_id ItemTable d \<notin> it_id ` set (ct_items d)" using below by (metis image_iff less_irrefl)
    then have "distinct (map it_id ?is)" using typed by (simp add: typed_def)
    moreover have "\<forall>it \<in> set ?is. it_id it \<le> ct_sequence ?d ItemTable" using below by (auto simp: less_imp_le)
    moreover have "item_at ?d i t l" if "item_at d i t l" for i t l using that by (auto simp: item_at_def)
    ultimately have "typed ?d" by (intro typed_items [OF typed _ _ _ refl])
    then show ?thesis by (cases d) (simp add: advance_def next_id_def)
  qed
  have id_read: "on_db typed (gets (\<lambda>s. next_id ItemTable (sy_db s))) (\<lambda>i d. typed d \<and> i = next_id ItemTable d)"
    by (auto simp: on_db_def triple_def act_simps)
  show ?thesis
    unfolding insert_item_def Let_def
    by (rule on_bnd [OF id_read], rule on_bnd [OF on_constrained [where Q = "\<lambda>_. typed"]])
      (auto intro!: on_ret grow)
qed

lemma types_allocate [type_intros]: "types (allocate w r ts)"
  unfolding allocate_def
  by (cases r) (auto intro!: type_intros types_touch_item types_insert_item)

lemma types_allocate_all [type_intros]: "types (allocate_all w b)"
  unfolding allocate_all_def allocate_group_def by (intro type_intros)

subsection \<open>Entities\<close>

text \<open>
  The contract of an entity of the macro: its rows are well typed in the table, a default row for an item of
  the entity's types is, a patch keeps that, and the two statements store a well-typed row.
\<close>

lemma types_write_entity:
  fixes ok :: "catalog \<Rightarrow> 'm \<Rightarrow> bool"
  assumes found: "\<And>d i m. typed d \<Longrightarrow> find_row i d = Some m \<Longrightarrow> ok d m"
    and default: "\<And>d (it :: item_row). typed d \<Longrightarrow> it \<in> set (ct_items d) \<Longrightarrow> it_type it \<in> set ts \<Longrightarrow> ok d (default_row (it_id it))"
    and patched: "\<And>d new m m'. ok d m \<Longrightarrow> apply_row new m = Inr m' \<Longrightarrow> ok d m'"
    and ins: "\<And>m. on_db (\<lambda>d. typed d \<and> ok d m) (ins m) (\<lambda>_. typed)"
    and upd: "\<And>m. on_db (\<lambda>d. typed d \<and> ok d m) (upd m) (\<lambda>_. typed)"
    and ts: "ts \<noteq> []"
  shows "types (write_entity w ts find_row default_row apply_row name_of ins upd r)"
  unfolding write_entity_def
proof (rule on_resolve)
  fix it :: item_row assume it: "ts = [] \<or> it_type it \<in> set ts"
  let ?base = "\<lambda>old. case old of None \<Rightarrow> default_row (it_id it) | Some m \<Rightarrow> m"
  have sel: "on_db (\<lambda>d. typed d \<and> it \<in> set (ct_items d)) (select (find_row (it_id it)))
      (\<lambda>old d. typed d \<and> ok d (?base old))"
    by (rule on_conseq [OF on_read [where Q = "\<lambda>old d. old = find_row (it_id it) d"]])
      (use it ts in \<open>auto simp: default dest: found dest!: select_same intro: read_intros split: option.splits\<close>)
  have patch: "on_db (\<lambda>d. typed d \<and> ok d (?base old)) (lift (apply_row (old = None) (?base old))) (\<lambda>m d. typed d \<and> ok d m)"
    for old by (auto simp: on_db_def triple_def act_simps dest: patched split: sum.splits)
  show "on_db (\<lambda>d. typed d \<and> it \<in> set (ct_items d))
     (bnd (select (find_row (it_id it))) (\<lambda>old. bnd (lift (apply_row (old = None) (?base old)))
       (\<lambda>m. bnd (require (name_of m \<noteq> []) ''entity name is required'')
       (\<lambda>_. bnd (if old = None then ins m else upd m) (\<lambda>_. ret (it_id it, old = None, m)))))) (\<lambda>_. typed)"
    by (rule on_bnd [OF sel], rule on_bnd [OF patch], rule on_require, simp, rule on_bnd [where R = "\<lambda>_. typed"])
      (auto intro: on_ret on_if ins upd)
qed simp

lemma album_row_ok:
  "typed d \<Longrightarrow> it \<in> set (ct_items d) \<Longrightarrow> it_type it \<in> set [Album] \<Longrightarrow> album_ok d (album_default (it_id it))"
  "album_ok d m \<Longrightarrow> album_apply e new mk m = Inr m' \<Longrightarrow> album_ok d m'"
proof -
  show "album_ok d (album_default (it_id it))" if "it \<in> set (ct_items d)" "it_type it \<in> set [Album]"
    using item_at_mem [OF that(1)] that(2) by (auto simp: album_ok_def album_default_def)
  show "album_ok d m'" if "album_ok d m" "album_apply e new mk m = Inr m'"
    using that unfolding album_ok_def by (auto simp: album_apply_def and_then_Inr_iff Let_def)
qed

lemma artist_row_ok:
  "typed d \<Longrightarrow> it \<in> set (ct_items d) \<Longrightarrow> it_type it \<in> set [Artist] \<Longrightarrow> artist_ok d (artist_default (it_id it))"
  "artist_ok d m \<Longrightarrow> artist_apply e new mk m = Inr m' \<Longrightarrow> artist_ok d m'"
proof -
  show "artist_ok d (artist_default (it_id it))" if "it \<in> set (ct_items d)" "it_type it \<in> set [Artist]"
    using item_at_mem [OF that(1)] that(2) by (auto simp: artist_ok_def artist_default_def)
  show "artist_ok d m'" if "artist_ok d m" "artist_apply e new mk m = Inr m'"
    using that unfolding artist_ok_def by (auto simp: artist_apply_def and_then_Inr_iff Let_def)
qed

lemma song_row_ok:
  "typed d \<Longrightarrow> it \<in> set (ct_items d) \<Longrightarrow> it_type it \<in> set [Song] \<Longrightarrow> song_ok d (song_default (it_id it))"
  "song_ok d m \<Longrightarrow> song_apply e new mk m = Inr m' \<Longrightarrow> song_ok d m'"
proof -
  show "song_ok d (song_default (it_id it))" if "it \<in> set (ct_items d)" "it_type it \<in> set [Song]"
    using item_at_mem [OF that(1)] that(2) by (auto simp: song_ok_def song_default_def)
  show "song_ok d m'" if "song_ok d m" "song_apply e new mk m = Inr m'"
    using that unfolding song_ok_def by (auto simp: song_apply_def and_then_Inr_iff Let_def)
qed

lemma remote_mix_row_ok:
  "typed d \<Longrightarrow> it \<in> set (ct_items d) \<Longrightarrow> it_type it \<in> set [Mix, Radio] \<Longrightarrow> remote_mix_ok d (remote_mix_default (it_id it))"
  "remote_mix_ok d m \<Longrightarrow> remote_mix_apply e new mk m = Inr m' \<Longrightarrow> remote_mix_ok d m'"
proof -
  show "remote_mix_ok d (remote_mix_default (it_id it))" if "it \<in> set (ct_items d)" "it_type it \<in> set [Mix, Radio]"
    using item_at_mem [OF that(1)] that(2) by (auto simp: remote_mix_ok_def remote_mix_default_def)
  show "remote_mix_ok d m'" if "remote_mix_ok d m" "remote_mix_apply e new mk m = Inr m'"
    using that unfolding remote_mix_ok_def by (auto simp: remote_mix_apply_def and_then_Inr_iff Let_def)
qed

lemma typed_rows:
  assumes "typed d"
  shows "m1 \<in> set (ct_albums d) \<Longrightarrow> album_ok d m1" "m2 \<in> set (ct_artists d) \<Longrightarrow> artist_ok d m2"
    "m3 \<in> set (ct_songs d) \<Longrightarrow> song_ok d m3" "m4 \<in> set (ct_remote_mixes d) \<Longrightarrow> remote_mix_ok d m4"
    "m5 \<in> set (ct_dynamics d) \<Longrightarrow> item_exists d (dy_id m5)" "m6 \<in> set (ct_images d) \<Longrightarrow> item_exists d (im_item m6)"
    "m7 \<in> set (ct_album_artists d) \<Longrightarrow> credit_ok d Album m7" "m8 \<in> set (ct_song_artists d) \<Longrightarrow> credit_ok d Song m8"
  using assms by (simp_all add: typed_def)

lemma types_entities [type_intros]:
  "types (write_albums w mk1 es1)" "types (write_artists w mk2 es2)" "types (write_songs w mk3 es3)"
  "types (write_remote_mixes w mk4 es4)"
proof -
  show "types (write_albums w mk1 es1)"
    unfolding write_albums_def
    by (intro type_intros types_write_entity [where ok = album_ok])
      (auto simp: insert_album_def update_album_def dest: find_rows typed_rows album_row_ok
        intro!: on_constrained typed_tables intro: album_row_ok)
  show "types (write_artists w mk2 es2)"
    unfolding write_artists_def
    by (intro type_intros types_write_entity [where ok = artist_ok])
      (auto simp: insert_artist_def update_artist_def dest: find_rows typed_rows artist_row_ok
        intro!: on_constrained typed_tables intro: artist_row_ok)
  show "types (write_songs w mk3 es3)"
    unfolding write_songs_def
    by (intro type_intros types_write_entity [where ok = song_ok])
      (auto simp: insert_song_def update_song_def dest: find_rows typed_rows song_row_ok
        intro!: on_constrained typed_tables on_bnd [where R = "\<lambda>_ d. typed d \<and> song_ok d m" for m] intro: song_row_ok)
  show "types (write_remote_mixes w mk4 es4)"
    unfolding write_remote_mixes_def
    by (intro type_intros types_write_entity [where ok = remote_mix_ok])
      (auto simp: insert_remote_mix_def update_remote_mix_def dest: find_rows typed_rows remote_mix_row_ok
        intro!: on_constrained typed_tables intro: remote_mix_row_ok)
qed

lemma types_check_quantities [type_intros]: "types (check_quantities as bs cs)"
  unfolding check_quantities_def by (intro type_intros)

lemma types_mirror_mix [type_intros]: "types (mirror_mix r)"
  unfolding mirror_mix_def insert_mix_def update_mix_def
  by (intro type_intros types_constrained) (auto intro: typed_tables typed_advance)

subsection \<open>Dynamic data and images\<close>

lemma found_exists: "find_item i d \<noteq> None \<Longrightarrow> item_exists d i"
  by (auto simp: item_exists_def dest: find_item_at)

lemma typed_map_rows:
  assumes "typed d"
  shows "(\<And>r. dy_id (f r) = dy_id r) \<Longrightarrow> typed (d\<lparr>ct_dynamics := map f (ct_dynamics d)\<rparr>)"
    and "(\<And>r. im_item (g r) = im_item r) \<Longrightarrow> typed (d\<lparr>ct_images := map g (ct_images d)\<rparr>)"
  using typed_rows(5,6) [OF assms] assms by (auto intro!: typed_tables)

lemma types_insert_dynamic [type_intros]: "types (insert_dynamic m)"
  unfolding insert_dynamic_def
  by (rule types_constrained, rule typed_tables) (auto simp: found_exists intro: typed_rows)

lemma types_update_dynamic [type_intros]: "types (update_dynamic m)"
  unfolding update_dynamic_def by (rule types_constrained, rule typed_map_rows) auto

lemma types_write_dynamics [type_intros]: "types (write_dynamics w mk es)"
  unfolding write_dynamics_def write_dynamic_def patched_dynamic_def switch_favorite_def local_favorite_def Let_def
  by (intro type_intros)

lemma types_seed_dynamic [type_intros]: "types (seed_dynamic i)"
  unfolding seed_dynamic_def
  by (intro type_intros types_constrained)
    (auto intro!: typed_tables simp: found_exists dynamic_default_def intro: typed_rows)

lemma types_insert_image [type_intros]: "types (insert_image m)"
  unfolding insert_image_def
  by (rule types_constrained, rule typed_tables, rule typed_advance) (auto simp: found_exists intro: typed_rows)

lemma types_write_images [type_intros]: "types (write_images w es)"
  unfolding write_images_def write_image_def
  by (intro type_intros types_change typed_map_rows) (auto intro!: typed_tables intro: typed_rows)

subsection \<open>Relations\<close>

lemma typed_set_song_album:
  assumes typed: "typed d" and song: "item_at d i Song l" and album: "\<forall>x. a = Some x \<longrightarrow> item_at d x Album l"
  shows "typed (d\<lparr>ct_songs := map (\<lambda>r. if so_id r = i then r\<lparr>so_album := a\<rparr> else r) (ct_songs d)\<rparr>)"
  using typed_rows(3) [OF typed] song album by (intro typed_tables(3) [OF typed]) (auto simp: song_ok_def)

lemma types_set_song_album:
  "on_db (\<lambda>d. typed d \<and> item_at d i Song l \<and> (\<forall>x. a = Some x \<longrightarrow> item_at d x Album l)) (set_song_album i a) (\<lambda>_. typed)"
  unfolding set_song_album_def
  by (rule on_bnd [OF on_constrained], simp, assumption, rule on_constrained) (auto intro: typed_set_song_album)

lemma on_album_target:
  assumes "it_type song = Song"
  shows "on_db (\<lambda>d. typed d \<and> song \<in> set (ct_items d)) (album_target w song target)
     (\<lambda>a d. typed d \<and> item_at d (it_id song) Song (it_library song)
        \<and> (\<forall>x. a = Some x \<longrightarrow> item_at d x Album (it_library song)))"
  unfolding album_target_def
proof (cases target)
  case None
  then show "on_db (\<lambda>d. typed d \<and> song \<in> set (ct_items d)) (case target of None \<Rightarrow> ret None | Some r \<Rightarrow>
      bnd (resolve w r [Album]) (\<lambda>album. bnd (require (it_library song = it_library album)
        ''song and album must share a library'') (\<lambda>_. ret (Some (it_id album)))))
     (\<lambda>a d. typed d \<and> item_at d (it_id song) Song (it_library song)
        \<and> (\<forall>x. a = Some x \<longrightarrow> item_at d x Album (it_library song)))"
    using item_at_mem [of song] assms by (auto intro!: on_ret)
next
  case (Some r)
  then show "on_db (\<lambda>d. typed d \<and> song \<in> set (ct_items d)) (case target of None \<Rightarrow> ret None | Some r \<Rightarrow>
      bnd (resolve w r [Album]) (\<lambda>album. bnd (require (it_library song = it_library album)
        ''song and album must share a library'') (\<lambda>_. ret (Some (it_id album)))))
     (\<lambda>a d. typed d \<and> item_at d (it_id song) Song (it_library song)
        \<and> (\<forall>x. a = Some x \<longrightarrow> item_at d x Album (it_library song)))"
    using item_at_mem assms by (auto intro!: on_resolve on_require on_ret) fastforce+
qed

lemma types_links [type_intros]:
  "types (link_song_album w mk fresh e1 linked1)" "types (write_song_album w e2 linked2)"
proof -
  have link: "on_db (\<lambda>d. typed d \<and> song \<in> set (ct_items d))
      (bnd (album_target w song target) (\<lambda>a. bnd (set_song_album (it_id song) a) (\<lambda>_. ret x))) (\<lambda>_. typed)"
    if "it_type song = Song" for song target and x :: "int list"
    by (rule on_bnd [OF on_album_target [OF that]], rule on_bnd [OF types_set_song_album]) (rule on_ret)
  show "types (link_song_album w mk fresh e1 linked1)"
    unfolding link_song_album_def
    by (cases "si_album e1") (auto intro!: on_resolve on_ret on_if link)
  show "types (write_song_album w e2 linked2)"
    unfolding write_song_album_def by (auto intro!: on_resolve on_require link)
qed

definition credit_table :: "relation_table \<Rightarrow> bool" where
  "credit_table tb \<longleftrightarrow> tb = album_artist_table \<or> tb = song_artist_table"

lemma typed_credits:
  assumes "credit_table tb" and "typed d"
  shows "r \<in> set (tb_rows tb d) \<Longrightarrow> credit_ok d (hd (tb_types tb)) r"
    and "\<forall>r \<in> set rs. credit_ok d (hd (tb_types tb)) r \<Longrightarrow> typed (tb_put tb rs d)"
    and "item_at (tb_put tb rs d) = item_at d" "tb_rows tb (advance t d) = tb_rows tb d"
  using assms
  by (auto simp: credit_table_def album_artist_table_def song_artist_table_def ok_cong [of "d\<lparr>ct_album_artists := rs\<rparr>" d]
      ok_cong [of "d\<lparr>ct_song_artists := rs\<rparr>" d] intro: typed_rows typed_tables)

lemma credit_types: "credit_table tb \<Longrightarrow> it_type it \<in> set (tb_types tb) \<or> tb_types tb = [] \<Longrightarrow> it_type it = hd (tb_types tb)"
  by (auto simp: credit_table_def album_artist_table_def song_artist_table_def)

lemma types_write_relation:
  assumes tb: "credit_table tb"
  shows "types (write_relation w tb e owners)"
proof -
  let ?t = "hd (tb_types tb)"
  define Q where "Q owner targets d \<longleftrightarrow> item_at d (it_id owner) ?t (it_library owner)
      \<and> (\<forall>a \<in> set targets. item_at d a Artist (it_library owner))" for owner :: item_row and targets d
  have targets: "on_db (\<lambda>d. typed d \<and> item_at d (it_id owner) ?t (it_library owner))
      (fold_act (relation_target w owner) xs []) (\<lambda>targets d. typed d \<and> Q owner targets d)" for owner xs
  proof (rule on_conseq [OF on_fold_acc [where P = "\<lambda>targets d. \<forall>a \<in> set targets. item_at d a Artist (it_library owner)"]])
    fix x acc
    show "on_db (\<lambda>d. (typed d \<and> item_at d (it_id owner) ?t (it_library owner))
          \<and> (\<forall>a \<in> set acc. item_at d a Artist (it_library owner))) (relation_target w owner x acc)
        (\<lambda>acc d. (typed d \<and> item_at d (it_id owner) ?t (it_library owner))
          \<and> (\<forall>a \<in> set acc. item_at d a Artist (it_library owner)))"
      unfolding relation_target_def
      using item_at_mem by (auto intro!: on_resolve on_require on_ret) fastforce+
  qed (auto simp: Q_def)
  have put: "typed (tb_put tb rs d) \<and> Q owner targets (tb_put tb rs d)"
    if "typed d" "Q owner targets d" "\<forall>r \<in> set rs. credit_ok d ?t r" for owner targets rs d
    using that typed_credits [OF tb] by (simp add: Q_def)
  have clear: "on_db (\<lambda>d. typed d \<and> Q owner targets d)
      (if ri_mode e = Replace then change (\<lambda>d. tb_put tb (filter (\<lambda>r. rl_owner r \<noteq> it_id owner) (tb_rows tb d)) d)
       else ret ()) (\<lambda>_ d. typed d \<and> Q owner targets d)" for owner targets
  proof (rule on_if)
    show "on_db (\<lambda>d. typed d \<and> Q owner targets d)
        (change (\<lambda>d. tb_put tb (filter (\<lambda>r. rl_owner r \<noteq> it_id owner) (tb_rows tb d)) d))
        (\<lambda>_ d. typed d \<and> Q owner targets d)"
      by (rule on_change, simp, rule put) (auto intro: typed_credits(1) [OF tb])
  qed (rule on_ret)
  have upsert: "on_db (\<lambda>d. typed d \<and> Q owner targets d) (upsert_relation tb (it_id owner) a)
      (\<lambda>_ d. typed d \<and> Q owner targets d)" if a: "a \<in> set targets" for owner targets a
    unfolding upsert_relation_def
  proof (rule on_bnd_skip [OF reads_now], simp, rule on_constrained, simp)
    fix t d
    assume d: "typed d \<and> Q owner targets d"
    have rows: "credit_ok d ?t r" if "r \<in> set (tb_rows tb d)" for r using that d typed_credits(1) [OF tb] by blast
    have fresh: "credit_ok d ?t \<lparr>rl_id = i, rl_owner = it_id owner, rl_artist = a, rl_update = t\<rparr>" for i
      using d a by (auto simp: Q_def credit_ok_def)
    have touched: "credit_ok d ?t (r\<lparr>rl_update := t\<rparr>)" if "credit_ok d ?t r" for r
      using that by (simp add: credit_ok_def)
    have adv: "typed (advance k d) \<and> Q owner targets (advance k d)" for k using d typed_advance by (simp add: Q_def)
    show "typed (if \<exists>r \<in> set (tb_rows tb d). rl_owner r = it_id owner \<and> rl_artist r = a
          then tb_put tb (map (\<lambda>r. if rl_owner r = it_id owner \<and> rl_artist r = a then r\<lparr>rl_update := t\<rparr> else r)
                 (tb_rows tb d)) d
          else tb_put tb (tb_rows tb d @ [\<lparr>rl_id = next_id (tb_table tb) d, rl_owner = it_id owner, rl_artist = a,
                 rl_update = t\<rparr>]) (advance (tb_table tb) d))
        \<and> Q owner targets (if \<exists>r \<in> set (tb_rows tb d). rl_owner r = it_id owner \<and> rl_artist r = a
          then tb_put tb (map (\<lambda>r. if rl_owner r = it_id owner \<and> rl_artist r = a then r\<lparr>rl_update := t\<rparr> else r)
                 (tb_rows tb d)) d
          else tb_put tb (tb_rows tb d @ [\<lparr>rl_id = next_id (tb_table tb) d, rl_owner = it_id owner, rl_artist = a,
                 rl_update = t\<rparr>]) (advance (tb_table tb) d))"
    proof (cases "\<exists>r \<in> set (tb_rows tb d). rl_owner r = it_id owner \<and> rl_artist r = a")
      case True
      then show ?thesis using d rows touched by (simp only: if_True) (rule put, auto)
    next
      case False
      then show ?thesis using adv rows fresh by (simp only: if_False) (rule put, auto)
    qed
  qed
  show ?thesis
    unfolding write_relation_def
  proof (rule on_resolve)
    fix owner :: item_row
    assume ty: "tb_types tb = [] \<or> it_type owner \<in> set (tb_types tb)"
    then have "it_type owner = ?t" using credit_types [OF tb] by blast
    then have start: "on_db (\<lambda>d. typed d \<and> owner \<in> set (ct_items d)) (fold_act (relation_target w owner) xs [])
        (\<lambda>targets d. typed d \<and> Q owner targets d)" for xs
      using item_at_mem [of owner] by (intro on_conseq [OF targets]) auto
    show "on_db (\<lambda>d. typed d \<and> owner \<in> set (ct_items d))
      (bnd (require (it_id owner \<notin> set owners) ''duplicate relation owner'') (\<lambda>_.
       bnd (fold_act (relation_target w owner) (ri_targets e) []) (\<lambda>targets.
       bnd (if ri_mode e = Replace
            then change (\<lambda>d. tb_put tb (filter (\<lambda>r. rl_owner r \<noteq> it_id owner) (tb_rows tb d)) d) else ret ()) (\<lambda>_.
       bnd (for_each targets (upsert_relation tb (it_id owner))) (\<lambda>_. ret (it_id owner # owners)))))) (\<lambda>_. typed)"
      by (rule on_require, simp, rule on_bnd [OF start], rule on_bnd [OF clear],
          rule on_bnd [OF on_each [OF upsert]], assumption, rule on_ret, simp)
  qed simp
qed

lemma types_write_relations [type_intros]:
  assumes "credit_table tb"
  shows "types (write_relations w tb es)"
  unfolding write_relations_def
proof (rule types_bnd)
  show "types (fold_act (write_relation w tb) es [])"
    using types_write_relation [OF assms] by (rule types_fold)
qed (rule on_ret)

subsection \<open>Batches\<close>

lemma types_set_track_count [type_intros]: "types (set_track_count i n)"
  unfolding set_track_count_def
proof (rule types_constrained, rule typed_tables)
  fix d assume "typed d"
  from typed_rows(4) [OF this]
  show "\<forall>m \<in> set (map (\<lambda>r. if rx_id r = i then r\<lparr>rx_track_count := n\<rparr> else r) (ct_remote_mixes d)). remote_mix_ok d m"
    by (auto simp: remote_mix_ok_def)
qed

lemma types_write_contents [type_intros]: "types (write_contents w e mixes)"
  unfolding write_contents_def content_song_def insert_mix_song_def update_mix_def
  by (intro type_intros types_constrained types_change) (auto intro!: typed_tables typed_advance)

lemma types_reload [type_intros]: "types (reload id_of find_row msg rows)"
  unfolding reload_def by (intro type_intros)

lemma types_apply_batch [type_intros]: "types (apply_batch w b)"
  unfolding apply_batch_def Let_def by (intro type_intros) (simp_all add: credit_table_def)

lemma typed_in_txn:
  assumes "types m" and "typed (sy_db s)" and "in_txn m s = (r, s')"
  shows "typed (sy_db s')"
  using assms(3)
proof (cases rule: in_txn_result)
  case (committed x s1 s2)
  have "typed (sy_db s1)" using assms(2) committed(2) by (simp add: same_but_faults_simps)
  from triple_InrD [OF assms(1) [unfolded on_db_def] this committed(3)] have "typed (sy_db s2)" .
  with committed show ?thesis by (simp add: same_but_faults_simps)
qed (simp add: assms)

lemma types_in_txn [type_intros]:
  assumes "types m"
  shows "types (in_txn m)"
  unfolding on_db_def by (rule tripleI) (erule (1) typed_in_txn [OF assms])+

lemma types_write_batch [type_intros]: "types (write_batch jl w b)"
  unfolding write_batch_def by (intro type_intros)

lemma types_attempt [type_intros]: "types m \<Longrightarrow> types (attempt m)"
  by (auto simp: on_db_def triple_def attempt_def split: prod.splits sum.splits)

lemma types_run_batch [type_intros]: "types (run_batch jl h b)"
  unfolding run_batch_def fail_def by (intro type_intros)

lemma types_observe_items [type_intros]: "types (observe_items h sc refs)"
  unfolding observe_items_def observe_item_def by (intro type_intros)

subsection \<open>Pruning\<close>

lemma delete_items_rows:
  "r1 \<in> set (ct_albums (delete_items p d)) \<Longrightarrow> r1 \<in> set (ct_albums d) \<and> \<not> p (al_id r1)"
  "r2 \<in> set (ct_artists (delete_items p d)) \<Longrightarrow> r2 \<in> set (ct_artists d) \<and> \<not> p (ar_id r2)"
  "r3 \<in> set (ct_songs (delete_items p d)) \<Longrightarrow>
     r3 \<in> set (ct_songs d) \<and> \<not> p (so_id r3) \<and> (\<forall>a. so_album r3 = Some a \<longrightarrow> \<not> p a)"
  "r4 \<in> set (ct_remote_mixes (delete_items p d)) \<Longrightarrow> r4 \<in> set (ct_remote_mixes d) \<and> \<not> p (rx_id r4)"
  "r5 \<in> set (ct_dynamics (delete_items p d)) \<Longrightarrow> r5 \<in> set (ct_dynamics d) \<and> \<not> p (dy_id r5)"
  "r6 \<in> set (ct_images (delete_items p d)) \<Longrightarrow> r6 \<in> set (ct_images d) \<and> \<not> p (im_item r6)"
  "r7 \<in> set (ct_album_artists (delete_items p d)) \<Longrightarrow>
     r7 \<in> set (ct_album_artists d) \<and> \<not> p (rl_owner r7) \<and> \<not> p (rl_artist r7)"
  "r8 \<in> set (ct_song_artists (delete_items p d)) \<Longrightarrow>
     r8 \<in> set (ct_song_artists d) \<and> \<not> p (rl_owner r8) \<and> \<not> p (rl_artist r8)"
  by (auto simp: delete_items_def Let_def delete_remote_mixes_def delete_mixes_def delete_songs_def
      delete_artists_def delete_albums_def split: option.splits)

lemma delete_items_sequence: "ct_sequence (delete_items p d) = ct_sequence d"
  by (simp add: delete_items_def Let_def delete_remote_mixes_def delete_mixes_def delete_songs_def
      delete_artists_def delete_albums_def)

lemma delete_items_at: "item_at (delete_items p d) i t l \<longleftrightarrow> item_at d i t l \<and> \<not> p i"
  "item_exists (delete_items p d) i \<longleftrightarrow> item_exists d i \<and> \<not> p i"
  by (auto simp: item_at_def item_exists_def)

lemma typed_delete_items:
  assumes "typed d"
  shows "typed (delete_items p d)"
proof -
  have "distinct (map it_id (ct_items (delete_items p d)))"
    using assms by (simp add: typed_def distinct_map_filter)
  moreover have "\<forall>it \<in> set (ct_items (delete_items p d)). it_id it \<le> ct_sequence (delete_items p d) ItemTable"
    using assms by (simp add: typed_def delete_items_sequence)
  ultimately show ?thesis
    using typed_rows [OF assms] unfolding typed_def
    by (auto dest!: delete_items_rows simp: row_ok_defs(1-5) delete_items_at)
qed

lemma typed_delete_mixes: "typed d \<Longrightarrow> typed (delete_mixes p d)"
proof -
  assume "typed d"
  then have "typed (d\<lparr>ct_mixes := filter (\<lambda>r. \<not> p (mx_id r)) (ct_mixes d)\<rparr>
      \<lparr>ct_mix_songs := filter (\<lambda>r. \<not> p (ms_mix r)) (ct_mix_songs d)\<rparr>)"
    by (intro typed_tables)
  then show ?thesis by (simp add: delete_mixes_def)
qed

lemma types_prune [type_intros]: "types (prune h r)"
  unfolding prune_def prune_item_def prune_library_def delete_library_def retained_items_def
  by (intro type_intros types_change typed_delete_items typed_delete_mixes typed_tables)

lemma types_finalize [type_intros]: "types (finalize h)"
  unfolding finalize_def invalidate_sync_def
proof -
  have "types (modify (upd_provider p f))" for p f
    by (auto simp: on_db_def triple_def act_simps)
  then show "types (bnd (run_of h) (\<lambda>r.
     bnd (require (\<not> sr_failed r \<and> sr_sealed r) ''sync was not sealed successfully'') (\<lambda>_.
     bnd (write_guard (sr_provider r) (Some (sr_token r))) (\<lambda>_.
     bnd (gets (\<lambda>s. ps_revision (sy_providers s (sr_provider r)))) (\<lambda>revision.
     bnd (if revision \<noteq> sr_revision r
          then fail_with h ''sync prune conflicted with another write; retry required'' else ret ()) (\<lambda>_.
     bnd (in_txn
       (bnd (prune h r) (\<lambda>_.
        bnd (check_generation (sr_generation r)) (\<lambda>_.
        check_origin (sr_provider r) (Some (sr_token r)))))) (\<lambda>_.
     modify (upd_provider (sr_provider r) (\<lambda>st. st\<lparr>ps_active := 0\<rparr>)))))))))"
    by (intro type_intros)
qed

end
