(* ===== verification/Sync_Favorites.thy ===== *)
theory Sync_Favorites
  imports Sync_Typing
begin

section \<open>Local favourites win over a running synchronisation\<close>

text \<open>
  A favourite that was changed locally after the run began is not touched by the batches of the run. The
  invariant says that the change is on record and that the row still has the favourite the user chose.
\<close>

definition favorite_kept :: "int \<Rightarrow> int \<Rightarrow> nat \<Rightarrow> int option \<Rightarrow> sync_state \<Rightarrow> bool" where
  "favorite_kept p i v fav s \<longleftrightarrow> favorite_changed_after i v (sy_providers s p)
     \<and> (\<exists>m. find_dynamic i (sy_db s) = Some m \<and> dy_favorite_at m = fav)"

lemma favorite_kept_cong:
  "favorite_kept p i v fav s \<Longrightarrow> favorite_changed_after i v (sy_providers s' p) = favorite_changed_after i v (sy_providers s p)
    \<Longrightarrow> ct_dynamics (sy_db s') = ct_dynamics (sy_db s) \<Longrightarrow> favorite_kept p i v fav s'"
  by (simp add: favorite_kept_def find_dynamic_def)

lemma keeps_bnd_fact:
  assumes "keeps J m" and "\<And>s x s'. J s \<Longrightarrow> m s = (Inr x, s') \<Longrightarrow> \<Phi> x" and "\<And>x. \<Phi> x \<Longrightarrow> keeps J (f x)"
  shows "keeps J (bnd m f)"
proof (rule keepsI)
  fix s r s' assume J: "J s" and "bnd m f s = (r, s')"
  from this(2) show "J s'"
  proof (cases rule: bnd_cases)
    case (fail e)
    from assms(1) J fail(1) show ?thesis by (rule keepsD)
  next
    case (go x s1)
    have "J s1" using assms(1) J go(1) by (rule keepsD)
    with assms(3) [OF assms(2) [OF J go(1)]] show ?thesis using go(2) by (rule keepsD)
  qed
qed

lemma kept_reads:
  "keeps (favorite_kept p i v fav) statement" "keeps (favorite_kept p i v fav) (select f)"
  "keeps (favorite_kept p i v fav) preempt" "keeps (favorite_kept p i v fav) now"
proof -
  show st: "keeps (favorite_kept p i v fav) statement"
    by (rule keepsI) (auto simp: statement_def split: list.splits elim!: favorite_kept_cong)
  show "keeps (favorite_kept p i v fav) (select f)"
    unfolding select_def by (intro keeps_intros st)
  show pre: "keeps (favorite_kept p i v fav) preempt"
    by (rule keepsI, drule calm_preempt) (auto simp: calm_def calm_provider_def favorite_changed_after_def elim!: favorite_kept_cong)
  show "keeps (favorite_kept p i v fav) now"
    unfolding now_def by (intro keeps_intros pre)
qed

lemma kept_change:
  "(\<And>d. ct_dynamics (f d) = ct_dynamics d) \<Longrightarrow> keeps (favorite_kept p i v fav) (change f)"
  "(\<And>d. ct_dynamics (f d) = ct_dynamics d) \<Longrightarrow> keeps (favorite_kept p i v fav) (constrained ok msg f)"
  unfolding change_def constrained_def
  by (intro keeps_intros kept_reads keeps_modify; erule favorite_kept_cong; simp)+

lemmas kept_intros = keeps_intros kept_reads kept_change

lemma kept_patch: "keeps J m \<Longrightarrow> (\<And>x. keeps J (f x)) \<Longrightarrow> keeps J (case q of Missing \<Rightarrow> m | Set x \<Rightarrow> f x)"
  by (cases q) simp_all

lemma kept_resolve: "keeps (favorite_kept p i v fav) (resolve w r ts)"
  unfolding resolve_def resolve_optional_def resolve_key_def library_optional_def owns_library_def
  by (cases r) (auto intro!: kept_intros kept_patch)

lemma kept_entities:
  "keeps (favorite_kept p i v fav) (write_libraries w ls)" "keeps (favorite_kept p i v fav) (allocate_all w b)"
  "keeps (favorite_kept p i v fav) (write_albums w mk1 es1)" "keeps (favorite_kept p i v fav) (write_artists w mk2 es2)"
  "keeps (favorite_kept p i v fav) (write_songs w mk3 es3)" "keeps (favorite_kept p i v fav) (write_remote_mixes w mk4 es4)"
proof -
  have allocate: "keeps (favorite_kept p i v fav) (allocate w r ts)" for r ts
    unfolding allocate_def library_of_def library_optional_def owns_library_def insert_item_def touch_item_def Let_def
    by (cases r) (auto intro!: kept_intros kept_patch kept_resolve simp: advance_def)
  show "keeps (favorite_kept p i v fav) (write_libraries w ls)"
    unfolding write_libraries_def write_library_def Let_def by (intro kept_intros; simp add: advance_def)
  show "keeps (favorite_kept p i v fav) (allocate_all w b)"
    unfolding allocate_all_def allocate_group_def by (intro keeps_intros allocate)
  show "keeps (favorite_kept p i v fav) (write_albums w mk1 es1)" "keeps (favorite_kept p i v fav) (write_artists w mk2 es2)"
    "keeps (favorite_kept p i v fav) (write_songs w mk3 es3)" "keeps (favorite_kept p i v fav) (write_remote_mixes w mk4 es4)"
    unfolding write_albums_def write_artists_def write_songs_def write_remote_mixes_def insert_album_def update_album_def
      insert_artist_def update_artist_def insert_song_def update_song_def insert_remote_mix_def update_remote_mix_def
      write_entity_def
    by (intro kept_intros kept_resolve; simp)+
qed

lemma find_app_Some: "find P xs = Some x \<Longrightarrow> find P (xs @ ys) = Some x"
  by (induction xs) (auto split: if_splits)

lemma find_map_key: "(\<And>r. key (f r) = key r) \<Longrightarrow> find (\<lambda>r. key r = k) (map f rs) = map_option f (find (\<lambda>r. key r = k) rs)"
  by (induction rs) auto

lemma kept_insert_dynamic: "keeps (favorite_kept p i v fav) (insert_dynamic m)"
  unfolding insert_dynamic_def constrained_def
  by (intro kept_intros keeps_modify) (auto simp: favorite_kept_def find_dynamic_def intro!: find_app_Some)

lemma kept_seed_dynamic: "keeps (favorite_kept p i v fav) (seed_dynamic j)"
  unfolding seed_dynamic_def constrained_def
  by (intro kept_intros keeps_modify) (auto simp: favorite_kept_def find_dynamic_def intro!: find_app_Some)

lemma kept_update_dynamic:
  assumes "dy_id m = i \<longrightarrow> dy_favorite_at m = fav"
  shows "keeps (favorite_kept p i v fav) (update_dynamic m)"
proof -
  let ?f = "\<lambda>r. if dy_id r = dy_id m then r\<lparr>dy_is_external := dy_is_external m,
        dy_remote_play_count := dy_remote_play_count m, dy_remote_last_played_at := dy_remote_last_played_at m,
        dy_favorite_at := dy_favorite_at m, dy_update := dy_update m\<rparr> else r"
  have "favorite_kept p i v fav (s\<lparr>sy_db := (sy_db s)\<lparr>ct_dynamics := map ?f (ct_dynamics (sy_db s))\<rparr>\<rparr>)"
    if kept: "favorite_kept p i v fav s" for s
  proof -
    obtain r where r: "find_dynamic i (sy_db s) = Some r" "dy_favorite_at r = fav"
      using kept by (auto simp: favorite_kept_def)
    have "find (\<lambda>q. dy_id q = i) (map ?f (ct_dynamics (sy_db s))) = Some (?f r)"
      using r(1) find_map_key [of dy_id ?f i "ct_dynamics (sy_db s)"] by (simp add: find_dynamic_def)
    moreover have "dy_id r = i" using r(1) by (auto simp: find_dynamic_def find_Some_iff)
    ultimately show ?thesis
      using kept r(2) assms by (auto simp: favorite_kept_def find_dynamic_def)
  qed
  then show ?thesis
    unfolding update_dynamic_def constrained_def by (intro kept_intros keeps_modify)
qed

text \<open>The patched row has the favourite of the old one when the local change is on record.\<close>

lemma patched_dynamic_result:
  assumes "patched_dynamic w mk e j new m0 s = (Inr m, s')"
    and "wr_run w = Some (t, v)" and "favorite_kept (wr_provider w) j v fav s"
  shows "dy_id m = dy_id m0 \<and> dy_favorite_at m = dy_favorite_at m0"
proof -
  have keep_switch: "keeps (favorite_kept (wr_provider w) j v fav) (switch_favorite e new mk m0)"
    unfolding switch_favorite_def by (intro kept_intros kept_patch)
  obtain m1 m2 s1 changed where switch: "switch_favorite e new mk m0 s = (Inr m1, s1)"
    and apply_row: "dynamic_apply e new mk m1 = Inr m2" and local: "local_favorite w j s1 = (Inr changed, s')"
    and m: "m = (if changed then m2\<lparr>dy_favorite_at := dy_favorite_at m0\<rparr> else m2)"
    using assms(1) by (auto simp: patched_dynamic_def elim!: bnd_InrE)
  have "favorite_kept (wr_provider w) j v fav s1" using keep_switch assms(3) switch by (rule keepsD)
  then have changed using local assms(2) by (auto simp: local_favorite_def favorite_kept_def)
  moreover have "dy_id m1 = dy_id m0"
    using switch by (auto simp: switch_favorite_def elim!: bnd_InrE split: patch.splits if_splits option.splits)
  moreover have "dy_id m2 = dy_id m1"
    using apply_row by (auto simp: dynamic_apply_def and_then_Inr_iff Let_def)
  ultimately show ?thesis using m by simp
qed

lemma kept_patched: "keeps (favorite_kept p i v fav) (patched_dynamic w mk e j new m0)"
  unfolding patched_dynamic_def switch_favorite_def local_favorite_def by (intro kept_intros kept_patch)

lemma patched_id: "patched_dynamic w mk e j new m0 s = (Inr m, s') \<Longrightarrow> dy_id m = dy_id m0"
  by (auto simp: patched_dynamic_def switch_favorite_def dynamic_apply_def and_then_Inr_iff Let_def elim!: bnd_InrE
      split: patch.splits if_splits option.splits)

lemma find_dynamic_id: "find_dynamic i d = Some m \<Longrightarrow> dy_id m = i"
  by (auto simp: find_dynamic_def find_Some_iff)

lemma kept_write_dynamic:
  assumes run: "wr_run w = Some (t, v)"
  shows "keeps (favorite_kept (wr_provider w) i v fav) (write_dynamic w mk e done)"
  unfolding write_dynamic_def
proof (rule keeps_bnd [OF kept_resolve], rule keeps_bnd [OF keeps_basic(5)])
  fix it :: item_row and u :: unit
  let ?J = "favorite_kept (wr_provider w) i v fav" and ?j = "it_id it"
  let ?m0 = "\<lambda>old. case old of None \<Rightarrow> dynamic_default ?j | Some m \<Rightarrow> m"
  let ?ok = "\<lambda>old. dy_id (?m0 old) = ?j \<and> (?j = i \<longrightarrow> dy_favorite_at (?m0 old) = fav)"
  have store: "keeps ?J (bnd (patched_dynamic w mk e ?j (old = None) (?m0 old)) (\<lambda>m.
     bnd (require (0 \<le> dy_remote_play_count m) ''negative remote play count'') (\<lambda>_.
     bnd now (\<lambda>t.
     bnd (if old = None then insert_dynamic (m\<lparr>dy_update := t\<rparr>) else update_dynamic (m\<lparr>dy_update := t\<rparr>)) (\<lambda>_.
     ret (?j # done))))))" if ok: "?ok old" for old
  proof (rule keeps_bnd_fact [OF kept_patched, where \<Phi> = "\<lambda>m. dy_id m = ?j \<and> (?j = i \<longrightarrow> dy_favorite_at m = fav)"])
    fix s m s'
    assume "?J s" "patched_dynamic w mk e ?j (old = None) (?m0 old) s = (Inr m, s')"
    then show "dy_id m = ?j \<and> (?j = i \<longrightarrow> dy_favorite_at m = fav)"
      using ok run patched_id patched_dynamic_result by fastforce
  qed (intro kept_intros kept_insert_dynamic kept_update_dynamic, auto)
  have "?ok (find_dynamic ?j (sy_db s))" if "?J s" for s
    using that by (cases "find_dynamic ?j (sy_db s)")
      (auto simp: favorite_kept_def dynamic_default_def dest: find_dynamic_id)
  then show "keeps ?J (bnd (select (find_dynamic ?j)) (\<lambda>old.
     bnd (patched_dynamic w mk e ?j (old = None) (?m0 old)) (\<lambda>m.
     bnd (require (0 \<le> dy_remote_play_count m) ''negative remote play count'') (\<lambda>_.
     bnd now (\<lambda>t.
     bnd (if old = None then insert_dynamic (m\<lparr>dy_update := t\<rparr>) else update_dynamic (m\<lparr>dy_update := t\<rparr>)) (\<lambda>_.
     ret (?j # done)))))))"
    by (intro keeps_bnd_fact [OF kept_reads(2), where \<Phi> = ?ok] store) (auto dest!: select_same)
qed

lemma kept_apply_batch:
  assumes run: "wr_run w = Some (t, v)"
  shows "keeps (favorite_kept (wr_provider w) i v fav) (apply_batch w b)"
proof -
  let ?J = "favorite_kept (wr_provider w) i v fav"
  have dynamics: "keeps ?J (write_dynamics w mk es)" for mk es
    unfolding write_dynamics_def by (intro keeps_intros kept_write_dynamic [OF run])
  have links: "keeps ?J (link_song_album w mk fresh e1 linked)" "keeps ?J (write_song_album w e2 linked)"
    for mk fresh e1 e2 linked
    unfolding link_song_album_def write_song_album_def album_target_def set_song_album_def
    by (intro kept_intros kept_resolve kept_patch; simp)+
  have relations: "keeps ?J (write_relations w tb es)" if "credit_table tb" for tb es
    using that unfolding write_relations_def write_relation_def relation_target_def upsert_relation_def
    by (intro kept_intros kept_resolve)
      (auto simp: credit_table_def album_artist_table_def song_artist_table_def advance_def)
  show ?thesis
    unfolding apply_batch_def Let_def check_quantities_def mirror_mix_def insert_mix_def update_mix_def
      write_images_def write_image_def insert_image_def write_contents_def content_song_def insert_mix_song_def
      set_track_count_def reload_def
    by (intro kept_intros kept_entities dynamics kept_seed_dynamic links relations kept_resolve)
      (simp_all add: advance_def credit_table_def)
qed

end
