(* ===== verification/Sync_Props.thy ===== *)
theory Sync_Props
  imports Sync_Favorites "HOL-Library.Code_Target_Nat"
begin

section \<open>Properties of the synchronisation\<close>

text \<open>
  What a full synchronisation guarantees, with a concrete library and run on which the theorems are applied:
  provider 1 with one library, an album (item 1) with a song (item 2), a song without album (item 3) and a
  remote mix (item 4). The run has observed the songs only.
\<close>

definition sample_item :: "int \<Rightarrow> item_type \<Rightarrow> int option \<Rightarrow> item_row" where
  "sample_item i t lib = \<lparr>it_id = i, it_native = [char_of (nat i)], it_library = lib, it_provider = 1, it_type = t,
     it_create = 0, it_update = 0, it_sync = 0\<rparr>"

definition sample_catalog :: catalog where
  "sample_catalog = \<lparr>ct_providers = [1],
     ct_libraries = [\<lparr>lb_id = 1, lb_name = ''Music'', lb_provider = 1, lb_native = ''m'', lb_edit = 0\<rparr>],
     ct_items = [sample_item 1 Album (Some 1), sample_item 2 Song (Some 1), sample_item 3 Song (Some 1),
        sample_item 4 Mix None],
     ct_albums = [(album_default 1)\<lparr>al_name := ''A''\<rparr>], ct_artists = [],
     ct_songs = [(song_default 2)\<lparr>so_name := ''B'', so_album := Some 1\<rparr>, (song_default 3)\<lparr>so_name := ''C''\<rparr>],
     ct_remote_mixes = [(remote_mix_default 4)\<lparr>rx_name := ''D''\<rparr>], ct_mixes = [],
     ct_dynamics = [(dynamic_default 2)\<lparr>dy_favorite_at := Some 7\<rparr>], ct_images = [],
     ct_album_artists = [], ct_song_artists = [], ct_mix_songs = [],
     ct_sequence = (\<lambda>t. case t of ItemTable \<Rightarrow> 4 | LibraryTable \<Rightarrow> 1 | _ \<Rightarrow> 0)\<rparr>"

definition sample_scopes :: "sync_scope set" where
  "sample_scopes = {scope_new None Mix, scope_new (Some 1) Album, scope_new (Some 1) Song}"

definition sample_run :: sync_run where
  "sample_run = \<lparr>sr_provider = 1, sr_token = 1, sr_revision = 3, sr_scopes = sample_scopes,
     sr_complete = sample_scopes, sr_seen = {2, 3}, sr_libraries = {1}, sr_libraries_complete = True,
     sr_declared = True, sr_sealed = True, sr_failed = False, sr_generation = None\<rparr>"

definition sample_provider :: provider_state where
  "sample_provider = \<lparr>ps_revision = 3, ps_changes = 5, ps_favorites = [], ps_overflow = 0, ps_active = 1,
     ps_sequence = 1, ps_retained = [(4, 1)]\<rparr>"

definition sample_sync :: sync_state where
  "sample_sync = \<lparr>sy_db = sample_catalog, sy_faults = [], sy_events = [], sy_now = 100,
     sy_providers = (\<lambda>p. if p = 1 then sample_provider else provider_state_default), sy_projection = 1,
     sy_epochs = (\<lambda>_. None), sy_instance = ''i'', sy_generations = (\<lambda>_. 0), sy_runs = (\<lambda>_. sample_run),
     sy_next_run = 1, sy_retentions = [(0, \<lparr>rt_owner = 1, rt_roots = [], rt_ids = [4]\<rparr>)], sy_next_retention = 1\<rparr>"

lemmas sample_sync_defs = sample_sync_def sample_catalog_def sample_run_def sample_provider_def sample_item_def
  sample_scopes_def album_default_def song_default_def remote_mix_default_def dynamic_default_def
  provider_state_default_def

lemma run_eq: "fst (m s) = Inr x \<Longrightarrow> m s = (Inr x, snd (m s))" for m :: "'a op"
  by (cases "m s") simp

lemma sample_finalized: "fst (finalize 0 sample_sync) = Inr ()"
  by code_simp

lemmas sample_finalize = run_eq [of "finalize 0" sample_sync, OF sample_finalized]

lemma sample_unique:
  "distinct (map it_id (ct_items (sy_db sample_sync)))" "distinct (map lb_id (ct_libraries (sy_db sample_sync)))"
  by (simp_all add: sample_sync_defs)

subsection \<open>Pruning\<close>

text \<open>C1: a successful \<^verbatim>\<open>finalize\<close> removes exactly the items of its provider that lie in a declared scope, were
  not observed and are not retained, and the items of the libraries that were not observed; everything that is
  still retained when it returns was exempt, and no other item and no library of another provider is touched.\<close>

theorem finalize_prunes_exactly:
  assumes run: "finalize h s = (Inr (), s')"
    and items: "distinct (map it_id (ct_items (sy_db s)))" and libs: "distinct (map lb_id (ct_libraries (sy_db s)))"
  shows "let r = sy_runs s h; p = sr_provider r in \<exists>retained.
      fst ` set (ps_retained (sy_providers s' p)) \<subseteq> set retained
    \<and> set retained \<subseteq> fst ` set (ps_retained (sy_providers s p))
    \<and> ct_items (sy_db s') = filter (\<lambda>it. \<not> (it_provider it = p \<and> scope_new (it_library it) (it_type it) \<in> sr_scopes r
        \<and> it_id it \<notin> sr_seen r \<and> it_id it \<notin> set retained) \<and> \<not> library_gone r (sy_db s) it) (ct_items (sy_db s))
    \<and> ct_libraries (sy_db s') = filter (\<lambda>l. lb_provider l = p \<longrightarrow> lb_id l \<in> sr_libraries r) (ct_libraries (sy_db s))"
proof -
  let ?r = "sy_runs s h" and ?p = "sr_provider (sy_runs s h)"
  obtain s1 s2 where calm1: "calm s s1" and prune: "prune h ?r s1 = (Inr (), s2)" and calm2: "calm s2 s'"
    using finalize_success [OF run] by blast
  have db1: "sy_db s1 = sy_db s" and db2: "sy_db s' = sy_db s2"
    using calm1 calm2 by (simp_all add: calm_db)
  have unique1: "distinct (map it_id (ct_items (sy_db s1)))" "distinct (map lb_id (ct_libraries (sy_db s1)))"
    using items libs db1 by simp_all
  obtain t1 t2 retained where t: "same_but_faults s1 t1" "calm t1 t2"
      "retained = map fst (ps_retained (sy_providers t2 ?p))" "retained_within ?p (set retained) s2"
    and tables: "ct_items (sy_db s2) = filter (\<lambda>it. \<not> (it_provider it = ?p \<and> prunable ?r retained it)
        \<and> \<not> library_gone ?r (sy_db s1) it) (ct_items (sy_db s1))"
      "ct_libraries (sy_db s2) = filter (\<lambda>l. lb_provider l = ?p \<longrightarrow> lb_id l \<in> sr_libraries ?r) (ct_libraries (sy_db s1))"
    by (rule prune_tables [OF prune unique1])
  have before: "set retained \<subseteq> fst ` set (ps_retained (sy_providers s ?p))"
    using calm_retained [OF calm_trans [OF calm1 calm_trans [OF calm_faults [OF t(1)] t(2)]], of ?p] t(3) by simp
  have after: "fst ` set (ps_retained (sy_providers s' ?p)) \<subseteq> set retained"
    using calm_retained [OF calm2, of ?p] t(4) by (auto simp: retained_within_def)
  show ?thesis
    using before after tables db1 db2 by (auto simp: Let_def prunable_def intro!: exI [of _ retained])
qed

theorem finalize_prunes_exactly_witness:
  "ct_items (sy_db (snd (finalize 0 sample_sync))) \<noteq> ct_items (sy_db sample_sync)"
proof -
  obtain retained where "set retained \<subseteq> {4}" "ct_items (sy_db (snd (finalize 0 sample_sync))) =
      filter (\<lambda>it. \<not> (it_provider it = 1 \<and> prunable sample_run retained it)
        \<and> \<not> library_gone sample_run sample_catalog it) (ct_items (sy_db sample_sync))"
    using finalize_prunes_exactly [OF sample_finalize sample_unique]
    by (auto simp: prunable_def sample_sync_def sample_run_def sample_provider_def Let_def)
  moreover have "sample_item 1 Album (Some 1) \<in> set (ct_items (sy_db sample_sync))"
    by (simp add: sample_sync_defs)
  moreover have "it_provider (sample_item 1 Album (Some 1)) = 1 \<and> prunable sample_run retained (sample_item 1 Album (Some 1))"
    using calculation(1) by (auto simp: prunable_def sample_run_def sample_item_def sample_scopes_def)
  ultimately show ?thesis by (metis (mono_tags, lifting) filter_id_conv)
qed

text \<open>C23: \<^verbatim>\<open>finalize\<close> refuses to prune when any other write has reached the provider since the run began, or
  when the run was cancelled, failed or is not sealed, and a refused or failed \<^verbatim>\<open>finalize\<close> leaves every table
  as it was.\<close>

theorem finalize_refuses_conflicts:
  assumes "ps_revision (sy_providers s (sr_provider (sy_runs s h))) \<noteq> sr_revision (sy_runs s h)
    \<or> sr_failed (sy_runs s h) \<or> \<not> sr_sealed (sy_runs s h)
    \<or> sr_token (sy_runs s h) \<noteq> 0 \<and> ps_active (sy_providers s (sr_provider (sy_runs s h))) \<noteq> sr_token (sy_runs s h)"
  shows "is_err (fst (finalize h s)) \<and> sy_db (snd (finalize h s)) = sy_db s"
proof (cases "finalize h s")
  case (Pair r s')
  show ?thesis
  proof (cases r)
    case (Inl e)
    with Pair finalize_error show ?thesis by auto
  next
    case (Inr u)
    with Pair have "finalize h s = (Inr (), s')" by simp
    with finalize_success obtain s1 where
      "\<not> sr_failed (sy_runs s h)" "sr_sealed (sy_runs s h)" "calm s s1"
      "ps_active (sy_providers s1 (sr_provider (sy_runs s h))) = sr_token (sy_runs s h)"
      "ps_revision (sy_providers s (sr_provider (sy_runs s h))) = sr_revision (sy_runs s h)" by blast
    with assms calm_token show ?thesis by blast
  qed
qed

definition sample_written :: sync_state where
  "sample_written = snd (write_guard 1 None sample_sync)"

theorem finalize_refuses_conflicts_witness:
  "sy_db (snd (finalize 0 sample_written)) = sy_db sample_written"
proof -
  have "ps_revision (sy_providers sample_written (sr_provider (sy_runs sample_written 0))) = 4"
    "sr_revision (sy_runs sample_written 0) = 3"
    by code_simp+
  with finalize_refuses_conflicts [of sample_written 0] show ?thesis by simp
qed

text \<open>An album that is pruned takes the rows of its songs with it, of observed songs too: the item of
  such a song stays, but no song row refers to the album any more.\<close>

lemma prune_songs: "keeps (\<lambda>s. set (ct_songs (sy_db s)) \<subseteq> X) (prune h r)"
proof -
  have ops: "keeps (\<lambda>s. set (ct_songs (sy_db s)) \<subseteq> X) statement" "keeps (\<lambda>s. set (ct_songs (sy_db s)) \<subseteq> X) preempt"
    by (rule keepsI; auto simp: statement_def preempt_runs split: list.splits)+
  have songs: "set (ct_songs (delete_items p d)) \<subseteq> set (ct_songs d)" "ct_songs (delete_mixes p d) = ct_songs d" for p d
    using delete_items_rows(3) by (auto simp: delete_mixes_def)
  show ?thesis
    unfolding prune_def prune_item_def prune_library_def delete_library_def retained_items_def select_def change_def
      fail_with_def fail_def
    by (intro keeps_intros ops keeps_modify) (auto simp: songs dest!: subsetD [OF songs(1)])
qed



subsection \<open>Runs\<close>

lemma sync_inv:
  assumes "sync_reachable s0 s" and "sy_next_run s0 = 0" and "sy_providers s0 = (\<lambda>_. provider_state_default)"
    and "sy_runs s0 = (\<lambda>_. run_new 0 0 0)" and "sy_retentions s0 = []"
  shows "tokens_ok s" "runs_ok s" "counts_ok s"
proof -
  have "tokens_ok s0" "runs_ok s0" "counts_ok s0"
    by (simp_all add: assms tokens_ok_def runs_ok_def counts_ok_def provider_state_default_def run_shape_def run_new_def
        holders_def count_of_def)
  then show "tokens_ok s" "runs_ok s" "counts_ok s"
    using tokens.reachable_inv runs.reachable_inv counts.reachable_inv assms(1) by blast+
qed

definition sample_start :: sync_state where
  "sample_start = sample_sync\<lparr>sy_providers := (\<lambda>_. provider_state_default), sy_runs := (\<lambda>_. run_new 0 0 0),
     sy_next_run := 0, sy_retentions := []\<rparr>"

text \<open>The state after the first run of provider 1 has started and has become \<open>r\<close>.\<close>

definition sample_at :: "sync_run \<Rightarrow> sync_state" where
  "sample_at r = sample_start\<lparr>sy_providers := (\<lambda>_. provider_state_default)(1 :=
     provider_state_default\<lparr>ps_sequence := 1, ps_active := 1\<rparr>), sy_runs := (\<lambda>_. run_new 0 0 0)(0 := r), sy_next_run := 1\<rparr>"

lemmas sample_at_simps = sample_at_def sample_start_def sample_sync_def provider_state_default_def run_new_def
  bnd_def act_simps run_of_def preempt_def load_active_def upd_run_def upd_provider_def

lemma sample_started: "start 1 sample_start = (Inr 0, sample_at (run_new 1 1 0))"
  by (simp add: sample_at_simps start_def incremented_def ok_or_def checked_add_def u64_max_eq)

lemma sample_started_reachable: "sync_reachable sample_start (sample_at (run_new 1 1 0))"
proof -
  have "ps_sequence (sy_providers sample_start 1) < u64_max"
    by (simp add: sample_start_def provider_state_default_def u64_max_eq)
  then have "sync_step sample_start (sample_at (run_new 1 1 0))" using sample_started by (rule step_start)
  then show ?thesis by (rule sync_more [OF sync_start])
qed

lemma sample_start_fields:
  "sy_next_run sample_start = 0" "sy_providers sample_start = (\<lambda>_. provider_state_default)"
  "sy_runs sample_start = (\<lambda>_. run_new 0 0 0)" "sy_retentions sample_start = []"
  by (simp_all add: sample_start_def)

lemma sample_at_fields:
  "sy_next_run (sample_at r) = 1" "ps_active (sy_providers (sample_at r) 1) = 1" "sy_runs (sample_at r) 0 = r"
  by (simp_all add: sample_at_def)



text \<open>A run that may prune has declared its scopes, the global scope of mixes among them, and has completed
  its libraries and every scope it declared.\<close>

theorem sealed_runs_are_complete:
  assumes "sync_reachable s0 s" and "sy_next_run s0 = 0" and "sy_providers s0 = (\<lambda>_. provider_state_default)"
    and "sy_runs s0 = (\<lambda>_. run_new 0 0 0)" and "sy_retentions s0 = []" and "finalize h s = (Inr (), s')"
  shows "sr_declared (sy_runs s h) \<and> sr_libraries_complete (sy_runs s h)
    \<and> sr_complete (sy_runs s h) = sr_scopes (sy_runs s h) \<and> scope_new None Mix \<in> sr_scopes (sy_runs s h)"
proof -
  have "run_shape (sy_runs s h)" using sync_inv(2) [OF assms(1-5)] by (simp add: runs_ok_def)
  moreover have "sr_sealed (sy_runs s h)" using finalize_success [OF assms(6)] by blast
  ultimately show ?thesis by (auto simp: run_shape_def)
qed

definition sample_declared :: sync_run where
  "sample_declared = (run_new 1 1 0)\<lparr>sr_scopes := {scope_new None Mix}, sr_declared := True\<rparr>"

definition sample_sealed :: sync_run where
  "sample_sealed = sample_declared\<lparr>sr_libraries_complete := True, sr_complete := {scope_new None Mix}, sr_sealed := True\<rparr>"

lemma sample_sealed_reachable: "sync_reachable sample_start (sample_at sample_sealed)"
proof -
  let ?c1 = "sample_declared\<lparr>sr_libraries_complete := True\<rparr>"
  let ?c2 = "?c1\<lparr>sr_complete := {scope_new None Mix}\<rparr>"
  have "declare_scopes 0 [scope_new None Mix] [] (sample_at (run_new 1 1 0)) = (Inr (), sample_at sample_declared)"
    by (simp add: sample_at_simps declare_scopes_def running_def check_generation_def sample_declared_def
        for_each.simps check_scope_def scope_new_def item_type_of_def item_code_def MAX_SEEN_def)
  moreover have "complete_libraries 0 (sample_at sample_declared) = (Inr (), sample_at ?c1)"
    by (simp add: sample_at_simps complete_libraries_def running_def check_generation_def sample_declared_def)
  moreover have "complete_scope 0 (scope_new None Mix) (sample_at ?c1) = (Inr (), sample_at ?c2)"
    by (simp add: sample_at_simps complete_scope_def running_def check_generation_def sample_declared_def)
  moreover have "seal 0 (sample_at ?c2) = (Inr (), sample_at sample_sealed)"
    by (simp add: sample_at_simps seal_def running_def check_generation_def sample_declared_def sample_sealed_def)
  ultimately show ?thesis
    using sample_started_reachable
    by (meson sync_more step_declare step_complete_libraries step_complete step_seal)
qed

theorem sealed_runs_are_complete_witness: "scope_new None Mix \<in> sr_scopes (sy_runs (sample_at sample_sealed) 0)"
proof -
  have "fst (finalize 0 (sample_at sample_sealed)) = Inr ()" by code_simp
  from sealed_runs_are_complete [OF sample_sealed_reachable sample_start_fields run_eq [of "finalize 0", OF this]]
  show ?thesis by simp
qed

text \<open>C25: a provider is never stuck with a run that has gone: in any reachable state, once the active run has
  been dropped (whatever it did before), a new full sync starts and gets a token no run has had.\<close>

theorem dropped_run_frees_provider:
  assumes "sync_reachable s0 s" and "sy_next_run s0 = 0" and "sy_providers s0 = (\<lambda>_. provider_state_default)"
    and "sy_runs s0 = (\<lambda>_. run_new 0 0 0)" and "sy_retentions s0 = []"
    and "sr_provider (sy_runs s h) = p" and "ps_active (sy_providers s p) \<in> {0, sr_token (sy_runs s h)}"
    and "ps_sequence (sy_providers s p) < u64_max"
  shows "\<exists>k s'. start p (drop_run h s) = (Inr k, s') \<and> sr_provider (sy_runs s' k) = p
    \<and> ps_active (sy_providers s' p) = sr_token (sy_runs s' k)
    \<and> (\<forall>j < sy_next_run s. sr_provider (sy_runs s j) = p \<longrightarrow> sr_token (sy_runs s j) < sr_token (sy_runs s' k))"
proof -
  let ?d = "drop_run h s"
  have d: "ps_active (sy_providers ?d p) = 0" "ps_sequence (sy_providers ?d p) = ps_sequence (sy_providers s p)"
    "sy_next_run ?d = sy_next_run s"
    using assms(6,7) by (auto simp: drop_run_def cancel_def)
  obtain r s' where run: "start p ?d = (r, s')" by fastforce
  have seq: "ps_sequence (sy_providers ?d p) < u64_max" using assms(8) d by simp
  from run seq show ?thesis
  proof (cases rule: start_run)
    case (refused e)
    with d(1) preempt_runs(6) [OF refused(2), of p] show ?thesis by simp
  next
    case (running s1)
    have "\<forall>j < sy_next_run s. sr_provider (sy_runs s j) = p \<longrightarrow> sr_token (sy_runs s j) \<le> ps_sequence (sy_providers s p)"
      using sync_inv(1) [OF assms(1-5)] by (auto simp: tokens_ok_def)
    then show ?thesis
      using run running d by (auto simp: run_new_def intro!: exI [of _ "sy_next_run s"] exI [of _ s'] le_imp_less_Suc)
  qed
qed

theorem dropped_run_frees_provider_witness:
  "\<exists>k s'. start 1 (drop_run 0 (sample_at sample_sealed)) = (Inr k, s') \<and> ps_active (sy_providers s' 1) = sr_token (sy_runs s' k)"
proof -
  have "sr_provider sample_sealed = 1" "sr_token sample_sealed = 1"
    by (simp_all add: sample_sealed_def sample_declared_def run_new_def)
  with dropped_run_frees_provider [OF sample_sealed_reachable sample_start_fields, of 0 1] show ?thesis
    by (auto simp: sample_at_fields) (auto simp: sample_at_def u64_max_eq)
qed

subsection \<open>Batches\<close>


definition sample_options :: batch_options where
  "sample_options = \<lparr>bo_albums = mask_default, bo_artists = mask_default, bo_songs = mask_default,
     bo_remote_mixes = mask_default, bo_dynamics = mask_default\<rparr>"

definition sample_batch :: sync_batch where
  "sample_batch = \<lparr>bt_libraries = [], bt_albums = [], bt_artists = [], bt_songs = [], bt_remote_mixes = [],
     bt_dynamics = [\<lparr>ei_item = Id 2, ei_on_insert = None, ei_fields = \<lparr>df_is_external = Set True,
        df_remote_play_count = Set 9, df_remote_last_played_at = Missing, df_favorite_at = Missing\<rparr>,
        di_favorite = Set False\<rparr>],
     bt_images = [], bt_song_albums = [], bt_album_artists = [], bt_song_artists = [], bt_contents = [],
     bt_options = sample_options\<rparr>"

definition sample_writer :: writer where
  "sample_writer = \<lparr>wr_provider = 1, wr_run = Some (1, 3), wr_generation = None\<rparr>"



text \<open>A run that was cancelled, superseded or has failed writes nothing any more: batches, observations and
  pruning all return an error and leave the tables alone, whatever happens while they run.\<close>

lemma running_refused:
  assumes "running h s = (Inr u, s')" "sr_token (sy_runs s h) \<noteq> 0"
  shows "ps_active (sy_providers s (sr_provider (sy_runs s h))) = sr_token (sy_runs s h) \<and> \<not> sr_failed (sy_runs s h)"
proof -
  have facts: "calm s s'" "\<not> sr_failed (sy_runs s' h)"
    "ps_active (sy_providers s' (sr_provider (sy_runs s' h))) = sr_token (sy_runs s' h)"
    using running_Inr [OF assms(1)] by simp_all
  have same: "sy_runs s' = sy_runs s" using facts(1) by (rule calm_runs)
  show ?thesis
    using facts(2,3) calm_token [OF facts(1), of "sr_provider (sy_runs s h)" "sr_token (sy_runs s h)"] assms(2)
    unfolding same by blast
qed

lemma refused_by_running:
  assumes "\<forall>u s'. running h s \<noteq> (Inr u, s')"
  shows "is_err (fst (bnd (running h) f s)) \<and> sy_db (snd (bnd (running h) f s)) = sy_db s"
proof -
  obtain e s' where e: "running h s = (Inl e, s')" using assms by (metis obj_sumE surj_pair)
  then have "sy_db s' = sy_db s" using db_running [of "sy_db s" h] by (auto dest: keepsD)
  with e show ?thesis by (simp add: bnd_def)
qed

theorem stopped_run_writes_nothing:
  assumes "sr_token (sy_runs s h) \<noteq> 0"
    and "ps_active (sy_providers s (sr_provider (sy_runs s h))) \<noteq> sr_token (sy_runs s h) \<or> sr_failed (sy_runs s h)"
  shows "is_err (fst (run_batch jl h b s)) \<and> sy_db (snd (run_batch jl h b s)) = sy_db s
    \<and> is_err (fst (observe_items h sc refs s)) \<and> sy_db (snd (observe_items h sc refs s)) = sy_db s
    \<and> is_err (fst (finalize h s)) \<and> sy_db (snd (finalize h s)) = sy_db s"
proof -
  have no: "\<forall>u s'. running h s \<noteq> (Inr u, s')" using running_refused assms by blast
  have final: "is_err (fst (finalize h s)) \<and> sy_db (snd (finalize h s)) = sy_db s"
  proof (cases "finalize h s")
    case (Pair r s')
    then show ?thesis
    proof (cases r)
      case (Inr u)
      with Pair have "finalize h s = (Inr (), s')" by simp
      from finalize_success [OF this] assms calm_token show ?thesis by metis
    qed (use Pair finalize_error in auto)
  qed
  show ?thesis
    unfolding run_batch_def observe_items_def by (simp add: refused_by_running [OF no] final)
qed

theorem stopped_run_writes_nothing_witness:
  "is_err (fst (run_batch (\<lambda>_. 100) 0 sample_batch (drop_run 0 sample_sync)))"
  using stopped_run_writes_nothing [of "drop_run 0 sample_sync" 0]
  by (simp add: drop_run_def cancel_def sample_sync_def sample_run_def sample_provider_def)

text \<open>C4: a favourite that the user has changed since the run began survives every batch of the run: whatever
  the provider says about it, the stored time of the favourite is the user's.\<close>

theorem local_favorite_survives_batch:
  assumes "write_batch jl w b s = (Inr out, s')" and "wr_run w = Some (t, v)"
    and "favorite_changed_after i v (sy_providers s (wr_provider w))" and "find_dynamic i (sy_db s) = Some m"
  shows "\<exists>m'. find_dynamic i (sy_db s') = Some m' \<and> dy_favorite_at m' = dy_favorite_at m"
proof -
  let ?J = "favorite_kept (wr_provider w) i v (dy_favorite_at m)"
  have calm_kept: "?J y" if "?J x" "calm x y" for x y
    using that by (auto simp: calm_def calm_provider_def favorite_changed_after_def elim!: favorite_kept_cong)
  obtain s1 s2 where gen: "check_generation (wr_generation w) s = (Inr (), s1)"
    and guard: "write_guard (wr_provider w) (Some t) s1 = (Inr (), s2)"
    and txn: "in_txn (bnd (apply_batch w b) (\<lambda>r. bnd (check_generation (wr_generation w)) (\<lambda>_.
      bnd (check_origin (wr_provider w) (Some t)) (\<lambda>_. ret r)))) s2 = (Inr out, s')"
    using assms(1,2) by (auto simp: write_batch_def elim!: bnd_InrE)
  have "?J s" using assms(3,4) by (simp add: favorite_kept_def)
  then have J2: "?J s2" using calm_kept calm_generation [OF gen] guard_of_run(1) [OF guard] by blast
  from txn show ?thesis
  proof (cases rule: in_txn_result)
    case (committed x t1 t2)
    from committed(3) obtain u1 u2 where apply_run: "apply_batch w b t1 = (Inr x, u1)"
      and gen2: "check_generation (wr_generation w) u1 = (Inr (), u2)"
      and origin: "check_origin (wr_provider w) (Some t) u2 = (Inr (), t2)"
      by (auto elim!: bnd_InrE)
    have "?J t1" using J2 calm_kept calm_faults [OF committed(2)] by blast
    with kept_apply_batch [OF assms(2)] have "?J u1" using apply_run by (rule keepsD)
    then have "?J s'"
      using calm_kept calm_generation [OF gen2] check_origin_Some [OF origin] calm_faults [OF committed(4)] by blast
    then show ?thesis by (simp add: favorite_kept_def)
  qed simp
qed

definition sample_favored :: sync_state where
  "sample_favored = sample_sync\<lparr>sy_providers := (\<lambda>p. sample_provider\<lparr>ps_revision := 4, ps_favorites := [(2, 4)]\<rparr>)\<rparr>"

theorem local_favorite_survives_batch_witness:
  "\<exists>m. find_dynamic 2 (sy_db (snd (write_batch (\<lambda>_. 100) sample_writer sample_batch sample_favored))) = Some m
     \<and> dy_favorite_at m = Some 7"
proof -
  have ok: "fst (write_batch (\<lambda>_. 100) sample_writer sample_batch sample_favored) = Inr
   \<lparr>out_libraries = [], out_items = [], out_albums = [], out_artists = [], out_songs = [], out_remote_mixes = []\<rparr>"
    by code_simp
  show ?thesis
    using local_favorite_survives_batch [OF run_eq [of "write_batch (\<lambda>_. 100) sample_writer sample_batch", OF ok],
        of 1 3 2 "(dynamic_default 2)\<lparr>dy_favorite_at := Some 7\<rparr>"]
    by (simp add: sample_writer_def sample_favored_def sample_sync_defs favorite_changed_after_def find_dynamic_def)
qed

text \<open>C3: the library stays well typed: whatever a provider sends and wherever an operation fails, every row
  keeps an item of its type, and songs, albums and credited artists stay within one library.\<close>

theorem library_stays_typed:
  assumes "typed (sy_db s)"
  shows "typed (sy_db (snd (write_batch jl w b s))) \<and> typed (sy_db (snd (run_batch jl h b s)))
    \<and> typed (sy_db (snd (observe_items h sc refs s))) \<and> typed (sy_db (snd (finalize h s)))"
proof -
  have kept: "typed (sy_db (snd (m s)))" if "types m" for m :: "'a op"
    using that assms by (auto simp: on_db_def triple_def split: prod.splits sum.splits) (metis snd_conv surj_pair sum.exhaust)
  show ?thesis
    using kept [OF types_write_batch] kept [OF types_run_batch] kept [OF types_observe_items] kept [OF types_finalize]
    by blast
qed

theorem library_stays_typed_witness: "typed (sy_db (snd (write_batch (\<lambda>_. 100) sample_writer sample_batch sample_sync)))"
proof -
  have "typed (sy_db sample_sync)"
    by (simp add: typed_def sample_sync_defs item_at_def row_ok_defs)
  from library_stays_typed [OF this] show ?thesis by blast
qed

subsection \<open>Retention\<close>

text \<open>C24: an item is exempt from pruning exactly while some live retention of its provider holds it, however
  retentions are taken and dropped, also in the middle of other operations.\<close>

theorem retained_iff_held:
  assumes "sync_reachable s0 s" and "sy_next_run s0 = 0" and "sy_providers s0 = (\<lambda>_. provider_state_default)"
    and "sy_runs s0 = (\<lambda>_. run_new 0 0 0)" and "sy_retentions s0 = []"
  shows "i \<in> fst ` set (ps_retained (sy_providers s p)) \<longleftrightarrow>
    (\<exists>h rt. (h, rt) \<in> set (sy_retentions s) \<and> rt_owner rt = p \<and> i \<in> set (rt_ids rt))"
proof -
  have "map_of (ps_retained (sy_providers s p)) i = count_of (holders p i (sy_retentions s))"
    using sync_inv(3) [OF assms] by (simp add: counts_ok_def)
  moreover have "i \<in> fst ` set (ps_retained (sy_providers s p)) \<longleftrightarrow> map_of (ps_retained (sy_providers s p)) i \<noteq> None"
    by (simp add: map_of_eq_None_iff)
  ultimately show ?thesis
    by (auto simp: count_of_def holders_def filter_empty_conv split: if_splits) force+
qed

definition sample_retaining :: sync_state where
  "sample_retaining = snd (retain_items 1 [2] (sample_at (run_new 1 1 0)))"

theorem retained_iff_held_witness:
  "1 \<in> fst ` set (ps_retained (sy_providers sample_retaining 1)) \<and> fst (retain_items 1 [2] (sample_at (run_new 1 1 0))) = Inr 1"
proof -
  have "sync_step (sample_at (run_new 1 1 0)) sample_retaining"
    by (rule step_retain [of 1 "[2]" _ "fst (retain_items 1 [2] (sample_at (run_new 1 1 0)))"]) (simp add: sample_retaining_def)
  then have reach: "sync_reachable sample_start sample_retaining" using sample_started_reachable by (rule sync_more [rotated])
  have "map (\<lambda>r. (rt_owner (snd r), rt_ids (snd r))) (sy_retentions sample_retaining) = [(1, [2, 1])]" by code_simp
  then have "(1, [2, 1]) \<in> (\<lambda>r. (rt_owner (snd r), rt_ids (snd r))) ` set (sy_retentions sample_retaining)"
    by (metis list.set_intros(1) list.set_map)
  then obtain z where z: "(1, [2, 1]) = (rt_owner (snd z), rt_ids (snd z))" "z \<in> set (sy_retentions sample_retaining)"
    by (rule imageE)
  have "rt_owner (snd z) = 1" "rt_ids (snd z) = [2, 1]" using z(1) by simp_all
  then have "(fst z, snd z) \<in> set (sy_retentions sample_retaining) \<and> rt_owner (snd z) = 1 \<and> 1 \<in> set (rt_ids (snd z))"
    using z(2) by simp
  then have "\<exists>h rt. (h, rt) \<in> set (sy_retentions sample_retaining) \<and> rt_owner rt = 1 \<and> 1 \<in> set (rt_ids rt)" by blast
  moreover have "fst (retain_items 1 [2] (sample_at (run_new 1 1 0))) = Inr 1" by code_simp
  ultimately show ?thesis using retained_iff_held [OF reach sample_start_fields] by blast
qed

end
