(* ===== verification/Radio.thy ===== *)
theory Radio
  imports Sync_Run Text
begin

section \<open>Radio sessions\<close>

text \<open>
  \<^verbatim>\<open>src/backend/main/src/radio.rs\<close>: continuous queues that a provider opens and continues. A request to open or to
  continue carries an operation id, so that a client that repeats it gets the recorded answer; a session holds
  the version of its page, the state of the provider's queue and the retention of its songs.

  An \<^verbatim>\<open>Arc\<close> is a handle into the heap \<open>rd_heap\<close> (sessions) or \<open>rd_tasks\<close> (operations); the maps of the source are
  the association lists \<open>rd_sessions\<close> and \<open>rd_operations\<close>. An operation runs as one action. What other tasks do
  meanwhile is a schedule of events, as in the theory \<open>Coordinator\<close>: at every \<^verbatim>\<open>await\<close> the next group of them happens, and
  the time limit of an operation may drop it there. The provider is the third party: its answers are functions of the
  calls made so far (\<open>queue_env\<close>), as are fresh identifiers and the syntax of a UUID. The JSON text that the source
  compares as a fingerprint is the value it encodes. Nobody but radio sessions holds retentions, so none is released
  by an event of the coordinator.
\<close>

definition MAX_SESSIONS :: nat where "MAX_SESSIONS = 128"
definition MAX_OPERATIONS :: nat where "MAX_OPERATIONS = 512"
definition SESSION_TTL :: nat where "SESSION_TTL = 30 * 60 * 1000"
definition OPERATION_TTL :: nat where "OPERATION_TTL = 5 * 60 * 1000"
definition MAX_STATE_BYTES :: nat where "MAX_STATE_BYTES = 64 * 1024"

definition EXPIRED :: string where
  "EXPIRED = ''Radio session expired; restart the radio to continue''"
definition CONFLICT :: string where
  "CONFLICT = ''Radio session version or operation conflict''"
definition INCOMPLETE :: string where
  "INCOMPLETE = ''Radio operation did not complete''"

datatype queue_reason = Initial | Reconfigure | Restart

record queue_open_request =
  qo_configuration :: "(string \<times> string) list"
  qo_input :: "(string \<times> item_type) option"
  qo_reason :: queue_reason
  qo_previous :: "string option"

record queue_batch =
  qb_songs :: "song_row list"
  qb_state :: string
  qb_configuration :: "(string \<times> string) list"
  qb_source :: "int option"
  qb_exhausted :: bool

record page =
  pg_session :: string
  pg_version :: nat
  pg_batch :: queue_batch

record target =
  tg_queue :: int
  tg_native :: string
  tg_provider :: nat

record radio_session =
  rs_target :: target
  rs_epoch :: nat
  rs_closed :: bool
  rs_touched :: nat
  rs_data :: page
  rs_locked :: bool
  rs_items :: "nat option"

datatype fingerprint =
    OpenPrint int "int option" string queue_reason "(string \<times> item_type) option" "(string \<times> string) list"
  | NextPrint nat "string list"

record pending_operation =
  op_provider :: nat
  op_epoch :: nat
  op_fingerprint :: fingerprint
  op_created :: nat
  op_result :: "page result option"

datatype provider_call =
    DefinitionCall nat string
  | OpenCall nat string queue_open_request
  | NextCall nat string string "string list"
  | CloseCall nat string string nat

record queue_env =
  en_definition :: "provider_call list \<Rightarrow> (string \<times> string) list result"
  en_open :: "provider_call list \<Rightarrow> queue_batch result"
  en_next :: "provider_call list \<Rightarrow> queue_batch result"
  en_uuid :: "nat \<Rightarrow> string"
  en_uuid_ok :: "string \<Rightarrow> bool"

datatype radio_event =
    Replaced int "nat option"
  | EpochMoved nat
  | StopRequested
  | Removed string
  | Swept
  | Dismissed int
  | Cleaned nat
  | Began string pending_operation
  | Finished nat "page result"
  | Passed nat
  | ClockSet nat
  | TimedOut
  | Synced sync_event

record radio_state =
  rd_sessions :: "(string \<times> nat) list"
  rd_heap :: "nat \<Rightarrow> radio_session"
  rd_next :: nat
  rd_operations :: "(string \<times> nat) list"
  rd_tasks :: "nat \<Rightarrow> pending_operation"
  rd_next_task :: nat
  rd_stopped :: bool
  rd_releasing :: "nat list"
  rd_dropped :: "nat list"
  rd_ids :: "nat \<Rightarrow> int option"
  rd_epochs :: "nat \<Rightarrow> nat"
  rd_registered :: "int \<Rightarrow> nat option"
  rd_now :: nat
  rd_wall :: nat
  rd_uuids :: nat
  rd_log :: "provider_call list"
  rd_timed_out :: bool
  rd_events :: "radio_event list list"
  rd_env :: queue_env
  rd_sync :: sync_state

type_synonym 'a radio = "(radio_state, 'a) act"

definition upd_session :: "nat \<Rightarrow> (radio_session \<Rightarrow> radio_session) \<Rightarrow> radio_state \<Rightarrow> radio_state" where
  "upd_session h f s = s\<lparr>rd_heap := (rd_heap s)(h := f (rd_heap s h))\<rparr>"

definition same_configuration :: "(string \<times> string) list \<Rightarrow> (string \<times> string) list \<Rightarrow> bool" where
  "same_configuration a b \<longleftrightarrow> (\<forall>k \<in> fst ` set (a @ b). map_of a k = map_of b k)"

fun same_fingerprint :: "fingerprint \<Rightarrow> fingerprint \<Rightarrow> bool" where
  "same_fingerprint (OpenPrint q p prev r i c) (OpenPrint q' p' prev' r' i' c') \<longleftrightarrow>
     q = q' \<and> p = p' \<and> prev = prev' \<and> r = r' \<and> i = i' \<and> same_configuration c c'"
| "same_fingerprint (NextPrint v ids) (NextPrint v' ids') \<longleftrightarrow> v = v' \<and> ids = ids'"
| "same_fingerprint _ _ \<longleftrightarrow> False"

subsection \<open>Validity\<close>

text \<open>The provider is still the one registered under its id.\<close>

definition validate_provider :: "radio_state \<Rightarrow> nat \<Rightarrow> bool" where
  "validate_provider s p \<longleftrightarrow>
     (case rd_ids s p of None \<Rightarrow> False | Some i \<Rightarrow> rd_registered s i = Some p)"

definition session_valid :: "radio_session \<Rightarrow> radio_state \<Rightarrow> bool" where
  "session_valid x s \<longleftrightarrow>
     \<not> rd_stopped s \<and> \<not> rs_closed x \<and> rs_epoch x = rd_epochs s (tg_provider (rs_target x))
     \<and> validate_provider s (tg_provider (rs_target x))"

definition valid_at :: "nat \<Rightarrow> radio_state \<Rightarrow> bool" where
  "valid_at h s \<longleftrightarrow> session_valid (rd_heap s h) s"

subsection \<open>Releasing\<close>

text \<open>
  \<^verbatim>\<open>release\<close> in its two parts: the swap of \<open>closed\<close> decides who closes the queue; the call to the provider waits for the
  lock on the page, so that it carries the state a running \<^verbatim>\<open>next\<close> leaves.
\<close>

definition begin_release :: "nat \<Rightarrow> radio_state \<Rightarrow> radio_state" where
  "begin_release h s =
     (if rs_closed (rd_heap s h) then s
      else upd_session h (\<lambda>x. x\<lparr>rs_closed := True\<rparr>) (s\<lparr>rd_releasing := h # rd_releasing s\<rparr>))"

definition drop_items :: "nat \<Rightarrow> radio_state \<Rightarrow> radio_state" where
  "drop_items h s =
     (case rs_items (rd_heap s h) of
        None \<Rightarrow> s
      | Some i \<Rightarrow> upd_session h (\<lambda>x. x\<lparr>rs_items := None\<rparr>) (s\<lparr>rd_sync := drop_retention i (rd_sync s)\<rparr>))"

definition close_call :: "nat \<Rightarrow> radio_state \<Rightarrow> provider_call" where
  "close_call h s = (let x = rd_heap s h in
     CloseCall (tg_provider (rs_target x)) (tg_native (rs_target x)) (qb_state (pg_batch (rs_data x))) h)"

definition end_release :: "nat \<Rightarrow> radio_state \<Rightarrow> radio_state" where
  "end_release h s =
     (if h \<in> set (rd_releasing s) \<and> \<not> rs_locked (rd_heap s h)
      then drop_items h (s\<lparr>rd_log := close_call h s # rd_log s, rd_releasing := filter (\<lambda>i. i \<noteq> h) (rd_releasing s)\<rparr>)
      else s)"

definition take_session :: "string \<Rightarrow> radio_state \<Rightarrow> radio_state" where
  "take_session i s =
     (case map_of (rd_sessions s) i of
        None \<Rightarrow> s
      | Some h \<Rightarrow> begin_release h (s\<lparr>rd_sessions := AList.delete i (rd_sessions s)\<rparr>))"

definition take_sessions :: "(nat \<Rightarrow> radio_state \<Rightarrow> bool) \<Rightarrow> radio_state \<Rightarrow> radio_state" where
  "take_sessions p s = fold take_session (map fst (filter (\<lambda>r. p (snd r) s) (rd_sessions s))) s"

definition idle_or_invalid :: "nat \<Rightarrow> radio_state \<Rightarrow> bool" where
  "idle_or_invalid h s \<longleftrightarrow> \<not> valid_at h s \<or> SESSION_TTL \<le> rd_now s - rs_touched (rd_heap s h)"

definition owned_by :: "int \<Rightarrow> nat \<Rightarrow> radio_state \<Rightarrow> bool" where
  "owned_by i h s \<longleftrightarrow> rd_ids s (tg_provider (rs_target (rd_heap s h))) = Some i"

definition purge_operations :: "radio_state \<Rightarrow> radio_state" where
  "purge_operations s = s\<lparr>rd_operations := filter (\<lambda>r. let t = rd_tasks s (snd r) in
     rd_now s - op_created t < OPERATION_TTL \<or> op_result t = None) (rd_operations s)\<rparr>"

definition add_operation :: "string \<Rightarrow> pending_operation \<Rightarrow> radio_state \<Rightarrow> radio_state" where
  "add_operation key t s = s\<lparr>rd_tasks := (rd_tasks s)(rd_next_task s := t), rd_next_task := rd_next_task s + 1,
     rd_operations := AList.update key (rd_next_task s) (rd_operations s)\<rparr>"

definition send_result :: "nat \<Rightarrow> page result \<Rightarrow> radio_state \<Rightarrow> radio_state" where
  "send_result t r s = s\<lparr>rd_tasks := (rd_tasks s)(t := (rd_tasks s t)\<lparr>op_result := Some r\<rparr>)\<rparr>"

subsection \<open>What happens at an \<^verbatim>\<open>await\<close>\<close>

definition radio_happen :: "radio_event \<Rightarrow> radio_state \<Rightarrow> radio_state" where
  "radio_happen e s = (case e of
      Replaced i p \<Rightarrow> s\<lparr>rd_registered := (rd_registered s)(i := p)\<rparr>
    | EpochMoved p \<Rightarrow> s\<lparr>rd_epochs := (rd_epochs s)(p := rd_epochs s p + 1)\<rparr>
    | StopRequested \<Rightarrow> s\<lparr>rd_stopped := True\<rparr>
    | Removed i \<Rightarrow> take_session i s
    | Swept \<Rightarrow> purge_operations (take_sessions idle_or_invalid s)
    | Dismissed i \<Rightarrow> take_sessions (owned_by i) s
    | Cleaned h \<Rightarrow> end_release h s
    | Began key t \<Rightarrow> if map_of (rd_operations s) key = None \<and> length (rd_operations s) < MAX_OPERATIONS
        then add_operation key (t\<lparr>op_created := rd_now s, op_result := None\<rparr>) s else s
    | Finished t r \<Rightarrow> if t < rd_next_task s \<and> op_result (rd_tasks s t) = None then send_result t r s else s
    | Passed n \<Rightarrow> s\<lparr>rd_now := rd_now s + n, rd_wall := rd_wall s + n\<rparr>
    | ClockSet n \<Rightarrow> s\<lparr>rd_wall := n\<rparr>
    | TimedOut \<Rightarrow> s\<lparr>rd_timed_out := True\<rparr>
    | Synced e \<Rightarrow> (case e of Released _ \<Rightarrow> s | _ \<Rightarrow> s\<lparr>rd_sync := happen e (rd_sync s)\<rparr>))"

definition radio_preempt :: "unit radio" where
  "radio_preempt = modify (\<lambda>s. case rd_events s of
      [] \<Rightarrow> s
    | es # rest \<Rightarrow> fold radio_happen es (s\<lparr>rd_events := rest\<rparr>))"

text \<open>An \<^verbatim>\<open>await\<close> inside an operation: the time limit may end the operation there.\<close>

definition awaits :: "unit radio" where
  "awaits = bnd radio_preempt (\<lambda>_. bnd (gets rd_timed_out) (\<lambda>b. require (\<not> b) INCOMPLETE))"

text \<open>A result that the source keeps in a variable; a dropped operation gets no further.\<close>

definition guarded :: "'a radio \<Rightarrow> 'a result radio" where
  "guarded m = bnd (attempt m) (\<lambda>r. bnd (gets rd_timed_out) (\<lambda>b. bnd (require (\<not> b) INCOMPLETE) (\<lambda>_. ret r)))"

definition on_sync :: "'a op \<Rightarrow> 'a radio" where
  "on_sync m s = (case m (rd_sync s) of (r, y) \<Rightarrow> (r, s\<lparr>rd_sync := y\<rparr>))"

definition call_provider :: "provider_call \<Rightarrow> (queue_env \<Rightarrow> provider_call list \<Rightarrow> 'a result) \<Rightarrow> 'a radio" where
  "call_provider c f =
     bnd (modify (\<lambda>s. s\<lparr>rd_log := c # rd_log s\<rparr>)) (\<lambda>_.
     bnd (gets (\<lambda>s. f (rd_env s) (rd_log s))) (\<lambda>r.
     bnd awaits (\<lambda>_.
     lift r)))"

definition new_session_id :: "string radio" where
  "new_session_id =
     bnd (gets (\<lambda>s. en_uuid (rd_env s) (rd_uuids s))) (\<lambda>i.
     bnd (modify (\<lambda>s. s\<lparr>rd_uuids := rd_uuids s + 1\<rparr>)) (\<lambda>_. ret i))"

end
