(* ===== verification/Radio_Sessions.thy ===== *)
theory Radio_Sessions
  imports Radio
begin

section \<open>Opening and continuing a radio\<close>

text \<open>The methods of \<^verbatim>\<open>RadioSessions\<close>. \<open>WAITING\<close> is not an error of the source: it says that the schedule ended while
  the caller was still waiting for the operation of somebody else.\<close>

definition WAITING :: string where "WAITING = ''still waiting''"

subsection \<open>Checks\<close>

fun parse_below :: "nat \<Rightarrow> nat \<Rightarrow> string \<Rightarrow> nat option" where
  "parse_below bound acc [] = Some acc"
| "parse_below bound acc (c # cs) =
     (case char_digit c of
        None \<Rightarrow> None
      | Some d \<Rightarrow> if acc * 10 + d < bound then parse_below bound (acc * 10 + d) cs else None)"

definition parse_u128 :: "string \<Rightarrow> nat option" where
  "parse_u128 s = (let t = (case s of c # cs \<Rightarrow> if c = CHR ''+'' then cs else s | [] \<Rightarrow> []) in
     if t = [] then None else parse_below (2 ^ 128) 0 t)"

definition check_operation_id :: "string \<Rightarrow> unit radio" where
  "check_operation_id i =
     bnd (lift (ok_or (split_once CHR '':'' i) ''Invalid radio operation ID'')) (\<lambda>parts.
     bnd (gets rd_env) (\<lambda>env.
     bnd (require (en_uuid_ok env (snd parts)) ''Invalid radio operation ID'') (\<lambda>_.
     bnd (lift (ok_or (parse_u128 (fst parts)) ''Invalid radio operation timestamp'')) (\<lambda>timestamp.
     bnd (gets rd_wall) (\<lambda>now.
     require (timestamp \<le> now + 30000 \<and> now - timestamp < OPERATION_TTL) EXPIRED)))))"

definition validate_queue :: "queue_batch \<Rightarrow> bool \<Rightarrow> unit result" where
  "validate_queue b opening =
     and_then (ensure (length (qb_state b) \<le> MAX_STATE_BYTES) ''Radio state exceeds 64 KiB'') (\<lambda>_.
     and_then (ensure (\<forall>m \<in> set (qb_songs b). 0 < so_id m) ''Radio returned unsynchronized songs'') (\<lambda>_.
     ensure (opening \<longrightarrow> (\<exists>m \<in> set (qb_songs b). so_can_play m)) ''Radio returned no playable songs''))"

definition find_session :: "string \<Rightarrow> target \<Rightarrow> nat radio" where
  "find_session i t =
     bnd radio_preempt (\<lambda>_.
     bnd (gets (\<lambda>s. map_of (rd_sessions s) i)) (\<lambda>found.
     bnd (lift (ok_or found EXPIRED)) (\<lambda>h.
     bnd (gets (\<lambda>s. valid_at h s \<and> tg_queue (rs_target (rd_heap s h)) = tg_queue t
            \<and> tg_provider (rs_target (rd_heap s h)) = tg_provider t)) (\<lambda>ok.
     bnd (require ok EXPIRED) (\<lambda>_.
     bnd (modify (\<lambda>s. upd_session h (\<lambda>x. x\<lparr>rs_touched := rd_now s\<rparr>) s)) (\<lambda>_.
     ret h))))))"

definition require_valid :: "nat \<Rightarrow> unit radio" where
  "require_valid h = bnd (gets (valid_at h)) (\<lambda>b. require b EXPIRED)"

definition batch_items :: "queue_batch \<Rightarrow> int list \<Rightarrow> int list" where
  "batch_items b ids = ids @ map so_id (qb_songs b) @ (case qb_source b of None \<Rightarrow> [] | Some i \<Rightarrow> [i])"

definition retain_batch :: "target \<Rightarrow> queue_batch \<Rightarrow> int list \<Rightarrow> nat radio" where
  "retain_batch t b ids =
     bnd (gets (\<lambda>s. rd_ids s (tg_provider t))) (\<lambda>p.
     bnd (lift (ok_or p EXPIRED)) (\<lambda>p.
     bnd awaits (\<lambda>_.
     on_sync (retain_items p (batch_items b ids)))))"

definition drop_retained :: "nat \<Rightarrow> unit radio" where
  "drop_retained i = modify (\<lambda>s. s\<lparr>rd_sync := drop_retention i (rd_sync s)\<rparr>)"

subsection \<open>Operations\<close>

primrec await_result :: "nat \<Rightarrow> nat \<Rightarrow> page result radio" where
  "await_result 0 t = bnd (gets (\<lambda>s. op_result (rd_tasks s t))) (\<lambda>r. lift (ok_or r WAITING))"
| "await_result (Suc n) t =
     bnd (gets (\<lambda>s. op_result (rd_tasks s t))) (\<lambda>r.
       case r of
         Some x \<Rightarrow> ret x
       | None \<Rightarrow> bnd radio_preempt (\<lambda>_. await_result n t))"

text \<open>
  The admission of an operation under the lock of the map: an operation with the same key is joined if it is the same
  request to the same provider, otherwise a new one is registered.
\<close>

definition join_or_insert :: "string \<Rightarrow> fingerprint \<Rightarrow> nat \<Rightarrow> (nat \<times> bool) radio" where
  "join_or_insert key print p =
     bnd (modify purge_operations) (\<lambda>_.
     bnd (gets (\<lambda>s. map_of (rd_operations s) key)) (\<lambda>found.
       case found of
         Some t \<Rightarrow>
           bnd (gets (\<lambda>s. rd_tasks s t)) (\<lambda>task.
           bnd (gets (\<lambda>s. rd_epochs s p)) (\<lambda>epoch.
           bnd (require (op_provider task = p \<and> op_epoch task = epoch) EXPIRED) (\<lambda>_.
           bnd (require (same_fingerprint (op_fingerprint task) print) CONFLICT) (\<lambda>_.
           ret (t, False)))))
       | None \<Rightarrow>
           bnd (gets (\<lambda>s. length (rd_operations s))) (\<lambda>n.
           bnd (require (n < MAX_OPERATIONS) ''Too many pending radio operations'') (\<lambda>_.
           bnd (gets rd_next_task) (\<lambda>t.
           bnd (modify (\<lambda>s. add_operation key \<lparr>op_provider = p, op_epoch = rd_epochs s p, op_fingerprint = print,
              op_created = rd_now s, op_result = None\<rparr> s)) (\<lambda>_.
           ret (t, True)))))))"

text \<open>The spawned task: it starts with its own time limit and records what it returns.\<close>

definition run_task :: "nat \<Rightarrow> page radio \<Rightarrow> unit radio" where
  "run_task t run =
     bnd (modify (\<lambda>s. s\<lparr>rd_timed_out := False\<rparr>)) (\<lambda>_.
     bnd (attempt run) (\<lambda>r.
     modify (send_result t r)))"

definition operation :: "string \<Rightarrow> fingerprint \<Rightarrow> nat \<Rightarrow> page radio \<Rightarrow> page radio" where
  "operation key print p run =
     bnd radio_preempt (\<lambda>_.
     bnd (gets (\<lambda>s. \<not> rd_stopped s \<and> validate_provider s p)) (\<lambda>ok.
     bnd (require ok EXPIRED) (\<lambda>_.
     bnd (join_or_insert key print p) (\<lambda>task.
     bnd (if snd task then run_task (fst task) run else ret ()) (\<lambda>_.
     bnd (gets (\<lambda>s. length (rd_events s))) (\<lambda>n.
     bnd (await_result n (fst task)) (\<lambda>r.
     bnd (gets (\<lambda>s. op_epoch (rd_tasks s (fst task)) = rd_epochs s (op_provider (rd_tasks s (fst task)))
            \<and> validate_provider s (op_provider (rd_tasks s (fst task))))) (\<lambda>current.
     bnd (require current EXPIRED) (\<lambda>_.
     lift r)))))))))"

subsection \<open>open\<close>

definition with_defaults :: "(string \<times> string) list \<Rightarrow> (string \<times> string) list \<Rightarrow> (string \<times> string) list" where
  "with_defaults definition =
     (\<lambda>c. fold (\<lambda>f c. if map_of c (fst f) = None then c @ [f] else c) definition c)"

definition previous_state :: "string \<Rightarrow> target \<Rightarrow> string option radio" where
  "previous_state previous t =
     (if previous = [] then ret None
      else
        bnd (find_session previous t) (\<lambda>h.
        bnd awaits (\<lambda>_.
        bnd (require_valid h) (\<lambda>_.
        gets (\<lambda>s. Some (qb_state (pg_batch (rs_data (rd_heap s h)))))))))"

definition new_session :: "target \<Rightarrow> nat \<Rightarrow> queue_batch \<Rightarrow> nat radio" where
  "new_session t epoch b =
     bnd new_session_id (\<lambda>i.
     bnd (gets rd_next) (\<lambda>h.
     bnd (modify (\<lambda>s. upd_session h (\<lambda>_. \<lparr>rs_target = t, rs_epoch = epoch, rs_closed = False, rs_touched = rd_now s,
        rs_data = \<lparr>pg_session = i, pg_version = 1, pg_batch = b\<rparr>, rs_locked = False, rs_items = None\<rparr>)
        (s\<lparr>rd_next := rd_next s + 1\<rparr>))) (\<lambda>_.
     ret h)))"

text \<open>A session that is dropped before anybody holds it gives its retention back, but closes nothing.\<close>

definition admit_items :: "nat \<Rightarrow> target \<Rightarrow> queue_batch \<Rightarrow> unit radio" where
  "admit_items h t b =
     bnd (lift (validate_queue b True)) (\<lambda>_.
     bnd (retain_batch t b []) (\<lambda>i.
     modify (upd_session h (\<lambda>x. x\<lparr>rs_items := Some i\<rparr>))))"

definition abandon :: "nat \<Rightarrow> 'a radio \<Rightarrow> 'a radio" where
  "abandon h m = bnd (attempt m) (\<lambda>r.
     bnd (if is_err r then modify (\<lambda>s. drop_items h (s\<lparr>rd_dropped := h # rd_dropped s\<rparr>)) else ret ()) (\<lambda>_.
     lift r))"

definition insert_session :: "nat \<Rightarrow> bool \<Rightarrow> bool radio" where
  "insert_session h validated =
     bnd radio_preempt (\<lambda>_.
     bnd (gets (\<lambda>s. validated \<and> valid_at h s \<and> length (rd_sessions s) < MAX_SESSIONS)) (\<lambda>ok.
     bnd (if ok
          then modify (\<lambda>s. s\<lparr>rd_sessions := AList.update (pg_session (rs_data (rd_heap s h))) h (rd_sessions s)\<rparr>)
          else ret ()) (\<lambda>_.
     ret ok)))"

definition release_now :: "nat \<Rightarrow> unit radio" where
  "release_now h =
     bnd (modify (begin_release h)) (\<lambda>_.
     bnd radio_preempt (\<lambda>_.
     modify (end_release h)))"

definition open_task :: "target \<Rightarrow> string \<Rightarrow> queue_open_request \<Rightarrow> page radio" where
  "open_task t previous req =
     bnd (gets (\<lambda>s. \<not> rd_stopped s \<and> validate_provider s (tg_provider t))) (\<lambda>ok.
     bnd (require ok EXPIRED) (\<lambda>_.
     bnd (gets (\<lambda>s. rd_epochs s (tg_provider t))) (\<lambda>epoch.
     bnd (previous_state previous t) (\<lambda>state.
     bnd (call_provider (DefinitionCall (tg_provider t) (tg_native t)) en_definition) (\<lambda>definition.
     let req = req\<lparr>qo_previous := state, qo_configuration := with_defaults definition (qo_configuration req)\<rparr> in
     bnd (call_provider (OpenCall (tg_provider t) (tg_native t) req) en_open) (\<lambda>b.
     bnd (new_session t epoch b) (\<lambda>h.
     bnd (abandon h (guarded (admit_items h t b))) (\<lambda>validation.
     bnd (insert_session h (\<not> is_err validation)) (\<lambda>inserted.
     if inserted then gets (\<lambda>s. rs_data (rd_heap s h))
     else
       bnd (gets (valid_at h)) (\<lambda>valid.
       bnd (release_now h) (\<lambda>_.
       bnd (lift validation) (\<lambda>_.
       bnd (require valid EXPIRED) (\<lambda>_.
       raise ''Too many radio sessions'')))))))))))))"

definition radio_open :: "target \<Rightarrow> string \<Rightarrow> string \<Rightarrow> queue_open_request \<Rightarrow> page radio" where
  "radio_open t op_id previous req =
     bnd (check_operation_id op_id) (\<lambda>_.
     bnd (gets (\<lambda>s. OpenPrint (tg_queue t) (rd_ids s (tg_provider t)) previous (qo_reason req) (qo_input req)
        (qo_configuration req))) (\<lambda>print.
     bnd (operation (''open/'' @ op_id) print (tg_provider t) (open_task t previous (req\<lparr>qo_previous := None\<rparr>))) (\<lambda>page.
     bnd radio_preempt (\<lambda>_.
     bnd (gets (\<lambda>s. case map_of (rd_sessions s) (pg_session page) of None \<Rightarrow> False | Some h \<Rightarrow> valid_at h s)) (\<lambda>live.
     bnd (require live EXPIRED) (\<lambda>_.
     ret page))))))"

subsection \<open>next\<close>

text \<open>The songs of the current queue that the session retains already.\<close>

definition kept_songs :: "nat \<Rightarrow> string list \<Rightarrow> radio_state \<Rightarrow> int list" where
  "kept_songs h current s =
     (case rs_items (rd_heap s h) of
        None \<Rightarrow> []
      | Some i \<Rightarrow> (case map_of (sy_retentions (rd_sync s)) i of
            None \<Rightarrow> []
          | Some rt \<Rightarrow> map it_id (filter (\<lambda>it. it_type it = Song \<and> it_native it \<in> set current) (rt_roots rt))))"

definition set_state :: "nat \<Rightarrow> string \<Rightarrow> unit radio" where
  "set_state h state = modify (upd_session h (\<lambda>x. x\<lparr>rs_data := (rs_data x)\<lparr>pg_batch := (pg_batch (rs_data x))\<lparr>qb_state := state\<rparr>\<rparr>\<rparr>))"

definition replace_page :: "nat \<Rightarrow> queue_batch \<Rightarrow> nat \<Rightarrow> unit radio" where
  "replace_page h b i =
     bnd (modify (drop_items h)) (\<lambda>_.
     modify (upd_session h (\<lambda>x. x\<lparr>rs_items := Some i, rs_data := (rs_data x)\<lparr>pg_version := (pg_version (rs_data x) + 1) mod 2 ^ 64,
        pg_batch := b\<rparr>\<rparr>)))"

definition next_locked :: "nat \<Rightarrow> target \<Rightarrow> nat \<Rightarrow> string list \<Rightarrow> page radio" where
  "next_locked h t expected current =
     bnd (require_valid h) (\<lambda>_.
     bnd (gets (\<lambda>s. rs_data (rd_heap s h))) (\<lambda>page.
     bnd (require (pg_version page = expected) CONFLICT) (\<lambda>_.
     bnd (require (\<not> qb_exhausted (pg_batch page)) ''Radio has ended'') (\<lambda>_.
     bnd (gets (kept_songs h current)) (\<lambda>retained.
     bnd (call_provider (NextCall (tg_provider t) (tg_native t) (qb_state (pg_batch page)) current) en_next) (\<lambda>b.
     bnd (gets (valid_at h)) (\<lambda>valid.
     if \<not> valid then bnd (set_state h (qb_state b)) (\<lambda>_. raise EXPIRED)
     else
       bnd (lift (validate_queue b False)) (\<lambda>_.
       bnd (require (same_configuration (qb_configuration b) (qb_configuration (pg_batch page)))
              ''Radio configuration changed during continuation'') (\<lambda>_.
       bnd (retain_batch t b retained) (\<lambda>i.
       bnd radio_preempt (\<lambda>_.
       bnd (gets (valid_at h)) (\<lambda>valid.
       if \<not> valid then bnd (set_state h (qb_state b)) (\<lambda>_. bnd (drop_retained i) (\<lambda>_. raise EXPIRED))
       else
         bnd (replace_page h b i) (\<lambda>_.
         gets (\<lambda>s. rs_data (rd_heap s h)))))))))))))))"

definition next_task :: "nat \<Rightarrow> target \<Rightarrow> nat \<Rightarrow> string list \<Rightarrow> page radio" where
  "next_task h t expected current =
     bnd awaits (\<lambda>_.
     bnd (modify (upd_session h (\<lambda>x. x\<lparr>rs_locked := True\<rparr>))) (\<lambda>_.
     bnd (attempt (next_locked h t expected current)) (\<lambda>r.
     bnd (modify (upd_session h (\<lambda>x. x\<lparr>rs_locked := False\<rparr>))) (\<lambda>_.
     lift r))))"

definition radio_next :: "target \<Rightarrow> string \<Rightarrow> string \<Rightarrow> nat \<Rightarrow> string list \<Rightarrow> page radio" where
  "radio_next t i op_id expected current =
     bnd (check_operation_id op_id) (\<lambda>_.
     bnd (find_session i t) (\<lambda>h.
     bnd (operation (''next/'' @ i @ ''/'' @ op_id) (NextPrint expected current) (tg_provider t)
            (next_task h t expected current)) (\<lambda>page.
     bnd (find_session i t) (\<lambda>_.
     ret page))))"

subsection \<open>Closing\<close>

definition release_all :: "nat list \<Rightarrow> unit radio" where
  "release_all hs = for_each hs (\<lambda>h. bnd radio_preempt (\<lambda>_. modify (end_release h)))"

definition radio_close :: "string \<Rightarrow> unit radio" where
  "radio_close i =
     bnd (gets (\<lambda>s. map_of (rd_sessions s) i)) (\<lambda>found.
     bnd (modify (take_session i)) (\<lambda>_.
     release_all (case found of None \<Rightarrow> [] | Some h \<Rightarrow> [h])))"

definition collect :: "unit radio" where
  "collect =
     bnd (gets (\<lambda>s. map snd (filter (\<lambda>r. idle_or_invalid (snd r) s) (rd_sessions s)))) (\<lambda>hs.
     bnd (modify (take_sessions idle_or_invalid)) (\<lambda>_.
     bnd (release_all hs) (\<lambda>_.
     modify purge_operations)))"

definition invalidate_provider :: "int \<Rightarrow> unit radio" where
  "invalidate_provider p =
     bnd (gets (\<lambda>s. map snd (filter (\<lambda>r. owned_by p (snd r) s) (rd_sessions s)))) (\<lambda>hs.
     bnd (modify (take_sessions (owned_by p))) (\<lambda>_.
     release_all hs))"

definition shutdown :: "unit radio" where
  "shutdown = bnd (modify (\<lambda>s. s\<lparr>rd_stopped := True\<rparr>)) (\<lambda>_. collect)"

end
