(* ===== verification/Radio_Machine.thy ===== *)
theory Radio_Machine
  imports Radio_Sessions Retention "HOL-Library.Multiset"
begin

section \<open>The radio service as a state machine\<close>

inductive radio_step :: "radio_state \<Rightarrow> radio_state \<Rightarrow> bool" where
  radio_schedule: "radio_step s (s\<lparr>rd_events := es\<rparr>)"
| radio_event: "radio_step s (radio_happen e s)"
| radio_opens: "radio_open t i prev req s = (r, s') \<Longrightarrow> radio_step s s'"
| radio_continues: "radio_next t i op v ids s = (r, s') \<Longrightarrow> radio_step s s'"
| radio_closes: "radio_close i s = (u, s') \<Longrightarrow> radio_step s s'"
| radio_collects: "collect s = (u, s') \<Longrightarrow> radio_step s s'"
| radio_invalidates: "invalidate_provider p s = (u, s') \<Longrightarrow> radio_step s s'"
| radio_stops: "shutdown s = (u, s') \<Longrightarrow> radio_step s s'"
| radio_syncs: "sync_step (rd_sync s) y \<Longrightarrow> sy_retentions y = sy_retentions (rd_sync s) \<Longrightarrow>
    radio_step s (s\<lparr>rd_sync := y\<rparr>)"

inductive radio_reachable :: "radio_state \<Rightarrow> radio_state \<Rightarrow> bool" for s0 where
  radio_start: "radio_reachable s0 s0"
| radio_more: "radio_reachable s0 s \<Longrightarrow> radio_step s s' \<Longrightarrow> radio_reachable s0 s'"

subsection \<open>Every opened queue is accounted for\<close>

text \<open>
  A handle below \<open>rd_next\<close> stands for a queue that the provider has opened. It is in the table, on its way to being
  closed, closed, dropped by the time limit, or in the hands of a running \<^verbatim>\<open>open\<close> (\<open>F\<close>), and in exactly one of these places
  exactly once.
\<close>

definition closed_handles :: "provider_call list \<Rightarrow> nat list" where
  "closed_handles = List.map_filter (\<lambda>c. case c of CloseCall _ _ _ h \<Rightarrow> Some h | _ \<Rightarrow> None)"

lemma closed_handles_simps [simp]:
  "closed_handles [] = []" "closed_handles (CloseCall p n st h # cs) = h # closed_handles cs"
  "closed_handles (DefinitionCall p n # cs) = closed_handles cs"
  "closed_handles (OpenCall p n req # cs) = closed_handles cs"
  "closed_handles (NextCall p n st ids # cs) = closed_handles cs"
  by (simp_all add: closed_handles_def List.map_filter_def)

definition accounted :: "nat list \<Rightarrow> radio_state \<Rightarrow> bool" where
  "accounted F s \<longleftrightarrow>
     mset (map snd (rd_sessions s)) + mset (rd_releasing s) + mset (closed_handles (rd_log s)) + mset (rd_dropped s)
       + mset F = mset [0..<rd_next s]
     \<and> (\<forall>h \<in> snd ` set (rd_sessions s) \<union> set F. \<not> rs_closed (rd_heap s h))
     \<and> distinct (map fst (rd_sessions s))
     \<and> (\<forall>r \<in> set (rd_sessions s). fst r = en_uuid (rd_env s) (snd r))
     \<and> (\<forall>h < rd_next s. pg_session (rs_data (rd_heap s h)) = en_uuid (rd_env s) h)
     \<and> rd_uuids s = rd_next s \<and> inj (en_uuid (rd_env s))"

definition holds_items :: "nat \<Rightarrow> nat \<Rightarrow> queue_batch \<Rightarrow> radio_state \<Rightarrow> bool" where
  "holds_items i p b s \<longleftrightarrow> (\<exists>rt. map_of (sy_retentions (rd_sync s)) i = Some rt \<and> rd_ids s p = Some (rt_owner rt)
     \<and> set (batch_items b []) \<subseteq> set (rt_ids rt))"

definition items_free :: "nat \<Rightarrow> radio_state \<Rightarrow> bool" where
  "items_free i s \<longleftrightarrow> (\<forall>h < rd_next s. rs_items (rd_heap s h) \<noteq> Some i)"

definition slots_hold :: "radio_state \<Rightarrow> bool" where
  "slots_hold s \<longleftrightarrow> (\<forall>h < rd_next s. \<forall>i. rs_items (rd_heap s h) = Some i \<longrightarrow>
     holds_items i (tg_provider (rs_target (rd_heap s h))) (pg_batch (rs_data (rd_heap s h))) s)"

definition slots_unique :: "radio_state \<Rightarrow> bool" where
  "slots_unique s \<longleftrightarrow> (\<forall>h < rd_next s. \<forall>k < rd_next s. \<forall>i.
     rs_items (rd_heap s h) = Some i \<longrightarrow> rs_items (rd_heap s k) = Some i \<longrightarrow> h = k)"

definition items_ok :: "radio_state \<Rightarrow> bool" where
  "items_ok s \<longleftrightarrow> counts_ok (rd_sync s) \<and> slots_hold s \<and> slots_unique s
     \<and> (\<forall>r \<in> set (rd_sessions s). rs_items (rd_heap s (snd r)) \<noteq> None)"

lemma items_okI:
  assumes "counts_ok (rd_sync s)"
    and "\<And>h i. h < rd_next s \<Longrightarrow> rs_items (rd_heap s h) = Some i \<Longrightarrow>
        holds_items i (tg_provider (rs_target (rd_heap s h))) (pg_batch (rs_data (rd_heap s h))) s"
    and "\<And>h k i. h < rd_next s \<Longrightarrow> k < rd_next s \<Longrightarrow> rs_items (rd_heap s h) = Some i \<Longrightarrow> rs_items (rd_heap s k) = Some i
        \<Longrightarrow> h = k"
    and "\<And>j h. (j, h) \<in> set (rd_sessions s) \<Longrightarrow> rs_items (rd_heap s h) \<noteq> None"
  shows "items_ok s"
  unfolding items_ok_def slots_hold_def slots_unique_def using assms by auto

lemma items_okD:
  assumes "items_ok s"
  shows "counts_ok (rd_sync s)"
    and "h < rd_next s \<Longrightarrow> rs_items (rd_heap s h) = Some i \<Longrightarrow>
        holds_items i (tg_provider (rs_target (rd_heap s h))) (pg_batch (rs_data (rd_heap s h))) s"
    and "h < rd_next s \<Longrightarrow> k < rd_next s \<Longrightarrow> rs_items (rd_heap s h) = Some i \<Longrightarrow> rs_items (rd_heap s k) = Some i
        \<Longrightarrow> h = k"
    and "(j, h) \<in> set (rd_sessions s) \<Longrightarrow> rs_items (rd_heap s h) \<noteq> None"
  using assms unfolding items_ok_def slots_hold_def slots_unique_def by fastforce+

lemma items_ok_cong:
  assumes ok: "items_ok s" and "counts_ok (rd_sync t)" "sy_retentions (rd_sync t) = sy_retentions (rd_sync s)"
    "rd_next t = rd_next s" "rd_ids t = rd_ids s" "set (rd_sessions t) \<subseteq> set (rd_sessions s)"
    and heap: "\<And>h. rs_items (rd_heap t h) = rs_items (rd_heap s h) \<and> rs_target (rd_heap t h) = rs_target (rd_heap s h)
      \<and> qb_songs (pg_batch (rs_data (rd_heap t h))) = qb_songs (pg_batch (rs_data (rd_heap s h)))
      \<and> qb_source (pg_batch (rs_data (rd_heap t h))) = qb_source (pg_batch (rs_data (rd_heap s h)))"
  shows "items_ok t"
proof (rule items_okI)
  fix h i assume "h < rd_next t" "rs_items (rd_heap t h) = Some i"
  then have "holds_items i (tg_provider (rs_target (rd_heap s h))) (pg_batch (rs_data (rd_heap s h))) s"
    using assms by (intro items_okD(2) [OF ok]) simp_all
  then show "holds_items i (tg_provider (rs_target (rd_heap t h))) (pg_batch (rs_data (rd_heap t h))) t"
    using assms by (simp add: holds_items_def batch_items_def)
next
  fix h k i assume "h < rd_next t" "k < rd_next t" "rs_items (rd_heap t h) = Some i" "rs_items (rd_heap t k) = Some i"
  then show "h = k" using assms items_okD(3) [OF ok, of h k i] by simp
next
  fix j h assume "(j, h) \<in> set (rd_sessions t)"
  then show "rs_items (rd_heap t h) \<noteq> None" using assms items_okD(4) [OF ok, of j h] by auto
qed fact

definition within_limits :: "radio_state \<Rightarrow> bool" where
  "within_limits s \<longleftrightarrow> length (rd_sessions s) \<le> MAX_SESSIONS \<and> length (rd_operations s) \<le> MAX_OPERATIONS"

definition radio_ok :: "nat list \<Rightarrow> radio_state \<Rightarrow> bool" where
  "radio_ok F s \<longleftrightarrow> accounted F s \<and> items_ok s \<and> within_limits s"

subsection \<open>Changes that no invariant sees\<close>

definition quiet :: "radio_state \<Rightarrow> radio_state \<Rightarrow> bool" where
  "quiet s t \<longleftrightarrow> rd_sessions t = rd_sessions s \<and> rd_next t = rd_next s \<and> rd_releasing t = rd_releasing s
     \<and> rd_dropped t = rd_dropped s \<and> rd_uuids t = rd_uuids s \<and> rd_env t = rd_env s \<and> rd_ids t = rd_ids s
     \<and> rd_sync t = rd_sync s \<and> closed_handles (rd_log t) = closed_handles (rd_log s)
     \<and> length (rd_operations t) \<le> max MAX_OPERATIONS (length (rd_operations s))
     \<and> (\<forall>h. rs_closed (rd_heap t h) = rs_closed (rd_heap s h) \<and> rs_target (rd_heap t h) = rs_target (rd_heap s h)
          \<and> rs_items (rd_heap t h) = rs_items (rd_heap s h)
          \<and> pg_session (rs_data (rd_heap t h)) = pg_session (rs_data (rd_heap s h))
          \<and> pg_version (rs_data (rd_heap t h)) = pg_version (rs_data (rd_heap s h))
          \<and> qb_songs (pg_batch (rs_data (rd_heap t h))) = qb_songs (pg_batch (rs_data (rd_heap s h)))
          \<and> qb_source (pg_batch (rs_data (rd_heap t h))) = qb_source (pg_batch (rs_data (rd_heap s h))))"

lemma upd_session_simps [simp]:
  "rd_heap (upd_session h f s) k = (if k = h then f (rd_heap s h) else rd_heap s k)"
  "rd_sessions (upd_session h f s) = rd_sessions s" "rd_next (upd_session h f s) = rd_next s"
  "rd_releasing (upd_session h f s) = rd_releasing s" "rd_dropped (upd_session h f s) = rd_dropped s"
  "rd_uuids (upd_session h f s) = rd_uuids s" "rd_env (upd_session h f s) = rd_env s"
  "rd_ids (upd_session h f s) = rd_ids s" "rd_sync (upd_session h f s) = rd_sync s"
  "rd_log (upd_session h f s) = rd_log s" "rd_operations (upd_session h f s) = rd_operations s"
  "rd_tasks (upd_session h f s) = rd_tasks s" "rd_next_task (upd_session h f s) = rd_next_task s"
  "rd_now (upd_session h f s) = rd_now s" "rd_events (upd_session h f s) = rd_events s"
  "rd_epochs (upd_session h f s) = rd_epochs s" "rd_registered (upd_session h f s) = rd_registered s"
  "rd_stopped (upd_session h f s) = rd_stopped s"
  by (simp_all add: upd_session_def)

lemma quiet_purge: "quiet s (purge_operations s)"
  by (simp add: quiet_def purge_operations_def le_max_iff_disj)

lemma length_update: "length (AList.update k v xs) \<le> length xs + 1"
  by (induction xs) auto

lemma quiet_add: "length (rd_operations s) < MAX_OPERATIONS \<Longrightarrow> quiet s (add_operation key t s)"
  using length_update [of key "rd_next_task s" "rd_operations s"] by (simp add: quiet_def add_operation_def)

lemma quiet_simple [simp]:
  "quiet s (send_result t r s)" "quiet s (s\<lparr>rd_events := es\<rparr>)" "quiet s (s\<lparr>rd_timed_out := b\<rparr>)"
  "quiet s (s\<lparr>rd_stopped := b\<rparr>)" "quiet s (upd_session h (\<lambda>x. x\<lparr>rs_touched := n\<rparr>) s)"
  "quiet s (upd_session h (\<lambda>x. x\<lparr>rs_locked := b\<rparr>) s)"
  "quiet s (s\<lparr>rd_registered := m\<rparr>)" "quiet s (s\<lparr>rd_epochs := e\<rparr>)" "quiet s (s\<lparr>rd_wall := n\<rparr>)"
  "quiet s (s\<lparr>rd_now := n, rd_wall := k\<rparr>)"
  by (simp_all add: quiet_def send_result_def)

subsection \<open>Invariants of the service\<close>

text \<open>
  An invariant that survives a quiet change, the two halves of a release and the events of the coordinator holds through
  everything that neither allocates a session nor turns a page.
\<close>

locale radio_frame =
  fixes I :: "radio_state \<Rightarrow> bool"
  assumes quieted: "I s \<Longrightarrow> quiet s t \<Longrightarrow> I t"
    and taking: "I s \<Longrightarrow> I (take_session i s)"
    and ending: "I s \<Longrightarrow> I (end_release h s)"
    and synced: "I s \<Longrightarrow> \<forall>i. e \<noteq> Released i \<Longrightarrow> I (s\<lparr>rd_sync := happen e (rd_sync s)\<rparr>)"
begin

lemma takings: "I s \<Longrightarrow> I (take_sessions p s)"
proof -
  have "I (fold take_session is s)" if "I s" for "is" s
    using that by (induction "is" arbitrary: s) (auto intro: taking)
  then show "I s \<Longrightarrow> I (take_sessions p s)" by (simp add: take_sessions_def)
qed

lemma happened: "I s \<Longrightarrow> I (radio_happen e s)"
proof (cases e)
  case (Synced e')
  then show "I s \<Longrightarrow> ?thesis" using synced by (auto simp: radio_happen_def split: sync_event.split)
qed (auto simp: radio_happen_def quiet_add intro: quieted quieted [OF _ quiet_purge] taking takings ending)

lemma keeps_quiet: "(\<And>s. quiet s (f s)) \<Longrightarrow> keeps I (modify f)"
  by (rule keeps_modify) (blast intro: quieted)

lemma keeps_radio_preempt [keeps_intros]: "keeps I radio_preempt"
proof -
  have "I (fold radio_happen es s)" if "I s" for es s
    using that by (induction es arbitrary: s) (auto intro: happened)
  then show ?thesis
    unfolding radio_preempt_def by (intro keeps_modify) (auto split: list.split intro: quieted [OF _ quiet_simple(2)])
qed

lemma keeps_awaits [keeps_intros]: "keeps I awaits"
  unfolding awaits_def by (intro keeps_intros)

lemma keeps_guarded [keeps_intros]: "keeps I m \<Longrightarrow> keeps I (guarded m)"
  unfolding guarded_def by (intro keeps_intros)

lemma keeps_check_operation_id [keeps_intros]: "keeps I (check_operation_id i)"
  unfolding check_operation_id_def by (intro keeps_intros)

lemma keeps_require_valid [keeps_intros]: "keeps I (require_valid h)"
  unfolding require_valid_def by (intro keeps_intros)

lemma keeps_find_session [keeps_intros]: "keeps I (find_session i t)"
  unfolding find_session_def by (intro keeps_intros keeps_quiet) simp

lemma keeps_call_provider:
  "closed_handles [c] = [] \<Longrightarrow> keeps I (call_provider c f)"
  unfolding call_provider_def by (intro keeps_intros keeps_quiet) (cases c; simp add: quiet_def)

lemma keeps_await_result [keeps_intros]: "keeps I (await_result n t)"
  by (induction n) (auto intro!: keeps_intros)

lemma keeps_join_or_insert [keeps_intros]: "keeps I (join_or_insert key print p)"
proof -
  have add: "keeps I (bnd (gets (\<lambda>s. length (rd_operations s))) (\<lambda>n. bnd (require (n < MAX_OPERATIONS) msg) (\<lambda>_.
      bnd (gets rd_next_task) (\<lambda>t. bnd (modify (\<lambda>s. add_operation key (f s) s)) (\<lambda>_. ret (t, True))))))" for msg f
    by (auto simp: keeps_def bnd_def act_simps intro: quieted quiet_add)
  show ?thesis
    unfolding join_or_insert_def by (intro keeps_intros keeps_quiet quiet_purge add)
qed

lemma keeps_run_task [keeps_intros]: "keeps I run \<Longrightarrow> keeps I (run_task t run)"
  unfolding run_task_def by (intro keeps_intros keeps_quiet) simp_all

lemma keeps_operation [keeps_intros]: "keeps I run \<Longrightarrow> keeps I (operation key print p run)"
  unfolding operation_def by (intro keeps_intros)

lemma keeps_release_all [keeps_intros]: "keeps I (release_all hs)"
  unfolding release_all_def by (intro keeps_intros keeps_modify ending)

lemma keeps_close [keeps_intros]: "keeps I (radio_close i)"
  unfolding radio_close_def by (intro keeps_intros keeps_modify taking)

lemma keeps_collect [keeps_intros]: "keeps I collect"
  unfolding collect_def by (intro keeps_intros keeps_modify takings quieted [OF _ quiet_purge])

lemma keeps_invalidate_provider [keeps_intros]: "keeps I (invalidate_provider p)"
  unfolding invalidate_provider_def by (intro keeps_intros keeps_modify takings)

lemma keeps_shutdown [keeps_intros]: "keeps I shutdown"
  unfolding shutdown_def by (intro keeps_intros keeps_quiet) simp

end

end
