(* ===== verification/Radio_Invariants.thy ===== *)
theory Radio_Invariants
  imports Radio_Machine
begin

section \<open>The invariants of the radio service\<close>

text \<open>\<open>radio_inv F c\<close> also follows one session \<open>c\<close>, given by its handle and its provider.\<close>

definition radio_inv :: "nat list \<Rightarrow> (nat \<times> nat) option \<Rightarrow> radio_state \<Rightarrow> bool" where
  "radio_inv F c s \<longleftrightarrow> radio_ok F s
     \<and> (case c of None \<Rightarrow> True | Some (h, p) \<Rightarrow> h < rd_next s \<and> tg_provider (rs_target (rd_heap s h)) = p)"

lemma accounted_distinct:
  assumes "accounted F s"
  shows "distinct (map snd (rd_sessions s) @ rd_releasing s @ closed_handles (rd_log s) @ rd_dropped s @ F)"
    and "h \<in> set (map snd (rd_sessions s) @ rd_releasing s @ closed_handles (rd_log s) @ rd_dropped s @ F) \<longleftrightarrow> h < rd_next s"
proof -
  have eq: "mset (map snd (rd_sessions s) @ rd_releasing s @ closed_handles (rd_log s) @ rd_dropped s @ F) = mset [0..<rd_next s]"
    using assms by (simp add: accounted_def ac_simps)
  show "distinct (map snd (rd_sessions s) @ rd_releasing s @ closed_handles (rd_log s) @ rd_dropped s @ F)"
    using mset_eq_imp_distinct_iff [OF eq] by simp
  show "h \<in> set (map snd (rd_sessions s) @ rd_releasing s @ closed_handles (rd_log s) @ rd_dropped s @ F) \<longleftrightarrow> h < rd_next s"
    using mset_eq_setD [OF eq] by auto
qed

subsection \<open>Quiet changes\<close>

lemma accounted_quiet: "accounted F s \<Longrightarrow> quiet s t \<Longrightarrow> accounted F t"
  by (simp add: accounted_def quiet_def)

lemma items_ok_quiet:
  assumes ok: "items_ok s" and "quiet s t"
  shows "items_ok t"
  using ok by (rule items_ok_cong) (use assms items_okD(1) [OF ok] in \<open>simp_all add: quiet_def\<close>)

lemma within_limits_quiet: "within_limits s \<Longrightarrow> quiet s t \<Longrightarrow> within_limits t"
  by (auto simp: within_limits_def quiet_def)

lemma radio_ok_quiet: "radio_ok F s \<Longrightarrow> quiet s t \<Longrightarrow> radio_ok F t"
  unfolding radio_ok_def using accounted_quiet items_ok_quiet within_limits_quiet by blast

subsection \<open>Taking a session out\<close>

lemma mset_delete:
  "distinct (map fst xs) \<Longrightarrow> map_of xs i = Some h \<Longrightarrow>
    mset (map snd xs) = add_mset h (mset (map snd (AList.delete i xs)))"
proof (induction xs)
  case (Cons x xs)
  show ?case
  proof (cases "fst x = i")
    case True
    with Cons.prems have "AList.delete i xs = xs" by (auto simp: AList.delete_eq filter_id_conv image_iff)
    with True Cons.prems show ?thesis by (cases x) simp
  next
    case False
    with Cons show ?thesis by (cases x) simp
  qed
qed simp

lemma distinct_update_delete: "distinct (map fst xs) \<Longrightarrow> distinct (map fst (AList.delete i xs))"
  by (rule distinct_delete)

lemma radio_ok_taken:
  assumes ok: "radio_ok F s" and found: "map_of (rd_sessions s) i = Some h"
  shows "radio_ok (h # F) (s\<lparr>rd_sessions := AList.delete i (rd_sessions s)\<rparr>)"
proof -
  let ?t = "s\<lparr>rd_sessions := AList.delete i (rd_sessions s)\<rparr>"
  have mem: "(i, h) \<in> set (rd_sessions s)" using found by (rule map_of_SomeD)
  have sub: "set (AList.delete i (rd_sessions s)) \<subseteq> set (rd_sessions s)" by (auto simp: AList.delete_eq)
  have acc: "accounted F s" and items: "items_ok s" and keys: "distinct (map fst (rd_sessions s))"
    using ok by (simp_all add: radio_ok_def accounted_def)
  have "\<not> rs_closed (rd_heap s h)" using acc mem by (force simp: accounted_def)
  moreover have "distinct (map fst (AList.delete i (rd_sessions s)))" using keys by (rule distinct_delete)
  ultimately have "accounted (h # F) ?t"
    using acc sub mset_delete [OF keys found] by (auto simp: accounted_def)
  moreover have "items_ok ?t"
    using items by (rule items_ok_cong) (use items_okD(1) [OF items] sub in simp_all)
  moreover have "length (AList.delete i (rd_sessions s)) \<le> length (rd_sessions s)"
    by (simp add: AList.delete_eq)
  ultimately show ?thesis
    using ok by (simp add: radio_ok_def within_limits_def)
qed

lemma begin_release_same [simp]:
  "rd_sessions (begin_release h s) = rd_sessions s" "rd_next (begin_release h s) = rd_next s"
  "rd_dropped (begin_release h s) = rd_dropped s" "rd_uuids (begin_release h s) = rd_uuids s"
  "rd_env (begin_release h s) = rd_env s" "rd_ids (begin_release h s) = rd_ids s"
  "rd_sync (begin_release h s) = rd_sync s" "rd_log (begin_release h s) = rd_log s"
  "rd_operations (begin_release h s) = rd_operations s"
  "rs_items (rd_heap (begin_release h s) k) = rs_items (rd_heap s k)"
  "rs_target (rd_heap (begin_release h s) k) = rs_target (rd_heap s k)"
  "rs_data (rd_heap (begin_release h s) k) = rs_data (rd_heap s k)"
  "rs_locked (rd_heap (begin_release h s) k) = rs_locked (rd_heap s k)"
  by (simp_all add: begin_release_def)

lemma radio_ok_begin:
  assumes ok: "radio_ok (h # F) s"
  shows "radio_ok F (begin_release h s)"
proof -
  have acc: "accounted (h # F) s" and items: "items_ok s" using ok by (simp_all add: radio_ok_def)
  have open_: "\<not> rs_closed (rd_heap s h)" using acc by (simp add: accounted_def)
  have "h \<notin> snd ` set (rd_sessions s) \<union> set F" using accounted_distinct(1) [OF acc] by auto
  moreover have "rd_releasing (begin_release h s) = h # rd_releasing s"
    "rs_closed (rd_heap (begin_release h s) k) = (k = h \<or> rs_closed (rd_heap s k))" for k
    using open_ by (simp_all add: begin_release_def)
  ultimately have "accounted F (begin_release h s)" using acc by (auto simp: accounted_def)
  moreover have "items_ok (begin_release h s)"
    using items by (rule items_ok_cong) (use items_okD(1) [OF items] in simp_all)
  ultimately show ?thesis using ok by (simp add: radio_ok_def within_limits_def)
qed

lemma radio_ok_take: "radio_ok F s \<Longrightarrow> radio_ok F (take_session i s)"
  unfolding take_session_def by (auto split: option.split intro: radio_ok_begin radio_ok_taken)

subsection \<open>Giving a retention back\<close>

lemma happen_released: "happen (Released i) s = drop_retention i s"
  by (simp add: happen_def)

lemma drop_retention_other:
  "j \<noteq> i \<Longrightarrow> map_of (sy_retentions (drop_retention i s)) j = map_of (sy_retentions s) j"
  by (auto simp: drop_retention_def AList.delete_eq delete_conv' [unfolded AList.delete_eq] split: option.split)

lemma holds_items_drop:
  "j \<noteq> i \<Longrightarrow> holds_items j p b (s\<lparr>rd_sync := drop_retention i (rd_sync s)\<rparr>) = holds_items j p b s"
  by (simp add: holds_items_def drop_retention_other)

lemma drop_items_other [simp]:
  "rd_sessions (drop_items h s) = rd_sessions s" "rd_next (drop_items h s) = rd_next s"
  "rd_releasing (drop_items h s) = rd_releasing s" "rd_dropped (drop_items h s) = rd_dropped s"
  "rd_uuids (drop_items h s) = rd_uuids s" "rd_env (drop_items h s) = rd_env s" "rd_log (drop_items h s) = rd_log s"
  "rd_operations (drop_items h s) = rd_operations s" "rd_ids (drop_items h s) = rd_ids s"
  "rs_closed (rd_heap (drop_items h s) k) = rs_closed (rd_heap s k)"
  "rs_data (rd_heap (drop_items h s) k) = rs_data (rd_heap s k)"
  "rs_target (rd_heap (drop_items h s) k) = rs_target (rd_heap s k)"
  "rs_locked (rd_heap (drop_items h s) k) = rs_locked (rd_heap s k)"
  "rs_items (rd_heap (drop_items h s) k) = (if k = h then None else rs_items (rd_heap s k))"
  by (auto simp: drop_items_def split: option.split)

lemma items_ok_drop_items:
  assumes ok: "items_ok s" and h: "h \<notin> snd ` set (rd_sessions s)" "h < rd_next s"
  shows "items_ok (drop_items h s)"
proof (rule items_okI)
  show "counts_ok (rd_sync (drop_items h s))"
    using items_okD(1) [OF ok] drop_retention_counts by (auto simp: drop_items_def split: option.split)
next
  fix k i assume k: "k < rd_next (drop_items h s)" and i: "rs_items (rd_heap (drop_items h s) k) = Some i"
  then have "k \<noteq> h" by auto
  with k i have slot: "holds_items i (tg_provider (rs_target (rd_heap s k))) (pg_batch (rs_data (rd_heap s k))) s"
    by (intro items_okD(2) [OF ok]) simp_all
  have "rs_items (rd_heap s h) \<noteq> Some i" using items_okD(3) [OF ok, of h k i] h(2) k i \<open>k \<noteq> h\<close> by auto
  then have "holds_items i p b (drop_items h s) = holds_items i p b s" for p b
    by (auto simp: drop_items_def holds_items_def drop_retention_other split: option.split)
  with slot show "holds_items i (tg_provider (rs_target (rd_heap (drop_items h s) k)))
      (pg_batch (rs_data (rd_heap (drop_items h s) k))) (drop_items h s)"
    by simp
next
  fix k j i assume "k < rd_next (drop_items h s)" "j < rd_next (drop_items h s)"
    "rs_items (rd_heap (drop_items h s) k) = Some i" "rs_items (rd_heap (drop_items h s) j) = Some i"
  then show "k = j" using items_okD(3) [OF ok, of k j i] by (auto split: if_splits)
next
  fix j k assume "(j, k) \<in> set (rd_sessions (drop_items h s))"
  with h show "rs_items (rd_heap (drop_items h s) k) \<noteq> None" using items_okD(4) [OF ok, of j k] by force
qed

lemma mset_remove_one:
  "distinct xs \<Longrightarrow> h \<in> set xs \<Longrightarrow> mset xs = add_mset h (mset (filter (\<lambda>i. i \<noteq> h) xs))"
proof (induction xs)
  case (Cons x xs)
  show ?case
  proof (cases "x = h")
    case True
    with Cons.prems have "filter (\<lambda>i. i \<noteq> h) xs = xs" by (auto simp: filter_id_conv)
    with True show ?thesis by (simp flip: mset_filter)
  next
    case False
    with Cons have "mset xs = add_mset h (mset (filter (\<lambda>i. i \<noteq> h) xs))" by simp
    with False show ?thesis by simp
  qed
qed simp

lemma add_mset_shift: "R = add_mset h R' \<Longrightarrow> add_mset h (A + R' + B + C + D) = A + R + B + C + D"
  by simp

lemma radio_ok_end:
  assumes ok: "radio_ok F s"
  shows "radio_ok F (end_release h s)"
proof (cases "h \<in> set (rd_releasing s) \<and> \<not> rs_locked (rd_heap s h)")
  case True
  have acc: "accounted F s" using ok by (simp add: radio_ok_def)
  let ?t = "s\<lparr>rd_log := close_call h s # rd_log s, rd_releasing := filter (\<lambda>i. i \<noteq> h) (rd_releasing s)\<rparr>"
  have dist: "distinct (rd_releasing s)" using accounted_distinct(1) [OF acc] by simp
  have rel: "mset (rd_releasing s) = add_mset h (mset (filter (\<lambda>i. i \<noteq> h) (rd_releasing s)))"
    using mset_remove_one [OF dist] True by blast
  have "add_mset h (mset (map snd (rd_sessions s)) + mset (filter (\<lambda>i. i \<noteq> h) (rd_releasing s))
      + mset (closed_handles (rd_log s)) + mset (rd_dropped s) + mset F) = mset [0..<rd_next s]"
    unfolding add_mset_shift [OF rel] using acc by (simp add: accounted_def)
  then have acc': "accounted F ?t" using acc by (simp add: accounted_def close_call_def Let_def)
  have h: "h \<notin> snd ` set (rd_sessions s)" "h < rd_next s"
    using accounted_distinct(1) [OF acc] accounted_distinct(2) [OF acc, of h] True by auto
  have items: "items_ok s" using ok by (simp add: radio_ok_def)
  then have "items_ok ?t" by (rule items_ok_cong) (use items_okD(1) [OF items] in simp_all)
  then have "items_ok (drop_items h ?t)" by (rule items_ok_drop_items) (use h in simp_all)
  with acc' ok True show ?thesis
    by (simp add: end_release_def radio_ok_def accounted_def within_limits_def)
qed (auto simp: end_release_def ok)

lemma radio_ok_synced:
  assumes ok: "radio_ok F s" and e: "\<forall>i. e \<noteq> Released i"
  shows "radio_ok F (s\<lparr>rd_sync := happen e (rd_sync s)\<rparr>)"
proof -
  have items: "items_ok s" using ok by (simp add: radio_ok_def)
  have counts: "counts_ok (happen e (rd_sync s))" using items_okD(1) [OF items] by (rule count_frame.happens)
  have "sy_retentions (happen e (rd_sync s)) = sy_retentions (rd_sync s)"
    using e by (cases e) (auto simp: happen_def cancel_def)
  then have "items_ok (s\<lparr>rd_sync := happen e (rd_sync s)\<rparr>)"
    by (intro items_ok_cong [OF items]) (use counts in simp_all)
  then show ?thesis
    using ok by (simp add: radio_ok_def accounted_def within_limits_def)
qed

interpretation radio: radio_frame "radio_inv F c" for F c
proof unfold_locales
  fix s t assume "radio_inv F c s" "quiet s t"
  then show "radio_inv F c t"
    using radio_ok_quiet by (auto simp: radio_inv_def quiet_def split: option.splits)
next
  fix s i assume inv: "radio_inv F c s"
  have "rd_next (take_session i s) = rd_next s" "rs_target (rd_heap (take_session i s) h) = rs_target (rd_heap s h)" for h
    by (auto simp: take_session_def begin_release_def split: option.split)
  then show "radio_inv F c (take_session i s)"
    using inv radio_ok_take by (auto simp: radio_inv_def split: option.splits)
next
  fix s h assume inv: "radio_inv F c s"
  have "rd_next (end_release h s) = rd_next s" "rs_target (rd_heap (end_release h s) k) = rs_target (rd_heap s k)" for k
    by (auto simp: end_release_def)
  then show "radio_inv F c (end_release h s)"
    using inv radio_ok_end by (auto simp: radio_inv_def split: option.splits)
next
  fix s e assume "radio_inv F c s" "\<forall>i. e \<noteq> Released i"
  then show "radio_inv F c (s\<lparr>rd_sync := happen e (rd_sync s)\<rparr>)"
    using radio_ok_synced by (cases c) (auto simp: radio_inv_def)
qed


subsection \<open>Retentions in a local variable\<close>

text \<open>A retention that no session owns yet stays alive whatever other tasks do.\<close>

definition spare_items :: "nat \<Rightarrow> nat \<Rightarrow> queue_batch \<Rightarrow> radio_state \<Rightarrow> bool" where
  "spare_items i p b s \<longleftrightarrow> items_free i s \<and> holds_items i p b s"

lemma items_free_cong:
  "(\<And>h. rs_items (rd_heap t h) = rs_items (rd_heap s h)) \<Longrightarrow> rd_next t = rd_next s \<Longrightarrow> items_free i t = items_free i s"
  by (simp add: items_free_def)

lemma spare_drop_items: "h < rd_next s \<Longrightarrow> spare_items i p b s \<Longrightarrow> spare_items i p b (drop_items h s)"
  by (auto simp: spare_items_def drop_items_def items_free_def holds_items_def drop_retention_other split: option.split)

end
