(* ===== verification/Radio_Safety.thy ===== *)
theory Radio_Safety
  imports Radio_Invariants
begin

section \<open>Opening and continuing keep the invariants\<close>

subsection \<open>More frames\<close>

interpretation owner_ids: radio_frame "\<lambda>s :: radio_state. rd_ids s = f" for f
proof unfold_locales
  fix s :: radio_state and i assume "rd_ids s = f"
  then show "rd_ids (take_session i s) = f" by (auto simp: take_session_def split: option.split)
next
  fix s :: radio_state and h assume "rd_ids s = f"
  then show "rd_ids (end_release h s) = f" by (simp add: end_release_def)
qed (simp_all add: quiet_def)

lemma releasing_below:
  assumes "radio_inv F c s" "h \<in> set (rd_releasing s)"
  shows "h < rd_next s" "h \<notin> set F"
proof -
  have acc: "accounted F s" using assms(1) by (simp add: radio_inv_def radio_ok_def)
  show "h < rd_next s" "h \<notin> set F"
    using accounted_distinct(1) [OF acc] accounted_distinct(2) [OF acc, of h] assms(2) by auto
qed

lemma take_session_same:
  "rs_items (rd_heap (take_session i s) h) = rs_items (rd_heap s h)" "rd_sync (take_session i s) = rd_sync s"
  "rd_next (take_session i s) = rd_next s" "rd_ids (take_session i s) = rd_ids s"
  by (simp_all add: take_session_def split: option.split)

interpretation spare: radio_frame "\<lambda>s. radio_inv F c s \<and> spare_items i p b s" for F c i p b
proof unfold_locales
  fix s t assume "radio_inv F c s \<and> spare_items i p b s" "quiet s t"
  then show "radio_inv F c t \<and> spare_items i p b t"
    using radio.quieted [of F c s t] by (simp add: spare_items_def items_free_def holds_items_def quiet_def)
next
  fix s j assume "radio_inv F c s \<and> spare_items i p b s"
  then show "radio_inv F c (take_session j s) \<and> spare_items i p b (take_session j s)"
    using radio.taking [of F c s j] by (simp add: spare_items_def items_free_def holds_items_def take_session_same)
next
  fix s h assume inv: "radio_inv F c s \<and> spare_items i p b s"
  have "spare_items i p b (end_release h s)"
  proof (cases "h \<in> set (rd_releasing s) \<and> \<not> rs_locked (rd_heap s h)")
    case True
    let ?t = "s\<lparr>rd_log := close_call h s # rd_log s, rd_releasing := filter (\<lambda>i. i \<noteq> h) (rd_releasing s)\<rparr>"
    have "spare_items i p b ?t" using inv by (simp add: spare_items_def items_free_def holds_items_def)
    moreover have "h < rd_next ?t" using releasing_below [of F c s h] inv True by simp
    ultimately have "spare_items i p b (drop_items h ?t)" by (simp add: spare_drop_items)
    with True show ?thesis by (simp add: end_release_def)
  qed (use inv in \<open>auto simp: end_release_def\<close>)
  then show "radio_inv F c (end_release h s) \<and> spare_items i p b (end_release h s)"
    using inv radio.ending by blast
next
  fix s e assume inv: "radio_inv F c s \<and> spare_items i p b s" and e: "\<forall>i. e \<noteq> Released i"
  have "sy_retentions (happen e (rd_sync s)) = sy_retentions (rd_sync s)"
    using e by (cases e) (auto simp: happen_def cancel_def)
  then show "radio_inv F c (s\<lparr>rd_sync := happen e (rd_sync s)\<rparr>) \<and> spare_items i p b (s\<lparr>rd_sync := happen e (rd_sync s)\<rparr>)"
    using inv radio.synced [of F c s e] e by (simp add: spare_items_def items_free_def holds_items_def)
qed

text \<open>A session in the hands of a running \<^verbatim>\<open>open\<close> keeps its retention.\<close>

interpretation armed: radio_frame "\<lambda>s. radio_inv (h # F) c s \<and> rs_items (rd_heap s h) \<noteq> None" for h F c
proof unfold_locales
  fix s t assume "radio_inv (h # F) c s \<and> rs_items (rd_heap s h) \<noteq> None" "quiet s t"
  then show "radio_inv (h # F) c t \<and> rs_items (rd_heap t h) \<noteq> None"
    using radio.quieted [of "h # F" c s t] by (simp add: quiet_def)
next
  fix s j assume "radio_inv (h # F) c s \<and> rs_items (rd_heap s h) \<noteq> None"
  then show "radio_inv (h # F) c (take_session j s) \<and> rs_items (rd_heap (take_session j s) h) \<noteq> None"
    using radio.taking [of "h # F" c s j] by (simp add: take_session_same)
next
  fix s k assume inv: "radio_inv (h # F) c s \<and> rs_items (rd_heap s h) \<noteq> None"
  then have "k \<noteq> h" if "k \<in> set (rd_releasing s)" using releasing_below [of "h # F" c s k] that by auto
  then have "rs_items (rd_heap (end_release k s) h) = rs_items (rd_heap s h)" by (auto simp: end_release_def)
  then show "radio_inv (h # F) c (end_release k s) \<and> rs_items (rd_heap (end_release k s) h) \<noteq> None"
    using inv radio.ending by simp
next
  fix s e assume "radio_inv (h # F) c s \<and> rs_items (rd_heap s h) \<noteq> None" "\<forall>i. e \<noteq> Released i"
  then show "radio_inv (h # F) c (s\<lparr>rd_sync := happen e (rd_sync s)\<rparr>)
      \<and> rs_items (rd_heap (s\<lparr>rd_sync := happen e (rd_sync s)\<rparr>) h) \<noteq> None"
    using radio.synced [of "h # F" c s e] by simp
qed

subsection \<open>Retaining a batch\<close>

lemma items_below:
  assumes "items_ok s" "h < rd_next s" "rs_items (rd_heap s h) = Some i"
  shows "i < sy_next_retention (rd_sync s)"
proof -
  obtain rt where "map_of (sy_retentions (rd_sync s)) i = Some rt"
    using items_okD(2) [OF assms] by (auto simp: holds_items_def)
  then have "(i, rt) \<in> set (sy_retentions (rd_sync s))" by (rule map_of_SomeD)
  then show ?thesis using items_okD(1) [OF assms(1)] by (force simp: counts_ok_def)
qed

lemma media_of_ids: "set ids \<subseteq> set (media_of (remdups ids) d)"
  by (auto simp: media_of_def Let_def)

lemma retained_batch:
  assumes inv: "radio_inv F c s" and owner: "rd_ids s p = Some q"
    and run: "on_sync (retain_items q (batch_items b ids)) s = (r, s')"
  shows "radio_inv F c s' \<and> (case r of Inl _ \<Rightarrow> True | Inr i \<Rightarrow> spare_items i p b s')"
proof -
  have ok: "radio_ok F s" and acc: "accounted F s" and items: "items_ok s"
    using inv by (simp_all add: radio_inv_def radio_ok_def)
  obtain y where y: "retain_items q (batch_items b ids) (rd_sync s) = (r, y)" and s': "s' = s\<lparr>rd_sync := y\<rparr>"
    using run by (auto simp: on_sync_def split: prod.splits)
  have counts: "counts_ok y" using counts.retaining items_okD(1) [OF items] y by (rule keepsD)
  note result = retain_items_result [OF y]
  have keep: "map_of (sy_retentions y) i = map_of (sy_retentions (rd_sync s)) i"
    if "i < sy_next_retention (rd_sync s)" for i
    using result that by (cases r) (auto simp: same_but_faults_simps)
  have "items_ok s'"
  proof (rule items_okI)
    fix h i assume h: "h < rd_next s'" "rs_items (rd_heap s' h) = Some i"
    then have "holds_items i (tg_provider (rs_target (rd_heap s h))) (pg_batch (rs_data (rd_heap s h))) s"
      "i < sy_next_retention (rd_sync s)"
      using items_okD(2) [OF items] items_below [OF items] by (simp_all add: s')
    then show "holds_items i (tg_provider (rs_target (rd_heap s' h))) (pg_batch (rs_data (rd_heap s' h))) s'"
      by (simp add: s' holds_items_def keep)
  next
    fix h k i assume "h < rd_next s'" "k < rd_next s'" "rs_items (rd_heap s' h) = Some i" "rs_items (rd_heap s' k) = Some i"
    then show "h = k" using items_okD(3) [OF items, of h k i] by (simp add: s')
  next
    fix j h assume "(j, h) \<in> set (rd_sessions s')"
    then show "rs_items (rd_heap s' h) \<noteq> None" using items_okD(4) [OF items, of j h] by (simp add: s')
  qed (simp add: s' counts)
  then have "radio_ok F s'" using ok by (simp add: radio_ok_def s' accounted_def within_limits_def)
  then have inv': "radio_inv F c s'" using inv by (cases c) (auto simp: radio_inv_def s')
  moreover have "spare_items i p b s'" if "r = Inr i" for i
  proof -
    have i: "i = sy_next_retention (rd_sync s)" using result that by simp
    have "items_free i s'" unfolding items_free_def
    proof (intro allI impI notI)
      fix h assume "h < rd_next s'" "rs_items (rd_heap s' h) = Some i"
      then have "i < sy_next_retention (rd_sync s)" using items_below [OF items, of h i] by (simp add: s')
      with i show False by simp
    qed
    moreover have "holds_items i p b s'"
      using result that owner media_of_ids [of "batch_items b ids" "sy_db (rd_sync s)"]
      by (auto simp: s' holds_items_def batch_items_def)
    ultimately show ?thesis by (simp add: spare_items_def)
  qed
  ultimately show ?thesis by (cases r) simp_all
qed

lemma retain_batch_spare:
  "triple (radio_inv F c) (retain_batch t b ids) (\<lambda>i s. radio_inv F c s \<and> spare_items i (tg_provider t) b s) (radio_inv F c)"
proof -
  have both: "keeps (\<lambda>s. radio_inv F c s \<and> rd_ids s = f) awaits" for f
    using radio.keeps_awaits owner_ids.keeps_awaits by (rule keeps_conj)
  show ?thesis
  proof (rule tripleI)
    fix s i s' assume inv: "radio_inv F c s" and run: "retain_batch t b ids s = (Inr i, s')"
    from run obtain q s1 u where q: "rd_ids s (tg_provider t) = Some q" and s1: "awaits s = (u, s1)"
      and last: "on_sync (retain_items q (batch_items b ids)) s1 = (Inr i, s')"
      unfolding retain_batch_def by (auto elim!: bnd_InrE)
    have "radio_inv F c s1 \<and> rd_ids s1 = rd_ids s" by (rule keepsD [OF both _ s1]) (simp add: inv)
    with retained_batch [OF _ _ last, of F c "tg_provider t"] q
    show "radio_inv F c s' \<and> spare_items i (tg_provider t) b s'" by simp
  next
    fix s e s' assume inv: "radio_inv F c s" and run: "retain_batch t b ids s = (Inl e, s')"
    show "radio_inv F c s'"
    proof (cases "rd_ids s (tg_provider t)")
      case None
      with run inv show ?thesis by (simp add: retain_batch_def bnd_def act_simps)
    next
      case (Some q)
      obtain u s1 where s1: "awaits s = (u, s1)" by fastforce
      have inv1: "radio_inv F c s1 \<and> rd_ids s1 = rd_ids s" by (rule keepsD [OF both _ s1]) (simp add: inv)
      show ?thesis
      proof (cases u)
        case (Inl x)
        with run s1 Some inv1 show ?thesis by (simp add: retain_batch_def bnd_def act_simps)
      next
        case (Inr x)
        with run s1 Some have "on_sync (retain_items q (batch_items b ids)) s1 = (Inl e, s')"
          by (simp add: retain_batch_def bnd_def act_simps)
        from retained_batch [OF _ _ this, of F c "tg_provider t"] inv1 Some show ?thesis by simp
      qed
    qed
  qed
qed

end
