(* ===== verification/Radio_Reach.thy ===== *)
theory Radio_Reach
  imports Radio_Safety
begin

section \<open>Every reachable state of the radio service is in order\<close>

subsection \<open>Continuing\<close>

lemma quiet_state:
  "quiet s (upd_session h (\<lambda>x. x\<lparr>rs_data := (rs_data x)\<lparr>pg_batch := (pg_batch (rs_data x))\<lparr>qb_state := st\<rparr>\<rparr>\<rparr>) s)"
  by (simp add: quiet_def)

lemma keeps_set_state [keeps_intros]: "keeps (radio_inv F c) (set_state h st)"
  unfolding set_state_def by (rule radio.keeps_quiet) (rule quiet_state)

definition turned :: "nat \<Rightarrow> queue_batch \<Rightarrow> nat \<Rightarrow> radio_state \<Rightarrow> radio_state" where
  "turned h b i s = upd_session h (\<lambda>x. x\<lparr>rs_items := Some i, rs_data := (rs_data x)\<lparr>
     pg_version := (pg_version (rs_data x) + 1) mod 2 ^ 64, pg_batch := b\<rparr>\<rparr>) (drop_items h s)"

lemma turned_same [simp]:
  "rd_sessions (turned h b i s) = rd_sessions s" "rd_next (turned h b i s) = rd_next s"
  "rd_releasing (turned h b i s) = rd_releasing s" "rd_dropped (turned h b i s) = rd_dropped s"
  "rd_uuids (turned h b i s) = rd_uuids s" "rd_env (turned h b i s) = rd_env s" "rd_log (turned h b i s) = rd_log s"
  "rd_operations (turned h b i s) = rd_operations s" "rd_ids (turned h b i s) = rd_ids s"
  "rs_closed (rd_heap (turned h b i s) k) = rs_closed (rd_heap s k)"
  "rs_target (rd_heap (turned h b i s) k) = rs_target (rd_heap s k)"
  "pg_session (rs_data (rd_heap (turned h b i s) k)) = pg_session (rs_data (rd_heap s k))"
  "pg_batch (rs_data (rd_heap (turned h b i s) k)) = (if k = h then b else pg_batch (rs_data (rd_heap s k)))"
  "rs_items (rd_heap (turned h b i s) k) = (if k = h then Some i else rs_items (rd_heap s k))"
  by (simp_all add: turned_def)

lemma turned_inv:
  assumes inv: "radio_inv F (Some (h, p)) s" and spare: "spare_items i p b s"
  shows "radio_inv F (Some (h, p)) (turned h b i s)"
proof -
  have ok: "radio_ok F s" and items: "items_ok s" and h: "h < rd_next s" and p: "tg_provider (rs_target (rd_heap s h)) = p"
    using inv by (simp_all add: radio_inv_def radio_ok_def)
  have free: "rs_items (rd_heap s k) \<noteq> Some i" if "k < rd_next s" for k
    using spare that by (simp add: spare_items_def items_free_def)
  have sync: "rd_sync (turned h b i s) = rd_sync (drop_items h s)" by (simp add: turned_def)
  have keep: "holds_items j q d (turned h b i s) = holds_items j q d s" if "rs_items (rd_heap s h) \<noteq> Some j" for j q d
    using that by (auto simp: holds_items_def sync drop_items_def drop_retention_other split: option.split)
  have "items_ok (turned h b i s)"
  proof (rule items_okI)
    show "counts_ok (rd_sync (turned h b i s))"
      using items_okD(1) [OF items] drop_retention_counts by (auto simp: sync drop_items_def split: option.split)
  next
    fix k j assume k: "k < rd_next (turned h b i s)" and j: "rs_items (rd_heap (turned h b i s) k) = Some j"
    show "holds_items j (tg_provider (rs_target (rd_heap (turned h b i s) k)))
        (pg_batch (rs_data (rd_heap (turned h b i s) k))) (turned h b i s)"
    proof (cases "k = h")
      case True
      then have "j = i" using j by simp
      with True p spare keep [OF free [OF h]] show ?thesis by (simp add: spare_items_def)
    next
      case False
      with k j have "rs_items (rd_heap s h) \<noteq> Some j" using items_okD(3) [OF items, of h k j] h by auto
      with False k j show ?thesis using items_okD(2) [OF items, of k j] by (simp add: keep)
    qed
  next
    fix k m j assume "k < rd_next (turned h b i s)" "m < rd_next (turned h b i s)"
      "rs_items (rd_heap (turned h b i s) k) = Some j" "rs_items (rd_heap (turned h b i s) m) = Some j"
    then show "k = m" using items_okD(3) [OF items, of k m j] free by (auto split: if_splits)
  next
    fix j k assume "(j, k) \<in> set (rd_sessions (turned h b i s))"
    then show "rs_items (rd_heap (turned h b i s) k) \<noteq> None" using items_okD(4) [OF items, of j k] by simp
  qed
  moreover have "accounted F (turned h b i s)" using ok by (simp add: radio_ok_def accounted_def)
  ultimately have "radio_ok F (turned h b i s)" using ok by (simp add: radio_ok_def within_limits_def)
  then show ?thesis using h p by (simp add: radio_inv_def)
qed

lemma replace_page_turned: "replace_page h b i s = (Inr (), turned h b i s)"
  by (simp add: replace_page_def turned_def bnd_def act_simps)

lemma drop_retained_inv: "radio_inv F c s \<Longrightarrow> items_free i s \<Longrightarrow> radio_inv F c (s\<lparr>rd_sync := drop_retention i (rd_sync s)\<rparr>)"
proof -
  assume inv: "radio_inv F c s" and free: "items_free i s"
  let ?t = "s\<lparr>rd_sync := drop_retention i (rd_sync s)\<rparr>"
  have items: "items_ok s" and ok: "radio_ok F s" using inv by (simp_all add: radio_inv_def radio_ok_def)
  have "items_ok ?t"
  proof (rule items_okI)
    show "counts_ok (rd_sync ?t)" using items_okD(1) [OF items] by (simp add: drop_retention_counts)
  next
    fix h j assume h: "h < rd_next ?t" "rs_items (rd_heap ?t h) = Some j"
    then have "j \<noteq> i" using free by (auto simp: items_free_def)
    with h items_okD(2) [OF items, of h j] show "holds_items j (tg_provider (rs_target (rd_heap ?t h)))
        (pg_batch (rs_data (rd_heap ?t h))) ?t"
      by (simp add: holds_items_drop)
  next
    fix h k j assume "h < rd_next ?t" "k < rd_next ?t" "rs_items (rd_heap ?t h) = Some j" "rs_items (rd_heap ?t k) = Some j"
    then show "h = k" using items_okD(3) [OF items, of h k j] by simp
  next
    fix j h assume "(j, h) \<in> set (rd_sessions ?t)"
    then show "rs_items (rd_heap ?t h) \<noteq> None" using items_okD(4) [OF items, of j h] by simp
  qed
  then have "radio_ok F ?t" using ok by (simp add: radio_ok_def accounted_def within_limits_def)
  then show ?thesis using inv by (cases c) (auto simp: radio_inv_def)
qed

lemma triple_keeps: "keeps I m \<Longrightarrow> (\<And>s. P s \<Longrightarrow> I s) \<Longrightarrow> (\<And>s. I s \<Longrightarrow> Q s) \<Longrightarrow> (\<And>s. I s \<Longrightarrow> E s) \<Longrightarrow> triple P m (\<lambda>_. Q) E"
  unfolding keeps_triple by (rule triple_conseq)

lemma settle_page:
  "keeps (radio_inv F (Some (h, tg_provider t))) (bnd (retain_batch t b ids) (\<lambda>i. bnd radio_preempt (\<lambda>_.
     bnd (gets (valid_at h)) (\<lambda>valid.
       if \<not> valid then bnd (set_state h (qb_state b)) (\<lambda>_. bnd (drop_retained i) (\<lambda>_. raise EXPIRED))
       else bnd (replace_page h b i) (\<lambda>_. gets (\<lambda>s. rs_data (rd_heap s h)))))))"
    (is "keeps ?I (bnd _ (\<lambda>i. bnd _ (\<lambda>_. ?rest i)))")
proof -
  let ?P = "\<lambda>i s. ?I s \<and> spare_items i (tg_provider t) b s"
  have rest: "triple (?P i) (?rest i) (\<lambda>_. ?I) ?I" for i
  proof (rule tripleI)
    fix s x s' assume P: "?P i s" and run: "?rest i s = (Inr x, s')"
    then have "s' = turned h b i s"
      by (auto simp: bnd_def act_simps replace_page_turned split: if_splits prod.splits sum.splits)
    with P show "?I s'" using turned_inv by blast
  next
    fix s e s' assume P: "?P i s" and run: "?rest i s = (Inl e, s')"
    let ?u = "upd_session h (\<lambda>x. x\<lparr>rs_data := (rs_data x)\<lparr>pg_batch := (pg_batch (rs_data x))\<lparr>qb_state := qb_state b\<rparr>\<rparr>\<rparr>) s"
    from run have s': "s' = ?u\<lparr>rd_sync := drop_retention i (rd_sync ?u)\<rparr>"
      by (simp add: bnd_def act_simps replace_page_turned set_state_def drop_retained_def split: if_splits)
    have "?I ?u \<and> spare_items i (tg_provider t) b ?u" using P quiet_state by (rule spare.quieted)
    then show "?I s'" unfolding s' by (intro drop_retained_inv) (simp_all add: spare_items_def)
  qed
  show ?thesis
    unfolding keeps_triple
    by (rule triple_bnd [OF retain_batch_spare], rule triple_bnd [OF _ rest], rule triple_keeps [OF spare.keeps_radio_preempt])
      auto
qed

lemma keeps_next_locked [keeps_intros]:
  "keeps (radio_inv F (Some (h, tg_provider t))) (next_locked h t expected current)"
  unfolding next_locked_def by (intro keeps_intros settle_page radio.keeps_call_provider) simp

lemma keeps_next_task [keeps_intros]:
  "keeps (radio_inv F (Some (h, tg_provider t))) (next_task h t expected current)"
  unfolding next_task_def by (intro keeps_intros radio.keeps_quiet) simp_all

text \<open>The session that was found belongs to the provider of the target.\<close>

lemma find_session_tracks:
  "triple (radio_inv F None) (find_session i t) (\<lambda>h. radio_inv F (Some (h, tg_provider t))) (radio_inv F None)"
proof (rule tripleI)
  fix s h s' assume inv: "radio_inv F None s" and run: "find_session i t s = (Inr h, s')"
  from run obtain s1 u where s1: "radio_preempt s = (u, s1)" and found: "map_of (rd_sessions s1) i = Some h"
    and p: "tg_provider (rs_target (rd_heap s1 h)) = tg_provider t"
    and s': "s' = upd_session h (\<lambda>x. x\<lparr>rs_touched := rd_now s1\<rparr>) s1"
    unfolding find_session_def by (auto elim!: bnd_InrE)
  have inv1: "radio_inv F None s1" using radio.keeps_radio_preempt inv s1 by (rule keepsD)
  then have "accounted F s1" by (simp add: radio_inv_def radio_ok_def)
  from accounted_distinct(2) [OF this, of h] map_of_SomeD [OF found] have "h < rd_next s1" by force
  with inv1 p have "radio_inv F (Some (h, tg_provider t)) s1" by (simp add: radio_inv_def)
  then show "radio_inv F (Some (h, tg_provider t)) s'" unfolding s' by (rule radio.quieted) simp
next
  fix s e s' assume "radio_inv F None s" "find_session i t s = (Inl e, s')"
  with radio.keeps_find_session show "radio_inv F None s'" by (rule keepsD)
qed

lemma radio_inv_forget: "radio_inv F c s \<Longrightarrow> radio_inv F None s"
  by (simp add: radio_inv_def)

lemma keeps_radio_next: "keeps (radio_inv F None) (radio_next t i op expected current)"
proof -
  have tail: "triple (radio_inv F None) (bnd (find_session i t) (\<lambda>h.
     bnd (operation key print (tg_provider t) (next_task h t expected current)) (\<lambda>page.
     bnd (find_session i t) (\<lambda>_. ret page)))) (\<lambda>_. radio_inv F None) (radio_inv F None)" for key print
  proof (rule triple_bnd [OF find_session_tracks])
    fix h
    have "keeps (radio_inv F (Some (h, tg_provider t))) (bnd (operation key print (tg_provider t) (next_task h t expected current))
        (\<lambda>page. bnd (find_session i t) (\<lambda>_. ret page)))"
      by (intro keeps_intros radio.keeps_operation radio.keeps_find_session)
    then show "triple (radio_inv F (Some (h, tg_provider t))) (bnd (operation key print (tg_provider t)
        (next_task h t expected current)) (\<lambda>page. bnd (find_session i t) (\<lambda>_. ret page))) (\<lambda>_. radio_inv F None) (radio_inv F None)"
      by (rule triple_keeps) (auto intro: radio_inv_forget)
  qed
  show ?thesis
    unfolding radio_next_def
    by (rule keeps_bnd [OF radio.keeps_check_operation_id]) (use tail in \<open>simp only: keeps_triple\<close>)
qed

subsection \<open>Opening\<close>

lemma new_session_inv:
  "triple (radio_inv F None) (new_session t epoch b) (\<lambda>h. radio_inv (h # F) (Some (h, tg_provider t))) (radio_inv F None)"
proof (rule tripleI)
  fix s h s' assume inv: "radio_inv F None s" and run: "new_session t epoch b s = (Inr h, s')"
  let ?x = "\<lparr>rs_target = t, rs_epoch = epoch, rs_closed = False, rs_touched = rd_now s,
    rs_data = \<lparr>pg_session = en_uuid (rd_env s) (rd_uuids s), pg_version = 1, pg_batch = b\<rparr>, rs_locked = False, rs_items = None\<rparr>"
  let ?t = "upd_session (rd_next s) (\<lambda>_. ?x) (s\<lparr>rd_uuids := rd_uuids s + 1, rd_next := rd_next s + 1\<rparr>)"
  have h: "h = rd_next s" and s': "s' = ?t"
    using run by (auto simp: new_session_def new_session_id_def bnd_def act_simps upd_session_def)
  have acc: "accounted F s" and items: "items_ok s" using inv by (simp_all add: radio_inv_def radio_ok_def)
  have old: "k < rd_next s" if "k \<in> snd ` set (rd_sessions s) \<union> set F" for k
    using accounted_distinct(2) [OF acc, of k] that by auto
  have "mset (map snd (rd_sessions ?t)) + mset (rd_releasing ?t) + mset (closed_handles (rd_log ?t)) + mset (rd_dropped ?t)
      + mset (rd_next s # F) = mset [0..<rd_next ?t]"
    using acc by (simp add: accounted_def)
  moreover have "\<not> rs_closed (rd_heap ?t k)" if "k \<in> snd ` set (rd_sessions ?t) \<union> set (rd_next s # F)" for k
    using acc that by (auto simp: accounted_def)
  moreover have "pg_session (rs_data (rd_heap ?t k)) = en_uuid (rd_env ?t) k" if "k < rd_next ?t" for k
    using acc that by (cases "k = rd_next s") (simp_all add: accounted_def)
  ultimately have "accounted (rd_next s # F) ?t" using acc unfolding accounted_def by simp
  moreover have "items_ok ?t"
  proof (rule items_okI)
    fix k i assume "k < rd_next ?t" "rs_items (rd_heap ?t k) = Some i"
    then have "k \<noteq> rd_next s" "k < rd_next s" "rs_items (rd_heap s k) = Some i" by (auto split: if_splits)
    then show "holds_items i (tg_provider (rs_target (rd_heap ?t k))) (pg_batch (rs_data (rd_heap ?t k))) ?t"
      using items_okD(2) [OF items, of k i] by (simp add: holds_items_def)
  next
    fix k m i assume "k < rd_next ?t" "m < rd_next ?t" "rs_items (rd_heap ?t k) = Some i" "rs_items (rd_heap ?t m) = Some i"
    then show "k = m" using items_okD(3) [OF items, of k m i] by (auto split: if_splits)
  next
    fix j k assume jk: "(j, k) \<in> set (rd_sessions ?t)"
    then have "k < rd_next s" using old [of k] by force
    with jk show "rs_items (rd_heap ?t k) \<noteq> None" using items_okD(4) [OF items, of j k] by simp
  qed (use items_okD(1) [OF items] in simp)
  ultimately have "radio_ok (rd_next s # F) ?t" using inv by (simp add: radio_inv_def radio_ok_def within_limits_def)
  then show "radio_inv (h # F) (Some (h, tg_provider t)) s'" by (simp add: radio_inv_def h s')
next
  fix s e s' assume "radio_inv F None s" "new_session t epoch b s = (Inl e, s')"
  then show "radio_inv F None s'" by (simp add: new_session_def new_session_id_def bnd_def act_simps)
qed

definition same_content :: "nat \<Rightarrow> queue_batch \<Rightarrow> radio_state \<Rightarrow> bool" where
  "same_content h b s \<longleftrightarrow> qb_songs (pg_batch (rs_data (rd_heap s h))) = qb_songs b
     \<and> qb_source (pg_batch (rs_data (rd_heap s h))) = qb_source b"

lemma take_session_data: "rs_data (rd_heap (take_session i s) h) = rs_data (rd_heap s h)"
  by (simp add: take_session_def split: option.split)

interpretation content: radio_frame "same_content h b" for h b
proof unfold_locales
  fix s i assume "same_content h b s"
  then show "same_content h b (take_session i s)" by (simp add: same_content_def take_session_data)
next
  fix s k assume "same_content h b s"
  then show "same_content h b (end_release k s)" by (simp add: same_content_def end_release_def)
qed (simp_all add: same_content_def quiet_def)

lemma content_retain_batch: "keeps (same_content h b) (retain_batch t b' ids)"
proof -
  have "keeps (same_content h b) (on_sync m)" for m :: "'a op"
    by (simp add: keeps_def on_sync_def same_content_def split: prod.split)
  then show ?thesis unfolding retain_batch_def by (intro keeps_intros content.keeps_awaits)
qed

lemma armed_inv:
  assumes inv: "radio_inv (h # F) (Some (h, p)) s" and spare: "spare_items i p b s"
    and b: "same_content h b s"
  shows "radio_inv (h # F) (Some (h, p)) (upd_session h (\<lambda>x. x\<lparr>rs_items := Some i\<rparr>) s)"
    (is "radio_inv _ _ ?t")
proof -
  have ok: "radio_ok (h # F) s" and items: "items_ok s" and h: "h < rd_next s" and p: "tg_provider (rs_target (rd_heap s h)) = p"
    using inv by (simp_all add: radio_inv_def radio_ok_def)
  have free: "rs_items (rd_heap s k) \<noteq> Some i" if "k < rd_next s" for k
    using spare that by (simp add: spare_items_def items_free_def)
  have same: "holds_items j q d ?t = holds_items j q d s" for j q d by (simp add: holds_items_def)
  have "items_ok ?t"
  proof (rule items_okI)
    fix k j assume "k < rd_next ?t" "rs_items (rd_heap ?t k) = Some j"
    then show "holds_items j (tg_provider (rs_target (rd_heap ?t k))) (pg_batch (rs_data (rd_heap ?t k))) ?t"
      using items_okD(2) [OF items, of k j] spare p b same [of i p b] same [of i p "pg_batch (rs_data (rd_heap s h))"]
      by (cases "k = h") (auto simp: same spare_items_def same_content_def holds_items_def batch_items_def)
  next
    fix k m j assume "k < rd_next ?t" "m < rd_next ?t" "rs_items (rd_heap ?t k) = Some j" "rs_items (rd_heap ?t m) = Some j"
    then show "k = m" using items_okD(3) [OF items, of k m j] free by (auto split: if_splits)
  next
    fix j k assume "(j, k) \<in> set (rd_sessions ?t)"
    then show "rs_items (rd_heap ?t k) \<noteq> None" using items_okD(4) [OF items, of j k] by simp
  qed (use items_okD(1) [OF items] in simp)
  moreover have "accounted (h # F) ?t" using ok by (simp add: radio_ok_def accounted_def)
  ultimately have "radio_ok (h # F) ?t" using ok by (simp add: radio_ok_def within_limits_def)
  then show ?thesis using h p by (simp add: radio_inv_def)
qed

lemma admit_items_armed:
  "triple (\<lambda>s. radio_inv (h # F) (Some (h, tg_provider t)) s \<and> same_content h b s) (admit_items h t b)
     (\<lambda>_ s. radio_inv (h # F) (Some (h, tg_provider t)) s \<and> rs_items (rd_heap s h) \<noteq> None)
     (radio_inv (h # F) (Some (h, tg_provider t)))"
  (is "triple (\<lambda>s. ?I s \<and> ?B s) _ _ _")
proof (rule tripleI)
  fix s u s' assume pre: "?I s \<and> ?B s" and run: "admit_items h t b s = (Inr u, s')"
  from run obtain i s1 where retain: "retain_batch t b [] s = (Inr i, s1)"
    and s': "s' = upd_session h (\<lambda>x. x\<lparr>rs_items := Some i\<rparr>) s1"
    unfolding admit_items_def by (auto elim!: bnd_InrE)
  have "?I s1 \<and> spare_items i (tg_provider t) b s1" using retain_batch_spare _ retain by (rule triple_InrD) (use pre in simp)
  moreover have "?B s1" using content_retain_batch _ retain by (rule keepsD) (use pre in simp)
  ultimately show "?I s' \<and> rs_items (rd_heap s' h) \<noteq> None" unfolding s' using armed_inv [of h F "tg_provider t" s1 i b] by simp
next
  fix s e s' assume pre: "?I s \<and> ?B s" and run: "admit_items h t b s = (Inl e, s')"
  then show "?I s'"
    unfolding admit_items_def
    by (auto simp: act_simps elim!: bnd_cases intro: triple_InlD [OF retain_batch_spare])
qed

lemma guarded_armed:
  "triple (\<lambda>s. radio_inv (h # F) (Some (h, tg_provider t)) s \<and> same_content h b s) (guarded (admit_items h t b))
     (\<lambda>r s. radio_inv (h # F) (Some (h, tg_provider t)) s \<and> (\<not> is_err r \<longrightarrow> rs_items (rd_heap s h) \<noteq> None))
     (radio_inv (h # F) (Some (h, tg_provider t)))"
proof -
  have tail: "triple (\<lambda>s. case r of Inr x \<Rightarrow> radio_inv (h # F) (Some (h, tg_provider t)) s \<and> rs_items (rd_heap s h) \<noteq> None
        | Inl _ \<Rightarrow> radio_inv (h # F) (Some (h, tg_provider t)) s)
      (bnd (gets rd_timed_out) (\<lambda>b. bnd (require (\<not> b) INCOMPLETE) (\<lambda>_. ret r)))
      (\<lambda>r s. radio_inv (h # F) (Some (h, tg_provider t)) s \<and> (\<not> is_err r \<longrightarrow> rs_items (rd_heap s h) \<noteq> None))
      (radio_inv (h # F) (Some (h, tg_provider t)))" for r :: "unit result"
    by (cases r) (auto simp: triple_def bnd_def act_simps)
  show ?thesis
    unfolding guarded_def by (rule triple_bnd [OF triple_attempt [OF admit_items_armed] tail])
qed

lemma dropped_inv:
  assumes inv: "radio_inv (h # F) c s"
  shows "radio_inv F None (drop_items h (s\<lparr>rd_dropped := h # rd_dropped s\<rparr>))"
proof -
  let ?t = "s\<lparr>rd_dropped := h # rd_dropped s\<rparr>"
  have ok: "radio_ok (h # F) s" and acc: "accounted (h # F) s" and items: "items_ok s"
    using inv by (simp_all add: radio_inv_def radio_ok_def)
  have h: "h \<notin> snd ` set (rd_sessions s)" "h < rd_next s"
    using accounted_distinct(1) [OF acc] accounted_distinct(2) [OF acc, of h] by auto
  have "accounted F ?t" using acc by (simp add: accounted_def)
  moreover have "items_ok ?t" using items by (rule items_ok_cong) (use items_okD(1) [OF items] in simp_all)
  then have "items_ok (drop_items h ?t)" by (rule items_ok_drop_items) (use h in simp_all)
  ultimately show ?thesis
    using ok by (simp add: radio_inv_def radio_ok_def accounted_def within_limits_def)
qed

lemma abandon_armed:
  "triple (\<lambda>s. radio_inv (h # F) (Some (h, tg_provider t)) s \<and> same_content h b s) (abandon h (guarded (admit_items h t b)))
     (\<lambda>r s. radio_inv (h # F) (Some (h, tg_provider t)) s \<and> (\<not> is_err r \<longrightarrow> rs_items (rd_heap s h) \<noteq> None))
     (radio_inv F None)"
proof -
  have tail: "triple (\<lambda>s. case r of Inr x \<Rightarrow> radio_inv (h # F) (Some (h, tg_provider t)) s
          \<and> (\<not> is_err x \<longrightarrow> rs_items (rd_heap s h) \<noteq> None)
        | Inl _ \<Rightarrow> radio_inv (h # F) (Some (h, tg_provider t)) s)
      (bnd (if is_err r then modify (\<lambda>s. drop_items h (s\<lparr>rd_dropped := h # rd_dropped s\<rparr>)) else ret ()) (\<lambda>_. lift r))
      (\<lambda>r s. radio_inv (h # F) (Some (h, tg_provider t)) s \<and> (\<not> is_err r \<longrightarrow> rs_items (rd_heap s h) \<noteq> None))
      (radio_inv F None)" for r :: "unit result result"
    by (cases r) (auto simp: triple_def bnd_def act_simps intro: dropped_inv)
  show ?thesis
    unfolding abandon_def by (rule triple_bnd [OF triple_attempt [OF guarded_armed] tail])
qed

lemma update_fresh: "k \<notin> fst ` set xs \<Longrightarrow> AList.update k v xs = xs @ [(k, v)]"
  by (induction xs) auto

lemma slots_sessions:
  "slots_hold (s\<lparr>rd_sessions := xs\<rparr>) = slots_hold s" "slots_unique (s\<lparr>rd_sessions := xs\<rparr>) = slots_unique s"
  unfolding slots_hold_def slots_unique_def holds_items_def by simp_all

lemma insert_session_inv:
  "triple (\<lambda>s. radio_inv (h # F) (Some (h, p)) s \<and> (v \<longrightarrow> rs_items (rd_heap s h) \<noteq> None)) (insert_session h v)
     (\<lambda>inserted. if inserted then radio_inv F None else radio_inv (h # F) (Some (h, p))) (radio_inv F None)"
proof (rule tripleI)
  fix s b s' assume pre: "radio_inv (h # F) (Some (h, p)) s \<and> (v \<longrightarrow> rs_items (rd_heap s h) \<noteq> None)"
    and run: "insert_session h v s = (Inr b, s')"
  from run obtain u s1 where s1: "radio_preempt s = (u, s1)"
    and b: "b \<longleftrightarrow> v \<and> valid_at h s1 \<and> length (rd_sessions s1) < MAX_SESSIONS"
    and s': "s' = (if b then s1\<lparr>rd_sessions := AList.update (pg_session (rs_data (rd_heap s1 h))) h (rd_sessions s1)\<rparr> else s1)"
    unfolding insert_session_def by (auto elim!: bnd_InrE split: if_splits)
  have inv: "radio_inv (h # F) (Some (h, p)) s1"
    using radio.keeps_radio_preempt _ s1 by (rule keepsD) (use pre in simp)
  show "(if b then radio_inv F None else radio_inv (h # F) (Some (h, p))) s'"
  proof (cases b)
    case True
    have acc: "accounted (h # F) s1" and items: "items_ok s1" and h: "h < rd_next s1"
      using inv by (simp_all add: radio_inv_def radio_ok_def)
    let ?i = "pg_session (rs_data (rd_heap s1 h))"
    have "radio_inv (h # F) (Some (h, p)) s1 \<and> rs_items (rd_heap s1 h) \<noteq> None"
      using armed.keeps_radio_preempt _ s1 by (rule keepsD) (use pre b True in simp)
    moreover have fresh: "?i \<notin> fst ` set (rd_sessions s1)"
    proof
      assume "?i \<in> fst ` set (rd_sessions s1)"
      then obtain k where "(?i, k) \<in> set (rd_sessions s1)" by auto
      then have "en_uuid (rd_env s1) k = en_uuid (rd_env s1) h" "k \<in> snd ` set (rd_sessions s1)"
        using acc h by (force simp: accounted_def)+
      moreover have "inj (en_uuid (rd_env s1))" using acc by (simp add: accounted_def)
      ultimately have "h \<in> snd ` set (rd_sessions s1)" by (metis injD)
      then show False using accounted_distinct(1) [OF acc] by auto
    qed
    moreover have "AList.update ?i h (rd_sessions s1) = rd_sessions s1 @ [(?i, h)]"
      using fresh by (rule update_fresh)
    ultimately show ?thesis
      using True s' b inv by (auto simp: radio_inv_def radio_ok_def accounted_def items_ok_def within_limits_def slots_sessions)
  qed (use inv s' in simp)
next
  fix s e s' assume "insert_session h v s = (Inl e, s')"
    and pre: "radio_inv (h # F) (Some (h, p)) s \<and> (v \<longrightarrow> rs_items (rd_heap s h) \<noteq> None)"
  then show "radio_inv F None s'"
    by (auto simp: insert_session_def radio_preempt_def bnd_def act_simps split: if_splits)
qed

lemma release_now_inv: "triple (radio_inv (h # F) c) (release_now h) (\<lambda>_. radio_inv F None) (radio_inv F None)"
proof -
  have begin_: "triple (radio_inv (h # F) c) (modify (begin_release h)) (\<lambda>_. radio_inv F None) (radio_inv F None)"
    by (auto simp: triple_def act_simps radio_inv_def intro: radio_ok_begin)
  have "keeps (radio_inv F None) (bnd radio_preempt (\<lambda>_. modify (end_release h)))"
    by (intro keeps_intros radio.keeps_radio_preempt keeps_modify radio.ending)
  then show ?thesis unfolding release_now_def keeps_triple by (rule triple_bnd [OF begin_])
qed

lemma keeps_previous_state: "keeps (radio_inv F c) (previous_state prev t)"
  unfolding previous_state_def by (intro keeps_intros radio.keeps_find_session radio.keeps_awaits radio.keeps_require_valid)

lemma keeps_open_task: "keeps (radio_inv F None) (open_task t prev req)"
proof -
  have refused: "triple (radio_inv (h # F) (Some (h, p))) (bnd (gets (valid_at h)) (\<lambda>valid. bnd (release_now h) (\<lambda>_.
      bnd (lift v) (\<lambda>_. bnd (require valid EXPIRED) (\<lambda>_. raise msg))))) (\<lambda>_. radio_inv F None) (radio_inv F None)"
    for h p msg and v :: "unit result"
    by (rule triple_bnd [where R = "\<lambda>_. radio_inv (h # F) (Some (h, p))"], simp add: triple_def act_simps,
        rule triple_bnd [OF release_now_inv], fold keeps_triple, intro keeps_intros)
  have decide: "triple (if inserted then radio_inv F None else radio_inv (h # F) (Some (h, p)))
      (if inserted then gets f else bnd (gets (valid_at h)) (\<lambda>valid. bnd (release_now h) (\<lambda>_.
      bnd (lift v) (\<lambda>_. bnd (require valid EXPIRED) (\<lambda>_. raise msg))))) (\<lambda>_. radio_inv F None) (radio_inv F None)"
    for h p msg inserted and v :: "unit result" and f :: "radio_state \<Rightarrow> page"
    using refused by (cases inserted) (simp_all add: triple_def act_simps)
  have created: "triple (radio_inv F None) (new_session t epoch b)
      (\<lambda>h s. radio_inv (h # F) (Some (h, tg_provider t)) s \<and> same_content h b s) (radio_inv F None)" for epoch b
  proof (rule tripleI)
    fix s h s' assume inv: "radio_inv F None s" and run: "new_session t epoch b s = (Inr h, s')"
    then have "same_content h b s'"
      by (auto simp: same_content_def new_session_def new_session_id_def bnd_def act_simps upd_session_def)
    then show "radio_inv (h # F) (Some (h, tg_provider t)) s' \<and> same_content h b s'"
      using triple_InrD [OF new_session_inv inv run] by simp
  qed (rule triple_InlD [OF new_session_inv])
  have tail: "keeps (radio_inv F None) (bnd (new_session t epoch b) (\<lambda>h.
      bnd (abandon h (guarded (admit_items h t b))) (\<lambda>v.
      bnd (insert_session h (\<not> is_err v)) (\<lambda>inserted.
      if inserted then gets (\<lambda>s. rs_data (rd_heap s h))
      else bnd (gets (valid_at h)) (\<lambda>valid. bnd (release_now h) (\<lambda>_.
        bnd (lift v) (\<lambda>_. bnd (require valid EXPIRED) (\<lambda>_. raise msg))))))))" for epoch b msg
    unfolding keeps_triple
    by (rule triple_bnd [OF created], rule triple_bnd [OF abandon_armed], rule triple_bnd [OF insert_session_inv decide])
  show ?thesis
    unfolding open_task_def Let_def
    by (intro keeps_bnd keeps_basic keeps_previous_state radio.keeps_call_provider tail) simp_all
qed

lemma keeps_radio_open: "keeps (radio_inv F None) (radio_open t op prev req)"
  unfolding radio_open_def
  by (intro keeps_intros radio.keeps_check_operation_id radio.keeps_operation radio.keeps_radio_preempt keeps_open_task)

subsection \<open>Reachability\<close>

lemma radio_inv_step:
  assumes "radio_step s s'" and inv: "radio_inv F None s"
  shows "radio_inv F None s'"
  using assms(1)
proof (cases rule: radio_step.cases)
  case (radio_schedule es)
  then show ?thesis using radio.quieted [OF inv quiet_simple(2)] by simp
next
  case (radio_event e)
  then show ?thesis using radio.happened [OF inv] by simp
next
  case (radio_opens t i prev req r)
  from keepsD [OF keeps_radio_open inv radio_opens] show ?thesis .
next
  case (radio_continues t i op v ids r)
  from keepsD [OF keeps_radio_next inv radio_continues] show ?thesis .
next
  case (radio_closes i u)
  from keepsD [OF radio.keeps_close inv radio_closes] show ?thesis .
next
  case (radio_collects u)
  from keepsD [OF radio.keeps_collect inv radio_collects] show ?thesis .
next
  case (radio_invalidates p u)
  from keepsD [OF radio.keeps_invalidate_provider inv radio_invalidates] show ?thesis .
next
  case (radio_stops u)
  from keepsD [OF radio.keeps_shutdown inv radio_stops] show ?thesis .
next
  case (radio_syncs y)
  have items: "items_ok s" using inv by (simp add: radio_inv_def radio_ok_def)
  have "counts_ok y" using items_okD(1) [OF items] counts.reachable_inv [OF sync_more [OF sync_start radio_syncs(2)]] by blast
  with radio_syncs(3) have "items_ok (s\<lparr>rd_sync := y\<rparr>)" by (intro items_ok_cong [OF items]) simp_all
  with inv show ?thesis
    by (simp add: radio_syncs(1) radio_inv_def radio_ok_def accounted_def within_limits_def)
qed

lemma radio_inv_reachable: "radio_reachable s0 s \<Longrightarrow> radio_inv F None s0 \<Longrightarrow> radio_inv F None s"
  by (induction rule: radio_reachable.induct) (auto intro: radio_inv_step)

text \<open>The service when it starts: no session, no operation, and fresh identifiers that never repeat.\<close>

definition radio_initial :: "radio_state \<Rightarrow> bool" where
  "radio_initial s \<longleftrightarrow> rd_sessions s = [] \<and> rd_operations s = [] \<and> rd_next s = 0 \<and> rd_uuids s = 0
     \<and> rd_releasing s = [] \<and> rd_dropped s = [] \<and> rd_log s = [] \<and> inj (en_uuid (rd_env s))
     \<and> sy_retentions (rd_sync s) = [] \<and> (\<forall>p. ps_retained (sy_providers (rd_sync s) p) = [])"

lemma radio_initial_inv: "radio_initial s \<Longrightarrow> radio_inv [] None s"
  by (simp add: radio_initial_def radio_inv_def radio_ok_def accounted_def items_ok_def slots_hold_def slots_unique_def
      within_limits_def counts_ok_def holders_def count_of_def)

end
