(* ===== verification/Radio_Props.thy ===== *)
theory Radio_Props
  imports Radio_Reach "HOL-Library.Code_Target_Nat"
begin

section \<open>What the radio service guarantees\<close>

definition radio_song :: song_row where
  "radio_song = (song_default 2)\<lparr>so_name := ''B''\<rparr>"

definition radio_catalog :: catalog where
  "radio_catalog = \<lparr>ct_providers = [1], ct_libraries = [],
     ct_items = [\<lparr>it_id = 2, it_native = ''two'', it_library = None, it_provider = 1, it_type = Song,
       it_create = 0, it_update = 0, it_sync = 0\<rparr>],
     ct_albums = [], ct_artists = [], ct_songs = [radio_song], ct_remote_mixes = [], ct_mixes = [], ct_dynamics = [],
     ct_images = [], ct_album_artists = [], ct_song_artists = [], ct_mix_songs = [], ct_sequence = (\<lambda>_. 9)\<rparr>"

definition radio_batch :: queue_batch where
  "radio_batch = \<lparr>qb_songs = [radio_song], qb_state = ''st'', qb_configuration = [], qb_source = None, qb_exhausted = False\<rparr>"

definition radio_env :: queue_env where
  "radio_env = \<lparr>en_definition = (\<lambda>_. Inr []), en_open = (\<lambda>_. Inr radio_batch), en_next = (\<lambda>_. Inr radio_batch),
     en_uuid = (\<lambda>n. replicate n (CHR ''x'')), en_uuid_ok = (\<lambda>s. s = ''u'')\<rparr>"

definition radio_sync :: sync_state where
  "radio_sync = \<lparr>sy_db = radio_catalog, sy_faults = [], sy_events = [], sy_now = 0,
     sy_providers = (\<lambda>_. provider_state_default), sy_projection = 1, sy_epochs = (\<lambda>_. None), sy_instance = ''i'',
     sy_generations = (\<lambda>_. 0), sy_runs = (\<lambda>_. run_new 0 0 0), sy_next_run = 0, sy_retentions = [], sy_next_retention = 0\<rparr>"

definition radio_target :: target where
  "radio_target = \<lparr>tg_queue = 7, tg_native = ''q'', tg_provider = 0\<rparr>"

definition radio_request :: queue_open_request where
  "radio_request = \<lparr>qo_configuration = [], qo_input = None, qo_reason = Initial, qo_previous = None\<rparr>"

definition radio_idle :: "radio_event list list \<Rightarrow> radio_state" where
  "radio_idle es = \<lparr>rd_sessions = [], rd_heap = (\<lambda>_. \<lparr>rs_target = radio_target, rs_epoch = 0, rs_closed = True, rs_touched = 0,
       rs_data = \<lparr>pg_session = [], pg_version = 0, pg_batch = radio_batch\<rparr>, rs_locked = False, rs_items = None\<rparr>),
     rd_next = 0, rd_operations = [], rd_tasks = (\<lambda>_. \<lparr>op_provider = 0, op_epoch = 0, op_fingerprint = NextPrint 0 [],
       op_created = 0, op_result = None\<rparr>),
     rd_next_task = 0, rd_stopped = False, rd_releasing = [], rd_dropped = [], rd_ids = (\<lambda>_. Some 1), rd_epochs = (\<lambda>_. 0),
     rd_registered = (\<lambda>_. Some 0), rd_now = 0, rd_wall = 1000, rd_uuids = 0, rd_log = [], rd_timed_out = False,
     rd_events = es, rd_env = radio_env, rd_sync = radio_sync\<rparr>"

lemma radio_idle_initial: "radio_initial (radio_idle es)"
  by (simp add: radio_initial_def radio_idle_def radio_env_def radio_sync_def provider_state_default_def inj_def
      replicate_eq_replicate)

definition radio_opened :: "page result \<times> radio_state" where
  "radio_opened = radio_open radio_target ''1000:u'' [] radio_request (radio_idle [])"


definition opened_as_expected :: "page result \<Rightarrow> radio_state \<Rightarrow> bool" where
  "opened_as_expected r s \<longleftrightarrow>
     rd_sessions s = [([], 0)] \<and> map so_id (qb_songs (pg_batch (rs_data (rd_heap s 0)))) = [2]
     \<and> rd_ids s (tg_provider (rs_target (rd_heap s 0))) = Some 1
     \<and> map_of (rd_operations s) ''open/1000:u'' = Some 0 \<and> distinct (map fst (rd_operations s))
     \<and> op_result (rd_tasks s 0) = Some r \<and> rd_now s - op_created (rd_tasks s 0) < 5 * 60 * 1000
     \<and> op_provider (rd_tasks s 0) = 0 \<and> op_epoch (rd_tasks s 0) = rd_epochs s 0 \<and> validate_provider s 0
     \<and> \<not> rd_stopped s \<and> rd_events s = []
     \<and> same_fingerprint (op_fingerprint (rd_tasks s 0)) (OpenPrint 7 (Some 1) [] Initial None [])
     \<and> \<not> is_err (fst (next_task 0 radio_target 1 [] s))"

lemma radio_opened_expected: "opened_as_expected (fst radio_opened) (snd radio_opened)"
  by code_simp

lemmas radio_opened_facts = radio_opened_expected [unfolded opened_as_expected_def]

lemma radio_opened_reachable: "radio_reachable (radio_idle []) (snd radio_opened)"
proof -
  have "radio_step (radio_idle []) (snd radio_opened)"
    by (rule radio_opens [of radio_target "''1000:u''" "[]" radio_request _ "fst radio_opened"]) (simp add: radio_opened_def)
  with radio_start show ?thesis by (rule radio_more)
qed


text \<open>C9: whatever fails and whatever happens meanwhile, every queue that the provider has opened for a session is
  exactly one of these: in the table, on its way to being closed, closed by exactly one call, or dropped by the time limit of
  its \<^verbatim>\<open>open\<close>; and the tables never exceed their limits.\<close>

theorem radio_queues_accounted:
  assumes "radio_reachable s0 s" and "radio_initial s0"
  shows "mset (map snd (rd_sessions s) @ rd_releasing s @ closed_handles (rd_log s) @ rd_dropped s) = mset [0..<rd_next s]
    \<and> length (rd_sessions s) \<le> 128 \<and> length (rd_operations s) \<le> 512"
  using radio_inv_reachable [OF assms(1) radio_initial_inv [OF assms(2)]]
  by (simp add: radio_inv_def radio_ok_def accounted_def within_limits_def MAX_SESSIONS_def MAX_OPERATIONS_def ac_simps)

theorem radio_queues_accounted_witness:
  "mset (map snd (rd_sessions (snd radio_opened)) @ rd_releasing (snd radio_opened)
     @ closed_handles (rd_log (snd radio_opened)) @ rd_dropped (snd radio_opened)) = mset [0..<rd_next (snd radio_opened)]
   \<and> rd_sessions (snd radio_opened) = [([], 0)]"
proof
  show "rd_sessions (snd radio_opened) = [([], 0)]" by (simp add: radio_opened_facts)
qed (use radio_queues_accounted [OF radio_opened_reachable radio_idle_initial] in blast)





subsection \<open>Repeated requests\<close>

lemma purge_frame:
  "validate_provider (purge_operations s) p = validate_provider s p" "rd_tasks (purge_operations s) = rd_tasks s"
  "rd_epochs (purge_operations s) = rd_epochs s" "rd_events (purge_operations s) = rd_events s"
  by (simp_all add: purge_operations_def validate_provider_def split: option.split)

text \<open>C27: a request that repeats a finished operation of the same provider gets the recorded answer, success or error,
  and nothing is executed again: only outdated operations leave the table. A different request under the same operation id
  is a conflict.\<close>

theorem repeated_operation_answers_once:
  assumes "map_of (rd_operations s) key = Some t" and "distinct (map fst (rd_operations s))"
    and "op_result (rd_tasks s t) = Some r" and "rd_now s - op_created (rd_tasks s t) < 5 * 60 * 1000"
    and "op_provider (rd_tasks s t) = p" and "op_epoch (rd_tasks s t) = rd_epochs s p"
    and "validate_provider s p" and "\<not> rd_stopped s" and "rd_events s = []"
  shows "operation key print p run s =
    (if same_fingerprint (op_fingerprint (rd_tasks s t)) print then r else Inl CONFLICT, purge_operations s)"
proof -
  have "(key, t) \<in> set (rd_operations (purge_operations s))"
    using map_of_SomeD [OF assms(1)] assms(4) by (simp add: purge_operations_def OPERATION_TTL_def Let_def)
  moreover have "distinct (map fst (rd_operations (purge_operations s)))"
    using assms(2) by (simp add: purge_operations_def distinct_map_filter)
  ultimately have found: "map_of (rd_operations (purge_operations s)) key = Some t" by simp
  have preempt: "radio_preempt s = (Inr (), s)" using assms(9) by (simp add: radio_preempt_def act_simps)
  have join: "join_or_insert key print p s = (if same_fingerprint (op_fingerprint (rd_tasks s t)) print then Inr (t, False)
      else Inl CONFLICT, purge_operations s)"
    using found assms(5,6) by (simp add: join_or_insert_def bnd_def act_simps purge_frame)
  have wait: "await_result n t (purge_operations s) = (Inr r, purge_operations s)" for n
    using assms(3) by (cases n) (simp_all add: bnd_def act_simps purge_frame)
  show ?thesis
    using assms(3) assms(5-9) join wait by (cases r) (simp_all add: operation_def preempt bnd_def act_simps purge_frame)
qed

theorem repeated_operation_answers_once_witness:
  "fst (operation ''open/1000:u'' (OpenPrint 7 (Some 1) [] Initial None []) 0 (raise ''again'') (snd radio_opened)) = fst radio_opened"
proof -
  let ?s = "snd radio_opened"
  have "map_of (rd_operations ?s) ''open/1000:u'' = Some 0" by (simp add: radio_opened_facts)
  moreover have "distinct (map fst (rd_operations ?s))" by (simp add: radio_opened_facts)
  moreover have "op_result (rd_tasks ?s 0) = Some (fst radio_opened)" by (simp add: radio_opened_facts)
  moreover have "rd_now ?s - op_created (rd_tasks ?s 0) < 5 * 60 * 1000" using radio_opened_facts by blast
  moreover have "op_provider (rd_tasks ?s 0) = 0" by (simp add: radio_opened_facts)
  moreover have "op_epoch (rd_tasks ?s 0) = rd_epochs ?s 0" by (simp add: radio_opened_facts)
  moreover have "validate_provider ?s 0" by (simp add: radio_opened_facts)
  moreover have "\<not> rd_stopped ?s" by (simp add: radio_opened_facts)
  moreover have "rd_events ?s = []" by (simp add: radio_opened_facts)
  ultimately have "operation ''open/1000:u'' (OpenPrint 7 (Some 1) [] Initial None []) 0 (raise ''again'') ?s
      = (if same_fingerprint (op_fingerprint (rd_tasks ?s 0)) (OpenPrint 7 (Some 1) [] Initial None []) then fst radio_opened
         else Inl CONFLICT, purge_operations ?s)"
    by (rule repeated_operation_answers_once)
  moreover have "same_fingerprint (op_fingerprint (rd_tasks ?s 0)) (OpenPrint 7 (Some 1) [] Initial None [])" by (simp add: radio_opened_facts)
  ultimately show ?thesis by simp
qed

subsection \<open>Continuing\<close>

interpretation unturned: radio_frame
  "\<lambda>s :: radio_state. pg_version (rs_data (rd_heap s h)) = v \<and> qb_songs (pg_batch (rs_data (rd_heap s h))) = ms" for h v ms
proof unfold_locales
  fix s :: radio_state and i assume "pg_version (rs_data (rd_heap s h)) = v \<and> qb_songs (pg_batch (rs_data (rd_heap s h))) = ms"
  then show "pg_version (rs_data (rd_heap (take_session i s) h)) = v
      \<and> qb_songs (pg_batch (rs_data (rd_heap (take_session i s) h))) = ms"
    by (simp add: take_session_data)
next
  fix s :: radio_state and k assume "pg_version (rs_data (rd_heap s h)) = v \<and> qb_songs (pg_batch (rs_data (rd_heap s h))) = ms"
  then show "pg_version (rs_data (rd_heap (end_release k s) h)) = v
      \<and> qb_songs (pg_batch (rs_data (rd_heap (end_release k s) h))) = ms"
    by (simp add: end_release_def)
qed (simp_all add: quiet_def)

lemma triple_step: "keeps I m \<Longrightarrow> (\<And>x. triple I (f x) Q I) \<Longrightarrow> triple I (bnd m f) Q I"
  unfolding keeps_triple by (rule triple_bnd)

lemma next_locked_turns:
  "triple (\<lambda>s. pg_version (rs_data (rd_heap s h)) = v \<and> qb_songs (pg_batch (rs_data (rd_heap s h))) = ms)
     (next_locked h t expected current)
     (\<lambda>page s. v = expected \<and> pg_version page = (v + 1) mod 2 ^ 64 \<and> rs_data (rd_heap s h) = page)
     (\<lambda>s. pg_version (rs_data (rd_heap s h)) = v \<and> qb_songs (pg_batch (rs_data (rd_heap s h))) = ms)"
  (is "triple ?I _ ?Q _")
proof -
  have turn: "triple ?I (bnd (replace_page h b i) (\<lambda>_. gets (\<lambda>s. rs_data (rd_heap s h))))
      (\<lambda>page s. pg_version page = (v + 1) mod 2 ^ 64 \<and> rs_data (rd_heap s h) = page) ?I" for b i
    by (simp add: triple_def bnd_def act_simps replace_page_turned turned_def)
  have failing: "triple ?I (bnd m (\<lambda>_. raise msg)) Q ?I" if "keeps ?I m" for m :: "unit radio" and msg and Q :: "page \<Rightarrow> _"
    using that by (intro triple_step) (simp_all add: triple_def act_simps)
  have failing2: "triple ?I (bnd m (\<lambda>_. bnd k (\<lambda>_. raise msg))) Q ?I" if "keeps ?I m" "keeps ?I k"
    for m k :: "unit radio" and msg and Q :: "page \<Rightarrow> _"
    using that by (intro triple_step) (simp_all add: triple_def act_simps)
  have state: "keeps ?I (set_state h st)" for st
    unfolding set_state_def by (rule unturned.keeps_quiet) (rule quiet_state)
  have sync: "keeps ?I (on_sync m)" for m :: "'a op"
    by (simp add: keeps_def on_sync_def split: prod.split)
  have retain: "keeps ?I (retain_batch t b ids)" for b ids
    unfolding retain_batch_def by (intro keeps_intros unturned.keeps_awaits sync)
  have drop: "keeps ?I (drop_retained i)" for i
    by (simp add: keeps_def drop_retained_def act_simps)
  have rest: "triple ?I (bnd (require (\<not> qb_exhausted (pg_batch page)) ended) (\<lambda>_.
     bnd (gets (kept_songs h current)) (\<lambda>retained.
     bnd (call_provider (NextCall (tg_provider t) (tg_native t) (qb_state (pg_batch page)) current) en_next) (\<lambda>b.
     bnd (gets (valid_at h)) (\<lambda>valid.
     if \<not> valid then bnd (set_state h (qb_state b)) (\<lambda>_. raise EXPIRED)
     else
       bnd (lift (validate_queue b False)) (\<lambda>_.
       bnd (require (same_configuration (qb_configuration b) (qb_configuration (pg_batch page))) changed) (\<lambda>_.
       bnd (retain_batch t b retained) (\<lambda>i.
       bnd radio_preempt (\<lambda>_.
       bnd (gets (valid_at h)) (\<lambda>valid.
       if \<not> valid then bnd (set_state h (qb_state b)) (\<lambda>_. bnd (drop_retained i) (\<lambda>_. raise EXPIRED))
       else bnd (replace_page h b i) (\<lambda>_. gets (\<lambda>s. rs_data (rd_heap s h)))))))))))))
     (\<lambda>page s. pg_version page = (v + 1) mod 2 ^ 64 \<and> rs_data (rd_heap s h) = page) ?I" for page ended changed
    by (intro triple_step triple_if turn failing failing2 state retain drop keeps_intros unturned.keeps_radio_preempt
        unturned.keeps_call_provider) simp_all
  have start: "triple ?I (gets (\<lambda>s. rs_data (rd_heap s h))) (\<lambda>page s. pg_version page = v \<and> ?I s) ?I"
    by (simp add: triple_def act_simps)
  have checked: "triple (\<lambda>s. pg_version page = v \<and> ?I s) (require (pg_version page = expected) CONFLICT)
      (\<lambda>_ s. v = expected \<and> ?I s) ?I" for page
    by (auto simp: triple_def act_simps)
  show ?thesis
    unfolding next_locked_def
    by (rule triple_step [OF unturned.keeps_require_valid], rule triple_bnd [OF start], rule triple_bnd [OF checked])
      (rule tripleI; use rest in \<open>blast dest: triple_InrD triple_InlD\<close>)
qed

lemma triple_unlock:
  assumes "triple P m Q E" and "\<And>x s. Q x s \<Longrightarrow> Q x (f s)" and "\<And>s. E s \<Longrightarrow> E (f s)"
  shows "triple P (bnd (attempt m) (\<lambda>r. bnd (modify f) (\<lambda>_. lift r))) Q E"
proof (rule tripleI)
  fix s r s' assume "P s" and "bnd (attempt m) (\<lambda>r. bnd (modify f) (\<lambda>_. lift r)) s = (Inr r, s')"
  moreover obtain r1 s1 where "m s = (r1, s1)" by fastforce
  ultimately show "Q r s'"
    using triple_InrD [OF assms(1)] assms(2) by (cases r1) (auto simp: bnd_def act_simps)
next
  fix s e s' assume "P s" and "bnd (attempt m) (\<lambda>r. bnd (modify f) (\<lambda>_. lift r)) s = (Inl e, s')"
  moreover obtain r1 s1 where "m s = (r1, s1)" by fastforce
  ultimately show "E s'"
    using triple_InlD [OF assms(1)] assms(3) by (cases r1) (auto simp: bnd_def act_simps)
qed

text \<open>C10: continuing a session turns exactly one page. Success means that the caller named the current version, and the
  answer is the page that the session now holds, one version later (with the wrap-around of 64 bits); any failure, whatever
  else happens meanwhile, leaves the version and the songs of the session as they were.\<close>

theorem next_turns_one_page:
  assumes "next_task h t expected current s = (r, s')"
  shows "case r of
      Inr page \<Rightarrow> pg_version (rs_data (rd_heap s h)) = expected \<and> pg_version page = (expected + 1) mod 2 ^ 64
        \<and> rs_data (rd_heap s' h) = page
    | Inl _ \<Rightarrow> pg_version (rs_data (rd_heap s' h)) = pg_version (rs_data (rd_heap s h))
        \<and> qb_songs (pg_batch (rs_data (rd_heap s' h))) = qb_songs (pg_batch (rs_data (rd_heap s h)))"
proof -
  let ?v = "pg_version (rs_data (rd_heap s h))" and ?ms = "qb_songs (pg_batch (rs_data (rd_heap s h)))"
  let ?I = "\<lambda>s. pg_version (rs_data (rd_heap s h)) = ?v \<and> qb_songs (pg_batch (rs_data (rd_heap s h))) = ?ms"
  let ?Q = "\<lambda>page s. ?v = expected \<and> pg_version page = (?v + 1) mod 2 ^ 64 \<and> rs_data (rd_heap s h) = page"
  let ?lock = "\<lambda>b s. upd_session h (\<lambda>x. x\<lparr>rs_locked := b\<rparr>) s"
  have lock: "rs_data (rd_heap (?lock b s) h) = rs_data (rd_heap s h)" for b s by (simp add: upd_session_def)
  have "keeps ?I (modify (?lock True))" by (simp add: keeps_def act_simps lock)
  moreover have "triple ?I (bnd (attempt (next_locked h t expected current)) (\<lambda>r. bnd (modify (?lock False)) (\<lambda>_. lift r))) ?Q ?I"
    by (rule triple_unlock [OF next_locked_turns]) (simp_all only: lock)
  ultimately have "triple ?I (next_task h t expected current) ?Q ?I"
    unfolding next_task_def by (rule triple_step [OF unturned.keeps_awaits triple_step])
  then show ?thesis using assms by (auto simp: triple_def split: sum.splits)
qed

theorem next_turns_one_page_witness:
  "map_sum (\<lambda>e. e) pg_version (fst (next_task 0 radio_target 1 [] (snd radio_opened))) = Inr 2
   \<and> pg_version (rs_data (rd_heap (snd (next_task 0 radio_target 1 [] (snd radio_opened))) 0)) = 2"
proof -
  obtain r s' where run: "next_task 0 radio_target 1 [] (snd radio_opened) = (r, s')" by fastforce
  moreover have "\<not> is_err (fst (next_task 0 radio_target 1 [] (snd radio_opened)))" using radio_opened_facts by blast
  ultimately obtain page where page: "r = Inr page" by (cases r) (simp_all add: is_err_def)
  with next_turns_one_page [OF run] have "pg_version page = (1 + 1) mod 2 ^ 64" "rs_data (rd_heap s' 0) = page"
    by (simp_all only: sum.case)
  then show ?thesis unfolding run page by simp
qed

end
