(* ===== verification/Identity.thy ===== *)
theory Identity
  imports Prelude
begin

section \<open>Identifiers in requests\<close>

text \<open>\<^verbatim>\<open>src/backend/main/src/identity.rs\<close>: an identifier that a request must name, and a list of identifiers.\<close>

definition checked :: "int list \<Rightarrow> string \<Rightarrow> unit result" where
  "checked ids name = ensure (\<forall>i \<in> set ids. 0 < i) (''wrong id: '' @ name)"

definition required :: "int option \<Rightarrow> string \<Rightarrow> int result" where
  "required i name =
     and_then (ok_or i (''missing fields: '' @ name)) (\<lambda>i.
     and_then (ensure (0 < i) (''wrong id: '' @ name)) (\<lambda>_. Inr i))"

definition optional_id :: "int option \<Rightarrow> string \<Rightarrow> int option result" where
  "optional_id i name =
     (case i of None \<Rightarrow> Inr None | Some _ \<Rightarrow> and_then (required i name) (\<lambda>n. Inr (Some n)))"

end
