(* ===== verification/User_Edits.thy ===== *)
theory User_Edits
  imports Sync_Prune Identity
begin

section \<open>What the user changes in the library\<close>

text \<open>
  The requests of \<^verbatim>\<open>src/backend/main/src/api/process_qcm.rs\<close> that write the library: mixes are created, deleted,
  linked and edited (\<^verbatim>\<open>src/backend/core/src/model/mix.rs\<close>), songs and albums become favourites, playback is logged. All of
  them take the write guards of the providers they touch. The registry of providers, the call that tells the provider about a favourite and what is playing are
  outside the database and given to the definitions as functions.
\<close>

subsection \<open>Songs of a mix\<close>

definition mix_rows :: "int \<Rightarrow> catalog \<Rightarrow> mix_song_row list" where
  "mix_rows mix d = filter (\<lambda>r. ms_mix r = mix) (ct_mix_songs d)"

definition upd_mix_songs :: "(mix_song_row list \<Rightarrow> mix_song_row list) \<Rightarrow> catalog \<Rightarrow> catalog" where
  "upd_mix_songs f d = d\<lparr>ct_mix_songs := f (ct_mix_songs d)\<rparr>"

text \<open>
  One row of the upsert: a conflict on the song and the mix replaces the other columns but the order; the key that the
  row would have got is drawn from the sequence in both cases.
\<close>

definition append_row :: "int \<Rightarrow> int \<Rightarrow> int \<Rightarrow> catalog \<Rightarrow> catalog" where
  "append_row mix t song d =
     (let i = next_id MixSongTable d in
      upd_mix_songs (\<lambda>rows.
        if \<exists>r \<in> set rows. ms_mix r = mix \<and> ms_song r = song
        then map (\<lambda>r. if ms_mix r = mix \<and> ms_song r = song then r\<lparr>ms_id := i, ms_update := t\<rparr> else r) rows
        else rows @ [\<lparr>ms_id = i, ms_song = song, ms_mix = mix, ms_order = 0, ms_update = t\<rparr>]) (advance MixSongTable d))"

definition insert_mix_songs :: "int \<Rightarrow> int list \<Rightarrow> unit op" where
  "insert_mix_songs mix songs =
     (if songs = [] then ret ()
      else
        bnd now (\<lambda>t.
        constrained (\<lambda>d. (\<exists>m \<in> set (ct_mixes d). mx_id m = mix) \<and> (\<forall>i \<in> set songs. find_song i d \<noteq> None)) FOREIGN_KEY
          (fold (append_row mix t) songs)))"

definition unordered :: "mix_song_row list \<Rightarrow> mix_song_row list" where
  "unordered rows = filter (\<lambda>r. ms_order r = 0) rows"

definition max_order :: "mix_song_row list \<Rightarrow> int" where
  "max_order rows = (if rows = [] then -1 else Max (set (map ms_order rows)))"

definition new_orders :: "mix_song_row list \<Rightarrow> (int \<times> int) list" where
  "new_orders rows =
     (let fresh = sort_key ms_id (unordered rows) in
      zip (map ms_song fresh) (map (\<lambda>k. max_order rows + 1 + int k) [0..<length fresh]))"

definition reorder_rows :: "int \<Rightarrow> mix_song_row list \<Rightarrow> mix_song_row list" where
  "reorder_rows mix rows =
     (let orders = new_orders (filter (\<lambda>r. ms_mix r = mix) rows) in
      map (\<lambda>r. if ms_mix r = mix \<and> ms_order r = 0
               then (case map_of orders (ms_song r) of None \<Rightarrow> r | Some k \<Rightarrow> r\<lparr>ms_order := k\<rparr>) else r) rows)"

definition reorder_append :: "int \<Rightarrow> unit op" where
  "reorder_append mix = change (upd_mix_songs (reorder_rows mix))"

definition add_tracks :: "int \<Rightarrow> int \<Rightarrow> int \<Rightarrow> catalog \<Rightarrow> catalog" where
  "add_tracks mix t delta d = d\<lparr>ct_mixes := map (\<lambda>m. if mx_id m = mix
     then m\<lparr>mx_track_count := mx_track_count m + delta, mx_update := t\<rparr> else m) (ct_mixes d)\<rparr>"

definition update_track_count :: "int \<Rightarrow> int \<Rightarrow> unit op" where
  "update_track_count mix delta =
     (if delta = 0 then ret () else bnd now (\<lambda>t. change (add_tracks mix t delta)))"

definition append_songs :: "int \<Rightarrow> int list \<Rightarrow> nat op" where
  "append_songs mix songs =
     bnd (insert_mix_songs mix songs) (\<lambda>_.
     bnd (select (\<lambda>d. length (unordered (mix_rows mix d)))) (\<lambda>count.
     bnd (reorder_append mix) (\<lambda>_.
     bnd (update_track_count mix (int count)) (\<lambda>_.
     ret count))))"

definition remove_songs :: "int \<Rightarrow> int list \<Rightarrow> nat op" where
  "remove_songs mix songs =
     bnd statement (\<lambda>_.
     bnd (gets (\<lambda>s. length (filter (\<lambda>r. ms_song r \<in> set songs) (mix_rows mix (sy_db s))))) (\<lambda>n.
     bnd (modify (\<lambda>s. s\<lparr>sy_db := upd_mix_songs (filter (\<lambda>r. \<not> (ms_mix r = mix \<and> ms_song r \<in> set songs))) (sy_db s)\<rparr>)) (\<lambda>_.
     bnd (update_track_count mix (- int n)) (\<lambda>_.
     ret n))))"

subsection \<open>Requests\<close>

definition mix_new :: "int \<Rightarrow> string \<Rightarrow> int \<Rightarrow> mix_row" where
  "mix_new i name t = \<lparr>mx_id = i, mx_name = name, mx_track_count = 0, mx_type = NormalMix, mx_sort_name = None,
     mx_description = [], mx_remote = None, mx_create = t, mx_update = t, mx_content_update = 0\<rparr>"

definition create_mix :: "string \<Rightarrow> int list \<Rightarrow> int op" where
  "create_mix name songs =
     bnd (lift (checked songs ''song_ids'')) (\<lambda>_.
     bnd (write_guard 0 None) (\<lambda>_.
     bnd now (\<lambda>t.
     bnd statement (\<lambda>_.
     bnd (gets (\<lambda>s. next_id MixTable (sy_db s))) (\<lambda>i.
     bnd (modify (\<lambda>s. s\<lparr>sy_db := (advance MixTable (sy_db s))\<lparr>ct_mixes := ct_mixes (sy_db s) @ [mix_new i name t]\<rparr>\<rparr>)) (\<lambda>_.
     ret i))))))"

definition delete_mix :: "int list \<Rightarrow> unit op" where
  "delete_mix ids =
     bnd (lift (checked ids ''mix_ids'')) (\<lambda>_.
     bnd (write_mixes ids []) (\<lambda>_.
     bnd (change (\<lambda>d. delete_mixes (\<lambda>i. i \<in> set ids \<and> (\<exists>m \<in> set (ct_mixes d). mx_id m = i \<and> mx_type m = NormalMix)) d)) (\<lambda>_.
     bnd now (\<lambda>t.
     change (\<lambda>d. d\<lparr>ct_mixes := map (\<lambda>m. if mx_id m \<in> set ids \<and> mx_type m = LinkMix
       then m\<lparr>mx_type := CacheMix, mx_update := t\<rparr> else m) (ct_mixes d)\<rparr>)))))"

definition link_mix :: "int list \<Rightarrow> unit op" where
  "link_mix ids =
     bnd (lift (checked ids ''mix_ids'')) (\<lambda>_.
     bnd (write_mixes ids []) (\<lambda>_.
     bnd now (\<lambda>t.
     change (\<lambda>d. d\<lparr>ct_mixes := map (\<lambda>m. if mx_id m \<in> set ids
       then m\<lparr>mx_type := LinkMix, mx_update := t\<rparr> else m) (ct_mixes d)\<rparr>))))"

datatype mix_oper = UnspecifiedOper | AddSongs | RemoveSongs | AddAlbums

definition album_songs :: "int list \<Rightarrow> catalog \<Rightarrow> int list" where
  "album_songs albums d = map so_id (filter (\<lambda>m. case so_album m of None \<Rightarrow> False | Some a \<Rightarrow> a \<in> set albums) (ct_songs d))"

definition mix_manipulate :: "int option \<Rightarrow> mix_oper \<Rightarrow> int list \<Rightarrow> int list \<Rightarrow> nat op" where
  "mix_manipulate mix oper songs albums =
     bnd (lift (required mix ''mix_id'')) (\<lambda>mix.
     bnd (lift (checked songs ''song_ids'')) (\<lambda>_.
     bnd (lift (checked albums ''album_ids'')) (\<lambda>_.
     bnd (write_mixes [mix] (songs @ albums)) (\<lambda>_.
     in_txn (case oper of
         AddSongs \<Rightarrow> append_songs mix songs
       | RemoveSongs \<Rightarrow> remove_songs mix songs
       | AddAlbums \<Rightarrow> bnd (select (album_songs albums)) (append_songs mix)
       | UnspecifiedOper \<Rightarrow> raise ''not implemented'')))))"

subsection \<open>Favourites\<close>

text \<open>\<^verbatim>\<open>resolve_provider_item\<close> of \<^verbatim>\<open>provider_item.rs\<close>; \<open>known\<close> says which providers are registered.\<close>

definition resolve_provider_item :: "(int \<Rightarrow> bool) \<Rightarrow> int \<Rightarrow> int \<Rightarrow> item_row option op" where
  "resolve_provider_item known i code =
     bnd (require (0 < i) ''wrong id'') (\<lambda>_.
     bnd (lift (ok_or (item_type_of code) ''no such item type'')) (\<lambda>kind.
     let kind = (if kind = AlbumArtist then Artist else kind) in
     bnd (if kind = Mix then
            bnd (select (\<lambda>d. find (\<lambda>m. mx_id m = i) (ct_mixes d))) (\<lambda>mix.
            bnd (lift (ok_or mix ''no such mix'')) (\<lambda>mix. ret (mx_remote mix)))
          else ret (if kind \<in> {Song, Album, Artist} then Some i else None)) (\<lambda>remote.
       case remote of
         None \<Rightarrow> ret None
       | Some remote \<Rightarrow>
           bnd (select (find_item remote)) (\<lambda>it.
           bnd (lift (ok_or it ''not found'')) (\<lambda>it.
           bnd (require (it_type it = kind) ''wrong id'') (\<lambda>_.
           bnd (require (known (it_provider it)) ''no such provider'') (\<lambda>_.
           ret (Some it))))))))"

definition put_favorite :: "int \<Rightarrow> int option \<Rightarrow> int \<Rightarrow> unit op" where
  "put_favorite i at t =
     constrained (\<lambda>d. find_item i d \<noteq> None) FOREIGN_KEY
       (\<lambda>d. d\<lparr>ct_dynamics := (if find_dynamic i d = None
          then ct_dynamics d @ [(dynamic_default i)\<lparr>dy_favorite_at := at, dy_update := t\<rparr>]
          else map (\<lambda>r. if dy_id r = i then r\<lparr>dy_favorite_at := at\<rparr> else r) (ct_dynamics d))\<rparr>)"

definition set_favorite :: "(int \<Rightarrow> bool) \<Rightarrow> (item_row \<Rightarrow> bool \<Rightarrow> unit result) \<Rightarrow> int \<Rightarrow> int \<Rightarrow> bool \<Rightarrow> unit op" where
  "set_favorite known call i code on =
     bnd (resolve_provider_item known i code) (\<lambda>target.
     bnd (lift (ok_or target ''unsupported item type'')) (\<lambda>it.
     bnd (lift (call it on)) (\<lambda>_.
     bnd preempt (\<lambda>_.
     bnd (write_guard (it_provider it) None) (\<lambda>_.
     bnd (favorite (it_provider it) (it_id it)) (\<lambda>_.
     if it_type it \<in> {Album, Song, Artist}
     then bnd now (\<lambda>t. put_favorite (it_id it) (if on then Some t else None) t)
     else ret ()))))))"

subsection \<open>The play log\<close>

datatype playlog_action = UnspecifiedAction | Play | Pause | Stop | NextTrack | PrevTrack

definition playlog_action_of :: "int \<Rightarrow> playlog_action" where
  "playlog_action_of n = (if n = 1 then Play else if n = 2 then Pause else if n = 3 then Stop
     else if n = 4 then NextTrack else if n = 5 then PrevTrack else UnspecifiedAction)"

record user_state =
  us_sync :: sync_state
  us_playing :: "int \<Rightarrow> (int \<times> string) option"

definition synced :: "'a op \<Rightarrow> (user_state, 'a) act" where
  "synced m s = (case m (us_sync s) of (r, y) \<Rightarrow> (r, s\<lparr>us_sync := y\<rparr>))"

definition note_playing :: "playlog_action \<Rightarrow> int \<Rightarrow> item_row \<Rightarrow> user_state \<Rightarrow> user_state" where
  "note_playing action song it s = (case action of
      Play \<Rightarrow> s\<lparr>us_playing := (us_playing s)(it_provider it := Some (song, it_native it))\<rparr>
    | Stop \<Rightarrow> s\<lparr>us_playing := (us_playing s)(it_provider it := None)\<rparr>
    | _ \<Rightarrow> s)"

definition played_row :: "int \<Rightarrow> int \<Rightarrow> int \<Rightarrow> dynamic_row list \<Rightarrow> dynamic_row list" where
  "played_row at t i rows =
     (if \<exists>r \<in> set rows. dy_id r = i
      then map (\<lambda>r. if dy_id r = i then r\<lparr>dy_last_played_at := Some at, dy_play_count := dy_play_count r + 1\<rparr> else r) rows
      else rows @ [(dynamic_default i)\<lparr>dy_last_played_at := Some at, dy_play_count := 1, dy_update := t\<rparr>])"

definition record_play :: "int \<Rightarrow> song_row \<Rightarrow> unit op" where
  "record_play at song =
     (let ids = so_id song # (case so_album song of None \<Rightarrow> [] | Some a \<Rightarrow> [a]) in
      bnd now (\<lambda>t.
      constrained (\<lambda>d. \<forall>i \<in> set ids. find_item i d \<noteq> None) FOREIGN_KEY
        (\<lambda>d. d\<lparr>ct_dynamics := fold (played_row at t) ids (ct_dynamics d)\<rparr>)))"

text \<open>The arm of the request returns no answer, so the function goes on to the error behind all arms.\<close>

definition UNEXPECTED :: string where "UNEXPECTED = ''unexpected payload''"

definition playlog :: "int option \<Rightarrow> int \<Rightarrow> int \<Rightarrow> (user_state, unit) act" where
  "playlog song action at =
     bnd (lift (required song ''song_id'')) (\<lambda>i.
     bnd (synced (write_items [i])) (\<lambda>_.
     bnd (synced (select (find_song i))) (\<lambda>m.
     bnd (lift (ok_or m ''no such song'')) (\<lambda>m.
     bnd (synced (select (find_item i))) (\<lambda>it.
     bnd (case it of None \<Rightarrow> ret () | Some it \<Rightarrow> modify (note_playing (playlog_action_of action) i it)) (\<lambda>_.
     bnd (synced (record_play at m)) (\<lambda>_.
     raise UNEXPECTED)))))))"

end
