(* ===== verification/Mix_Props.thy ===== *)
theory Mix_Props
  imports User_Edits "HOL-Library.Multiset" "HOL-Library.Code_Target_Nat"
begin

section \<open>Edits of the user\<close>

text \<open>What an edit of a mix leaves behind, on the rows of the mix sorted by their position, and what the play log counts.\<close>

definition mix_songs :: "int \<Rightarrow> catalog \<Rightarrow> int list" where
  "mix_songs mix d = map ms_song (sort_key ms_order (mix_rows mix d))"


subsection \<open>Sorting\<close>

lemma insort_key_map: "insort_key f (g x) (map g xs) = map g (insort_key (\<lambda>x. f (g x)) x xs)"
  by (induction xs) simp_all

lemma sort_key_map: "sort_key f (map g xs) = map g (sort_key (\<lambda>x. f (g x)) xs)"
  by (induction xs) (simp_all add: insort_key_map)


subsection \<open>Appending\<close>

definition fresh_songs :: "mix_song_row list \<Rightarrow> int list" where
  "fresh_songs rows = map ms_song (sort_key ms_id (unordered rows))"

definition placed :: "mix_song_row list \<Rightarrow> (int \<times> int) list" where
  "placed rows = map (\<lambda>r. (ms_song r, ms_order r)) (filter (\<lambda>r. ms_order r \<noteq> 0) rows)"



lemma filter_mix_update:
  assumes "\<And>r. ms_mix (u r) = ms_mix r"
  shows "filter (\<lambda>r. ms_mix r = mix) (map (\<lambda>r. if ms_mix r = mix \<and> p r then u r else r) rows)
      = map (\<lambda>r. if p r then u r else r) (filter (\<lambda>r. ms_mix r = mix) rows)"
    and "k \<noteq> mix \<Longrightarrow> filter (\<lambda>r. ms_mix r = k) (map (\<lambda>r. if ms_mix r = mix \<and> p r then u r else r) rows)
      = filter (\<lambda>r. ms_mix r = k) rows"
  by (induction rows) (auto simp: assms)









subsection \<open>Renumbering\<close>

definition renumber :: "mix_song_row list \<Rightarrow> mix_song_row list" where
  "renumber rows = map (\<lambda>r. if ms_order r = 0
     then (case map_of (new_orders rows) (ms_song r) of None \<Rightarrow> r | Some k \<Rightarrow> r\<lparr>ms_order := k\<rparr>) else r) rows"

lemma reorder_mix_rows:
  "mix_rows k (upd_mix_songs (reorder_rows mix) d) = (if k = mix then renumber (mix_rows mix d) else mix_rows k d)"
proof -
  have same: "ms_mix (case map_of orders (ms_song r) of None \<Rightarrow> r | Some k \<Rightarrow> r\<lparr>ms_order := k\<rparr>) = ms_mix r" for orders r
    by (simp split: option.split)
  show ?thesis
    by (simp add: mix_rows_def upd_mix_songs_def reorder_rows_def Let_def renumber_def filter_mix_update [OF same])
qed

lemma mset_parts: "mset (map f xs) = mset (map f (filter p xs)) + mset (map f (filter (\<lambda>x. \<not> p x) xs))"
  by (induction xs) simp_all

definition numbered :: "mix_song_row list \<Rightarrow> (int \<times> int) list" where
  "numbered rows = zip (fresh_songs rows) (map (\<lambda>k. max_order rows + 1 + int k) [0..<length (unordered rows)])"

lemma renumber_places:
  assumes "distinct (map ms_song rows)"
  shows "mset (map (\<lambda>r. (ms_song r, ms_order r)) (renumber rows)) = mset (placed rows) + mset (numbered rows)"
proof -
  let ?zs = "sort_key ms_id (unordered rows)"
  let ?g = "\<lambda>r. if ms_order r = 0
     then (case map_of (new_orders rows) (ms_song r) of None \<Rightarrow> r | Some k \<Rightarrow> r\<lparr>ms_order := k\<rparr>) else r"
  let ?p = "\<lambda>r. (ms_song (?g r), ms_order (?g r))"
  have orders: "new_orders rows = numbered rows"
    by (simp add: new_orders_def numbered_def fresh_songs_def Let_def)
  have "map ?p ?zs = numbered rows"
  proof (rule nth_equalityI)
    show "length (map ?p ?zs) = length (numbered rows)" by (simp add: numbered_def fresh_songs_def)
    fix k assume "k < length (map ?p ?zs)"
    then have k: "k < length ?zs" by simp
    have "set ?zs \<subseteq> set rows" by (auto simp: unordered_def)
    moreover have "distinct (map ms_song ?zs)"
      using distinct_map_filter [OF assms] by (simp add: unordered_def distinct_map)
    ultimately have "map_of (numbered rows) (ms_song (?zs ! k)) = Some (max_order rows + 1 + int k)"
      using k map_of_zip_nth [of "fresh_songs rows" "map (\<lambda>k. max_order rows + 1 + int k) [0..<length (unordered rows)]" k]
      by (simp add: numbered_def fresh_songs_def)
    moreover have "ms_order (?zs ! k) = 0" using nth_mem [OF k] by (simp add: unordered_def)
    ultimately show "map ?p ?zs ! k = numbered rows ! k"
      using k by (simp add: orders) (simp add: numbered_def fresh_songs_def)
  qed
  moreover have "mset (map ?p (unordered rows)) = mset (map ?p ?zs)" by simp
  moreover have "map ?p (filter (\<lambda>r. \<not> ms_order r = 0) rows) = placed rows" by (auto simp: placed_def)
  ultimately show ?thesis
    using mset_parts [of ?p rows "\<lambda>r. ms_order r = 0"] by (simp add: renumber_def o_def unordered_def add.commute)
qed

lemma mix_songs_places: "mix_songs mix d = map fst (sort_key snd (map (\<lambda>r. (ms_song r, ms_order r)) (mix_rows mix d)))"
  by (simp add: mix_songs_def sort_key_map)

lemma max_order_upper: "r \<in> set rows \<Longrightarrow> ms_order r \<le> max_order rows"
  by (auto simp: max_order_def)

lemma renumber_sorted:
  assumes rows: "distinct (map ms_song rows)" and orders: "distinct (map snd (placed rows))"
  shows "sort_key snd (map (\<lambda>r. (ms_song r, ms_order r)) (renumber rows)) = sort_key snd (placed rows) @ numbered rows"
    and "distinct (map ms_order (renumber rows))"
proof -
  let ?all = "sort_key snd (placed rows) @ numbered rows"
  let ?new = "map (\<lambda>k. max_order rows + 1 + int k) [0..<length (unordered rows)]"
  have snd: "map snd (numbered rows) = ?new" by (simp add: numbered_def fresh_songs_def)
  have below: "snd p \<le> max_order rows" if "p \<in> set (placed rows)" for p
    using that by (auto simp: placed_def max_order_upper)
  have "sorted ?new" by (auto simp: sorted_iff_nth_mono)
  then have sorted: "sorted (map snd ?all)"
    using below by (force simp: sorted_append snd)
  have "distinct ?new" by (auto simp: distinct_map inj_on_def)
  moreover have "set (map snd (placed rows)) \<inter> set ?new = {}" using below by force
  moreover have "distinct (map snd (sort_key snd (placed rows)))"
    using orders by (metis mset_map mset_sort mset_eq_imp_distinct_iff)
  ultimately have distinct: "distinct (map snd ?all)" by (simp only: map_append snd distinct_append) simp
  have mset: "mset (map (\<lambda>r. (ms_song r, ms_order r)) (renumber rows)) = mset ?all"
    using renumber_places [OF rows] by simp
  then have set: "set (map (\<lambda>r. (ms_song r, ms_order r)) (renumber rows)) = set ?all" by (rule mset_eq_setD)
  show "sort_key snd (map (\<lambda>r. (ms_song r, ms_order r)) (renumber rows)) = ?all"
    using mset _ sorted by (rule sort_key_inj_key_eq) (use distinct set in \<open>simp only: distinct_map set\<close>)
  have "mset (map snd (map (\<lambda>r. (ms_song r, ms_order r)) (renumber rows))) = mset (map snd ?all)"
    using arg_cong [OF mset, of "image_mset snd"] by (simp only: mset_map)
  then have "distinct (map snd (map (\<lambda>r. (ms_song r, ms_order r)) (renumber rows)))"
    using distinct by (rule mset_eq_imp_distinct_iff [THEN iffD2])
  then show "distinct (map ms_order (renumber rows))" by (simp add: o_def)
qed

subsection \<open>Runs\<close>

lemma statement_db: "statement s = (r, s') \<Longrightarrow> sy_db s' = sy_db s"
  using db_statement [of "sy_db s"] by (auto dest: keepsD)

lemma now_db: "now s = (r, s') \<Longrightarrow> sy_db s' = sy_db s"
  by (auto simp: now_def act_simps elim!: bnd_cases dest!: keepsD [OF db_preempt refl])

lemma select_InrD: "select f s = (Inr x, s') \<Longrightarrow> x = f (sy_db s) \<and> sy_db s' = sy_db s"
  by (auto simp: select_def act_simps elim!: bnd_cases dest!: statement_db)

lemma change_InrD: "change f s = (Inr u, s') \<Longrightarrow> sy_db s' = f (sy_db s)"
  by (auto simp: change_def act_simps elim!: bnd_cases dest!: statement_db)

lemma constrained_InrD: "constrained ok msg f s = (Inr u, s') \<Longrightarrow> ok (sy_db s) \<and> sy_db s' = f (sy_db s)"
  by (auto simp: constrained_def act_simps elim!: bnd_cases dest!: statement_db split: if_splits)

lemma insert_mix_songs_InrD:
  "insert_mix_songs mix songs s = (Inr u, s') \<Longrightarrow> \<exists>t. sy_db s' = fold (append_row mix t) songs (sy_db s)"
  by (auto simp: insert_mix_songs_def act_simps elim!: bnd_InrE dest!: now_db constrained_InrD split: if_splits)

lemma update_track_count_InrD:
  "update_track_count mix delta s = (Inr u, s') \<Longrightarrow>
    sy_db s' = sy_db s \<and> delta = 0 \<or> (\<exists>t. sy_db s' = add_tracks mix t delta (sy_db s))"
  by (auto simp: update_track_count_def act_simps elim!: bnd_InrE dest!: now_db change_InrD split: if_splits)

lemma add_tracks_frame:
  "mix_rows k (add_tracks mix t n d) = mix_rows k d" "ct_sequence (add_tracks mix t n d) = ct_sequence d"
  "ct_mixes (add_tracks mix t n d) = map (\<lambda>m. if mx_id m = mix
     then m\<lparr>mx_track_count := mx_track_count m + n, mx_update := t\<rparr> else m) (ct_mixes d)"
  by (simp_all add: add_tracks_def mix_rows_def)

text \<open>\<open>tracks_added\<close>: the counts of the mixes after an edit that counts \<open>n\<close> rows.\<close>

definition tracks_added :: "int \<Rightarrow> int \<Rightarrow> catalog \<Rightarrow> catalog \<Rightarrow> bool" where
  "tracks_added mix n d d' \<longleftrightarrow> map mx_id (ct_mixes d') = map mx_id (ct_mixes d)
     \<and> map mx_track_count (ct_mixes d') = map (\<lambda>m. if mx_id m = mix then mx_track_count m + n else mx_track_count m) (ct_mixes d)"

lemma tracks_addedI:
  "d' = d \<and> n = 0 \<or> d' = add_tracks mix t n d \<Longrightarrow> tracks_added mix n d d'"
  by (auto simp: tracks_added_def add_tracks_frame o_def cong: if_cong)

lemma tracks_added_count:
  assumes "tracks_added mix n d d'" and "m' \<in> set (ct_mixes d')"
  obtains m where "m \<in> set (ct_mixes d)" "mx_id m = mx_id m'"
    "mx_track_count m' = (if mx_id m = mix then mx_track_count m + n else mx_track_count m)"
proof -
  obtain k where k: "k < length (ct_mixes d')" "m' = ct_mixes d' ! k" using assms(2) by (auto simp: in_set_conv_nth)
  have len: "length (ct_mixes d') = length (ct_mixes d)"
    using assms(1) map_eq_imp_length_eq unfolding tracks_added_def by blast
  have "map mx_id (ct_mixes d') ! k = map mx_id (ct_mixes d) ! k"
    "map mx_track_count (ct_mixes d') ! k
      = map (\<lambda>m. if mx_id m = mix then mx_track_count m + n else mx_track_count m) (ct_mixes d) ! k"
    using assms(1) by (simp_all only: tracks_added_def)
  then show thesis using that [of "ct_mixes d ! k"] k len by simp
qed


text \<open>An append in one equation on the database.\<close>

lemma append_songs_InrE:
  assumes "append_songs mix songs s = (Inr n, s')"
  obtains t d1 d2 where "d1 = fold (append_row mix t) songs (sy_db s)" "n = length (unordered (mix_rows mix d1))"
    "d2 = upd_mix_songs (reorder_rows mix) d1" "tracks_added mix (int n) d2 (sy_db s')"
    "\<And>k. mix_rows k (sy_db s') = mix_rows k d2" "ct_sequence (sy_db s') = ct_sequence d2"
proof -
  from assms obtain s1 s2 s3 u where run: "insert_mix_songs mix songs s = (Inr u, s1)"
    "select (\<lambda>d. length (unordered (mix_rows mix d))) s1 = (Inr n, s2)" "reorder_append mix s2 = (Inr (), s3)"
    "update_track_count mix (int n) s3 = (Inr (), s')"
    by (auto simp: append_songs_def elim!: bnd_InrE)
  from insert_mix_songs_InrD [OF run(1)] obtain t where 1: "sy_db s1 = fold (append_row mix t) songs (sy_db s)" by blast
  have 3: "sy_db s3 = upd_mix_songs (reorder_rows mix) (sy_db s1)" and n: "n = length (unordered (mix_rows mix (sy_db s1)))"
    using select_InrD [OF run(2)] change_InrD [OF run(3) [unfolded reorder_append_def]] by simp_all
  from update_track_count_InrD [OF run(4)] show thesis
    by (rule disjE) (use 1 3 n in \<open>auto intro!: that tracks_addedI simp: add_tracks_frame\<close>)
qed






subsection \<open>Removing\<close>



subsection \<open>Requests\<close>

lemma write_mixes_db: "write_mixes ids items s = (r, s') \<Longrightarrow> sy_db s' = sy_db s"
proof -
  have "keeps (db_is d) (write_mixes ids items)" for d
    unfolding write_mixes_def write_items_def Let_def by (intro keeps_intros)
  then show "write_mixes ids items s = (r, s') \<Longrightarrow> sy_db s' = sy_db s" by (auto dest: keepsD)
qed

lemma mix_manipulate_cases:
  assumes "mix_manipulate mix oper songs albums s = (r, s')"
  obtains (failed) e where "r = Inl e" "sy_db s' = sy_db s"
    | (removed) i n s1 s2 where "mix = Some i" "oper = RemoveSongs" "r = Inr n" "sy_db s1 = sy_db s"
        "remove_songs i songs s1 = (Inr n, s2)" "sy_db s' = sy_db s2"
    | (added) i n s1 s2 where "mix = Some i" "r = Inr n" "sy_db s1 = sy_db s"
        "append_songs i (if oper = AddAlbums then album_songs albums (sy_db s) else songs) s1 = (Inr n, s2)"
        "oper \<in> {AddSongs, AddAlbums}" "sy_db s' = sy_db s2"
proof (cases r)
  case (Inl e)
  have "sy_db s' = sy_db s"
    using assms unfolding mix_manipulate_def Inl
    by (auto simp: act_simps elim!: bnd_cases in_txn_result dest!: write_mixes_db)
  with Inl show thesis by (rule failed)
next
  case (Inr n)
  from assms obtain i s1 where mix: "mix = Some i" and s1: "sy_db s1 = sy_db s"
    and txn: "in_txn (case oper of
         AddSongs \<Rightarrow> append_songs i songs
       | RemoveSongs \<Rightarrow> remove_songs i songs
       | AddAlbums \<Rightarrow> bnd (select (album_songs albums)) (append_songs i)
       | UnspecifiedOper \<Rightarrow> raise ''not implemented'') s1 = (Inr n, s')"
    unfolding mix_manipulate_def Inr required_def
    by (auto simp: and_then_def ok_or_def ensure_def elim!: bnd_InrE dest!: write_mixes_db split: option.splits if_splits sum.splits)
  from txn show thesis
  proof (cases rule: in_txn_result)
    case (committed x t1 t2)
    have dbs: "sy_db t1 = sy_db s" "sy_db s' = sy_db t2" and x: "x = n"
      using committed s1 by (simp_all add: same_but_faults_simps)
    show thesis
    proof (cases oper)
      case UnspecifiedOper
      with committed(3) show thesis by simp
    next
      case AddSongs
      with committed(3) added [OF mix Inr dbs(1) _ _ dbs(2)] show thesis by (simp add: x)
    next
      case RemoveSongs
      with committed(3) removed [OF mix _ Inr dbs(1) _ dbs(2)] show thesis by (simp add: x)
    next
      case AddAlbums
      with committed(3) obtain t3 where "sy_db t3 = sy_db s" "append_songs i (album_songs albums (sy_db s)) t3 = (Inr n, t2)"
        by (auto simp: x dbs elim!: bnd_InrE dest!: select_InrD)
      with added [OF mix Inr _ _ _ dbs(2)] AddAlbums show thesis by simp
    qed
  qed simp
qed

subsection \<open>Properties\<close>



text \<open>C30: a song at position 0, where a synchronisation puts the first song of a mix, counts as new: adding no song at all to
  such a mix moves its first song to the end and increments its count.\<close>

theorem first_synced_song_is_added_again:
  assumes "distinct (map ms_song (mix_rows i (sy_db s)))" and "distinct (map ms_order (mix_rows i (sy_db s)))"
    and "0 \<in> ms_order ` set (mix_rows i (sy_db s))" and "\<forall>r \<in> set (mix_rows i (sy_db s)). 0 \<le> ms_order r"
    and "mix_manipulate (Some i) AddSongs [] albums s = (Inr n, s')"
  shows "mix_songs i (sy_db s') = rotate1 (mix_songs i (sy_db s)) \<and> n = 1
    \<and> (\<forall>m' \<in> set (ct_mixes (sy_db s')). mx_id m' = i \<longrightarrow>
        (\<exists>m \<in> set (ct_mixes (sy_db s)). mx_id m = i \<and> mx_track_count m' = mx_track_count m + 1))"
proof -
  let ?d = "sy_db s" and ?d' = "sy_db s'" and ?rows = "mix_rows i (sy_db s)"
  obtain s1 s2 where "sy_db s1 = ?d" and run: "append_songs i [] s1 = (Inr n, s2)" and d': "?d' = sy_db s2"
    using assms(5) by (cases rule: mix_manipulate_cases) auto
  then obtain d2 where n: "n = length (unordered ?rows)" and d2: "d2 = upd_mix_songs (reorder_rows i) ?d"
    and tracks: "tracks_added i (int n) d2 ?d'" and rows': "mix_rows i ?d' = mix_rows i d2"
    by (elim append_songs_InrE) (simp add: d')
  obtain z where z: "z \<in> set ?rows" "ms_order z = 0" using assms(3) by force
  then obtain as bs where rows: "?rows = as @ z # bs" by (meson split_list)
  have others: "\<forall>r \<in> set as \<union> set bs. ms_order r \<noteq> 0" using assms(2) z(2) unfolding rows by force
  then have keep: "filter (\<lambda>r. ms_order r = 0) as = []" "filter (\<lambda>r. ms_order r = 0) bs = []"
    "filter (\<lambda>r. ms_order r \<noteq> 0) as = as" "filter (\<lambda>r. ms_order r \<noteq> 0) bs = bs"
    by (simp_all add: filter_empty_conv filter_id_conv)
  have unordered: "unordered ?rows = [z]" using keep z(2) by (simp add: unordered_def rows)
  have placed: "placed ?rows = map (\<lambda>r. (ms_song r, ms_order r)) (as @ bs)" using keep z(2) by (simp add: placed_def rows)
  have "sort_key ms_order ?rows = z # sort_key ms_order (as @ bs)"
  proof (rule sort_key_inj_key_eq)
    show "inj_on ms_order (set ?rows)" using assms(2) by (simp add: distinct_map)
    show "sorted (map ms_order (z # sort_key ms_order (as @ bs)))" using assms(4) z(2) by (auto simp: rows)
  qed (simp add: rows)
  then have before: "mix_songs i ?d = ms_song z # map fst (sort_key snd (placed ?rows))"
    by (simp add: mix_songs_def placed sort_key_map del: map_append)
  have "distinct (map snd (placed ?rows))" unfolding placed using assms(2) unfolding rows by (simp add: o_def)
  from renumber_sorted(1) [OF assms(1) this] have "mix_songs i ?d' = map fst (sort_key snd (placed ?rows) @ numbered ?rows)"
    by (simp add: mix_songs_places rows' d2 reorder_mix_rows)
  then have "mix_songs i ?d' = rotate1 (mix_songs i ?d)" by (simp add: before numbered_def fresh_songs_def unordered)
  moreover have "tracks_added i 1 ?d ?d'" using tracks by (simp add: tracks_added_def d2 upd_mix_songs_def n unordered)
  then have "\<exists>m \<in> set (ct_mixes ?d). mx_id m = i \<and> mx_track_count m' = mx_track_count m + 1"
    if "m' \<in> set (ct_mixes ?d')" "mx_id m' = i" for m'
    using that by (auto elim!: tracks_added_count)
  ultimately show ?thesis using n unordered by simp
qed

definition mix_item :: "int \<Rightarrow> item_row" where
  "mix_item i = \<lparr>it_id = i, it_native = [], it_library = None, it_provider = 1, it_type = Song, it_create = 0, it_update = 0, it_sync = 0\<rparr>"

definition mix_sample :: sync_state where
  "mix_sample = \<lparr>sy_db = \<lparr>ct_providers = [1], ct_libraries = [], ct_items = map mix_item [2, 3, 4, 5], ct_albums = [],
       ct_artists = [], ct_songs = map song_default [2, 3, 4, 5], ct_remote_mixes = [],
       ct_mixes = [(mix_new 7 ''mine'' 0)\<lparr>mx_track_count := 1\<rparr>, (mix_new 8 ''theirs'' 0)\<lparr>mx_track_count := 2, mx_type := LinkMix\<rparr>],
       ct_dynamics = [], ct_images = [], ct_album_artists = [], ct_song_artists = [],
       ct_mix_songs = [\<lparr>ms_id = 1, ms_song = 4, ms_mix = 7, ms_order = 1, ms_update = 0\<rparr>,
         \<lparr>ms_id = 2, ms_song = 2, ms_mix = 8, ms_order = 0, ms_update = 0\<rparr>,
         \<lparr>ms_id = 3, ms_song = 3, ms_mix = 8, ms_order = 1, ms_update = 0\<rparr>], ct_sequence = (\<lambda>_. 9)\<rparr>,
     sy_faults = [], sy_events = [], sy_now = 5, sy_providers = (\<lambda>_. provider_state_default), sy_projection = 1,
     sy_epochs = (\<lambda>_. None), sy_instance = ''i'', sy_generations = (\<lambda>_. 0), sy_runs = (\<lambda>_. run_new 0 0 0), sy_next_run = 0,
     sy_retentions = [], sy_next_retention = 0\<rparr>"



theorem first_synced_song_is_added_again_witness:
  "mix_songs 8 (sy_db (snd (mix_manipulate (Some 8) AddSongs [] [] mix_sample))) = [3, 2]"
proof -
  obtain r s' where run: "mix_manipulate (Some 8) AddSongs [] [] mix_sample = (r, s')" by fastforce
  moreover have "\<not> is_err (fst (mix_manipulate (Some 8) AddSongs [] [] mix_sample))" by code_simp
  ultimately obtain n where r: "r = Inr n" by (cases r) simp_all
  have "distinct (map ms_song (mix_rows 8 (sy_db mix_sample)))" "distinct (map ms_order (mix_rows 8 (sy_db mix_sample)))"
    "0 \<in> ms_order ` set (mix_rows 8 (sy_db mix_sample))" "\<forall>r \<in> set (mix_rows 8 (sy_db mix_sample)). 0 \<le> ms_order r"
    "mix_songs 8 (sy_db mix_sample) = [2, 3]"
    by code_simp+
  note sample = this
  from first_synced_song_is_added_again [OF sample(1-4) run [unfolded r]] sample(5) show ?thesis by (simp add: run)
qed

subsection \<open>The play log\<close>

definition play_count :: "int \<Rightarrow> dynamic_row list \<Rightarrow> int" where
  "play_count i rows = (case find (\<lambda>r. dy_id r = i) rows of None \<Rightarrow> 0 | Some r \<Rightarrow> dy_play_count r)"

lemma find_snoc: "find p (xs @ [y]) = (case find p xs of None \<Rightarrow> if p y then Some y else None | Some x \<Rightarrow> Some x)"
  by (induction xs) simp_all

lemma play_count_played: "play_count x (played_row at t i rows) = play_count x rows + (if x = i then 1 else 0)"
proof (cases "\<exists>r \<in> set rows. dy_id r = i")
  case True
  let ?f = "\<lambda>r. if dy_id r = i then r\<lparr>dy_last_played_at := Some at, dy_play_count := dy_play_count r + 1\<rparr> else r"
  have map: "find (\<lambda>r. dy_id r = x) (map ?f rows) = map_option ?f (find (\<lambda>r. dy_id r = x) rows)" for x
    by (induction rows) auto
  have found: "dy_id r = x" if "find (\<lambda>r. dy_id r = x) rows = Some r" for r x using that by (auto simp: find_Some_iff)
  obtain r where "find (\<lambda>r. dy_id r = i) rows = Some r" using True by (cases "find (\<lambda>r. dy_id r = i) rows") (auto simp: find_None_iff)
  note hit = this found [OF this]
  have played: "played_row at t i rows = map ?f rows" using True by (simp add: played_row_def)
  show ?thesis
  proof (cases "x = i")
    case True
    with hit show ?thesis unfolding played play_count_def map by simp
  next
    case False
    then show ?thesis unfolding played play_count_def map
      by (cases "find (\<lambda>r. dy_id r = x) rows") (auto dest: found)
  qed
next
  case False
  then have none: "find (\<lambda>r. dy_id r = i) rows = None" by (auto simp: find_None_iff)
  from False have played: "played_row at t i rows = rows @ [(dynamic_default i)\<lparr>dy_last_played_at := Some at, dy_play_count := 1, dy_update := t\<rparr>]"
    by (simp add: played_row_def)
  show ?thesis
    by (cases "x = i"; cases "find (\<lambda>r. dy_id r = x) rows")
      (use none in \<open>simp_all add: played play_count_def find_snoc dynamic_default_def\<close>)
qed

lemma synced_run: "synced m s = (r, s') \<Longrightarrow> \<exists>y. m (us_sync s) = (r, y) \<and> us_sync s' = y"
  by (auto simp: synced_def split: prod.splits)

lemma write_items_db: "write_items ids s = (r, s') \<Longrightarrow> sy_db s' = sy_db s"
proof -
  have "keeps (db_is d) (write_items ids)" for d unfolding write_items_def Let_def by (intro keeps_intros)
  then show "write_items ids s = (r, s') \<Longrightarrow> sy_db s' = sy_db s" by (auto dest: keepsD)
qed

definition never :: "string \<Rightarrow> ('s, 'a) act \<Rightarrow> bool" where
  "never e m \<longleftrightarrow> (\<forall>s. fst (m s) \<noteq> Inl e)"

lemma never_basic: "never e (gets f)" "never e (modify g)" "never e (ret x)" "r \<noteq> Inl e \<Longrightarrow> never e (lift r)"
  "never e preempt" "never UNEXPECTED statement"
  by (auto simp: never_def act_simps preempt_def statement_def UNEXPECTED_def split: list.split)

lemma never_bnd: "never e m \<Longrightarrow> (\<And>x. never e (f x)) \<Longrightarrow> never e (bnd m f)"
  by (auto simp: never_def bnd_def split: prod.split sum.split) (metis fst_conv)

lemma never_case_option: "never e m \<Longrightarrow> (\<And>x. never e (f x)) \<Longrightarrow> never e (case r of None \<Rightarrow> m | Some x \<Rightarrow> f x)"
  by (cases r) simp_all

lemma never_require: "msg \<noteq> e \<Longrightarrow> never e (require b msg)"
  by (simp add: never_def act_simps)

lemma never_for_each: "(\<And>x. never e (f x)) \<Longrightarrow> never e (for_each xs f)"
  by (induction xs) (auto simp: for_each.simps intro: never_basic never_bnd)

lemma never_synced: "never e m \<Longrightarrow> never e (synced m)"
  by (auto simp: never_def synced_def split: prod.split) (metis fst_conv)

lemmas never_intros = never_basic never_bnd never_case_option never_require never_for_each never_synced

lemma never_InlE:
  assumes "bnd m f s = (Inl e, s')" and "never e m"
  obtains x s1 where "m s = (Inr x, s1)" "f x s1 = (Inl e, s')"
  using assms by (auto simp: never_def elim!: bnd_cases) (metis fst_conv)

lemma never_incremented: "msg \<noteq> e \<Longrightarrow> never e (incremented n msg)"
  by (auto simp: incremented_def ok_or_def intro!: never_intros split: option.split)

lemma never_write_items: "never UNEXPECTED (write_items ids)"
  unfolding write_items_def write_guard_def check_origin_def bump_revision_def bump_changes_def bump_projection_def select_def
    Let_def option.case
  by (intro never_intros never_incremented) (simp_all add: UNEXPECTED_def never_intros never_incremented)

lemma never_select: "never UNEXPECTED (select f)"
  unfolding select_def by (intro never_intros)

lemma never_record_play: "never UNEXPECTED (record_play at m)"
  unfolding record_play_def now_def constrained_def Let_def
  by (intro never_intros) (simp_all add: UNEXPECTED_def FOREIGN_KEY_def)

text \<open>A play is counted, once for the song and once for its album, and yet the request is always answered with an error.\<close>

theorem logged_play_is_refused:
  assumes "playlog song action at s = (r, s')"
  shows "\<exists>e. r = Inl e \<and> (e = UNEXPECTED \<longrightarrow>
    (\<exists>i m. song = Some i \<and> find_song i (sy_db (us_sync s)) = Some m \<and>
      (\<forall>x. play_count x (ct_dynamics (sy_db (us_sync s'))) = play_count x (ct_dynamics (sy_db (us_sync s)))
         + (if x = i then 1 else 0) + (if so_album m = Some x then 1 else 0))))"
proof (cases "r = Inl UNEXPECTED")
  case False
  then show ?thesis using assms
    by (auto simp: playlog_def elim!: bnd_cases) (auto simp: act_simps)
next
  case True
  have first: "never UNEXPECTED (lift (required song ''song_id''))"
    by (auto simp: required_def and_then_def ok_or_def ensure_def UNEXPECTED_def intro!: never_intros split: option.split)
  let ?k5 = "\<lambda>m _. bnd (synced (record_play at m)) (\<lambda>_. raise UNEXPECTED :: (user_state, unit) act)"
  let ?note = "\<lambda>i it. case it of None \<Rightarrow> ret () | Some it \<Rightarrow> modify (note_playing (playlog_action_of action) i it)"
  let ?k4 = "\<lambda>i m it. bnd (?note i it) (?k5 m)"
  let ?k3 = "\<lambda>i m. bnd (synced (select (find_item i))) (?k4 i m)"
  let ?k2 = "\<lambda>i mo. bnd (lift (ok_or mo ''no such song'')) (?k3 i)"
  let ?k1 = "\<lambda>i _. bnd (synced (select (find_song i))) (?k2 i)"
  let ?k0 = "\<lambda>i. bnd (synced (write_items [i])) (?k1 i)"
  have "bnd (lift (required song ''song_id'')) ?k0 s = (Inl UNEXPECTED, s')" using assms True by (simp add: playlog_def)
  then obtain i s1 where 1: "lift (required song ''song_id'') s = (Inr i, s1)" "?k0 i s1 = (Inl UNEXPECTED, s')"
    using first by (rule never_InlE)
  obtain ps s2 where 2: "synced (write_items [i]) s1 = (Inr ps, s2)" "?k1 i ps s2 = (Inl UNEXPECTED, s')"
    using 1(2) never_synced [OF never_write_items] by (rule never_InlE)
  obtain mo s3 where 3: "synced (select (find_song i)) s2 = (Inr mo, s3)" "?k2 i mo s3 = (Inl UNEXPECTED, s')"
    using 2(2) never_synced [OF never_select] by (rule never_InlE)
  have "never UNEXPECTED (lift (ok_or mo ''no such song''))"
    by (auto simp: ok_or_def UNEXPECTED_def intro!: never_intros split: option.split)
  with 3(2) obtain m s4 where 4: "lift (ok_or mo ''no such song'') s3 = (Inr m, s4)" "?k3 i m s4 = (Inl UNEXPECTED, s')"
    by (rule never_InlE)
  obtain it s5 where 5: "synced (select (find_item i)) s4 = (Inr it, s5)" "?k4 i m it s5 = (Inl UNEXPECTED, s')"
    using 4(2) never_synced [OF never_select] by (rule never_InlE)
  have "never UNEXPECTED (?note i it)" by (intro never_intros)
  with 5(2) obtain u s6 where 6: "?note i it s5 = (Inr u, s6)" "?k5 m u s6 = (Inl UNEXPECTED, s')" by (rule never_InlE)
  obtain v where 7: "synced (record_play at m) s6 = (Inr v, s')"
    using 6(2) never_synced [OF never_record_play] by (rule never_InlE) (simp add: act_simps)
  have db6: "us_sync s6 = us_sync s5" using 6(1) by (auto simp: note_playing_def split: option.splits playlog_action.splits)
  have song: "song = Some i" "s1 = s" using 1(1) by (auto simp: required_def and_then_def ok_or_def ensure_def split: option.splits if_splits)
  have db2: "sy_db (us_sync s2) = sy_db (us_sync s)" using synced_run [OF 2(1)] by (auto simp: song dest: write_items_db)
  have db3: "mo = find_song i (sy_db (us_sync s))" "sy_db (us_sync s3) = sy_db (us_sync s)"
    using synced_run [OF 3(1)] by (auto simp: db2 dest: select_InrD)
  have m: "mo = Some m" "s4 = s3" using 4(1) by (auto simp: ok_or_def split: option.splits)
  have db5: "sy_db (us_sync s5) = sy_db (us_sync s)" using synced_run [OF 5(1)] by (auto simp: m db3 dest: select_InrD)
  have i: "so_id m = i" using m(1) by (auto simp: db3(1) find_song_def find_Some_iff)
  let ?ids = "so_id m # (case so_album m of None \<Rightarrow> [] | Some a \<Rightarrow> [a])"
  obtain t where "ct_dynamics (sy_db (us_sync s')) = fold (played_row at t) ?ids (ct_dynamics (sy_db (us_sync s)))"
    using synced_run [OF 7]
    by (auto simp: record_play_def Let_def db6 db5 elim!: bnd_InrE dest!: now_db constrained_InrD)
  then have "play_count x (ct_dynamics (sy_db (us_sync s'))) = play_count x (ct_dynamics (sy_db (us_sync s)))
       + (if x = i then 1 else 0) + (if so_album m = Some x then 1 else 0)" for x
    by (auto simp: play_count_played i split: option.split)
  with True song(1) m(1) db3(1) show ?thesis by simp
qed

definition play_sample :: user_state where
  "play_sample = \<lparr>us_sync = mix_sample, us_playing = (\<lambda>_. None)\<rparr>"

theorem logged_play_is_refused_witness:
  "play_count 2 (ct_dynamics (sy_db (us_sync (snd (playlog (Some 2) 1 7 play_sample))))) = 1"
proof -
  obtain r s' where run: "playlog (Some 2) 1 7 play_sample = (r, s')" by fastforce
  have "fst (playlog (Some 2) 1 7 play_sample) = Inl UNEXPECTED" by code_simp
  then have r: "r = Inl UNEXPECTED" by (simp add: run)
  have "ct_dynamics (sy_db (us_sync play_sample)) = []" by (simp add: play_sample_def mix_sample_def)
  moreover have "find_song 2 (sy_db (us_sync play_sample)) = Some (song_default 2)"
    by (simp add: play_sample_def mix_sample_def find_song_def song_default_def)
  moreover have "so_album (song_default 2) = None" by (simp add: song_default_def)
  ultimately show ?thesis using logged_play_is_refused [OF run [unfolded r]] by (auto simp: run play_count_def)
qed

end
