(* ===== verification/Settings.thy ===== *)
theory Settings
  imports Actions Json "HOL-Library.AList" "HOL-Library.Code_Target_Nat"
begin

section \<open>Provider settings\<close>

text \<open>
  \<^verbatim>\<open>src/backend/core/src/provider/settings.rs\<close> checks the values of a provider against its definition,
  \<^verbatim>\<open>src/backend/core/src/db/provider_settings.rs\<close> loads and saves them under a revision. The maps of the source are
  association lists with distinct keys; the length of the JSON text of a map is a parameter (\<open>json_length\<close>).
\<close>

type_synonym setting_values = "(string \<times> json) list"

datatype setting_kind = BooleanSetting | ChoiceSetting | IntegerSetting | TextSetting

record setting_field =
  sf_key :: string
  sf_kind :: setting_kind
  sf_default :: json
  sf_options :: "json list"
  sf_minimum :: "int option"
  sf_maximum :: "int option"
  sf_enabled_when :: "(string \<times> json) option"

record settings_error =
  se_message :: string
  se_fields :: "(string \<times> string) list"

definition settings_message :: "string \<Rightarrow> settings_error" where
  "settings_message m = \<lparr>se_message = m, se_fields = []\<rparr>"

definition MISMATCH :: string where
  "MISMATCH = ''Value does not match the setting's type or allowed values''"

definition setting_valid :: "setting_field \<Rightarrow> json \<Rightarrow> bool" where
  "setting_valid f v = (case sf_kind f of
      BooleanSetting \<Rightarrow> is_boolean v
    | TextSetting \<Rightarrow> (case as_str v of None \<Rightarrow> False | Some s \<Rightarrow> length s \<le> 4096)
    | IntegerSetting \<Rightarrow> (case as_int v of None \<Rightarrow> False | Some n \<Rightarrow> \<bar>n\<bar> \<le> 9007199254740991
        \<and> (case sf_minimum f of None \<Rightarrow> True | Some lo \<Rightarrow> lo \<le> n) \<and> (case sf_maximum f of None \<Rightarrow> True | Some hi \<Rightarrow> n \<le> hi))
    | ChoiceSetting \<Rightarrow> (is_string v \<or> is_boolean v \<or> as_int v \<noteq> None) \<and> v \<in> set (sf_options f))"

definition check_setting :: "setting_field \<Rightarrow> json \<Rightarrow> unit result" where
  "check_setting f v = (if setting_valid f v then Inr () else Inl MISMATCH)"

primrec check_definitions :: "string list \<Rightarrow> setting_field list \<Rightarrow> string list result" where
  "check_definitions keys [] = Inr keys"
| "check_definitions keys (f # fs) =
     and_then (ensure (sf_key f \<noteq> [] \<and> length (sf_key f) \<le> 64 \<and> sf_key f \<notin> set keys)
       ''Invalid provider settings definition'') (\<lambda>_.
     and_then (ensure (case (sf_minimum f, sf_maximum f) of (Some lo, Some hi) \<Rightarrow> lo \<le> hi | _ \<Rightarrow> True)
       ''Invalid integer range'') (\<lambda>_.
     and_then (check_setting f (sf_default f)) (\<lambda>_.
     check_definitions (keys @ [sf_key f]) fs)))"

definition check_condition :: "string list \<Rightarrow> setting_field list \<Rightarrow> setting_field \<Rightarrow> unit result" where
  "check_condition keys form f =
     (case sf_enabled_when f of
        None \<Rightarrow> Inr ()
      | Some (key, v) \<Rightarrow>
          and_then (ensure (key \<noteq> sf_key f \<and> key \<in> set keys) ''Invalid settings condition'') (\<lambda>_.
          case find (\<lambda>g. sf_key g = key) form of
            None \<Rightarrow> Inl ''unwrap on None''
          | Some g \<Rightarrow> check_setting g v))"

primrec check_conditions :: "string list \<Rightarrow> setting_field list \<Rightarrow> setting_field list \<Rightarrow> unit result" where
  "check_conditions keys form [] = Inr ()"
| "check_conditions keys form (f # fs) =
     and_then (check_condition keys form f) (\<lambda>_. check_conditions keys form fs)"

definition given :: "setting_values \<Rightarrow> setting_field \<Rightarrow> json" where
  "given values f = (case map_of values (sf_key f) of None \<Rightarrow> sf_default f | Some v \<Rightarrow> v)"

definition unknown_settings :: "string list \<Rightarrow> setting_values \<Rightarrow> (string \<times> string) list" where
  "unknown_settings keys values =
     fold (\<lambda>k errors. if k \<in> set keys then errors else AList.update k ''Unknown setting'' errors) (map fst values) []"

definition take_setting ::
    "setting_values \<Rightarrow> setting_field \<Rightarrow> setting_values \<times> (string \<times> string) list \<Rightarrow> setting_values \<times> (string \<times> string) list" where
  "take_setting values f acc = (case acc of (result, errors) \<Rightarrow>
     (case check_setting f (given values f) of
        Inl e \<Rightarrow> (result, AList.update (sf_key f) e errors)
      | Inr _ \<Rightarrow> (AList.update (sf_key f) (given values f) result, errors)))"

definition TOO_LARGE :: string where "TOO_LARGE = ''Provider settings are too large''"

definition validate_settings ::
    "(setting_values \<Rightarrow> nat) \<Rightarrow> setting_field list \<Rightarrow> setting_values \<Rightarrow> settings_error + setting_values" where
  "validate_settings json_length form values =
     (if 64 < length form \<or> 16 * 1024 < json_length values then Inl (settings_message TOO_LARGE)
      else case check_definitions [] form of
        Inl e \<Rightarrow> Inl (settings_message e)
      | Inr keys \<Rightarrow> (case check_conditions keys form form of
          Inl e \<Rightarrow> Inl (settings_message e)
        | Inr _ \<Rightarrow>
            (let (result, errors) = fold (take_setting values) form ([], unknown_settings keys values) in
             if 16 * 1024 < json_length result then Inl (settings_message TOO_LARGE)
             else if errors = [] then Inr result
             else Inl \<lparr>se_message = ''Invalid provider settings'', se_fields = errors\<rparr>)))"

subsection \<open>Saving\<close>

record settings_snapshot =
  ss_revision :: nat
  ss_values :: setting_values

record settings_row =
  sw_revision :: int
  sw_config :: json

record settings_db =
  sd_rows :: "(int \<times> settings_row) list"
  sd_faults :: "bool list"

definition settings_statement :: "(settings_db, unit) act" where
  "settings_statement s = (case sd_faults s of
      [] \<Rightarrow> (Inr (), s)
    | f # fs \<Rightarrow> (if f then Inl ''database error'' else Inr (), s\<lparr>sd_faults := fs\<rparr>))"

definition as_object :: "json \<Rightarrow> (string \<times> json) list option" where
  "as_object v = (case v of Obj ms \<Rightarrow> Some ms | _ \<Rightarrow> None)"

definition load_settings :: "int \<Rightarrow> (settings_db, settings_snapshot) act" where
  "load_settings i =
     bnd settings_statement (\<lambda>_.
     bnd (gets (\<lambda>s. map_of (sd_rows s) i)) (\<lambda>row.
       case row of
         None \<Rightarrow> ret \<lparr>ss_revision = 0, ss_values = []\<rparr>
       | Some r \<Rightarrow>
           bnd (require (0 \<le> sw_revision r) ''Invalid settings revision'') (\<lambda>_.
           bnd (lift (ok_or (as_object (sw_config r)) ''invalid type'')) (\<lambda>vs.
           ret \<lparr>ss_revision = nat (sw_revision r), ss_values = vs\<rparr>))))"

definition CHANGED :: string where "CHANGED = ''Provider settings changed; reload before saving''"

definition save_settings :: "int \<Rightarrow> nat \<Rightarrow> setting_values \<Rightarrow> (settings_db, settings_snapshot) act" where
  "save_settings i revision values =
     bnd (require (revision \<le> i64_max) ''Invalid settings revision'') (\<lambda>_.
     bnd (require (revision + 1 \<le> i64_max) ''Settings revision exhausted'') (\<lambda>_.
     bnd settings_statement (\<lambda>_.
     bnd (modify (\<lambda>s. if map_of (sd_rows s) i = None
       then s\<lparr>sd_rows := AList.update i \<lparr>sw_revision = 0, sw_config = Obj []\<rparr> (sd_rows s)\<rparr> else s)) (\<lambda>_.
     bnd settings_statement (\<lambda>_.
     bnd (gets (\<lambda>s. map_of (sd_rows s) i)) (\<lambda>row.
     bnd (require (case row of None \<Rightarrow> False | Some r \<Rightarrow> sw_revision r = int revision) CHANGED) (\<lambda>_.
     bnd (modify (\<lambda>s. s\<lparr>sd_rows := AList.update i \<lparr>sw_revision = int revision + 1, sw_config = Obj values\<rparr> (sd_rows s)\<rparr>)) (\<lambda>_.
     ret \<lparr>ss_revision = revision + 1, ss_values = values\<rparr>))))))))"

text \<open>\<^verbatim>\<open>restore\<close>; the definition of the provider is given as its form.\<close>

definition restore_settings ::
    "(setting_values \<Rightarrow> nat) \<Rightarrow> setting_field list \<Rightarrow> int option \<Rightarrow> (settings_db, settings_snapshot) act" where
  "restore_settings json_length form i =
     bnd (lift (ok_or i ''Provider has no ID'')) (\<lambda>i.
     bnd (load_settings i) (\<lambda>saved.
     bnd (lift (case validate_settings json_length form (ss_values saved) of
         Inl e \<Rightarrow> Inl (se_message e) | Inr vs \<Rightarrow> Inr vs)) (\<lambda>vs.
     ret (saved\<lparr>ss_values := vs\<rparr>))))"

subsection \<open>What a validated map is\<close>

lemma update_new_key: "k \<notin> fst ` set xs \<Longrightarrow> AList.update k v xs = xs @ [(k, v)]"
  by (induction xs) auto

lemma check_definitions_keys:
  "check_definitions keys form = Inr all \<Longrightarrow> distinct keys \<Longrightarrow>
    all = keys @ map sf_key form \<and> distinct (keys @ map sf_key form) \<and> (\<forall>f \<in> set form. setting_valid f (sf_default f))"
proof (induction form arbitrary: keys)
  case (Cons f fs)
  then have "check_definitions (keys @ [sf_key f]) fs = Inr all" "sf_key f \<notin> set keys" "setting_valid f (sf_default f)"
    by (auto simp: and_then_def ensure_def check_setting_def split: if_splits sum.splits option.splits)
  with Cons.IH [of "keys @ [sf_key f]"] Cons.prems(2) show ?case by simp
qed simp

lemma unknown_settings_none:
  "unknown_settings keys values = [] \<longleftrightarrow> fst ` set values \<subseteq> set keys"
proof -
  have update: "AList.update k v xs \<noteq> []" for k v and xs :: "(string \<times> string) list" by (cases xs) auto
  have "fold (\<lambda>k errors. if k \<in> set keys then errors else AList.update k ''Unknown setting'' errors) ks acc = []
      \<longleftrightarrow> acc = [] \<and> set ks \<subseteq> set keys" for ks acc
    by (induction ks arbitrary: acc) (auto simp: update)
  then show ?thesis by (simp add: unknown_settings_def)
qed

lemma take_setting_step:
  "take_setting values f (result, errors) =
    (if setting_valid f (given values f) then (AList.update (sf_key f) (given values f) result, errors)
     else (result, AList.update (sf_key f) MISMATCH errors))"
  by (simp add: take_setting_def check_setting_def)

lemma take_settings_ok:
  assumes "fold (take_setting values) form (result, errors) = (final, [])" and "distinct (map fst result @ map sf_key form)"
  shows "errors = [] \<and> final = result @ map (\<lambda>f. (sf_key f, given values f)) form \<and> (\<forall>f \<in> set form. setting_valid f (given values f))"
  using assms
proof (induction form arbitrary: result errors)
  case (Cons f fs)
  have update: "AList.update k v xs \<noteq> []" for k v and xs :: "(string \<times> string) list" by (cases xs) auto
  have new: "AList.update (sf_key f) (given values f) result = result @ [(sf_key f, given values f)]"
    using Cons.prems(2) by (simp add: update_new_key)
  show ?case
  proof (cases "setting_valid f (given values f)")
    case True
    with Cons.prems(1) have "fold (take_setting values) fs (result @ [(sf_key f, given values f)], errors) = (final, [])"
      by (simp add: take_setting_step new)
    from Cons.IH [OF this] Cons.prems(2) True show ?thesis by simp
  next
    case False
    with Cons.prems(1) have "fold (take_setting values) fs (result, AList.update (sf_key f) MISMATCH errors) = (final, [])"
      by (simp add: take_setting_step)
    from Cons.IH [OF this] Cons.prems(2) update show ?thesis by auto
  qed
qed simp

lemma take_settings_run:
  assumes "\<forall>f \<in> set form. setting_valid f (given values f)" and "distinct (map fst result @ map sf_key form)"
  shows "fold (take_setting values) form (result, errors) = (result @ map (\<lambda>f. (sf_key f, given values f)) form, errors)"
  using assms
  by (induction form arbitrary: result) (simp_all add: take_setting_step update_new_key)

lemma validate_settings_InrD:
  assumes "validate_settings json_length form values = Inr result"
  shows "result = map (\<lambda>f. (sf_key f, given values f)) form" "\<forall>f \<in> set form. setting_valid f (given values f)"
    "fst ` set values \<subseteq> sf_key ` set form" "distinct (map sf_key form)" "length form \<le> 64" "json_length result \<le> 16 * 1024"
    "check_definitions [] form = Inr (map sf_key form)" "check_conditions (map sf_key form) form form = Inr ()"
proof -
  from assms obtain keys where keys: "check_definitions [] form = Inr keys" and conds: "check_conditions keys form form = Inr ()"
    and run: "fold (take_setting values) form ([], unknown_settings keys values) = (result, [])"
    and limits: "length form \<le> 64" "json_length result \<le> 16 * 1024"
    by (auto simp: validate_settings_def split: if_splits sum.splits prod.splits)
  from check_definitions_keys [OF keys] have k: "keys = map sf_key form" "distinct (map sf_key form)" by simp_all
  from take_settings_ok [OF run] k
  show "result = map (\<lambda>f. (sf_key f, given values f)) form" "\<forall>f \<in> set form. setting_valid f (given values f)"
    "fst ` set values \<subseteq> sf_key ` set form"
    by (simp_all add: unknown_settings_none)
  show "distinct (map sf_key form)" "length form \<le> 64" "json_length result \<le> 16 * 1024"
    "check_definitions [] form = Inr (map sf_key form)" "check_conditions (map sf_key form) form form = Inr ()"
    using k keys conds limits by simp_all
qed

text \<open>C18: settings that pass have exactly the keys of the definition, the given value or the default for each, all of them of
  the type and in the range that the definition says; and checking them again changes nothing.\<close>

theorem validated_settings_are_complete:
  assumes "validate_settings json_length form values = Inr result"
  shows "map fst result = map sf_key form
    \<and> (\<forall>f \<in> set form. map_of result (sf_key f) = Some (given values f) \<and> setting_valid f (given values f))
    \<and> validate_settings json_length form result = Inr result"
proof -
  note r = validate_settings_InrD [OF assms]
  have of: "map_of result (sf_key f) = Some (given values f)" if "f \<in> set form" for f
    using r(4) that by (simp add: r(1) distinct_map inj_on_eq_iff map_of_eq_Some_iff o_def image_iff) blast
  then have same: "given result f = given values f" if "f \<in> set form" for f using that by (simp add: given_def [of result])
  have "fold (take_setting result) form ([], []) = (map (\<lambda>f. (sf_key f, given result f)) form, [])"
    using take_settings_run [of form result "[]" "[]"] r(2,4) same by simp
  also have "map (\<lambda>f. (sf_key f, given result f)) form = result" unfolding r(1) using same [unfolded r(1)] by simp
  finally have "fold (take_setting result) form ([], []) = (result, [])" .
  moreover have "unknown_settings (map sf_key form) result = []" by (auto simp: unknown_settings_none r(1))
  ultimately have "validate_settings json_length form result = Inr result"
    using r(5-8) by (simp add: validate_settings_def)
  then show ?thesis using of r(2) by (simp add: r(1) o_def)
qed

text \<open>C19: of several writers that saw the same revision at most one saves: a save succeeds only against the revision it was
  made from, stores exactly what it was given, and moves the revision, so that the same save fails afterwards.\<close>

theorem save_settings_once:
  assumes "save_settings i revision values s = (Inr snap, s')"
  shows "(case map_of (sd_rows s) i of None \<Rightarrow> revision = 0 | Some r \<Rightarrow> sw_revision r = int revision)
    \<and> map_of (sd_rows s') = (map_of (sd_rows s))(i \<mapsto> \<lparr>sw_revision = int revision + 1, sw_config = Obj values\<rparr>)
    \<and> ss_revision snap = revision + 1 \<and> (\<forall>values' snap' s''. save_settings i revision values' s' \<noteq> (Inr snap', s''))"
proof -
  have run: "(case map_of (sd_rows s) i of None \<Rightarrow> revision = 0 | Some r \<Rightarrow> sw_revision r = int revision)
    \<and> map_of (sd_rows s') = (map_of (sd_rows s))(i \<mapsto> \<lparr>sw_revision = int revision + 1, sw_config = Obj vs\<rparr>)
    \<and> ss_revision snap = revision + 1" if "save_settings i revision vs s = (Inr snap, s')" for vs snap and s s' :: settings_db
    using that
    by (auto simp: save_settings_def settings_statement_def act_simps update_conv' elim!: bnd_InrE
        split: if_splits list.splits option.splits)
  from run [OF assms] have "map_of (sd_rows s') i = Some \<lparr>sw_revision = int revision + 1, sw_config = Obj values\<rparr>" by simp
  then have "save_settings i revision values' s' \<noteq> (Inr snap', s'')" for values' snap' s''
    using run [of values' s' snap' s''] by auto
  with run [OF assms] show ?thesis by blast
qed

text \<open>What was saved is what a later load reads, until the next save.\<close>

theorem load_after_save:
  assumes "save_settings i revision values s = (Inr snap, s')" and "load_settings i s' = (Inr snap', s'')"
  shows "snap' = snap \<and> ss_values snap = values"
proof -
  from assms(1) have "map_of (sd_rows s') i = Some \<lparr>sw_revision = int revision + 1, sw_config = Obj values\<rparr>"
    and "snap = \<lparr>ss_revision = revision + 1, ss_values = values\<rparr>"
    by (auto simp: save_settings_def settings_statement_def act_simps update_conv' elim!: bnd_InrE
        split: if_splits list.splits option.splits)
  moreover have "nat (int revision + 1) = revision + 1" by simp
  ultimately show ?thesis using assms(2)
    by (auto simp: load_settings_def settings_statement_def act_simps as_object_def ok_or_def elim!: bnd_InrE split: if_splits list.splits)
qed

definition sample_form :: "setting_field list" where
  "sample_form = [\<lparr>sf_key = ''rate'', sf_kind = IntegerSetting, sf_default = Number (PosInt 3), sf_options = [], sf_minimum = Some 1,
     sf_maximum = Some 9, sf_enabled_when = Some (''on'', Bool True)\<rparr>,
   \<lparr>sf_key = ''on'', sf_kind = BooleanSetting, sf_default = Bool False, sf_options = [], sf_minimum = None, sf_maximum = None,
     sf_enabled_when = None\<rparr>]"

theorem validated_settings_are_complete_witness:
  "validate_settings length sample_form [(''rate'', Number (PosInt 3)), (''on'', Bool True)]
    = Inr [(''rate'', Number (PosInt 3)), (''on'', Bool True)]"
proof -
  have "validate_settings length sample_form [(''on'', Bool True)] = Inr [(''rate'', Number (PosInt 3)), (''on'', Bool True)]"
    by code_simp
  from validated_settings_are_complete [OF this] show ?thesis by blast
qed

theorem save_settings_once_witness:
  "fst (save_settings 5 0 [] (snd (save_settings 5 0 [(''on'', Bool True)] \<lparr>sd_rows = [], sd_faults = []\<rparr>))) \<noteq> Inr \<lparr>ss_revision = 1, ss_values = []\<rparr>"
proof -
  obtain r s' where run: "save_settings 5 0 [(''on'', Bool True)] \<lparr>sd_rows = [], sd_faults = []\<rparr> = (r, s')" by fastforce
  have "\<not> is_err (fst (save_settings 5 0 [(''on'', Bool True)] \<lparr>sd_rows = [], sd_faults = []\<rparr>))" by code_simp
  then obtain snap where "r = Inr snap" by (cases r) (simp_all add: run)
  with run save_settings_once [of 5 0 "[(''on'', Bool True)]" "\<lparr>sd_rows = [], sd_faults = []\<rparr>" snap s'] show ?thesis
    by (metis prod.collapse snd_conv)
qed

end
