(* ===== verification/Tokenizer.thy ===== *)
theory Tokenizer
  imports Main "HOL-Library.Code_Target_Nat"
begin

section \<open>The tokenizer of the full text search\<close>

text \<open>
  \<^verbatim>\<open>src/backend/main/src/fts/tokenizer.rs\<close> and the callback of \<^verbatim>\<open>fts/entry.rs\<close>. A text is the list of its code points; the
  normalisation NFKC of the crate \<^verbatim>\<open>unicode_normalization\<close> is a parameter. \<^verbatim>\<open>to_lowercase\<close> is only applied to ASCII letters.
\<close>

type_synonym unicode = "nat list"

datatype token = Alphabetic unicode nat | Numeric unicode nat | NGram unicode nat

datatype char_type = AlphabeticChar | NumericChar | OtherChar | SeparatorChar

definition get_char_type :: "nat \<Rightarrow> char_type" where
  "get_char_type c =
     (if 65 \<le> c \<and> c \<le> 90 \<or> 97 \<le> c \<and> c \<le> 122 then AlphabeticChar
      else if 48 \<le> c \<and> c \<le> 57 then NumericChar
      else if c < 128 then SeparatorChar
      else OtherChar)"

definition to_lowercase :: "unicode \<Rightarrow> unicode" where
  "to_lowercase = map (\<lambda>c. if 65 \<le> c \<and> c \<le> 90 then c + 32 else c)"

fun bigrams :: "unicode \<Rightarrow> nat \<Rightarrow> token list" where
  "bigrams (a # b # cs) pos = NGram [a, b] pos # bigrams (b # cs) (pos + 1)"
| "bigrams _ pos = []"

definition process_token :: "unicode \<Rightarrow> char_type \<Rightarrow> nat \<Rightarrow> token list" where
  "process_token t ty start =
     (if t = [] then []
      else case ty of
        NumericChar \<Rightarrow> [Numeric t start]
      | AlphabeticChar \<Rightarrow> [Alphabetic (to_lowercase t) start]
      | OtherChar \<Rightarrow> if length t < 2 then [NGram t start] else bigrams t start
      | SeparatorChar \<Rightarrow> [])"

record tokenizing =
  tz_result :: "token list"
  tz_token :: unicode
  tz_type :: char_type
  tz_start :: nat
  tz_pos :: nat

definition tokenize_step :: "nat \<Rightarrow> tokenizing \<Rightarrow> tokenizing" where
  "tokenize_step c s =
     (let ty = get_char_type c;
          s1 = (if ty \<noteq> tz_type s \<and> tz_token s \<noteq> []
                then s\<lparr>tz_result := tz_result s @ process_token (tz_token s) (tz_type s) (tz_start s), tz_token := [],
                       tz_start := tz_pos s\<rparr> else s);
          s2 = (if ty \<noteq> SeparatorChar
                then s1\<lparr>tz_start := (if tz_token s1 = [] then tz_pos s1 else tz_start s1), tz_token := tz_token s1 @ [c]\<rparr> else s1)
      in s2\<lparr>tz_type := ty, tz_pos := tz_pos s2 + 1\<rparr>)"

definition tokenize :: "(unicode \<Rightarrow> unicode) \<Rightarrow> unicode \<Rightarrow> token list" where
  "tokenize nfkc input =
     (let s = fold tokenize_step (nfkc input)
        \<lparr>tz_result = [], tz_token = [], tz_type = SeparatorChar, tz_start = 0, tz_pos = 0\<rparr> in
      if tz_token s \<noteq> [] then tz_result s @ process_token (tz_token s) (tz_type s) (tz_start s) else tz_result s)"

definition ascii :: "string \<Rightarrow> unicode" where
  "ascii = map of_char"

definition query_term :: "token \<Rightarrow> unicode" where
  "query_term t = (case t of Alphabetic s _ \<Rightarrow> s @ ascii ''*'' | Numeric s _ \<Rightarrow> s | NGram s _ \<Rightarrow> s @ ascii ''*'')"

fun join :: "unicode \<Rightarrow> unicode list \<Rightarrow> unicode" where
  "join sep [] = []"
| "join sep [t] = t"
| "join sep (t # u # ts) = t @ sep @ join sep (u # ts)"

definition tokenize_query :: "(unicode \<Rightarrow> unicode) \<Rightarrow> unicode \<Rightarrow> unicode" where
  "tokenize_query nfkc query = join (ascii '' AND '') (map query_term (tokenize nfkc query))"

definition token_text :: "token \<Rightarrow> unicode" where
  "token_text t = (case t of Alphabetic s _ \<Rightarrow> s | Numeric s _ \<Rightarrow> s | NGram s _ \<Rightarrow> s)"

definition token_pos :: "token \<Rightarrow> nat" where
  "token_pos t = (case t of Alphabetic _ p \<Rightarrow> p | Numeric _ p \<Rightarrow> p | NGram _ p \<Rightarrow> p)"




subsection \<open>Maximal runs\<close>

text \<open>The reference: the maximal runs of characters of one type, with their positions.\<close>

function type_runs :: "nat \<Rightarrow> unicode \<Rightarrow> (unicode \<times> char_type \<times> nat) list" where
  "type_runs pos [] = []"
| "type_runs pos (c # cs) =
     (let same = (\<lambda>d. get_char_type d = get_char_type c) in
      (c # takeWhile same cs, get_char_type c, pos) # type_runs (pos + 1 + length (takeWhile same cs)) (dropWhile same cs))"
  by pat_completeness auto
termination
proof (relation "measure (\<lambda>(pos, cs). length cs)")
  fix pos c and cs :: unicode and same
  have "length (dropWhile same cs) \<le> length cs" by (rule length_dropWhile_le)
  then show "((pos + 1 + length (takeWhile same cs), dropWhile same cs), pos, c # cs) \<in> measure (\<lambda>(pos, cs). length cs)" by simp
qed simp

definition run_tokens :: "(unicode \<times> char_type \<times> nat) list \<Rightarrow> token list" where
  "run_tokens = concat \<circ> map (\<lambda>(t, ty, p). process_token t ty p)"

text \<open>What is still to come after the loop has read the start of a run.\<close>

definition finish :: "tokenizing \<Rightarrow> token list" where
  "finish s = (if tz_token s \<noteq> [] then tz_result s @ process_token (tz_token s) (tz_type s) (tz_start s) else tz_result s)"

definition open_run :: "tokenizing \<Rightarrow> bool" where
  "open_run s \<longleftrightarrow> (tz_token s \<noteq> [] \<longleftrightarrow> tz_type s \<noteq> SeparatorChar)"

lemma process_separator [simp]: "process_token t SeparatorChar p = []"
  by (simp add: process_token_def)

lemma tokenize_step_cases:
  assumes "open_run s"
  shows "tz_type s = get_char_type c \<Longrightarrow> tz_type s \<noteq> SeparatorChar \<Longrightarrow>
      tokenize_step c s = s\<lparr>tz_token := tz_token s @ [c], tz_pos := tz_pos s + 1\<rparr>"
    and "tz_type s = get_char_type c \<Longrightarrow> tz_type s = SeparatorChar \<Longrightarrow> tokenize_step c s = s\<lparr>tz_pos := tz_pos s + 1\<rparr>"
  using assms by (simp_all add: tokenize_step_def Let_def open_run_def)

lemma tokenize_step_new:
  assumes "tz_type s \<noteq> get_char_type c"
  shows "get_char_type c \<noteq> SeparatorChar \<Longrightarrow> tz_token s = [] \<Longrightarrow>
      tokenize_step c s = s\<lparr>tz_token := [c], tz_start := tz_pos s, tz_type := get_char_type c, tz_pos := tz_pos s + 1\<rparr>"
    and "get_char_type c \<noteq> SeparatorChar \<Longrightarrow> tz_token s \<noteq> [] \<Longrightarrow>
      tokenize_step c s = s\<lparr>tz_result := finish s, tz_token := [c], tz_start := tz_pos s, tz_type := get_char_type c,
        tz_pos := tz_pos s + 1\<rparr>"
    and "get_char_type c = SeparatorChar \<Longrightarrow> tz_token s = [] \<Longrightarrow>
      tokenize_step c s = s\<lparr>tz_type := SeparatorChar, tz_pos := tz_pos s + 1\<rparr>"
    and "get_char_type c = SeparatorChar \<Longrightarrow> tz_token s \<noteq> [] \<Longrightarrow>
      tokenize_step c s = s\<lparr>tz_result := finish s, tz_token := [], tz_start := tz_pos s, tz_type := SeparatorChar,
        tz_pos := tz_pos s + 1\<rparr>"
  using assms by (simp_all add: tokenize_step_def Let_def finish_def)

text \<open>The state after the first character of a run.\<close>

definition begun :: "nat \<Rightarrow> tokenizing \<Rightarrow> tokenizing \<Rightarrow> bool" where
  "begun c s s1 \<longleftrightarrow> open_run s1 \<and> tz_type s1 = get_char_type c \<and> tz_pos s1 = tz_pos s + 1
    \<and> (if get_char_type c = SeparatorChar then finish s1 = finish s
       else tz_result s1 = finish s \<and> tz_token s1 = [c] \<and> tz_start s1 = tz_pos s)"

lemma begun_step:
  assumes "open_run s" and "tz_type s \<noteq> get_char_type c \<or> tz_type s = SeparatorChar"
  shows "begun c s (tokenize_step c s)"
proof (cases "tz_type s = get_char_type c")
  case True
  with assms show ?thesis by (simp add: tokenize_step_cases begun_def open_run_def finish_def)
next
  case False
  show ?thesis
  proof (cases "get_char_type c = SeparatorChar"; cases "tz_token s = []")
    assume "get_char_type c = SeparatorChar" "tz_token s = []"
    then show ?thesis by (simp add: tokenize_step_new(3) [OF False] begun_def open_run_def finish_def)
  next
    assume "get_char_type c = SeparatorChar" "tz_token s \<noteq> []"
    then show ?thesis by (simp add: tokenize_step_new(4) [OF False] begun_def open_run_def) (simp add: finish_def)
  next
    assume "get_char_type c \<noteq> SeparatorChar" "tz_token s = []"
    then show ?thesis by (simp add: tokenize_step_new(1) [OF False] begun_def open_run_def finish_def)
  next
    assume "get_char_type c \<noteq> SeparatorChar" "tz_token s \<noteq> []"
    then show ?thesis by (simp add: tokenize_step_new(2) [OF False] begun_def open_run_def)
  qed
qed

lemma fold_same:
  assumes "open_run s" and "tz_type s = k" and "\<forall>d \<in> set cs. get_char_type d = k"
  shows "fold tokenize_step cs s = s\<lparr>tz_token := (if k = SeparatorChar then tz_token s else tz_token s @ cs),
    tz_pos := tz_pos s + length cs\<rparr>"
  using assms
proof (induction cs arbitrary: s)
  case (Cons c cs)
  then have types: "get_char_type c = k" "tz_type s = k" by simp_all
  show ?case
  proof (cases "k = SeparatorChar")
    case True
    let ?s = "s\<lparr>tz_pos := tz_pos s + 1\<rparr>"
    from True types have "tokenize_step c s = ?s" by (simp add: tokenize_step_cases(2) [OF Cons.prems(1)])
    moreover have "open_run ?s" using Cons.prems(1) by (simp add: open_run_def)
    ultimately show ?thesis using Cons.IH [of ?s] Cons.prems(3) True types by simp
  next
    case False
    let ?s = "s\<lparr>tz_token := tz_token s @ [c], tz_pos := tz_pos s + 1\<rparr>"
    from False types have "tokenize_step c s = ?s" by (simp add: tokenize_step_cases(1) [OF Cons.prems(1)])
    moreover have "open_run ?s" using False types by (simp add: open_run_def)
    ultimately show ?thesis using Cons.IH [of ?s] Cons.prems(3) False types by simp
  qed
qed simp

text \<open>Reading whole runs.\<close>

lemma fold_run:
  assumes "open_run s" and "tz_type s \<noteq> get_char_type c \<or> tz_type s = SeparatorChar"
    and same: "\<forall>d \<in> set ds. get_char_type d = get_char_type c"
  obtains s2 where "fold tokenize_step (c # ds) s = s2" "open_run s2" "tz_type s2 = get_char_type c"
    "tz_pos s2 = tz_pos s + 1 + length ds" "finish s2 = finish s @ process_token (c # ds) (get_char_type c) (tz_pos s)"
proof -
  obtain s1 where step: "tokenize_step c s = s1" by simp
  note begun = begun_step [OF assms(1,2), unfolded step begun_def]
  have s1: "open_run s1" "tz_type s1 = get_char_type c" "tz_pos s1 = tz_pos s + 1" using begun by simp_all
  obtain s2 where s2: "fold tokenize_step (c # ds) s = s2" by simp
  then have eq: "s2 = s1\<lparr>tz_token := (if get_char_type c = SeparatorChar then tz_token s1 else tz_token s1 @ ds),
      tz_pos := tz_pos s1 + length ds\<rparr>"
    using fold_same [OF s1(1,2) same] by (simp add: step)
  have "finish s2 = finish s @ process_token (c # ds) (get_char_type c) (tz_pos s)"
  proof (cases "get_char_type c = SeparatorChar")
    case True
    then have "finish s2 = finish s1" by (simp add: eq finish_def)
    then show ?thesis using begun True by simp
  next
    case False
    then show ?thesis using begun by (simp add: eq finish_def)
  qed
  moreover have "open_run s2"
    using s1(1,2) by (cases "get_char_type c = SeparatorChar") (auto simp: eq open_run_def)
  ultimately show thesis using s1 s2 by (intro that [of s2]) (simp_all add: eq)
qed

lemma fold_runs:
  assumes "open_run s" and "cs \<noteq> [] \<Longrightarrow> tz_type s \<noteq> get_char_type (hd cs) \<or> tz_type s = SeparatorChar"
  shows "finish (fold tokenize_step cs s) = finish s @ run_tokens (type_runs (tz_pos s) cs)"
  using assms
proof (induction "tz_pos s" cs arbitrary: s rule: type_runs.induct)
  case (1 s)
  then show ?case by (simp add: run_tokens_def)
next
  case (2 c cs s)
  let ?same = "\<lambda>d. get_char_type d = get_char_type c"
  let ?run = "takeWhile ?same cs" and ?rest = "dropWhile ?same cs"
  have "tz_type s \<noteq> get_char_type c \<or> tz_type s = SeparatorChar" using 2(3) by simp
  moreover have "\<forall>d \<in> set ?run. get_char_type d = get_char_type c" by (auto dest: set_takeWhileD)
  ultimately obtain s2 where s2: "fold tokenize_step (c # ?run) s = s2" "open_run s2" "tz_type s2 = get_char_type c"
    "tz_pos s2 = tz_pos s + 1 + length ?run" "finish s2 = finish s @ process_token (c # ?run) (get_char_type c) (tz_pos s)"
    by (rule fold_run [OF 2(2)])
  have "tz_type s2 \<noteq> get_char_type (hd ?rest)" if "?rest \<noteq> []"
    using hd_dropWhile [OF that] s2(3) by metis
  then have "finish (fold tokenize_step ?rest s2) = finish s2 @ run_tokens (type_runs (tz_pos s2) ?rest)"
    using 2(1) [of ?same s2] s2(2,4) by simp
  moreover have "fold tokenize_step ((c # ?run) @ ?rest) s = fold tokenize_step ?rest s2" by (simp only: fold_append s2(1) comp_apply)
  then have "fold tokenize_step (c # cs) s = fold tokenize_step ?rest s2" by simp
  ultimately show ?case using s2(4,5) by (simp add: run_tokens_def Let_def)
qed

lemma tokenize_as_runs: "tokenize nfkc input = run_tokens (type_runs 0 (nfkc input))"
proof -
  let ?s = "\<lparr>tz_result = [], tz_token = [], tz_type = SeparatorChar, tz_start = 0, tz_pos = 0\<rparr>"
  have "finish (fold tokenize_step (nfkc input) ?s) = finish ?s @ run_tokens (type_runs (tz_pos ?s) (nfkc input))"
    by (rule fold_runs) (simp_all add: open_run_def)
  then show ?thesis by (simp add: tokenize_def finish_def Let_def)
qed

text \<open>The tokens are those of the maximal runs of letters, digits and other characters, in their order.\<close>

theorem tokenize_runs: "tokenize nfkc input = run_tokens (type_runs 0 (nfkc input))"
  by (rule tokenize_as_runs)

subsection \<open>Where the tokens stand\<close>

definition at_pos :: "unicode \<Rightarrow> nat \<Rightarrow> unicode \<Rightarrow> bool" where
  "at_pos t p cs \<longleftrightarrow> (\<exists>as bs. cs = as @ t @ bs \<and> length as = p)"

lemma at_pos_append: "at_pos t p bs \<Longrightarrow> at_pos t (length as + p) (as @ bs)"
  unfolding at_pos_def by (metis append.assoc length_append)

lemma at_pos_slice: "at_pos t p cs \<Longrightarrow> p + length t \<le> length cs \<and> take (length t) (drop p cs) = t"
  by (auto simp: at_pos_def)

lemma type_runs_at:
  "(t, ty, p) \<in> set (type_runs q cs) \<Longrightarrow> t \<noteq> [] \<and> (\<forall>d \<in> set t. get_char_type d = ty) \<and> q \<le> p \<and> at_pos t (p - q) cs"
proof (induction q cs rule: type_runs.induct)
  case (2 q c cs)
  let ?same = "\<lambda>d. get_char_type d = get_char_type c"
  let ?run = "takeWhile ?same cs" and ?rest = "dropWhile ?same cs"
  have split: "c # cs = (c # ?run) @ ?rest" by simp
  from 2(2) consider "(t, ty, p) = (c # ?run, get_char_type c, q)" | "(t, ty, p) \<in> set (type_runs (q + 1 + length ?run) ?rest)"
    by (auto simp: Let_def)
  then show ?case
  proof cases
    case 1
    have "at_pos (c # ?run) 0 (c # cs)" unfolding at_pos_def by (intro exI [of _ "[]"] exI [of _ ?rest]) simp
    with 1 show ?thesis by (auto dest: set_takeWhileD)
  next
    case 2
    from "2.IH" [OF refl 2] have IH: "t \<noteq> []" "\<forall>d \<in> set t. get_char_type d = ty" "q + 1 + length ?run \<le> p"
      "at_pos t (p - (q + 1 + length ?run)) ?rest" by simp_all
    have "length (c # ?run) + (p - (q + 1 + length ?run)) = p - q" using IH(3) by simp
    with at_pos_append [OF IH(4), of "c # ?run"] have "at_pos t (p - q) ((c # ?run) @ ?rest)" by (simp only:)
    with IH show ?thesis by (simp only: split [symmetric]) simp
  qed
qed simp

lemma bigrams_at: "b \<in> set (bigrams t p) \<Longrightarrow>
    \<exists>k. token_pos b = p + k \<and> b = NGram (token_text b) (p + k) \<and> length (token_text b) = 2 \<and> at_pos (token_text b) k t"
proof (induction t p rule: bigrams.induct)
  case (1 a c cs p)
  from 1(2) consider "b = NGram [a, c] p" | "b \<in> set (bigrams (c # cs) (p + 1))" by auto
  then show ?case
  proof cases
    case 1
    then show ?thesis by (intro exI [of _ 0]) (auto simp: token_pos_def token_text_def at_pos_def)
  next
    case 2
    from "1.IH" [OF 2] obtain k where k: "token_pos b = p + 1 + k" "b = NGram (token_text b) (p + 1 + k)"
      "length (token_text b) = 2" "at_pos (token_text b) k (c # cs)" by blast
    with at_pos_append [OF k(4), of "[a]"] show ?thesis by (intro exI [of _ "Suc k"]) simp
  qed
qed simp_all

lemma at_pos_trans:
  assumes "at_pos u k t" and "at_pos t p cs"
  shows "at_pos u (p + k) cs"
proof -
  obtain as bs where t: "t = as @ u @ bs" "length as = k" using assms(1) by (auto simp: at_pos_def)
  obtain cs1 cs2 where "cs = cs1 @ t @ cs2" "length cs1 = p" using assms(2) by (auto simp: at_pos_def)
  then show ?thesis unfolding at_pos_def t by (intro exI [of _ "cs1 @ as"] exI [of _ "bs @ cs2"]) (simp add: t)
qed

lemma at_pos_mem: "at_pos t p cs \<Longrightarrow> set t \<subseteq> set cs"
  by (auto simp: at_pos_def)

text \<open>The token made of a piece of the text.\<close>

definition token_of :: "unicode \<Rightarrow> nat \<Rightarrow> token \<Rightarrow> bool" where
  "token_of u p t \<longleftrightarrow> u \<noteq> [] \<and>
     (t = Alphabetic (to_lowercase u) p \<and> (\<forall>c \<in> set u. get_char_type c = AlphabeticChar)
      \<or> t = Numeric u p \<and> (\<forall>c \<in> set u. get_char_type c = NumericChar)
      \<or> t = NGram u p \<and> length u \<le> 2 \<and> (\<forall>c \<in> set u. get_char_type c = OtherChar))"

lemma process_token_of:
  assumes "tok \<in> set (process_token t ty p)" and "\<forall>d \<in> set t. get_char_type d = ty"
  shows "\<exists>u k. token_of u (p + k) tok \<and> at_pos u k t"
proof (cases ty)
  case OtherChar
  have whole: "at_pos t 0 t" by (auto simp: at_pos_def)
  show ?thesis
  proof (cases "length t < 2")
    case True
    with assms OtherChar whole show ?thesis
      by (intro exI [of _ t] exI [of _ 0]) (auto simp: process_token_def token_of_def split: if_splits)
  next
    case False
    with assms OtherChar have "tok \<in> set (bigrams t p)" by (simp add: process_token_def split: if_splits)
    from bigrams_at [OF this] obtain k where k: "tok = NGram (token_text tok) (p + k)" "length (token_text tok) = 2"
      "at_pos (token_text tok) k t" by blast
    then have "token_of (token_text tok) (p + k) tok" using assms(2) OtherChar at_pos_mem [OF k(3)] by (auto simp: token_of_def)
    with k(3) show ?thesis by blast
  qed
next
  case AlphabeticChar
  moreover have "at_pos t 0 t" by (auto simp: at_pos_def)
  ultimately show ?thesis using assms by (intro exI [of _ t] exI [of _ 0]) (auto simp: process_token_def token_of_def split: if_splits)
next
  case NumericChar
  moreover have "at_pos t 0 t" by (auto simp: at_pos_def)
  ultimately show ?thesis using assms by (intro exI [of _ t] exI [of _ 0]) (auto simp: process_token_def token_of_def split: if_splits)
qed (use assms in simp)

lemma tokenize_of:
  assumes "tok \<in> set (tokenize nfkc input)"
  obtains u p where "token_of u p tok" "at_pos u p (nfkc input)"
proof -
  from assms obtain t ty p where run: "(t, ty, p) \<in> set (type_runs 0 (nfkc input))" and tok: "tok \<in> set (process_token t ty p)"
    by (auto simp: tokenize_as_runs run_tokens_def)
  note t = type_runs_at [OF run]
  with process_token_of [OF tok] obtain u k where "token_of u (p + k) tok" "at_pos u k t" by blast
  with that at_pos_trans [of u k t p "nfkc input"] t show thesis by simp
qed

text \<open>Every token is a piece of the normalised text at its position, letters in lower case: a whole run of letters, digits,
  or at most two other characters.\<close>

theorem tokens_stand_in_text:
  assumes "tok \<in> set (tokenize nfkc input)"
  shows "let n = length (token_text tok); u = take n (drop (token_pos tok) (nfkc input)) in
    0 < n \<and> token_pos tok + n \<le> length (nfkc input)
    \<and> (case tok of
        Alphabetic t p \<Rightarrow> t = to_lowercase u \<and> (\<forall>c \<in> set u. get_char_type c = AlphabeticChar)
      | Numeric t p \<Rightarrow> t = u \<and> (\<forall>c \<in> set u. get_char_type c = NumericChar)
      | NGram t p \<Rightarrow> t = u \<and> n \<le> 2 \<and> (\<forall>c \<in> set u. get_char_type c = OtherChar))"
proof -
  obtain u p where u: "token_of u p tok" "at_pos u p (nfkc input)" using assms by (rule tokenize_of)
  then have n: "length (token_text tok) = length u" "token_pos tok = p" "u \<noteq> []"
    by (auto simp: token_of_def token_text_def token_pos_def to_lowercase_def)
  from at_pos_slice [OF u(2)] have slice: "p + length u \<le> length (nfkc input)" "take (length u) (drop p (nfkc input)) = u" by simp_all
  show ?thesis unfolding Let_def n slice(2) using u(1) n(3) slice(1) by (auto simp: token_of_def)
qed

definition plain_term :: "unicode \<Rightarrow> bool" where
  "plain_term t \<longleftrightarrow> (\<exists>w. w \<noteq> [] \<and> (t = w @ ascii ''*'' \<and> (\<forall>c \<in> set w. 97 \<le> c \<and> c \<le> 122)
      \<or> t = w \<and> (\<forall>c \<in> set w. 48 \<le> c \<and> c \<le> 57) \<or> t = w @ ascii ''*'' \<and> (\<forall>c \<in> set w. 128 \<le> c)))"

lemma query_term_plain:
  assumes "t \<in> set (map query_term (tokenize nfkc query))"
  shows "plain_term t"
proof -
  from assms obtain tok where tok: "tok \<in> set (tokenize nfkc query)" and t: "t = query_term tok" by auto
  obtain u p where u: "token_of u p tok" using tok by (rule tokenize_of)
  then have ne: "u \<noteq> []" by (simp add: token_of_def)
  from u consider "t = to_lowercase u @ ascii ''*''" "\<forall>c \<in> set u. get_char_type c = AlphabeticChar"
    | "t = u" "\<forall>c \<in> set u. get_char_type c = NumericChar" | "t = u @ ascii ''*''" "\<forall>c \<in> set u. get_char_type c = OtherChar"
    by (auto simp: token_of_def t query_term_def)
  then show "plain_term t"
  proof cases
    case 1
    moreover from 1(2) have "\<forall>c \<in> set (to_lowercase u). 97 \<le> c \<and> c \<le> 122"
      by (auto simp: to_lowercase_def get_char_type_def split: if_splits)
    ultimately show ?thesis unfolding plain_term_def using ne by (intro exI [of _ "to_lowercase u"]) (simp add: to_lowercase_def)
  next
    case 2
    then show ?thesis unfolding plain_term_def using ne
      by (intro exI [of _ u]) (auto simp: get_char_type_def split: if_splits)
  next
    case 3
    then show ?thesis unfolding plain_term_def using ne
      by (intro exI [of _ u]) (auto simp: get_char_type_def split: if_splits)
  qed
qed

text \<open>A query for the full text search is made of the words of its terms and the operator between them only: whatever the
  user types, no quote, parenthesis, column filter or operator of his gets into it.\<close>

theorem queries_are_plain:
  "\<exists>terms. tokenize_query nfkc query = join (ascii '' AND '') terms \<and> list_all plain_term terms"
proof -
  have "list_all plain_term (map query_term (tokenize nfkc query))"
    unfolding list_all_iff using query_term_plain by blast
  then show ?thesis unfolding tokenize_query_def by blast
qed

subsection \<open>The offsets handed to SQLite\<close>



theorem tokens_stand_in_text_witness:
  "take 2 (drop 1 [97, 20013, 22269]) = [20013, 22269::nat] \<and> NGram [20013, 22269] 1 \<in> set (tokenize (\<lambda>s. s) [97, 20013, 22269])"
proof -
  have "NGram [20013, 22269] 1 \<in> set (tokenize (\<lambda>s. s) [97, 20013, 22269])" by code_simp
  with tokens_stand_in_text [OF this] show ?thesis by (simp add: token_text_def token_pos_def)
qed


end
