(* ===== verification/Sql.thy ===== *)
theory Sql
  imports Catalog "HOL-Library.List_Lexorder" "HOL-Library.Char_ord"
begin

section \<open>The conditions of the library's queries\<close>

text \<open>
  The part of SQL that the queries of the backend are built from (\<^verbatim>\<open>sea_query\<close> expressions over the tables of
  \<^verbatim>\<open>src/backend/core/src/model\<close>), as SQLite reads it: a condition with its names, which are looked up in the
  tables of the innermost \<^verbatim>\<open>FROM\<close> that has them and must be unique there, and its value, which is unknown
  (\<open>None\<close>) where \<^verbatim>\<open>NULL\<close> takes part. The pattern matching of \<^verbatim>\<open>LIKE\<close>, which is only
  asked of texts, is a parameter.
\<close>

datatype sql_value = Null_value | Int_value int | Text_value string | Real_value "64 word" | Json_value json

type_synonym sql_row = "(string \<times> sql_value) list"
type_synonym scope = "(string \<times> sql_row) list"

datatype operand = Column "string option" string | Const sql_value

datatype comparison = EqualTo | NotEqualTo | GreaterThan | AtLeast | LessThan | AtMost

text \<open>\<open>Exists ts cs\<close> is \<^verbatim>\<open>EXISTS (SELECT 1 FROM ... INNER JOIN ... ON ... WHERE ...)\<close>: the conditions of the
  joins come first in \<open>cs\<close>, in the order of the tables.\<close>

datatype condition =
    Compare comparison operand operand
  | Like bool operand string
  | IsNull bool operand
  | Truth bool
  | AllOf "condition list"
  | AnyOf "condition list"
  | Exists "string list" "condition list"

subsection \<open>Names\<close>

definition with_column :: "(string \<Rightarrow> string list) \<Rightarrow> string option \<Rightarrow> string \<Rightarrow> string list \<Rightarrow> string list" where
  "with_column columns q c ts = filter (\<lambda>t. (q = None \<or> q = Some t) \<and> c \<in> set (columns t)) ts"

definition operand_errors :: "(string \<Rightarrow> string list) \<Rightarrow> string list list \<Rightarrow> operand \<Rightarrow> string list" where
  "operand_errors columns scopes x =
     (case x of
        Const _ \<Rightarrow> []
      | Column q c \<Rightarrow>
          (case find (\<lambda>ts. ts \<noteq> []) (map (with_column columns q c) scopes) of
             None \<Rightarrow> [''no such column'']
           | Some ts \<Rightarrow> if length ts = 1 then [] else [''ambiguous column name'']))"

fun name_errors :: "(string \<Rightarrow> string list) \<Rightarrow> string list list \<Rightarrow> condition \<Rightarrow> string list" where
  "name_errors columns scopes (Compare _ x y) = operand_errors columns scopes x @ operand_errors columns scopes y"
| "name_errors columns scopes (Like _ x _) = operand_errors columns scopes x"
| "name_errors columns scopes (IsNull _ x) = operand_errors columns scopes x"
| "name_errors columns scopes (Truth _) = []"
| "name_errors columns scopes (AllOf cs) = concat (map (name_errors columns scopes) cs)"
| "name_errors columns scopes (AnyOf cs) = concat (map (name_errors columns scopes) cs)"
| "name_errors columns scopes (Exists ts cs) = concat (map (name_errors columns (ts # scopes)) cs)"

subsection \<open>Values\<close>

definition column_value :: "scope list \<Rightarrow> string option \<Rightarrow> string \<Rightarrow> sql_value" where
  "column_value scopes q c =
     (case concat (map (\<lambda>ts. [map_of row c. (t, row) \<leftarrow> ts, (q = None \<or> q = Some t) \<and> c \<in> fst ` set row]) scopes) of
        Some v # _ \<Rightarrow> v
      | _ \<Rightarrow> Null_value)"

definition operand_value :: "scope list \<Rightarrow> operand \<Rightarrow> sql_value" where
  "operand_value scopes x = (case x of Const v \<Rightarrow> v | Column q c \<Rightarrow> column_value scopes q c)"

text \<open>Integers are ordered before texts, texts by their bytes. Reals and JSON are not compared by any query.\<close>

definition value_less :: "sql_value \<Rightarrow> sql_value \<Rightarrow> bool option" where
  "value_less a b =
     (case (a, b) of
        (Int_value i, Int_value j) \<Rightarrow> Some (i < j)
      | (Text_value s, Text_value t) \<Rightarrow> Some (s < t)
      | (Int_value _, Text_value _) \<Rightarrow> Some True
      | (Text_value _, Int_value _) \<Rightarrow> Some False
      | _ \<Rightarrow> None)"

definition compare_values :: "comparison \<Rightarrow> sql_value \<Rightarrow> sql_value \<Rightarrow> bool option" where
  "compare_values r a b =
     (case (value_less a b, value_less b a) of
        (Some lt, Some gt) \<Rightarrow>
          Some (case r of EqualTo \<Rightarrow> \<not> lt \<and> \<not> gt | NotEqualTo \<Rightarrow> lt \<or> gt | GreaterThan \<Rightarrow> gt | AtLeast \<Rightarrow> \<not> lt
            | LessThan \<Rightarrow> lt | AtMost \<Rightarrow> \<not> gt)
      | _ \<Rightarrow> None)"

definition all_true :: "bool option list \<Rightarrow> bool option" where
  "all_true vs = (if Some False \<in> set vs then Some False else if None \<in> set vs then None else Some True)"

definition any_true :: "bool option list \<Rightarrow> bool option" where
  "any_true vs = (if Some True \<in> set vs then Some True else if None \<in> set vs then None else Some False)"

definition combinations :: "(string \<Rightarrow> sql_row list) \<Rightarrow> string list \<Rightarrow> scope list" where
  "combinations tables ts = product_lists (map (\<lambda>t. map (Pair t) (tables t)) ts)"

fun truth ::
    "(string \<Rightarrow> string \<Rightarrow> bool) \<Rightarrow> (string \<Rightarrow> sql_row list) \<Rightarrow> scope list \<Rightarrow> condition \<Rightarrow> bool option" where
  "truth like tables scopes (Compare r x y) = compare_values r (operand_value scopes x) (operand_value scopes y)"
| "truth like tables scopes (Like is_like x pattern) =
     (case operand_value scopes x of Text_value t \<Rightarrow> Some (like pattern t \<longleftrightarrow> is_like) | _ \<Rightarrow> None)"
| "truth like tables scopes (IsNull is_null x) = Some ((operand_value scopes x = Null_value) \<longleftrightarrow> is_null)"
| "truth like tables scopes (Truth b) = Some b"
| "truth like tables scopes (AllOf cs) = all_true (map (truth like tables scopes) cs)"
| "truth like tables scopes (AnyOf cs) = any_true (map (truth like tables scopes) cs)"
| "truth like tables scopes (Exists ts cs) =
     Some (list_ex (\<lambda>rows. list_all (\<lambda>c. truth like tables (rows # scopes) c = Some True) cs) (combinations tables ts))"

text \<open>A row is selected when the condition is true; unknown is not enough.\<close>

definition selected ::
    "(string \<Rightarrow> string \<Rightarrow> bool) \<Rightarrow> (string \<Rightarrow> sql_row list) \<Rightarrow> scope list \<Rightarrow> condition \<Rightarrow> bool" where
  "selected like tables scopes c \<longleftrightarrow> truth like tables scopes c = Some True"

lemma all_true_iff: "all_true vs = Some True \<longleftrightarrow> (\<forall>v \<in> set vs. v = Some True)"
proof
  assume vs: "all_true vs = Some True"
  show "\<forall>v \<in> set vs. v = Some True"
  proof
    fix v assume "v \<in> set vs"
    with vs show "v = Some True" by (cases "v = None"; cases "v = Some False") (auto simp: all_true_def split: if_splits)
  qed
qed (auto simp: all_true_def)

lemma any_true_iff: "any_true vs = Some True \<longleftrightarrow> Some True \<in> set vs"
  by (auto simp: any_true_def)

lemma selected_simps [simp]:
  "selected like tables scopes (Truth b) \<longleftrightarrow> b"
  "selected like tables scopes (AllOf cs) \<longleftrightarrow> (\<forall>c \<in> set cs. selected like tables scopes c)"
  "selected like tables scopes (AnyOf cs) \<longleftrightarrow> (\<exists>c \<in> set cs. selected like tables scopes c)"
  "selected like tables scopes (Exists ts cs) \<longleftrightarrow>
     (\<exists>rows \<in> set (combinations tables ts). \<forall>c \<in> set cs. selected like tables (rows # scopes) c)"
  by (auto simp: selected_def all_true_iff any_true_iff list_ex_iff list_all_iff image_iff eq_commute [of "Some True"])

lemma compare_ints:
  "compare_values r (Int_value i) (Int_value j) =
    Some (case r of EqualTo \<Rightarrow> i = j | NotEqualTo \<Rightarrow> i \<noteq> j | GreaterThan \<Rightarrow> j < i | AtLeast \<Rightarrow> j \<le> i
      | LessThan \<Rightarrow> i < j | AtMost \<Rightarrow> i \<le> j)"
  by (auto simp: compare_values_def value_less_def split: comparison.splits)

lemma compare_int_text:
  "compare_values r (Int_value i) (Text_value t) = Some (r = NotEqualTo \<or> r = LessThan \<or> r = AtMost)"
  by (auto simp: compare_values_def value_less_def split: comparison.splits)

lemma compare_null:
  "compare_values r Null_value v = None" "compare_values r v Null_value = None"
  by (auto simp: compare_values_def value_less_def split: sql_value.splits)

subsection \<open>The tables\<close>

definition text_or_null :: "string option \<Rightarrow> sql_value" where
  "text_or_null x = (case x of None \<Rightarrow> Null_value | Some s \<Rightarrow> Text_value s)"

definition int_or_null :: "int option \<Rightarrow> sql_value" where
  "int_or_null x = (case x of None \<Rightarrow> Null_value | Some n \<Rightarrow> Int_value n)"

definition bool_value :: "bool \<Rightarrow> sql_value" where
  "bool_value b = Int_value (if b then 1 else 0)"

definition album_code :: "album_type \<Rightarrow> int" where
  "album_code t = (case t of UnknownAlbum \<Rightarrow> 0 | PlainAlbum \<Rightarrow> 1 | EP \<Rightarrow> 2 | Single \<Rightarrow> 3 | Soundtrack \<Rightarrow> 4
     | Compilation \<Rightarrow> 5 | Live \<Rightarrow> 6)"

definition mix_code :: "mix_type \<Rightarrow> int" where
  "mix_code t = (case t of NormalMix \<Rightarrow> 0 | LinkMix \<Rightarrow> 1 | CacheMix \<Rightarrow> 2)"

definition album_columns :: "album_row \<Rightarrow> sql_row" where
  "album_columns r = [(''id'', Int_value (al_id r)), (''name'', Text_value (al_name r)), (''sort_name'', text_or_null (al_sort_name r)),
     (''track_count'', Int_value (al_track_count r)), (''disc_count'', Int_value (al_disc_count r)), (''type'', Int_value (album_code (al_type r))),
     (''duration'', Int_value (al_duration r)), (''language'', text_or_null (al_language r)), (''description'', text_or_null (al_description r)),
     (''company'', text_or_null (al_company r)), (''publish_time'', int_or_null (al_publish_time r)), (''added_at'', int_or_null (al_added_at r))]"

definition artist_columns :: "artist_row \<Rightarrow> sql_row" where
  "artist_columns r = [(''id'', Int_value (ar_id r)), (''name'', Text_value (ar_name r)), (''sort_name'', text_or_null (ar_sort_name r)),
     (''description'', Text_value (ar_description r)), (''album_count'', Int_value (ar_album_count r)),
     (''music_count'', Int_value (ar_music_count r)), (''added_at'', int_or_null (ar_added_at r))]"

definition song_columns :: "song_row \<Rightarrow> sql_row" where
  "song_columns r = [(''id'', Int_value (so_id r)), (''name'', Text_value (so_name r)), (''sort_name'', text_or_null (so_sort_name r)),
     (''album_id'', int_or_null (so_album r)), (''track_number'', Int_value (so_track_number r)), (''disc_number'', Int_value (so_disc_number r)),
     (''duration'', Int_value (so_duration r)), (''can_play'', bool_value (so_can_play r)), (''popularity'', Real_value (so_popularity r)),
     (''tags'', Json_value (so_tags r)), (''publish_time'', int_or_null (so_publish_time r)), (''added_at'', int_or_null (so_added_at r))]"

definition remote_mix_columns :: "remote_mix_row \<Rightarrow> sql_row" where
  "remote_mix_columns r = [(''id'', Int_value (rx_id r)), (''name'', Text_value (rx_name r)), (''description'', text_or_null (rx_description r)),
     (''track_count'', Int_value (rx_track_count r)), (''mix_type'', Text_value (rx_mix_type r))]"

definition mix_columns :: "mix_row \<Rightarrow> sql_row" where
  "mix_columns r = [(''id'', Int_value (mx_id r)), (''name'', Text_value (mx_name r)), (''track_count'', Int_value (mx_track_count r)),
     (''mix_type'', Int_value (mix_code (mx_type r))), (''sort_name'', text_or_null (mx_sort_name r)), (''description'', Text_value (mx_description r)),
     (''remote_id'', int_or_null (mx_remote r)), (''create_at'', Int_value (mx_create r)), (''update_at'', Int_value (mx_update r)),
     (''content_update_at'', Int_value (mx_content_update r))]"

definition dynamic_columns :: "dynamic_row \<Rightarrow> sql_row" where
  "dynamic_columns r = [(''id'', Int_value (dy_id r)), (''is_external'', bool_value (dy_is_external r)), (''play_count'', Int_value (dy_play_count r)),
     (''remote_play_count'', Int_value (dy_remote_play_count r)), (''last_position'', int_or_null (dy_last_position r)),
     (''last_played_at'', int_or_null (dy_last_played_at r)), (''remote_last_played_at'', int_or_null (dy_remote_last_played_at r)),
     (''favorite_at'', int_or_null (dy_favorite_at r)), (''update_at'', Int_value (dy_update r))]"

definition item_columns :: "item_row \<Rightarrow> sql_row" where
  "item_columns r = [(''id'', Int_value (it_id r)), (''native_id'', Text_value (it_native r)), (''library_id'', int_or_null (it_library r)),
     (''provider_id'', Int_value (it_provider r)), (''type'', Int_value (item_code (it_type r))), (''create_at'', Int_value (it_create r)),
     (''update_at'', Int_value (it_update r)), (''last_sync_at'', Int_value (it_sync r))]"

definition rel_columns :: "string \<Rightarrow> rel_row \<Rightarrow> sql_row" where
  "rel_columns owner r = [(''id'', Int_value (rl_id r)), (owner, Int_value (rl_owner r)), (''artist_id'', Int_value (rl_artist r)),
     (''update_at'', Int_value (rl_update r))]"

definition mix_song_columns :: "mix_song_row \<Rightarrow> sql_row" where
  "mix_song_columns r = [(''id'', Int_value (ms_id r)), (''song_id'', Int_value (ms_song r)), (''mix_id'', Int_value (ms_mix r)),
     (''order_idx'', Int_value (ms_order r)), (''update_at'', Int_value (ms_update r))]"

definition library_tables :: "catalog \<Rightarrow> string \<Rightarrow> sql_row list" where
  "library_tables d t =
     (if t = ''album'' then map album_columns (ct_albums d)
      else if t = ''artist'' then map artist_columns (ct_artists d)
      else if t = ''song'' then map song_columns (ct_songs d)
      else if t = ''remote_mix'' then map remote_mix_columns (ct_remote_mixes d)
      else if t = ''mix'' then map mix_columns (ct_mixes d)
      else if t = ''dynamic'' then map dynamic_columns (ct_dynamics d)
      else if t = ''item'' then map item_columns (ct_items d)
      else if t = ''rel_album_artist'' then map (rel_columns ''album_id'') (ct_album_artists d)
      else if t = ''rel_song_artist'' then map (rel_columns ''song_id'') (ct_song_artists d)
      else if t = ''rel_mix_song'' then map mix_song_columns (ct_mix_songs d)
      else [])"

definition library_columns :: "string \<Rightarrow> string list" where
  "library_columns t =
     (if t = ''album'' then [''id'', ''name'', ''sort_name'', ''track_count'', ''disc_count'', ''type'', ''duration'', ''language'',
        ''description'', ''company'', ''publish_time'', ''added_at'']
      else if t = ''artist'' then [''id'', ''name'', ''sort_name'', ''description'', ''album_count'', ''music_count'', ''added_at'']
      else if t = ''song'' then [''id'', ''name'', ''sort_name'', ''album_id'', ''track_number'', ''disc_number'', ''duration'', ''can_play'',
        ''popularity'', ''tags'', ''publish_time'', ''added_at'']
      else if t = ''remote_mix'' then [''id'', ''name'', ''description'', ''track_count'', ''mix_type'']
      else if t = ''mix'' then [''id'', ''name'', ''track_count'', ''mix_type'', ''sort_name'', ''description'', ''remote_id'', ''create_at'',
        ''update_at'', ''content_update_at'']
      else if t = ''dynamic'' then [''id'', ''is_external'', ''play_count'', ''remote_play_count'', ''last_position'', ''last_played_at'',
        ''remote_last_played_at'', ''favorite_at'', ''update_at'']
      else if t = ''item'' then [''id'', ''native_id'', ''library_id'', ''provider_id'', ''type'', ''create_at'', ''update_at'', ''last_sync_at'']
      else if t = ''rel_album_artist'' then [''id'', ''album_id'', ''artist_id'', ''update_at'']
      else if t = ''rel_song_artist'' then [''id'', ''song_id'', ''artist_id'', ''update_at'']
      else if t = ''rel_mix_song'' then [''id'', ''song_id'', ''mix_id'', ''order_idx'', ''update_at'']
      else [])"

lemma rows_have_their_columns: "row \<in> set (library_tables d t) \<Longrightarrow> map fst row = library_columns t"
  by (auto simp: library_tables_def library_columns_def album_columns_def artist_columns_def song_columns_def remote_mix_columns_def
      mix_columns_def dynamic_columns_def item_columns_def rel_columns_def mix_song_columns_def split: if_splits)

end
