(* ===== verification/Filters.thy ===== *)
theory Filters
  imports Sql Identity
begin

section \<open>Filters of the library's queries\<close>

text \<open>
  \<^verbatim>\<open>src/backend/main/src/db/filter.rs\<close>: the filters of a request as conditions, and their combination by
  groups. A filter message has a group and a payload, one constructor per case of its \<^verbatim>\<open>oneof\<close>; the conditions
  are decoded as the generated getters do, an unknown code being \<^verbatim>\<open>Unspecified\<close>. The calendar of \<^verbatim>\<open>chrono\<close>
  is a parameter: the milliseconds at which a year starts, if it has such years, and how that time is displayed.
  A column is named as the source names it, with its table or without.
\<close>

datatype string_condition = StringUnspecified | IsText | IsNotText | Contains | ContainsNot
datatype int_condition = IntUnspecified | Equal | EqualNot | Less | LessEqual | Greater | GreaterEqual
datatype date_condition = DateUnspecified | Before | After | NullDate | NotNullDate
datatype type_condition = TypeUnspecified | IsType | IsNotType
datatype logic_op = LogicUnspecified | LogicAnd | LogicOr

datatype album_payload =
    AlbumTitle string_condition string
  | AlbumTracks int_condition int
  | AlbumArtistName string_condition string
  | AlbumSongArtistId "int option"
  | AlbumArtistId "int option"
  | AlbumYear int_condition int
  | AlbumAdded date_condition int
  | AlbumDuration int_condition int
  | AlbumTypeIs type_condition int
  | AlbumDiscs int_condition int
  | AlbumLastPlayed date_condition int

datatype artist_payload =
    ArtistName string_condition string
  | ArtistAlbumTitle string_condition string
  | ArtistYear int_condition int
  | ArtistAdded date_condition int

datatype song_payload = SongAlbumId "int option" | SongMixId "int option"

datatype mix_payload =
    MixName string_condition string
  | MixTracks int_condition int
  | MixYear int_condition int
  | MixAdded date_condition int
  | MixLastPlayed date_condition int
  | MixTypeIs type_condition int

datatype remote_mix_payload =
    RemoteName string_condition string
  | RemoteTracks int_condition int
  | RemoteType type_condition string
  | RemoteLocalType type_condition int

record 'p filter_message =
  fm_group :: int
  fm_payload :: "'p option"

record filter_logic =
  fg_op :: logic_op
  fg_a :: int
  fg_b :: int

record calendar =
  cal_start :: "int \<Rightarrow> int option"
  cal_text :: "int \<Rightarrow> string"

subsection \<open>Conditions\<close>

definition int_condition_to_expr :: "operand \<Rightarrow> int_condition \<Rightarrow> int \<Rightarrow> condition option" where
  "int_condition_to_expr col c n = (case c of
      Equal \<Rightarrow> Some (Compare EqualTo col (Const (Int_value n)))
    | EqualNot \<Rightarrow> Some (Compare NotEqualTo col (Const (Int_value n)))
    | Greater \<Rightarrow> Some (Compare GreaterThan col (Const (Int_value n)))
    | GreaterEqual \<Rightarrow> Some (Compare AtLeast col (Const (Int_value n)))
    | Less \<Rightarrow> Some (Compare LessThan col (Const (Int_value n)))
    | LessEqual \<Rightarrow> Some (Compare AtMost col (Const (Int_value n)))
    | IntUnspecified \<Rightarrow> None)"

definition string_condition_to_expr :: "operand \<Rightarrow> string_condition \<Rightarrow> string \<Rightarrow> condition option" where
  "string_condition_to_expr col c s = (case c of
      Contains \<Rightarrow> Some (Like True col (''%'' @ s @ ''%''))
    | ContainsNot \<Rightarrow> Some (Like False col (''%'' @ s @ ''%''))
    | IsText \<Rightarrow> Some (Compare EqualTo col (Const (Text_value s)))
    | IsNotText \<Rightarrow> Some (Compare NotEqualTo col (Const (Text_value s)))
    | StringUnspecified \<Rightarrow> None)"

definition date_condition_to_expr :: "operand \<Rightarrow> date_condition \<Rightarrow> int \<Rightarrow> condition option" where
  "date_condition_to_expr col c t = (case c of
      After \<Rightarrow> Some (Compare AtLeast col (Const (Int_value t)))
    | Before \<Rightarrow> Some (Compare AtMost col (Const (Int_value t)))
    | NullDate \<Rightarrow> Some (IsNull True col)
    | NotNullDate \<Rightarrow> Some (IsNull False col)
    | DateUnspecified \<Rightarrow> None)"

definition type_condition_to_expr :: "operand \<Rightarrow> type_condition \<Rightarrow> int \<Rightarrow> condition option" where
  "type_condition_to_expr col c n = (case c of
      IsType \<Rightarrow> Some (Compare EqualTo col (Const (Int_value n)))
    | IsNotType \<Rightarrow> Some (Compare NotEqualTo col (Const (Int_value n)))
    | TypeUnspecified \<Rightarrow> None)"

definition type_string_condition_to_expr :: "operand \<Rightarrow> type_condition \<Rightarrow> string \<Rightarrow> condition option" where
  "type_string_condition_to_expr col c s = (case c of
      IsType \<Rightarrow> Some (Compare EqualTo col (Const (Text_value s)))
    | IsNotType \<Rightarrow> Some (Compare NotEqualTo col (Const (Text_value s)))
    | TypeUnspecified \<Rightarrow> None)"

definition id_to_expr :: "operand \<Rightarrow> int option \<Rightarrow> condition option" where
  "id_to_expr col i = Some (case required i ''filter_id'' of
      Inl _ \<Rightarrow> Truth False
    | Inr n \<Rightarrow> Compare EqualTo col (Const (Int_value n)))"

definition PANIC :: string where "PANIC = ''called unwrap on None''"

definition year_to_expr :: "calendar \<Rightarrow> operand \<Rightarrow> int_condition \<Rightarrow> int \<Rightarrow> condition option result" where
  "year_to_expr cal col c y =
     and_then (ok_or (cal_start cal y) PANIC) (\<lambda>dt.
     case c of
       Equal \<Rightarrow>
         and_then (ok_or (cal_start cal (y + 1)) PANIC) (\<lambda>dt_next.
         Inr (Some (AllOf [Compare AtLeast col (Const (Int_value dt)), Compare LessThan col (Const (Int_value dt_next))])))
     | EqualNot \<Rightarrow>
         and_then (ok_or (cal_start cal (y + 1)) PANIC) (\<lambda>_.
         Inr (Some (AllOf [Compare LessThan col (Const (Int_value dt)),
           Compare GreaterThan col (Const (Text_value (cal_text cal (y + 1))))])))
     | Greater \<Rightarrow> Inr (Some (Compare GreaterThan col (Const (Int_value dt))))
     | GreaterEqual \<Rightarrow> Inr (Some (Compare AtLeast col (Const (Int_value dt))))
     | Less \<Rightarrow> Inr (Some (Compare LessThan col (Const (Int_value dt))))
     | LessEqual \<Rightarrow> Inr (Some (Compare AtMost col (Const (Int_value dt))))
     | IntUnspecified \<Rightarrow> Inr None)"

subsection \<open>Filters\<close>

definition on_eq :: "string \<Rightarrow> string \<Rightarrow> string \<Rightarrow> string \<Rightarrow> condition" where
  "on_eq t c u k = Compare EqualTo (Column (Some t) c) (Column (Some u) k)"

definition album_artist_name_expr :: "condition \<Rightarrow> condition" where
  "album_artist_name_expr e = Exists [''song'', ''rel_song_artist'', ''artist'']
     [on_eq ''rel_song_artist'' ''song_id'' ''song'' ''id'', on_eq ''artist'' ''id'' ''rel_song_artist'' ''artist_id'',
      Compare EqualTo (Column None ''album_id'') (Column (Some ''album'') ''id''), e]"

definition album_album_artist_expr :: "condition \<Rightarrow> condition" where
  "album_album_artist_expr e = Exists [''artist'', ''rel_album_artist'']
     [on_eq ''rel_album_artist'' ''artist_id'' ''artist'' ''id'', on_eq ''rel_album_artist'' ''album_id'' ''album'' ''id'', e]"

definition album_song_artist_expr :: "condition \<Rightarrow> condition" where
  "album_song_artist_expr e = Exists [''song'', ''rel_song_artist'']
     [on_eq ''rel_song_artist'' ''song_id'' ''song'' ''id'', on_eq ''song'' ''album_id'' ''album'' ''id'', e]"

definition album_filter_to_expr :: "calendar \<Rightarrow> album_payload filter_message \<Rightarrow> condition option result" where
  "album_filter_to_expr cal f = (case fm_payload f of
      Some (AlbumArtistName c s) \<Rightarrow>
        Inr (map_option album_artist_name_expr (string_condition_to_expr (Column (Some ''artist'') ''name'') c s))
    | Some (AlbumArtistId i) \<Rightarrow> Inr (map_option album_album_artist_expr (id_to_expr (Column (Some ''artist'') ''id'') i))
    | Some (AlbumSongArtistId i) \<Rightarrow>
        Inr (map_option album_song_artist_expr (id_to_expr (Column (Some ''rel_song_artist'') ''artist_id'') i))
    | Some (AlbumTitle c s) \<Rightarrow> Inr (string_condition_to_expr (Column None ''name'') c s)
    | Some (AlbumTracks c n) \<Rightarrow> Inr (int_condition_to_expr (Column None ''track_count'') c n)
    | Some (AlbumDuration c n) \<Rightarrow> Inr (int_condition_to_expr (Column None ''duration'') c n)
    | Some (AlbumYear c y) \<Rightarrow> year_to_expr cal (Column None ''publish_time'') c y
    | Some (AlbumAdded c t) \<Rightarrow> Inr (date_condition_to_expr (Column None ''added_at'') c t)
    | Some (AlbumTypeIs c n) \<Rightarrow> Inr (type_condition_to_expr (Column (Some ''album'') ''type'') c n)
    | Some (AlbumDiscs c n) \<Rightarrow> Inr (int_condition_to_expr (Column None ''disc_count'') c n)
    | Some (AlbumLastPlayed c t) \<Rightarrow> Inr (date_condition_to_expr (Column (Some ''dynamic'') ''last_played_at'') c t)
    | None \<Rightarrow> Inr None)"

definition artist_album_title_expr :: "condition \<Rightarrow> condition" where
  "artist_album_title_expr e = Exists [''album'', ''rel_album_artist'']
     [on_eq ''rel_album_artist'' ''album_id'' ''album'' ''id'', on_eq ''artist'' ''id'' ''rel_album_artist'' ''artist_id'', e]"

definition artist_filter_to_expr :: "artist_payload filter_message \<Rightarrow> condition option" where
  "artist_filter_to_expr f = (case fm_payload f of
      Some (ArtistName c s) \<Rightarrow> string_condition_to_expr (Column None ''name'') c s
    | Some (ArtistAdded c t) \<Rightarrow> date_condition_to_expr (Column None ''added_at'') c t
    | Some (ArtistAlbumTitle c s) \<Rightarrow>
        map_option artist_album_title_expr (string_condition_to_expr (Column (Some ''album'') ''name'') c s)
    | Some (ArtistYear _ _) \<Rightarrow> None
    | None \<Rightarrow> None)"

definition mix_filter_to_expr :: "mix_payload filter_message \<Rightarrow> condition option" where
  "mix_filter_to_expr f = (case fm_payload f of
      Some (MixName c s) \<Rightarrow> string_condition_to_expr (Column None ''name'') c s
    | Some (MixTracks c n) \<Rightarrow> int_condition_to_expr (Column None ''track_count'') c n
    | Some (MixTypeIs c n) \<Rightarrow> type_condition_to_expr (Column None ''mix_type'') c n
    | Some _ \<Rightarrow> None
    | None \<Rightarrow> None)"

definition remote_local_type_expr :: "condition \<Rightarrow> condition" where
  "remote_local_type_expr e = Exists [''mix''] [on_eq ''mix'' ''remote_id'' ''remote_mix'' ''id'', e]"

definition remote_mix_filter_to_expr :: "remote_mix_payload filter_message \<Rightarrow> condition option" where
  "remote_mix_filter_to_expr f = (case fm_payload f of
      Some (RemoteName c s) \<Rightarrow> string_condition_to_expr (Column None ''name'') c s
    | Some (RemoteType c s) \<Rightarrow> type_string_condition_to_expr (Column (Some ''remote_mix'') ''mix_type'') c s
    | Some (RemoteTracks c n) \<Rightarrow> int_condition_to_expr (Column None ''track_count'') c n
    | Some (RemoteLocalType c n) \<Rightarrow>
        map_option remote_local_type_expr (type_condition_to_expr (Column (Some ''mix'') ''mix_type'') c n)
    | None \<Rightarrow> None)"

definition song_mix_expr :: "condition \<Rightarrow> condition" where
  "song_mix_expr e = Exists [''rel_mix_song''] [on_eq ''rel_mix_song'' ''song_id'' ''song'' ''id'', e]"

definition song_filter_to_expr :: "song_payload filter_message \<Rightarrow> condition option" where
  "song_filter_to_expr f = (case fm_payload f of
      Some (SongAlbumId i) \<Rightarrow> id_to_expr (Column None ''album_id'') i
    | Some (SongMixId i) \<Rightarrow> map_option song_mix_expr (id_to_expr (Column (Some ''rel_mix_song'') ''mix_id'') i)
    | None \<Rightarrow> None)"

subsection \<open>Groups\<close>

type_synonym buckets = "(int \<times> condition list) list"

fun push_bucket :: "int \<Rightarrow> condition \<Rightarrow> buckets \<Rightarrow> buckets" where
  "push_bucket g e [] = [(g, [e])]"
| "push_bucket g e ((k, es) # bs) =
     (if g = k then (k, es @ [e]) # bs else if g < k then (g, [e]) # (k, es) # bs else (k, es) # push_bucket g e bs)"

fun collect_buckets ::
    "('p filter_message \<Rightarrow> condition option result) \<Rightarrow> 'p filter_message list \<Rightarrow> buckets \<Rightarrow> buckets result" where
  "collect_buckets to_expr [] bs = Inr bs"
| "collect_buckets to_expr (f # fs) bs =
     and_then (to_expr f) (\<lambda>e.
     collect_buckets to_expr fs (case e of None \<Rightarrow> bs | Some e \<Rightarrow> push_bucket (fm_group f) e bs))"

definition group_cond :: "buckets \<Rightarrow> int \<Rightarrow> condition option" where
  "group_cond bs g = map_option AllOf (map_of bs g)"

definition pair_cond :: "buckets \<Rightarrow> filter_logic \<Rightarrow> condition option" where
  "pair_cond bs l = (case (group_cond bs (fg_a l), group_cond bs (fg_b l)) of
      (Some a, Some b) \<Rightarrow> Some (case fg_op l of LogicOr \<Rightarrow> AnyOf [a, b] | _ \<Rightarrow> AllOf [a, b])
    | _ \<Rightarrow> None)"

definition referenced :: "buckets \<Rightarrow> filter_logic list \<Rightarrow> int list" where
  "referenced bs logics = concat (map (\<lambda>l. [fg_a l, fg_b l]) (filter (\<lambda>l. pair_cond bs l \<noteq> None) logics))"

definition build_grouped_condition ::
    "('p filter_message \<Rightarrow> condition option result) \<Rightarrow> 'p filter_message list \<Rightarrow> filter_logic list \<Rightarrow> condition option result" where
  "build_grouped_condition to_expr filters logics =
     and_then (collect_buckets to_expr filters []) (\<lambda>bs. Inr
       (if bs = [] then None
        else Some (AllOf (List.map_filter (pair_cond bs) logics
          @ List.map_filter (\<lambda>(g, _). if g \<in> set (referenced bs logics) then None else group_cond bs g) bs))))"

end
