(* ===== verification/Queries.thy ===== *)
theory Queries
  imports Filters HttpRange
begin

section \<open>The queries of the library\<close>

text \<open>
  \<^verbatim>\<open>src/backend/main/src/api/entity_query.rs\<close> and \<^verbatim>\<open>helper_sort.rs\<close>: the lists of albums, artists, mixes and
  songs that a client asks for, as queries over the tables of the library, page by page. A query is checked for
  its names before it runs, as SQLite does. The order in which the rows that satisfy a query are delivered is a parameter
  (\<open>arrange\<close>), applied to the sort keys of the query and the rows; the database does not fail otherwise. The
  requests are checked by \<^verbatim>\<open>validate_request\<close> (\<^verbatim>\<open>identity.rs\<close>) before. A sort code that does not
  exist falls back to the one the request names.
\<close>

datatype album_sort = SortAlbumTitle | SortAlbumSortTitle | SortAlbumYear | SortAlbumPublishTime | SortAlbumTrackCount
  | SortAlbumAddedTime | SortAlbumDiscCount | SortAlbumLastPlayedAt | SortAlbumRandom

datatype artist_sort = SortArtistName | SortArtistSortName | SortArtistAlbumCount | SortArtistMusicCount

datatype song_sort = SortSongTrackNumber | SortSongTitle | SortSongSortTitle | SortSongPublishTime | SortSongDuration
  | SortSongPopularity | SortSongRandom

text \<open>The key of \<^verbatim>\<open>ORDER BY\<close>: a column or \<^verbatim>\<open>RANDOM()\<close>.\<close>

datatype sort_key = By operand | Random

definition album_sort_col :: "album_sort \<Rightarrow> sort_key" where
  "album_sort_col s = (case s of
      SortAlbumLastPlayedAt \<Rightarrow> By (Column (Some ''dynamic'') ''last_played_at'')
    | SortAlbumYear \<Rightarrow> By (Column None ''publish_time'')
    | SortAlbumPublishTime \<Rightarrow> By (Column None ''publish_time'')
    | SortAlbumTitle \<Rightarrow> By (Column None ''name'')
    | SortAlbumSortTitle \<Rightarrow> By (Column None ''sort_name'')
    | SortAlbumTrackCount \<Rightarrow> By (Column None ''track_count'')
    | SortAlbumAddedTime \<Rightarrow> By (Column None ''added_at'')
    | SortAlbumDiscCount \<Rightarrow> By (Column None ''disc_count'')
    | SortAlbumRandom \<Rightarrow> Random)"

definition song_sort_col :: "song_sort \<Rightarrow> sort_key" where
  "song_sort_col s = (case s of
      SortSongPublishTime \<Rightarrow> By (Column (Some ''song'') ''publish_time'')
    | SortSongTitle \<Rightarrow> By (Column (Some ''song'') ''name'')
    | SortSongSortTitle \<Rightarrow> By (Column (Some ''song'') ''sort_name'')
    | SortSongTrackNumber \<Rightarrow> By (Column (Some ''song'') ''track_number'')
    | SortSongDuration \<Rightarrow> By (Column (Some ''song'') ''duration'')
    | SortSongPopularity \<Rightarrow> By (Column (Some ''song'') ''popularity'')
    | SortSongRandom \<Rightarrow> Random)"

definition artist_sort_col :: "artist_sort \<Rightarrow> sort_key" where
  "artist_sort_col s = By (Column (Some ''artist'') (case s of
      SortArtistName \<Rightarrow> ''name''
    | SortArtistSortName \<Rightarrow> ''sort_name''
    | SortArtistMusicCount \<Rightarrow> ''music_count''
    | SortArtistAlbumCount \<Rightarrow> ''album_count''))"

text \<open>A query selects one column of the tables it joins; \<open>lq_left\<close> are the left joins.\<close>

record library_query =
  lq_tables :: "string list"
  lq_joins :: "condition list"
  lq_left :: "(string \<times> condition) list"
  lq_where :: "condition list"
  lq_order :: "(sort_key \<times> bool) list"
  lq_distinct :: bool
  lq_select :: operand

definition order_songs :: "song_sort \<Rightarrow> bool \<Rightarrow> library_query \<Rightarrow> library_query" where
  "order_songs s asc q = q\<lparr>lq_order := lq_order q
     @ (if s = SortSongTrackNumber then [(By (Column (Some ''song'') ''disc_number''), asc)] else [])
     @ [(song_sort_col s, asc), (By (Column (Some ''song'') ''id''), asc)]\<rparr>"

definition is_in :: "operand \<Rightarrow> int list \<Rightarrow> condition" where
  "is_in x ns = AnyOf (map (\<lambda>n. Compare EqualTo x (Const (Int_value n))) ns)"

definition add_where :: "condition \<Rightarrow> library_query \<Rightarrow> library_query" where
  "add_where c q = q\<lparr>lq_where := lq_where q @ [c]\<rparr>"

definition qcm_filters ::
    "('p filter_message \<Rightarrow> condition option result) \<Rightarrow> 'p filter_message list \<Rightarrow> filter_logic list \<Rightarrow> library_query
      \<Rightarrow> library_query result" where
  "qcm_filters to_expr filters logics q =
     and_then (build_grouped_condition to_expr filters logics) (\<lambda>c. Inr (case c of Some c \<Rightarrow> add_where c q | None \<Rightarrow> q))"

subsection \<open>Running a query\<close>

definition key_errors :: "string list list \<Rightarrow> sort_key \<Rightarrow> string list" where
  "key_errors scopes k = (case k of By x \<Rightarrow> operand_errors library_columns scopes x | Random \<Rightarrow> [])"

definition query_errors :: "library_query \<Rightarrow> string list" where
  "query_errors q =
     (let scopes = [lq_tables q @ map fst (lq_left q)] in
      concat (map (name_errors library_columns scopes) (lq_joins q @ map snd (lq_left q) @ lq_where q))
      @ concat (map (key_errors scopes \<circ> fst) (lq_order q))
      @ operand_errors library_columns scopes (lq_select q))"

definition left_join ::
    "(string \<Rightarrow> string \<Rightarrow> bool) \<Rightarrow> (string \<Rightarrow> sql_row list) \<Rightarrow> string \<times> condition \<Rightarrow> scope list \<Rightarrow> scope list" where
  "left_join like tables j rows = concat (map (\<lambda>base.
     (let found = filter (\<lambda>ts. selected like tables [ts] (snd j)) (map (\<lambda>row. base @ [(fst j, row)]) (tables (fst j))) in
      if found = [] then [base @ [(fst j, map (\<lambda>c. (c, Null_value)) (library_columns (fst j)))]] else found)) rows)"

definition query_rows :: "(string \<Rightarrow> string \<Rightarrow> bool) \<Rightarrow> (string \<Rightarrow> sql_row list) \<Rightarrow> library_query \<Rightarrow> scope list" where
  "query_rows like tables q =
     filter (\<lambda>ts. \<forall>c \<in> set (lq_where q). selected like tables [ts] c)
       (fold (left_join like tables) (lq_left q)
         (filter (\<lambda>ts. \<forall>c \<in> set (lq_joins q). selected like tables [ts] c) (combinations tables (lq_tables q))))"

definition sort_values :: "library_query \<Rightarrow> scope \<Rightarrow> (sql_value option \<times> bool) list" where
  "sort_values q ts =
     map (\<lambda>(k, asc). (case k of By x \<Rightarrow> Some (operand_value [ts] x) | Random \<Rightarrow> None, asc)) (lq_order q)"

text \<open>What the query delivers: the selected value of each row with its sort keys, arranged; \<^verbatim>\<open>DISTINCT\<close> drops the repetitions
  (of an artist, whose sort keys are its own columns).\<close>

type_synonym arrangement = "((sql_value option \<times> bool) list \<times> sql_value) list \<Rightarrow> ((sql_value option \<times> bool) list \<times> sql_value) list"

definition query_result ::
    "(string \<Rightarrow> string \<Rightarrow> bool) \<Rightarrow> arrangement \<Rightarrow> (string \<Rightarrow> sql_row list) \<Rightarrow> library_query \<Rightarrow> sql_value list result" where
  "query_result like arrange tables q =
     (case query_errors q of
        e # _ \<Rightarrow> Inl e
      | [] \<Rightarrow>
         (let rows = map (\<lambda>ts. (sort_values q ts, operand_value [ts] (lq_select q))) (query_rows like tables q) in
          Inr (map snd (arrange (if lq_distinct q then remdups rows else rows)))))"

definition as_i32 :: "nat \<Rightarrow> int" where
  "as_i32 n = (int n + 2 ^ 31) mod 2 ^ 32 - 2 ^ 31"

record page_response =
  pr_ids :: "int list"
  pr_total :: int
  pr_has_more :: bool

definition int_values :: "sql_value list \<Rightarrow> int list" where
  "int_values vs = List.map_filter (\<lambda>v. case v of Int_value n \<Rightarrow> Some n | _ \<Rightarrow> None) vs"

definition fetch_page :: "page_params \<Rightarrow> 'a list \<Rightarrow> 'a list" where
  "fetch_page p xs = take (pp_page_size p) (drop (pp_page_size p * pp_page p) xs)"

definition page_of :: "page_params \<Rightarrow> sql_value list \<Rightarrow> page_response" where
  "page_of p vs = \<lparr>pr_ids = int_values (fetch_page p vs), pr_total = as_i32 (length vs), pr_has_more = has_more p (length vs)\<rparr>"

subsection \<open>The requests\<close>

definition album_list_query :: "int list \<Rightarrow> library_query" where
  "album_list_query libraries =
     \<lparr>lq_tables = [''album'', ''item''], lq_joins = [on_eq ''album'' ''id'' ''item'' ''id''],
      lq_left = [(''dynamic'', on_eq ''album'' ''id'' ''dynamic'' ''id'')],
      lq_where = [is_in (Column (Some ''item'') ''library_id'') libraries,
        Compare EqualTo (Column (Some ''dynamic'') ''is_external'') (Const (Int_value 0))],
      lq_order = [], lq_distinct = False, lq_select = Column (Some ''album'') ''id''\<rparr>"

definition get_albums_query ::
    "calendar \<Rightarrow> int list \<Rightarrow> album_payload filter_message list \<Rightarrow> filter_logic list \<Rightarrow> album_sort option \<Rightarrow> bool
      \<Rightarrow> library_query result" where
  "get_albums_query cal libraries filters logics key asc =
     and_then (checked libraries ''library_ids'') (\<lambda>_.
     and_then (qcm_filters (album_filter_to_expr cal) filters logics (album_list_query libraries)) (\<lambda>q.
     Inr (q\<lparr>lq_order := [(album_sort_col (case key of None \<Rightarrow> SortAlbumTitle | Some s \<Rightarrow> s), asc)]\<rparr>)))"

definition artist_list_query :: "string \<Rightarrow> int list \<Rightarrow> library_query" where
  "artist_list_query rel libraries =
     \<lparr>lq_tables = [''artist'', ''item'', rel],
      lq_joins = [on_eq ''artist'' ''id'' ''item'' ''id'', on_eq ''artist'' ''id'' rel ''artist_id''], lq_left = [],
      lq_where = [is_in (Column (Some ''item'') ''library_id'') libraries],
      lq_order = [], lq_distinct = True, lq_select = Column (Some ''artist'') ''id''\<rparr>"

text \<open>\<^verbatim>\<open>GetAlbumArtistsReq\<close> joins \<^verbatim>\<open>rel_album_artist\<close>, \<^verbatim>\<open>GetArtistsReq\<close> \<^verbatim>\<open>rel_song_artist\<close>.\<close>

definition get_artists_query ::
    "string \<Rightarrow> int list \<Rightarrow> artist_payload filter_message list \<Rightarrow> filter_logic list \<Rightarrow> artist_sort option \<Rightarrow> bool
      \<Rightarrow> library_query result" where
  "get_artists_query rel libraries filters logics key asc =
     and_then (checked libraries ''library_ids'') (\<lambda>_.
     and_then (qcm_filters (\<lambda>f. Inr (artist_filter_to_expr f)) filters logics (artist_list_query rel libraries)) (\<lambda>q.
     Inr (q\<lparr>lq_order := [(artist_sort_col (case key of None \<Rightarrow> SortArtistName | Some s \<Rightarrow> s), asc)]\<rparr>)))"

definition get_mixs_query :: "mix_payload filter_message list \<Rightarrow> filter_logic list \<Rightarrow> library_query result" where
  "get_mixs_query filters logics =
     qcm_filters (\<lambda>f. Inr (mix_filter_to_expr f)) filters logics
       \<lparr>lq_tables = [''mix''], lq_joins = [], lq_left = [],
        lq_where = [Compare NotEqualTo (Column (Some ''mix'') ''mix_type'') (Const (Int_value (mix_code CacheMix)))],
        lq_order = [], lq_distinct = False, lq_select = Column (Some ''mix'') ''id''\<rparr>"

definition get_remote_mixs_query :: "remote_mix_payload filter_message list \<Rightarrow> filter_logic list \<Rightarrow> library_query result" where
  "get_remote_mixs_query filters logics =
     qcm_filters (\<lambda>f. Inr (remote_mix_filter_to_expr f)) filters logics
       \<lparr>lq_tables = [''remote_mix''], lq_joins = [], lq_left = [(''mix'', on_eq ''remote_mix'' ''id'' ''mix'' ''remote_id'')],
        lq_where = [], lq_order = [], lq_distinct = False, lq_select = Column (Some ''mix'') ''id''\<rparr>"

definition mix_songs_query :: "int \<Rightarrow> song_sort option \<Rightarrow> bool \<Rightarrow> library_query" where
  "mix_songs_query mix key asc =
     \<lparr>lq_tables = [''song'', ''item'', ''rel_mix_song''],
      lq_joins = [on_eq ''song'' ''id'' ''item'' ''id'', on_eq ''song'' ''id'' ''rel_mix_song'' ''song_id''], lq_left = [],
      lq_where = [Compare EqualTo (Column (Some ''rel_mix_song'') ''mix_id'') (Const (Int_value mix))],
      lq_order = [(song_sort_col (case key of None \<Rightarrow> SortSongTitle | Some s \<Rightarrow> s), asc),
        (By (Column (Some ''rel_mix_song'') ''order_idx''), False)],
      lq_distinct = False, lq_select = Column (Some ''song'') ''id''\<rparr>"

text \<open>\<^verbatim>\<open>artist.find_related(album)\<close> joins the albums with their credits and the artist.\<close>

definition artist_albums_query :: "int \<Rightarrow> album_sort option \<Rightarrow> bool \<Rightarrow> library_query" where
  "artist_albums_query artist key asc =
     \<lparr>lq_tables = [''album'', ''rel_album_artist'', ''artist''],
      lq_joins = [on_eq ''rel_album_artist'' ''album_id'' ''album'' ''id'', on_eq ''artist'' ''id'' ''rel_album_artist'' ''artist_id''],
      lq_left = [], lq_where = [Compare EqualTo (Column (Some ''artist'') ''id'') (Const (Int_value artist))],
      lq_order = [(album_sort_col (case key of None \<Rightarrow> SortAlbumPublishTime | Some s \<Rightarrow> s), asc)],
      lq_distinct = False, lq_select = Column (Some ''album'') ''id''\<rparr>"

definition album_songs_query :: "int \<Rightarrow> library_query" where
  "album_songs_query album =
     order_songs SortSongTrackNumber True
       \<lparr>lq_tables = [''song''], lq_joins = [], lq_left = [],
        lq_where = [Compare EqualTo (Column (Some ''song'') ''album_id'') (Const (Int_value album))],
        lq_order = [], lq_distinct = False, lq_select = Column (Some ''song'') ''id''\<rparr>"

text \<open>The songs of \<^verbatim>\<open>GetSongIdsReq\<close> with song filters.\<close>

definition song_ids_query :: "song_payload filter_message list \<Rightarrow> filter_logic list \<Rightarrow> song_sort \<Rightarrow> bool \<Rightarrow> library_query result" where
  "song_ids_query filters logics key asc =
     and_then (qcm_filters (\<lambda>f. Inr (song_filter_to_expr f)) filters logics
       \<lparr>lq_tables = [''song'', ''item''], lq_joins = [on_eq ''song'' ''id'' ''item'' ''id''], lq_left = [], lq_where = [],
        lq_order = [], lq_distinct = False, lq_select = Column (Some ''song'') ''id''\<rparr>) (\<lambda>q.
     Inr (order_songs key asc q))"

definition paged :: "(string \<Rightarrow> string \<Rightarrow> bool) \<Rightarrow> arrangement \<Rightarrow> catalog \<Rightarrow> page_params \<Rightarrow> library_query \<Rightarrow> page_response result" where
  "paged like arrange d p q =
     and_then (query_result like arrange (library_tables d) q) (\<lambda>vs. Inr (page_of p vs))"

definition get_albums ::
    "(string \<Rightarrow> string \<Rightarrow> bool) \<Rightarrow> arrangement \<Rightarrow> calendar \<Rightarrow> catalog \<Rightarrow> int list
      \<Rightarrow> album_payload filter_message list \<Rightarrow> filter_logic list \<Rightarrow> album_sort option \<Rightarrow> bool \<Rightarrow> int \<Rightarrow> int \<Rightarrow> page_response result" where
  "get_albums like arrange cal d libraries filters logics key asc page page_size =
     and_then (get_albums_query cal libraries filters logics key asc) (paged like arrange d (page_params_new page page_size))"

definition get_artists ::
    "(string \<Rightarrow> string \<Rightarrow> bool) \<Rightarrow> arrangement \<Rightarrow> catalog \<Rightarrow> string \<Rightarrow> int list
      \<Rightarrow> artist_payload filter_message list \<Rightarrow> filter_logic list \<Rightarrow> artist_sort option \<Rightarrow> bool \<Rightarrow> int \<Rightarrow> int \<Rightarrow> page_response result" where
  "get_artists like arrange d rel libraries filters logics key asc page page_size =
     and_then (get_artists_query rel libraries filters logics key asc) (paged like arrange d (page_params_new page page_size))"

definition get_mixs ::
    "(string \<Rightarrow> string \<Rightarrow> bool) \<Rightarrow> arrangement \<Rightarrow> catalog \<Rightarrow> mix_payload filter_message list
      \<Rightarrow> filter_logic list \<Rightarrow> int \<Rightarrow> int \<Rightarrow> page_response result" where
  "get_mixs like arrange d filters logics page page_size =
     and_then (get_mixs_query filters logics) (paged like arrange d (page_params_new page page_size))"

definition get_remote_mixs ::
    "(string \<Rightarrow> string \<Rightarrow> bool) \<Rightarrow> arrangement \<Rightarrow> catalog \<Rightarrow> remote_mix_payload filter_message list
      \<Rightarrow> filter_logic list \<Rightarrow> int \<Rightarrow> int \<Rightarrow> page_response result" where
  "get_remote_mixs like arrange d filters logics page page_size =
     and_then (get_remote_mixs_query filters logics) (paged like arrange d (page_params_new page page_size))"

definition get_mix_songs ::
    "(string \<Rightarrow> string \<Rightarrow> bool) \<Rightarrow> arrangement \<Rightarrow> catalog \<Rightarrow> int option \<Rightarrow> song_sort option \<Rightarrow> bool \<Rightarrow> int \<Rightarrow> int
      \<Rightarrow> (int \<times> page_response) result" where
  "get_mix_songs like arrange d mix key asc page page_size =
     and_then (required mix ''mix_id'') (\<lambda>i.
     and_then (paged like arrange d (page_params_new page page_size) (mix_songs_query i key asc)) (\<lambda>rsp.
     and_then (ok_or (find (\<lambda>r. mx_id r = i) (ct_mixes d)) ''no such mix'') (\<lambda>r.
     Inr (mx_id r, rsp))))"

definition get_artist_albums ::
    "(string \<Rightarrow> string \<Rightarrow> bool) \<Rightarrow> arrangement \<Rightarrow> catalog \<Rightarrow> int option \<Rightarrow> album_sort option \<Rightarrow> bool \<Rightarrow> int \<Rightarrow> int
      \<Rightarrow> page_response result" where
  "get_artist_albums like arrange d artist key asc page page_size =
     and_then (required artist ''artist_id'') (\<lambda>i.
     and_then (ok_or (find_artist i d) ''no such artist'') (\<lambda>r.
     paged like arrange d (page_params_new page page_size) (artist_albums_query (ar_id r) key asc)))"

definition get_album :: "(string \<Rightarrow> string \<Rightarrow> bool) \<Rightarrow> arrangement \<Rightarrow> catalog \<Rightarrow> int option \<Rightarrow> int list result" where
  "get_album like arrange d album =
     and_then (required album ''album_id'') (\<lambda>i.
     and_then (ok_or (find_album i d) ''no such album'') (\<lambda>_.
     and_then (query_result like arrange (library_tables d) (album_songs_query i)) (\<lambda>vs.
     Inr (int_values vs))))"

definition get_songs_by_id :: "int list \<Rightarrow> (int list \<times> int) result" where
  "get_songs_by_id ids =
     and_then (checked ids ''song_ids'') (\<lambda>_.
     and_then (ensure (length ids \<le> 20000) ''wrong id: song IDs'') (\<lambda>_.
     Inr (ids, as_i32 (length ids))))"

text \<open>The checks of \<^verbatim>\<open>validate_request\<close> on the identifiers inside filters.\<close>

primrec check_filters :: "('p \<Rightarrow> unit result) \<Rightarrow> 'p filter_message list \<Rightarrow> unit result" where
  "check_filters ok [] = Inr ()"
| "check_filters ok (f # fs) =
     and_then (case fm_payload f of None \<Rightarrow> Inr () | Some p \<Rightarrow> ok p) (\<lambda>_. check_filters ok fs)"

definition check_album_payload :: "album_payload \<Rightarrow> unit result" where
  "check_album_payload p = (case p of
      AlbumSongArtistId i \<Rightarrow> and_then (required i ''artist_filter'') (\<lambda>_. Inr ())
    | AlbumArtistId i \<Rightarrow> and_then (required i ''album_artist_filter'') (\<lambda>_. Inr ())
    | _ \<Rightarrow> Inr ())"

definition check_song_payload :: "song_payload \<Rightarrow> unit result" where
  "check_song_payload p = (case p of
      SongAlbumId i \<Rightarrow> and_then (required i ''album_filter'') (\<lambda>_. Inr ())
    | SongMixId i \<Rightarrow> and_then (required i ''mix_filter'') (\<lambda>_. Inr ()))"

end
