(* ===== verification/Query_Props.thy ===== *)
theory Query_Props
  imports Queries "HOL-Library.Multiset"
begin

section \<open>What the queries of the library select\<close>

subsection \<open>Groups of filters\<close>

text \<open>The conditions that the filters of one group make, in their order.\<close>

definition group_exprs :: "('p filter_message \<Rightarrow> condition option result) \<Rightarrow> 'p filter_message list \<Rightarrow> int \<Rightarrow> condition list" where
  "group_exprs to_expr filters g =
     List.map_filter (\<lambda>f. if fm_group f = g then case to_expr f of Inl _ \<Rightarrow> None | Inr e \<Rightarrow> e else None) filters"

definition bucket_of :: "buckets \<Rightarrow> int \<Rightarrow> condition list" where
  "bucket_of bs g = (case map_of bs g of None \<Rightarrow> [] | Some es \<Rightarrow> es)"

definition buckets_ok :: "buckets \<Rightarrow> bool" where
  "buckets_ok bs \<longleftrightarrow> sorted_wrt (<) (map fst bs) \<and> (\<forall>(g, es) \<in> set bs. es \<noteq> [])"

lemma push_bucket_keys: "fst ` set (push_bucket g e bs) = insert g (fst ` set bs)"
  by (induction g e bs rule: push_bucket.induct) auto

lemma push_bucket_ok: "buckets_ok bs \<Longrightarrow> buckets_ok (push_bucket g e bs)"
proof (induction g e bs rule: push_bucket.induct)
  case (2 g e k es bs)
  then have "buckets_ok bs" by (simp add: buckets_ok_def)
  then have IH: "g \<noteq> k \<Longrightarrow> \<not> g < k \<Longrightarrow> buckets_ok (push_bucket g e bs)" using 2 by simp
  have keys: "\<forall>x \<in> set (map fst (push_bucket g e bs)). k < x" if "\<not> g < k" "g \<noteq> k"
    using that 2(2) push_bucket_keys [of g e bs] by (auto simp: buckets_ok_def)
  show ?case using 2(2) IH keys by (auto simp: buckets_ok_def)
qed (simp add: buckets_ok_def)

lemma bucket_of_push:
  "sorted_wrt (<) (map fst bs) \<Longrightarrow> bucket_of (push_bucket g e bs) k = (if k = g then bucket_of bs g @ [e] else bucket_of bs k)"
proof (induction g e bs rule: push_bucket.induct)
  case (2 g e h es bs)
  then have "g < h \<Longrightarrow> map_of bs g = None"
    by (auto simp: map_of_eq_None_iff)
  with 2 show ?case by (auto simp: bucket_of_def)
qed (simp add: bucket_of_def)

lemma collect_buckets_Inr:
  assumes "collect_buckets to_expr filters bs = Inr bs'" and "buckets_ok bs"
  shows "buckets_ok bs' \<and> (\<forall>g. bucket_of bs' g = bucket_of bs g @ group_exprs to_expr filters g)"
  using assms
proof (induction filters arbitrary: bs)
  case Nil
  then show ?case by (simp add: group_exprs_def map_filter_simps)
next
  case (Cons f fs)
  then obtain e where e: "to_expr f = Inr e" by (auto simp: and_then_def split: sum.splits)
  let ?bs = "case e of None \<Rightarrow> bs | Some e \<Rightarrow> push_bucket (fm_group f) e bs"
  have run: "collect_buckets to_expr fs ?bs = Inr bs'" using Cons.prems(1) by (simp add: e and_then_def)
  have "buckets_ok ?bs" using Cons.prems(2) by (cases e) (simp_all add: push_bucket_ok)
  from Cons.IH [OF run this] Cons.prems(2) show ?case
    by (cases e) (simp_all add: group_exprs_def map_filter_simps e bucket_of_push buckets_ok_def)
qed

lemma map_of_buckets:
  assumes "buckets_ok bs"
  shows "map_of bs g = (if bucket_of bs g = [] then None else Some (bucket_of bs g))"
  using assms by (fastforce simp: bucket_of_def buckets_ok_def dest: map_of_SomeD split: option.splits)

text \<open>What a group of filters asks for, and what the relations between groups ask for, in the words of the source.\<close>

definition present :: "('p filter_message \<Rightarrow> condition option result) \<Rightarrow> 'p filter_message list \<Rightarrow> int \<Rightarrow> bool" where
  "present to_expr filters g \<longleftrightarrow> group_exprs to_expr filters g \<noteq> []"

definition group_holds where
  "group_holds like tables scopes to_expr filters g \<longleftrightarrow>
     list_all (selected like tables scopes) (group_exprs to_expr filters g)"

definition relation_holds where
  "relation_holds like tables scopes to_expr filters l \<longleftrightarrow>
     (let a = group_holds like tables scopes to_expr filters (fg_a l); b = group_holds like tables scopes to_expr filters (fg_b l) in
      if fg_op l = LogicOr then a \<or> b else a \<and> b)"

definition related :: "('p filter_message \<Rightarrow> condition option result) \<Rightarrow> 'p filter_message list \<Rightarrow> filter_logic \<Rightarrow> bool" where
  "related to_expr filters l \<longleftrightarrow> present to_expr filters (fg_a l) \<and> present to_expr filters (fg_b l)"

lemma pair_cond_selected:
  assumes "\<And>g. group_cond bs g = (if present to_expr filters g then Some (AllOf (group_exprs to_expr filters g)) else None)"
  shows "pair_cond bs l = None \<longleftrightarrow> \<not> related to_expr filters l"
    and "pair_cond bs l = Some c \<Longrightarrow>
      selected like tables scopes c \<longleftrightarrow> relation_holds like tables scopes to_expr filters l"
  by (auto simp: pair_cond_def assms related_def relation_holds_def group_holds_def list_all_iff Let_def
      split: if_splits logic_op.splits option.splits)

lemma set_map_filter: "set (List.map_filter f xs) = {y. \<exists>x \<in> set xs. f x = Some y}"
  by (force simp: List.map_filter_def)

lemma grouped_filters_select_aux:
  assumes "build_grouped_condition to_expr filters logics = Inr result"
  shows "case result of
      None \<Rightarrow> \<forall>g. \<not> present to_expr filters g
    | Some c \<Rightarrow> selected like tables scopes c \<longleftrightarrow>
        (\<forall>l \<in> set logics. related to_expr filters l \<longrightarrow> relation_holds like tables scopes to_expr filters l)
        \<and> (\<forall>g. present to_expr filters g \<longrightarrow> (\<forall>l \<in> set logics. related to_expr filters l \<longrightarrow> g \<noteq> fg_a l \<and> g \<noteq> fg_b l)
            \<longrightarrow> group_holds like tables scopes to_expr filters g)"
proof -
  obtain bs where bs: "collect_buckets to_expr filters [] = Inr bs"
    using assms by (auto simp: build_grouped_condition_def and_then_def split: sum.splits)
  have ok: "buckets_ok bs" and of: "\<And>g. bucket_of bs g = group_exprs to_expr filters g"
    using collect_buckets_Inr [OF bs] by (simp_all add: buckets_ok_def bucket_of_def)
  have cond: "group_cond bs g = (if present to_expr filters g then Some (AllOf (group_exprs to_expr filters g)) else None)" for g
    using map_of_buckets [OF ok] by (simp add: group_cond_def present_def of)
  note pair = pair_cond_selected [OF cond]
  have keys: "fst ` set bs = {g. present to_expr filters g}"
    using cond by (auto simp: group_cond_def map_of_eq_None_iff split: if_splits) (metis domI domIff dom_map_of_conv_image_fst imageI option.map_disc_iff fst_conv option.distinct(1))+
  have refd: "g \<in> set (referenced bs logics) \<longleftrightarrow> (\<exists>l \<in> set logics. related to_expr filters l \<and> (g = fg_a l \<or> g = fg_b l))" for g
    using pair(1) by (fastforce simp: referenced_def)
  show ?thesis
  proof (cases result)
    case None
    then have "bs = []" using assms by (simp add: build_grouped_condition_def bs and_then_def split: if_splits)
    with keys None show ?thesis by auto
  next
    case (Some c)
    then have c: "c = AllOf (List.map_filter (pair_cond bs) logics
        @ List.map_filter (\<lambda>(g, _). if g \<in> set (referenced bs logics) then None else group_cond bs g) bs)"
      using assms by (simp add: build_grouped_condition_def bs and_then_def split: if_splits)
    have "(\<forall>c \<in> set (List.map_filter (pair_cond bs) logics). selected like tables scopes c) \<longleftrightarrow>
        (\<forall>l \<in> set logics. related to_expr filters l \<longrightarrow> relation_holds like tables scopes to_expr filters l)"
    proof -
      have "related to_expr filters l \<longleftrightarrow> (\<exists>c. pair_cond bs l = Some c)" for l using pair(1) [of l] by auto
      then show ?thesis using pair(2) by (auto simp: set_map_filter)
    qed
    moreover have "set (List.map_filter (\<lambda>(g, _). if g \<in> set (referenced bs logics) then None else group_cond bs g) bs)
        = (\<lambda>g. AllOf (group_exprs to_expr filters g)) ` {g \<in> fst ` set bs. g \<notin> set (referenced bs logics)}" (is "?L = ?R")
    proof
      show "?L \<subseteq> ?R" by (force simp: set_map_filter cond split: if_splits)
      show "?R \<subseteq> ?L"
      proof
        fix c assume "c \<in> ?R"
        then obtain g es where g: "(g, es) \<in> set bs" "g \<notin> set (referenced bs logics)" "c = AllOf (group_exprs to_expr filters g)"
          by auto
        moreover from g(1) keys have "present to_expr filters g" by (metis fst_conv image_eqI mem_Collect_eq)
        ultimately show "c \<in> ?L" unfolding set_map_filter mem_Collect_eq
          by (intro bexI [of _ "(g, es)"]) (simp_all add: cond)
      qed
    qed
    ultimately show ?thesis by (simp add: Some c keys refd ball_Un group_holds_def list_all_iff) blast
  qed
qed

text \<open>C13: a row is selected by the filters of a request when every relation between two groups that both ask for something
  holds, and every other group that asks for something; a group holds when all its filters do. Without any filter that
  asks for something there is no condition.\<close>

theorem grouped_filters_select:
  assumes "build_grouped_condition to_expr filters logics = Inr result"
  shows "case result of
      None \<Rightarrow> \<forall>g. \<not> present to_expr filters g
    | Some c \<Rightarrow> selected like tables scopes c \<longleftrightarrow>
        (\<forall>l \<in> set logics. related to_expr filters l \<longrightarrow> relation_holds like tables scopes to_expr filters l)
        \<and> (\<forall>g. present to_expr filters g \<longrightarrow> (\<forall>l \<in> set logics. related to_expr filters l \<longrightarrow> g \<noteq> fg_a l \<and> g \<noteq> fg_b l)
            \<longrightarrow> group_holds like tables scopes to_expr filters g)"
  using assms by (rule grouped_filters_select_aux)

subsection \<open>Names\<close>

lemma build_grouped_names:
  assumes "build_grouped_condition to_expr filters logics = Inr (Some c)"
    and "\<And>f e. f \<in> set filters \<Longrightarrow> to_expr f = Inr (Some e) \<Longrightarrow> name_errors columns scopes e = []"
  shows "name_errors columns scopes c = []"
proof -
  obtain bs where bs: "collect_buckets to_expr filters [] = Inr bs"
    using assms(1) by (auto simp: build_grouped_condition_def and_then_def split: sum.splits)
  have of: "bucket_of bs g = group_exprs to_expr filters g" for g
    using collect_buckets_Inr [OF bs] by (simp add: buckets_ok_def bucket_of_def)
  have group: "name_errors columns scopes e = []" if "group_cond bs g = Some e" for g e
  proof -
    from that obtain es where es: "map_of bs g = Some es" "e = AllOf es" by (auto simp: group_cond_def)
    then have "set es \<subseteq> set (group_exprs to_expr filters g)" using of [of g] by (simp add: bucket_of_def)
    have "name_errors columns scopes x = []" if "x \<in> set es" for x
    proof -
      have "x \<in> set (group_exprs to_expr filters g)" using that \<open>set es \<subseteq> _\<close> by blast
      then obtain f where f: "f \<in> set filters" "(case to_expr f of Inl _ \<Rightarrow> None | Inr e \<Rightarrow> e) = Some x"
        by (auto simp: group_exprs_def set_map_filter split: if_splits)
      from f(2) have "to_expr f = Inr (Some x)" by (cases "to_expr f") simp_all
      with f(1) show ?thesis by (rule assms(2))
    qed
    with es show ?thesis by simp
  qed
  have "name_errors columns scopes e = []" if "pair_cond bs l = Some e" for l e
    using that by (auto simp: pair_cond_def split: option.splits logic_op.splits dest!: group)
  moreover have "c = AllOf (List.map_filter (pair_cond bs) logics
      @ List.map_filter (\<lambda>(g, _). if g \<in> set (referenced bs logics) then None else group_cond bs g) bs)"
    using assms(1) by (simp add: build_grouped_condition_def bs and_then_def split: if_splits)
  ultimately show ?thesis using group by (auto simp: set_map_filter split: if_splits)
qed

lemma group_exprs_mem:
  "f \<in> set filters \<Longrightarrow> to_expr f = Inr (Some e) \<Longrightarrow> e \<in> set (group_exprs to_expr filters (fm_group f))"
  by (force simp: group_exprs_def set_map_filter)

lemma build_grouped_names_all:
  assumes "build_grouped_condition to_expr filters logics = Inr (Some c)" and "name_errors columns scopes c = []"
    and f: "f \<in> set filters" "to_expr f = Inr (Some e)"
  shows "name_errors columns scopes e = []"
proof -
  obtain bs where bs: "collect_buckets to_expr filters [] = Inr bs"
    using assms(1) by (auto simp: build_grouped_condition_def and_then_def split: sum.splits)
  let ?g = "fm_group f"
  have "e \<in> set (bucket_of bs ?g)"
    using collect_buckets_Inr [OF bs] group_exprs_mem [of f filters to_expr e, OF f] by (simp add: buckets_ok_def bucket_of_def)
  then obtain es where es: "map_of bs ?g = Some es" "e \<in> set es" by (cases "map_of bs ?g") (auto simp: bucket_of_def)
  have c: "c = AllOf (List.map_filter (pair_cond bs) logics
      @ List.map_filter (\<lambda>(g, _). if g \<in> set (referenced bs logics) then None else group_cond bs g) bs)"
    using assms(1) by (simp add: build_grouped_condition_def bs and_then_def split: if_splits)
  have group: "group_cond bs ?g = Some (AllOf es)" using es by (simp add: group_cond_def)
  have "name_errors columns scopes (AllOf es) = []"
  proof (cases "?g \<in> set (referenced bs logics)")
    case True
    then obtain l c' where l: "l \<in> set logics" "pair_cond bs l = Some c'" "?g = fg_a l \<or> ?g = fg_b l"
      by (auto simp: referenced_def)
    then have "name_errors columns scopes c' = []" using assms(2) by (auto simp: c set_map_filter)
    with l(2,3) group show ?thesis by (auto simp: pair_cond_def split: option.splits logic_op.splits)
  next
    case False
    have "AllOf es \<in> set (List.map_filter (\<lambda>(g, _). if g \<in> set (referenced bs logics) then None else group_cond bs g) bs)"
      unfolding set_map_filter mem_Collect_eq
      using False group map_of_SomeD [OF es(1)] by (intro bexI [of _ "(?g, es)"]) simp_all
    moreover have "\<forall>x \<in> set (List.map_filter (\<lambda>(g, _). if g \<in> set (referenced bs logics) then None else group_cond bs g) bs).
        name_errors columns scopes x = []"
      using assms(2) by (simp add: c)
    ultimately show ?thesis by blast
  qed
  with es(2) show ?thesis by simp
qed


definition resolves :: "string list list \<Rightarrow> operand \<Rightarrow> bool" where
  "resolves scopes x \<longleftrightarrow> operand_errors library_columns scopes x = []"

lemma add_where_fields [simp]:
  "lq_tables (add_where c q) = lq_tables q" "lq_joins (add_where c q) = lq_joins q" "lq_left (add_where c q) = lq_left q"
  "lq_where (add_where c q) = lq_where q @ [c]" "lq_order (add_where c q) = lq_order q"
  "lq_distinct (add_where c q) = lq_distinct q" "lq_select (add_where c q) = lq_select q"
  by (simp_all add: add_where_def)

lemma constants_resolve [simp]: "operand_errors columns scopes (Const v) = []" "resolves scopes (Const v)"
  by (simp_all add: operand_errors_def resolves_def)




lemma exists_names:
  "name_errors library_columns scopes (Exists ts cs) = [] \<longleftrightarrow> (\<forall>c \<in> set cs. name_errors library_columns (ts # scopes) c = [])"
  "name_errors library_columns scopes (on_eq t c u k) = [] \<longleftrightarrow>
    resolves scopes (Column (Some t) c) \<and> resolves scopes (Column (Some u) k)"
  "name_errors library_columns scopes (Compare r x y) = [] \<longleftrightarrow> resolves scopes x \<and> resolves scopes y"
  by (auto simp: on_eq_def resolves_def)








lemma query_errors_empty:
  "query_errors q = [] \<longleftrightarrow>
    (\<forall>c \<in> set (lq_joins q @ map snd (lq_left q) @ lq_where q). name_errors library_columns [lq_tables q @ map fst (lq_left q)] c = [])
    \<and> (\<forall>k \<in> fst ` set (lq_order q). case k of By x \<Rightarrow> resolves [lq_tables q @ map fst (lq_left q)] x | Random \<Rightarrow> True)
    \<and> resolves [lq_tables q @ map fst (lq_left q)] (lq_select q)"
  by (auto simp: query_errors_def Let_def key_errors_def resolves_def split: sort_key.splits)







text \<open>The albums of an artist cannot be listed by name, sort name or the time they were added, which the joined artist has as
  well, nor by the time they were last played, which is in no joined table; every other order works.\<close>

theorem artist_albums_sortable_iff:
  "query_errors (artist_albums_query artist key asc) = [] \<longleftrightarrow>
    key \<notin> {Some SortAlbumTitle, Some SortAlbumSortTitle, Some SortAlbumAddedTime, Some SortAlbumLastPlayedAt}"
proof -
  have r: "list_all (resolves [[''album'', ''rel_album_artist'', ''artist'']]) [Column (Some ''rel_album_artist'') ''album_id'',
     Column (Some ''album'') ''id'', Column (Some ''artist'') ''id'', Column (Some ''rel_album_artist'') ''artist_id'',
     Column None ''publish_time'', Column None ''track_count'', Column None ''disc_count'']"
    "list_all (\<lambda>x. \<not> resolves [[''album'', ''rel_album_artist'', ''artist'']] x) [Column None ''name'', Column None ''sort_name'',
     Column None ''added_at'', Column (Some ''dynamic'') ''last_played_at'']"
    by code_simp+
  show ?thesis using r [unfolded list_all_iff resolves_def, simplified]
    by (auto simp: query_errors_empty artist_albums_query_def exists_names album_sort_col_def resolves_def split: option.splits album_sort.splits)
qed

text \<open>The filters of remote mixes on a column that the joined local mix has as well.\<close>

definition on_shared_column :: "remote_mix_payload filter_message \<Rightarrow> bool" where
  "on_shared_column f \<longleftrightarrow> (case fm_payload f of
      Some (RemoteName c _) \<Rightarrow> c \<noteq> StringUnspecified
    | Some (RemoteTracks c _) \<Rightarrow> c \<noteq> IntUnspecified
    | _ \<Rightarrow> False)"

lemma remote_columns_resolve:
  "list_all (resolves [[''remote_mix'', ''mix'']]) [Column (Some ''remote_mix'') ''mix_type'', Column (Some ''remote_mix'') ''id'',
     Column (Some ''mix'') ''remote_id'', Column (Some ''mix'') ''id'']"
  "list_all (resolves [[''mix''], [''remote_mix'', ''mix'']]) [Column (Some ''mix'') ''mix_type'', Column (Some ''mix'') ''remote_id'',
     Column (Some ''remote_mix'') ''id'']"
  "list_all (\<lambda>x. \<not> resolves [[''remote_mix'', ''mix'']] x) [Column None ''name'', Column None ''track_count'']"
  by code_simp+

lemma remote_filter_names:
  assumes "remote_mix_filter_to_expr f = Some e"
  shows "name_errors library_columns [[''remote_mix'', ''mix'']] e = [] \<longleftrightarrow> \<not> on_shared_column f"
proof -
  note r = remote_columns_resolve [unfolded list_all_iff resolves_def, simplified]
  show ?thesis using assms r
    by (auto simp: remote_mix_filter_to_expr_def remote_local_type_expr_def on_shared_column_def on_eq_def
        string_condition_to_expr_def int_condition_to_expr_def type_condition_to_expr_def type_string_condition_to_expr_def
        split: option.splits remote_mix_payload.splits string_condition.splits int_condition.splits type_condition.splits)
qed

lemma on_shared_column_expr: "on_shared_column f \<Longrightarrow> \<exists>e. remote_mix_filter_to_expr f = Some e"
  by (auto simp: on_shared_column_def remote_mix_filter_to_expr_def string_condition_to_expr_def int_condition_to_expr_def
      split: option.splits remote_mix_payload.splits string_condition.splits int_condition.splits)

text \<open>A list of remote mixes fails as soon as one filter asks for a name or a number of tracks, and only then.\<close>

theorem remote_mixes_fail_iff_shared_column:
  assumes "get_remote_mixs_query filters logics = Inr q"
  shows "query_errors q = [] \<longleftrightarrow> \<not> list_ex on_shared_column filters"
proof -
  let ?to = "\<lambda>f. Inr (remote_mix_filter_to_expr f) :: condition option result"
  obtain c where c: "build_grouped_condition ?to filters logics = Inr c" and q: "query_errors q = [] \<longleftrightarrow>
      (case c of Some c \<Rightarrow> name_errors library_columns [[''remote_mix'', ''mix'']] c = [] | None \<Rightarrow> True)"
    using assms remote_columns_resolve [unfolded list_all_iff, simplified]
    by (fastforce simp: get_remote_mixs_query_def qcm_filters_def and_then_def query_errors_empty exists_names
        split: sum.splits option.splits)
  show ?thesis
  proof (cases c)
    case None
    have "\<not> on_shared_column f" if f: "f \<in> set filters" for f
    proof
      assume "on_shared_column f"
      then obtain e where "?to f = Inr (Some e)" using on_shared_column_expr by blast
      from group_exprs_mem [of f filters ?to e, OF f this] grouped_filters_select_aux [OF c] show False
        by (auto simp: None present_def)
    qed
    then show ?thesis by (simp add: q None list_ex_iff)
  next
    case (Some c')
    note c = c [unfolded Some]
    show ?thesis unfolding q Some option.case list_ex_iff
    proof
      assume "name_errors library_columns [[''remote_mix'', ''mix'']] c' = []"
      from build_grouped_names_all [OF c this] show "\<not> (\<exists>f \<in> set filters. on_shared_column f)"
        using remote_filter_names on_shared_column_expr by (metis (no_types, lifting))
    next
      assume "\<not> (\<exists>f \<in> set filters. on_shared_column f)"
      then show "name_errors library_columns [[''remote_mix'', ''mix'']] c' = []"
        using remote_filter_names by (intro build_grouped_names [OF c]) auto
    qed
  qed
qed

subsection \<open>Years\<close>

text \<open>C32: what the filter on the year of an album selects: the albums of the year, or those before or after its first moment.
  \<^verbatim>\<open>EqualNot\<close> selects nothing at all, \<^verbatim>\<open>Greater\<close> selects albums of the year itself, \<^verbatim>\<open>LessEqual\<close> misses them.\<close>

theorem year_filter_selects:
  assumes "cal_start cal y = Some t0" and "cal_start cal (y + 1) = Some t1"
    and "album_filter_to_expr cal \<lparr>fm_group = g, fm_payload = Some (AlbumYear c y)\<rparr> = Inr (Some e)"
  shows "selected like tables [(''album'', album_columns a) # others] e \<longleftrightarrow>
    (case al_publish_time a of
       None \<Rightarrow> False
     | Some t \<Rightarrow> (case c of Equal \<Rightarrow> t0 \<le> t \<and> t < t1 | Less \<Rightarrow> t < t0 | LessEqual \<Rightarrow> t \<le> t0 | Greater \<Rightarrow> t0 < t
         | GreaterEqual \<Rightarrow> t0 \<le> t | _ \<Rightarrow> False))"
proof -
  have col: "column_value [(''album'', album_columns a) # others] None ''publish_time'' = int_or_null (al_publish_time a)"
    by (simp add: column_value_def album_columns_def)
  show ?thesis using assms
    by (auto simp: album_filter_to_expr_def year_to_expr_def and_then_def ok_or_def selected_def all_true_iff operand_value_def col
        int_or_null_def compare_ints compare_int_text compare_null split: int_condition.splits option.splits)
qed

subsection \<open>The list of albums\<close>


















subsection \<open>Samples\<close>

definition sample_shelf :: catalog where
  "sample_shelf =
     \<lparr>ct_providers = [1], ct_libraries = [],
      ct_items = [\<lparr>it_id = 7, it_native = ''n'', it_library = Some 3, it_provider = 1, it_type = Album, it_create = 0, it_update = 0, it_sync = 0\<rparr>],
      ct_albums = [\<lparr>al_id = 7, al_name = ''a'', al_sort_name = None, al_track_count = 4, al_disc_count = 1, al_type = PlainAlbum,
        al_duration = 0, al_language = None, al_description = None, al_company = None, al_publish_time = Some 1500, al_added_at = None\<rparr>],
      ct_artists = [], ct_songs = [], ct_remote_mixes = [], ct_mixes = [],
      ct_dynamics = [\<lparr>dy_id = 7, dy_is_external = False, dy_play_count = 0, dy_remote_play_count = 0, dy_last_position = None,
        dy_last_played_at = None, dy_remote_last_played_at = None, dy_favorite_at = None, dy_update = 0\<rparr>],
      ct_images = [], ct_album_artists = [], ct_song_artists = [], ct_mix_songs = [], ct_sequence = (\<lambda>_. 0)\<rparr>"

definition sample_calendar :: calendar where
  "sample_calendar = \<lparr>cal_start = (\<lambda>y. if 0 \<le> y then Some (1000 * y) else None), cal_text = (\<lambda>_. ''1970-01-01 00:00:00 UTC'')\<rparr>"

definition tracks_filter :: "int \<Rightarrow> int_condition \<Rightarrow> int \<Rightarrow> album_payload filter_message" where
  "tracks_filter g c n = \<lparr>fm_group = g, fm_payload = Some (AlbumTracks c n)\<rparr>"

theorem grouped_filters_select_witness:
  "\<exists>c. build_grouped_condition (album_filter_to_expr sample_calendar) [tracks_filter 1 Less 2, tracks_filter 2 Greater 3]
      [\<lparr>fg_op = LogicOr, fg_a = 1, fg_b = 2\<rparr>] = Inr (Some c)
    \<and> selected (\<lambda>_ _. False) (library_tables sample_shelf) [map (\<lambda>r. (''album'', r)) (library_tables sample_shelf ''album'')] c"
proof -
  let ?to = "album_filter_to_expr sample_calendar" and ?fs = "[tracks_filter 1 Less 2, tracks_filter 2 Greater 3]"
    and ?ls = "[\<lparr>fg_op = LogicOr, fg_a = 1, fg_b = 2\<rparr>]"
    and ?scopes = "[map (\<lambda>r. (''album'', r)) (library_tables sample_shelf ''album'')]"
  have e: "group_exprs ?to ?fs g = (if g = 1 then [Compare LessThan (Column None ''track_count'') (Const (Int_value 2))]
      else if g = 2 then [Compare GreaterThan (Column None ''track_count'') (Const (Int_value 3))] else [])" for g
    by (simp add: group_exprs_def tracks_filter_def album_filter_to_expr_def int_condition_to_expr_def map_filter_simps)
  have "case build_grouped_condition ?to ?fs ?ls of Inr (Some _) \<Rightarrow> True | _ \<Rightarrow> False" by code_simp
  then obtain c where c: "build_grouped_condition ?to ?fs ?ls = Inr (Some c)"
    by (auto split: sum.splits option.splits)
  have "selected (\<lambda>_ _. False) (library_tables sample_shelf) ?scopes (Compare GreaterThan (Column None ''track_count'') (Const (Int_value 3)))"
    by (simp add: selected_def operand_value_def column_value_def library_tables_def sample_shelf_def album_columns_def compare_ints)
  with grouped_filters_select [OF c, of "\<lambda>_ _. False" "library_tables sample_shelf" ?scopes] c show ?thesis
    by (auto simp: e present_def related_def relation_holds_def group_holds_def)
qed


theorem remote_mixes_fail_iff_shared_column_witness:
  "\<exists>q. get_remote_mixs_query [\<lparr>fm_group = 0, fm_payload = Some (RemoteName Contains ''x'')\<rparr>] [] = Inr q \<and> query_errors q \<noteq> []"
proof -
  let ?r = "get_remote_mixs_query [\<lparr>fm_group = 0, fm_payload = Some (RemoteName Contains ''x'')\<rparr>] []"
  have "\<not> is_err ?r" by code_simp
  then obtain q where q: "?r = Inr q" by (cases ?r) auto
  from remote_mixes_fail_iff_shared_column [OF q] q show ?thesis by (auto simp: on_shared_column_def)
qed

theorem year_filter_selects_witness:
  "\<exists>e. album_filter_to_expr sample_calendar \<lparr>fm_group = 0, fm_payload = Some (AlbumYear Greater 1)\<rparr> = Inr (Some e)
    \<and> selected (\<lambda>_ _. False) (library_tables sample_shelf) [[(''album'', album_columns (hd (ct_albums sample_shelf)))]] e"
proof -
  have e: "album_filter_to_expr sample_calendar \<lparr>fm_group = 0, fm_payload = Some (AlbumYear Greater 1)\<rparr>
      = Inr (Some (Compare GreaterThan (Column None ''publish_time'') (Const (Int_value 1000))))"
    by (simp add: album_filter_to_expr_def year_to_expr_def sample_calendar_def and_then_def ok_or_def)
  have "cal_start sample_calendar 1 = Some 1000" "cal_start sample_calendar (1 + 1) = Some 2000"
    by (simp_all add: sample_calendar_def)
  from year_filter_selects [OF this e, of "\<lambda>_ _. False" "library_tables sample_shelf" "hd (ct_albums sample_shelf)" "[]"] e show ?thesis
    by (simp add: sample_shelf_def)
qed


end
