(* ===== verification/Tasks.thy ===== *)
theory Tasks
  imports Main
begin

section \<open>The task manager\<close>

text \<open>
  \<^verbatim>\<open>src/backend/main/src/task.rs\<close>: a thread that receives events over a channel and knows the tasks that were
  spawned, with the callers that wait for them. The handle of a task, the names and the warning about an unknown task are
  left out. A caller that waits is a number; \<^verbatim>\<open>send(())\<close> to it appends the number to \<open>tm_answered\<close>. When the
  thread stops, what it holds is dropped, so that every waiting caller returns; that is not recorded. Identifiers are not cut to 64 bits.

  The machine has one step for each thing that happens on some thread: \<^verbatim>\<open>spawn\<close> starts the future (\<open>Spawn\<close>) and sends
  \<^verbatim>\<open>Add\<close> afterwards (\<open>Register\<close>), the future ends by itself or because its oneshot channel fires and sends \<^verbatim>\<open>End\<close>
  (\<open>Finish\<close>), and the thread takes the next event (\<open>Deliver\<close>).
\<close>

record task =
  tk_id :: int
  tk_sender :: bool
  tk_waiters :: "nat list"

datatype task_event = Add task | Progress | Cancel int | End int | Stop | Wait int nat

record task_manager =
  tm_tasks :: "int \<Rightarrow> task option"
  tm_answered :: "nat list"
  tm_cancelled :: "int list"
  tm_stopped :: bool

definition upd_task :: "int \<Rightarrow> task option \<Rightarrow> task_manager \<Rightarrow> task_manager" where
  "upd_task i t m = m\<lparr>tm_tasks := (tm_tasks m)(i := t)\<rparr>"

definition process_event :: "task_event \<Rightarrow> task_manager \<Rightarrow> task_manager" where
  "process_event e m = (case e of
      Add t \<Rightarrow> upd_task (tk_id t) (Some t) m
    | Cancel i \<Rightarrow> (case tm_tasks m i of
        Some t \<Rightarrow> if tk_sender t then upd_task i (Some (t\<lparr>tk_sender := False\<rparr>)) (m\<lparr>tm_cancelled := tm_cancelled m @ [i]\<rparr>) else m
      | None \<Rightarrow> m)
    | End i \<Rightarrow> (case tm_tasks m i of
        Some t \<Rightarrow> upd_task i None (m\<lparr>tm_answered := tm_answered m @ rev (tk_waiters t)\<rparr>)
      | None \<Rightarrow> m)
    | Wait i w \<Rightarrow> (case tm_tasks m i of
        Some t \<Rightarrow> upd_task i (Some (t\<lparr>tk_waiters := tk_waiters t @ [w]\<rparr>)) m
      | None \<Rightarrow> m\<lparr>tm_answered := tm_answered m @ [w]\<rparr>)
    | Progress \<Rightarrow> m
    | Stop \<Rightarrow> m\<lparr>tm_stopped := True\<rparr>)"

record task_system =
  ts_next :: int
  ts_waiters :: nat
  ts_running :: "int list"
  ts_spawning :: "int list"
  ts_queue :: "task_event list"
  ts_manager :: task_manager

datatype task_action = Spawn | Register int | Finish int | AskWait int | AskCancel int | AskStop | Deliver

definition send_event :: "task_event \<Rightarrow> task_system \<Rightarrow> task_system" where
  "send_event e s = s\<lparr>ts_queue := ts_queue s @ [e]\<rparr>"

definition task_step :: "task_action \<Rightarrow> task_system \<Rightarrow> task_system option" where
  "task_step a s = (case a of
      Spawn \<Rightarrow> Some (s\<lparr>ts_next := ts_next s + 1, ts_running := ts_next s # ts_running s, ts_spawning := ts_next s # ts_spawning s\<rparr>)
    | Register i \<Rightarrow>
        if i \<in> set (ts_spawning s)
        then Some (send_event (Add \<lparr>tk_id = i, tk_sender = True, tk_waiters = []\<rparr>) (s\<lparr>ts_spawning := removeAll i (ts_spawning s)\<rparr>))
        else None
    | Finish i \<Rightarrow>
        if i \<in> set (ts_running s) then Some (send_event (End i) (s\<lparr>ts_running := removeAll i (ts_running s)\<rparr>)) else None
    | AskWait i \<Rightarrow> Some (send_event (Wait i (ts_waiters s)) (s\<lparr>ts_waiters := ts_waiters s + 1\<rparr>))
    | AskCancel i \<Rightarrow> Some (send_event (Cancel i) s)
    | AskStop \<Rightarrow> Some (send_event Stop s)
    | Deliver \<Rightarrow> (case ts_queue s of
        [] \<Rightarrow> None
      | e # es \<Rightarrow> if tm_stopped (ts_manager s) then None
          else Some (s\<lparr>ts_queue := es, ts_manager := process_event e (ts_manager s)\<rparr>)))"

fun run_tasks :: "task_action list \<Rightarrow> task_system \<Rightarrow> task_system option" where
  "run_tasks [] s = Some s"
| "run_tasks (a # as) s = (case task_step a s of None \<Rightarrow> None | Some s' \<Rightarrow> run_tasks as s')"

definition task_manager_new :: task_system where
  "task_manager_new = \<lparr>ts_next = 0, ts_waiters = 0, ts_running = [], ts_spawning = [], ts_queue = [],
     ts_manager = \<lparr>tm_tasks = (\<lambda>_. None), tm_answered = [], tm_cancelled = [], tm_stopped = False\<rparr>\<rparr>"

text \<open>A run in which no future ends before its task was announced.\<close>

fun announced_first :: "task_action list \<Rightarrow> task_system \<Rightarrow> bool" where
  "announced_first [] s = True"
| "announced_first (a # as) s =
     ((case a of Finish i \<Rightarrow> i \<notin> set (ts_spawning s) | _ \<Rightarrow> True)
      \<and> (case task_step a s of None \<Rightarrow> True | Some s' \<Rightarrow> announced_first as s'))"

subsection \<open>Callers that wait\<close>

definition added :: "task_event list \<Rightarrow> int list" where
  "added q = List.map_filter (\<lambda>e. case e of Add t \<Rightarrow> Some (tk_id t) | _ \<Rightarrow> None) q"

definition waiting :: "nat \<Rightarrow> task_system \<Rightarrow> bool" where
  "waiting w s \<longleftrightarrow> (\<exists>i. Wait i w \<in> set (ts_queue s)) \<or> (\<exists>i t. tm_tasks (ts_manager s) i = Some t \<and> w \<in> set (tk_waiters t))"

text \<open>Every task that the manager knows or will be told of either runs or its end is still to come.\<close>

fun ends_follow :: "int list \<Rightarrow> task_event list \<Rightarrow> bool" where
  "ends_follow running [] = True"
| "ends_follow running (e # es) =
     ((case e of Add t \<Rightarrow> tk_id t \<in> set running \<or> End (tk_id t) \<in> set es | _ \<Rightarrow> True) \<and> ends_follow running es)"

definition ends_to_come :: "task_system \<Rightarrow> bool" where
  "ends_to_come s \<longleftrightarrow>
     dom (tm_tasks (ts_manager s)) \<subseteq> set (ts_running s) \<union> {i. End i \<in> set (ts_queue s)}
     \<and> ends_follow (ts_running s) (ts_queue s)"

definition ids_ok :: "task_system \<Rightarrow> bool" where
  "ids_ok s \<longleftrightarrow> distinct (ts_spawning s @ added (ts_queue s))
     \<and> set (ts_spawning s @ added (ts_queue s)) \<inter> dom (tm_tasks (ts_manager s)) = {}
     \<and> set (ts_spawning s @ added (ts_queue s)) \<union> dom (tm_tasks (ts_manager s)) \<subseteq> {i. i < ts_next s}
     \<and> (\<forall>t. Add t \<in> set (ts_queue s) \<longrightarrow> tk_waiters t = [])"

lemma added_simps [simp]:
  "added [] = []" "added (e # es) = (case e of Add t \<Rightarrow> [tk_id t] | _ \<Rightarrow> []) @ added es" "added (xs @ ys) = added xs @ added ys"
  by (simp_all add: added_def map_filter_simps List.map_filter_def split: task_event.splits)

lemma added_mem: "Add t \<in> set q \<Longrightarrow> tk_id t \<in> set (added q)"
  by (induction q) (auto split: task_event.splits)

lemma ends_follow_sent:
  "ends_follow running q \<Longrightarrow> (\<And>t. e = Add t \<Longrightarrow> tk_id t \<in> set running) \<Longrightarrow> ends_follow running (q @ [e])"
  by (induction q) (auto split: task_event.splits)

lemma ends_follow_finished: "ends_follow running q \<Longrightarrow> ends_follow (removeAll i running) (q @ [End i])"
  by (induction q) (auto split: task_event.splits)

lemma ends_follow_more: "ends_follow running q \<Longrightarrow> ends_follow (i # running) q"
  by (induction q) (auto split: task_event.splits)

lemma ids_sent:
  "ids_ok s \<Longrightarrow> (\<And>t. e \<noteq> Add t) \<Longrightarrow> ids_ok (send_event e s)"
  by (auto simp: ids_ok_def send_event_def split: task_event.splits)

lemma dom_subD: "dom f \<subseteq> A \<Longrightarrow> f x = Some y \<Longrightarrow> x \<in> A"
  by blast

lemmas step_defs = task_step_def send_event_def process_event_def upd_task_def

lemma ids_step:
  assumes "ids_ok s" and "task_step a s = Some s'"
  shows "ids_ok s'"
proof -
  have fresh: "ts_next s \<notin> set (ts_spawning s) \<union> set (added (ts_queue s)) \<union> dom (tm_tasks (ts_manager s))"
    using assms(1) by (auto simp: ids_ok_def)
  show ?thesis
  proof (cases a)
    case Spawn
    then have s': "ts_next s' = ts_next s + 1" "ts_spawning s' = ts_next s # ts_spawning s" "ts_queue s' = ts_queue s" "ts_manager s' = ts_manager s"
      using assms(2) by (auto simp: step_defs)
    have "{i. i < ts_next s} \<subseteq> {i. i < ts_next s + 1}" by auto
    with assms(1) fresh show ?thesis unfolding ids_ok_def s' by simp blast
  next
    case Deliver
    then obtain e es where "ts_queue s = e # es" "s' = s\<lparr>ts_queue := es, ts_manager := process_event e (ts_manager s)\<rparr>"
      using assms(2) by (auto simp: task_step_def split: list.splits if_splits)
    with assms(1) show ?thesis
      by (cases e) (auto simp: ids_ok_def process_event_def upd_task_def dest: dom_subD split: option.splits)
  next
    case (Register i)
    then have s': "i \<in> set (ts_spawning s)" "ts_next s' = ts_next s" "ts_spawning s' = removeAll i (ts_spawning s)"
        "ts_queue s' = ts_queue s @ [Add \<lparr>tk_id = i, tk_sender = True, tk_waiters = []\<rparr>]" "ts_manager s' = ts_manager s"
      using assms(2) by (auto simp: step_defs split: if_splits)
    show ?thesis using assms(1) s'(1) unfolding ids_ok_def s'(2-) by (simp add: distinct_removeAll) blast
  qed (use assms in \<open>auto simp: ids_ok_def step_defs dest: dom_subD split: if_splits\<close>)
qed

lemma ends_step:
  assumes "ends_to_come s" and "set (ts_spawning s) \<subseteq> set (ts_running s)" and "task_step a s = Some s'"
    and "\<And>i. a = Finish i \<Longrightarrow> i \<notin> set (ts_spawning s)" and "\<not> tm_stopped (ts_manager s')"
  shows "ends_to_come s' \<and> set (ts_spawning s') \<subseteq> set (ts_running s')"
proof (cases a)
  case Spawn
  then have s': "s' = s\<lparr>ts_next := ts_next s + 1, ts_running := ts_next s # ts_running s, ts_spawning := ts_next s # ts_spawning s\<rparr>"
    using assms(3) by (simp add: step_defs)
  show ?thesis using assms(1,2) by (simp add: s' ends_to_come_def ends_follow_more) blast
next
  case (Register i)
  then have "i \<in> set (ts_running s)" using assms(2,3) by (auto simp: step_defs split: if_splits)
  with Register assms show ?thesis
    by (auto simp: ends_to_come_def step_defs intro!: ends_follow_sent dest: dom_subD split: if_splits)
next
  case (Finish i)
  with assms show ?thesis by (auto simp: ends_to_come_def step_defs intro!: ends_follow_finished dest: dom_subD split: if_splits)
next
  case Deliver
  then obtain e es where "ts_queue s = e # es" "s' = s\<lparr>ts_queue := es, ts_manager := process_event e (ts_manager s)\<rparr>"
    using assms(3) by (auto simp: task_step_def split: list.splits if_splits)
  with assms show ?thesis
    by (cases e) (auto simp: ends_to_come_def process_event_def upd_task_def dest: dom_subD split: option.splits if_splits)
qed (use assms in \<open>auto simp: ends_to_come_def step_defs intro!: ends_follow_sent dest: dom_subD split: if_splits\<close>)

definition accounted :: "nat \<Rightarrow> task_system \<Rightarrow> bool" where
  "accounted w s \<longleftrightarrow> w \<in> set (tm_answered (ts_manager s)) \<or> waiting w s"

lemma held_event:
  assumes "w \<in> set (tm_answered m) \<or> (\<exists>i t. tm_tasks m i = Some t \<and> w \<in> set (tk_waiters t)) \<or> (\<exists>i. e = Wait i w)"
    and "\<And>t. e = Add t \<Longrightarrow> tm_tasks m (tk_id t) = None"
  shows "w \<in> set (tm_answered (process_event e m)) \<or> (\<exists>i t. tm_tasks (process_event e m) i = Some t \<and> w \<in> set (tk_waiters t))"
proof -
  consider "w \<in> set (tm_answered m)" | i t where "tm_tasks m i = Some t" "w \<in> set (tk_waiters t)" | i where "e = Wait i w"
    using assms(1) by blast
  then show ?thesis
  proof cases
    case 1
    then show ?thesis by (simp add: process_event_def upd_task_def split: task_event.splits option.splits)
  next
    case (2 i t)
    show ?thesis
    proof (cases e)
      case (Add u)
      with assms(2) 2 have "i \<noteq> tk_id u" by auto
      with 2 Add have "tm_tasks (process_event e m) i = Some t" by (simp add: process_event_def upd_task_def)
      with 2 show ?thesis by blast
    next
      case (Cancel j)
      with 2 show ?thesis by (cases "j = i") (auto simp: process_event_def upd_task_def split: option.splits)
    next
      case (End j)
      with 2 show ?thesis by (cases "j = i") (auto simp: process_event_def upd_task_def split: option.splits)
    next
      case (Wait j v)
      with 2 show ?thesis by (cases "j = i") (auto simp: process_event_def upd_task_def split: option.splits)
    qed (use 2 in \<open>auto simp: process_event_def\<close>)
  next
    case (3 i)
    then show ?thesis by (cases "tm_tasks m i") (auto simp: process_event_def upd_task_def)
  qed
qed

lemma accounted_step:
  assumes "accounted w s" and "ids_ok s" and "task_step a s = Some s'"
  shows "accounted w s'"
proof (cases "a = Deliver")
  case True
  then obtain e es where e: "ts_queue s = e # es" "s' = s\<lparr>ts_queue := es, ts_manager := process_event e (ts_manager s)\<rparr>"
    using assms(3) by (auto simp: task_step_def split: list.splits if_splits)
  have "tm_tasks (ts_manager s) (tk_id t) = None" if "e = Add t" for t
    using assms(2) that e(1) by (auto simp: ids_ok_def)
  note held = held_event [of w "ts_manager s" e, OF _ this]
  from assms(1) e(1) consider i where "Wait i w \<in> set es"
    | "w \<in> set (tm_answered (ts_manager s)) \<or> (\<exists>i t. tm_tasks (ts_manager s) i = Some t \<and> w \<in> set (tk_waiters t)) \<or> (\<exists>i. e = Wait i w)"
    by (auto simp: accounted_def waiting_def)
  then show ?thesis
  proof cases
    case 1
    then show ?thesis by (auto simp: accounted_def waiting_def e(2))
  next
    case 2
    from held [OF this] show ?thesis by (auto simp: accounted_def waiting_def e(2))
  qed
next
  case False
  then have "ts_manager s' = ts_manager s" "set (ts_queue s) \<subseteq> set (ts_queue s')"
    using assms(3) by (auto simp: task_step_def send_event_def split: task_action.splits if_splits)
  with assms(1) show ?thesis by (auto simp: accounted_def waiting_def)
qed

lemma asked_accounted:
  assumes "\<forall>w < ts_waiters s. accounted w s" and "ids_ok s" and "task_step a s = Some s'"
  shows "\<forall>w < ts_waiters s'. accounted w s'"
proof (intro allI impI)
  fix w assume w: "w < ts_waiters s'"
  show "accounted w s'"
  proof (cases "w < ts_waiters s")
    case True
    with assms show ?thesis by (blast intro: accounted_step)
  next
    case False
    with w assms(3) obtain i where "a = AskWait i" "w = ts_waiters s"
      by (cases a) (auto simp: step_defs split: list.splits if_splits)
    with assms(3) show ?thesis by (auto simp: accounted_def waiting_def step_defs)
  qed
qed

subsection \<open>Runs\<close>

definition tasks_ok :: "task_system \<Rightarrow> bool" where
  "tasks_ok s \<longleftrightarrow> ids_ok s \<and> (\<forall>w < ts_waiters s. accounted w s)"

definition tasks_end :: "task_system \<Rightarrow> bool" where
  "tasks_end s \<longleftrightarrow> ends_to_come s \<and> set (ts_spawning s) \<subseteq> set (ts_running s)"

lemma stopped_stays: "task_step a s = Some s' \<Longrightarrow> tm_stopped (ts_manager s) \<Longrightarrow> tm_stopped (ts_manager s')"
  by (auto simp: step_defs split: task_action.splits list.splits if_splits)

lemma run_stopped_stays: "run_tasks as s = Some s' \<Longrightarrow> tm_stopped (ts_manager s) \<Longrightarrow> tm_stopped (ts_manager s')"
  by (induction as arbitrary: s) (auto split: option.splits dest: stopped_stays)

lemma run_tasks_ok:
  assumes "run_tasks as s = Some s'" and "tasks_ok s"
  shows "tasks_ok s'"
  using assms
proof (induction as arbitrary: s)
  case (Cons a as)
  then obtain s1 where s1: "task_step a s = Some s1" "run_tasks as s1 = Some s'" by (auto split: option.splits)
  with Cons.prems(2) have "tasks_ok s1" by (auto simp: tasks_ok_def ids_step dest: asked_accounted)
  with Cons.IH s1 show ?case by blast
qed simp

lemma run_tasks_end:
  assumes "run_tasks as s = Some s'" and "announced_first as s" and "tasks_end s" and "\<not> tm_stopped (ts_manager s')"
  shows "tasks_end s'"
  using assms
proof (induction as arbitrary: s)
  case (Cons a as)
  then obtain s1 where s1: "task_step a s = Some s1" "run_tasks as s1 = Some s'" "announced_first as s1" by (auto split: option.splits)
  moreover have "\<not> tm_stopped (ts_manager s1)" using run_stopped_stays [OF s1(2)] Cons.prems(4) by blast
  moreover have "\<And>i. a = Finish i \<Longrightarrow> i \<notin> set (ts_spawning s)" using Cons.prems(2) by simp
  ultimately have "tasks_end s1" using ends_step [of s a s1] Cons.prems(3) by (auto simp: tasks_end_def)
  with Cons.IH s1 Cons.prems(4) show ?case by blast
qed simp

lemma task_manager_new_ok: "tasks_ok task_manager_new" "tasks_end task_manager_new"
  by (simp_all add: tasks_ok_def tasks_end_def ids_ok_def ends_to_come_def task_manager_new_def)

text \<open>C15: as long as every task is announced to the manager before its future ends, whoever waited for a task has been answered
  once the events are processed, unless that task still runs.\<close>

theorem waiters_are_answered:
  assumes "run_tasks as task_manager_new = Some s" and "announced_first as task_manager_new"
    and "ts_queue s = []" and "\<not> tm_stopped (ts_manager s)" and "w < ts_waiters s"
  shows "w \<in> set (tm_answered (ts_manager s))
    \<or> (\<exists>i t. tm_tasks (ts_manager s) i = Some t \<and> w \<in> set (tk_waiters t) \<and> i \<in> set (ts_running s))"
proof -
  have "accounted w s" using run_tasks_ok [OF assms(1) task_manager_new_ok(1)] assms(5) by (simp add: tasks_ok_def)
  moreover have "dom (tm_tasks (ts_manager s)) \<subseteq> set (ts_running s)"
    using run_tasks_end [OF assms(1,2) task_manager_new_ok(2) assms(4)] assms(3) by (simp add: tasks_end_def ends_to_come_def)
  ultimately show ?thesis using assms(3) by (auto simp: accounted_def waiting_def)
qed

subsection \<open>A task that ends too early\<close>

text \<open>A task that the manager knows although its future has ended and the \<^verbatim>\<open>End\<close> was processed before.\<close>

definition held_by :: "int \<Rightarrow> nat \<Rightarrow> task_manager \<Rightarrow> bool" where
  "held_by i w m \<longleftrightarrow> w \<notin> set (tm_answered m) \<and> (\<exists>t. tm_tasks m i = Some t \<and> w \<in> set (tk_waiters t))
     \<and> (\<forall>j t. j \<noteq> i \<longrightarrow> tm_tasks m j = Some t \<longrightarrow> w \<notin> set (tk_waiters t))"





lemma held_by_frame [simp]: "held_by i w (m\<lparr>tm_cancelled := c\<rparr>) = held_by i w m" "held_by i w (m\<lparr>tm_stopped := b\<rparr>) = held_by i w m"
  by (simp_all add: held_by_def)







theorem waiters_are_answered_witness:
  "\<exists>s. run_tasks [Spawn, Register 0, AskWait 0, Finish 0, Deliver, Deliver, Deliver] task_manager_new = Some s
    \<and> 0 \<in> set (tm_answered (ts_manager s))"
proof -
  let ?as = "[Spawn, Register 0, AskWait 0, Finish 0, Deliver, Deliver, Deliver]"
  have "run_tasks ?as task_manager_new \<noteq> None" by (simp add: task_manager_new_def step_defs)
  then obtain s where s: "run_tasks ?as task_manager_new = Some s" by blast
  then have "ts_queue s = []" "ts_waiters s = 1" "ts_running s = []" "\<not> tm_stopped (ts_manager s)"
    by (auto simp: task_manager_new_def step_defs)
  moreover have "announced_first ?as task_manager_new" by (simp add: task_manager_new_def step_defs)
  ultimately show ?thesis using waiters_are_answered [OF s, of 0] s by auto
qed


end
