(* ===== verification/Entities.thy ===== *)
theory Entities
  imports Sync_Props Sql
begin

section \<open>The entities that accompany a response\<close>

text \<open>
  \<^verbatim>\<open>src/backend/main/src/api/entity.rs\<close>: to every response the server adds the rows of all songs, albums, artists and mixes that
  the response or its request names, with what they are linked to, or a removal for an identifier without a row. The sets of
  identifiers (\<^verbatim>\<open>BTreeSet\<close>) are ascending lists. The messages are reduced to the identifiers they carry; an identifier message
  that is absent is \<open>None\<close>. Invalidations are a map, since every provider has one. The protobuf wrappers around optional texts
  and times are left out, and a duration stays an integer. A statement delivers the rows in the order of the table; the
  results do not depend on it.
\<close>

record references =
  rf_songs :: "int list"
  rf_albums :: "int list"
  rf_artists :: "int list"
  rf_mixes :: "int list"

definition references_default :: references where
  "references_default = \<lparr>rf_songs = [], rf_albums = [], rf_artists = [], rf_mixes = []\<rparr>"

definition extend_ids :: "int list \<Rightarrow> int list \<Rightarrow> int list" where
  "extend_ids xs s = fold insort_insert xs s"

definition add_songs :: "int list \<Rightarrow> references \<Rightarrow> references" where
  "add_songs xs r = r\<lparr>rf_songs := extend_ids xs (rf_songs r)\<rparr>"

definition add_albums :: "int list \<Rightarrow> references \<Rightarrow> references" where
  "add_albums xs r = r\<lparr>rf_albums := extend_ids xs (rf_albums r)\<rparr>"

definition add_artists :: "int list \<Rightarrow> references \<Rightarrow> references" where
  "add_artists xs r = r\<lparr>rf_artists := extend_ids xs (rf_artists r)\<rparr>"

definition add_mixes :: "int list \<Rightarrow> references \<Rightarrow> references" where
  "add_mixes xs r = r\<lparr>rf_mixes := extend_ids xs (rf_mixes r)\<rparr>"

datatype home_content = HomeSongs "int list" | HomeAlbums "int list" | HomeArtists "int list" | HomeMixes "int list"

datatype card_target = SongTarget "int option" | AlbumTarget "int option" | ArtistTarget "int option" | MixTarget "int option" | RadioTarget

datatype payload =
    GetSongsByIdRsp "int list"
  | GetAlbumsRsp "int list"
  | GetArtistAlbumRsp "int list"
  | GetAlbumRsp "int option" "int list"
  | GetArtistsRsp "int list"
  | GetAlbumArtistsRsp "int list"
  | GetArtistRsp "int option"
  | GetMixsRsp "int list"
  | GetRemoteMixsRsp "int list"
  | GetMixRsp "int option"
  | GetMixSongsRsp "int option" "int list"
  | CreateMixRsp "int option"
  | OpenQueueRsp "int list"
  | GetQueueNextRsp "int list"
  | SearchRsp "int list option" "int list option" "int list option"
  | GetHomeBlockItemsRsp "home_content option"
  | GetHomeRecommendationsRsp "card_target option list list"
  | SetFavoriteReq int int
  | MixManipulateReq "int option"
  | DeleteMixReq "int list"
  | LinkMixReq "int list"
  | OtherPayload

definition optionally :: "'a option \<Rightarrow> 'a list" where
  "optionally x = (case x of None \<Rightarrow> [] | Some v \<Rightarrow> [v])"

definition card_reference :: "card_target option \<Rightarrow> references \<Rightarrow> references" where
  "card_reference t r = (case t of
      Some (SongTarget i) \<Rightarrow> add_songs (optionally i) r
    | Some (AlbumTarget i) \<Rightarrow> add_albums (optionally i) r
    | Some (ArtistTarget i) \<Rightarrow> add_artists (optionally i) r
    | Some (MixTarget i) \<Rightarrow> add_mixes (optionally i) r
    | _ \<Rightarrow> r)"

definition payload_references :: "payload \<Rightarrow> references \<Rightarrow> references" where
  "payload_references p r = (case p of
      GetSongsByIdRsp ids \<Rightarrow> add_songs ids r
    | GetAlbumsRsp ids \<Rightarrow> add_albums ids r
    | GetArtistAlbumRsp ids \<Rightarrow> add_albums ids r
    | GetAlbumRsp i songs \<Rightarrow> add_songs songs (add_albums (optionally i) r)
    | GetArtistsRsp ids \<Rightarrow> add_artists ids r
    | GetAlbumArtistsRsp ids \<Rightarrow> add_artists ids r
    | GetArtistRsp i \<Rightarrow> add_artists (optionally i) r
    | GetMixsRsp ids \<Rightarrow> add_mixes ids r
    | GetRemoteMixsRsp ids \<Rightarrow> add_mixes ids r
    | GetMixRsp i \<Rightarrow> add_mixes (optionally i) r
    | GetMixSongsRsp i songs \<Rightarrow> add_songs songs (add_mixes (optionally i) r)
    | CreateMixRsp i \<Rightarrow> add_mixes (optionally i) r
    | OpenQueueRsp ids \<Rightarrow> add_songs ids r
    | GetQueueNextRsp ids \<Rightarrow> add_songs ids r
    | SearchRsp songs albums artists \<Rightarrow>
        add_artists (concat (optionally artists)) (add_albums (concat (optionally albums)) (add_songs (concat (optionally songs)) r))
    | GetHomeBlockItemsRsp content \<Rightarrow> (case content of
          Some (HomeSongs ids) \<Rightarrow> add_songs ids r
        | Some (HomeAlbums ids) \<Rightarrow> add_albums ids r
        | Some (HomeArtists ids) \<Rightarrow> add_artists ids r
        | Some (HomeMixes ids) \<Rightarrow> add_mixes ids r
        | None \<Rightarrow> r)
    | GetHomeRecommendationsRsp providers \<Rightarrow> fold (fold card_reference) providers r
    | _ \<Rightarrow> r)"

definition request_references :: "payload \<Rightarrow> references \<Rightarrow> references" where
  "request_references p r = (case p of
      SetFavoriteReq t i \<Rightarrow> (case item_type_of t of
          Some Song \<Rightarrow> add_songs [i] r
        | Some Album \<Rightarrow> add_albums [i] r
        | Some Artist \<Rightarrow> add_artists [i] r
        | Some AlbumArtist \<Rightarrow> add_artists [i] r
        | _ \<Rightarrow> r)
    | MixManipulateReq i \<Rightarrow> add_mixes (optionally i) r
    | _ \<Rightarrow> r)"

definition all_references :: "payload option \<Rightarrow> payload option \<Rightarrow> references" where
  "all_references request response =
     (let r = (case response of None \<Rightarrow> references_default | Some p \<Rightarrow> payload_references p references_default)
      in case request of
           None \<Rightarrow> r
         | Some p \<Rightarrow> (case p of
               DeleteMixReq ids \<Rightarrow> add_mixes ids (request_references p r)
             | LinkMixReq ids \<Rightarrow> add_mixes ids (request_references p r)
             | _ \<Rightarrow> request_references p r))"

record read_stamp =
  st_owner :: int
  st_epoch :: nat
  st_revision :: nat

definition stamp :: "projection_read \<Rightarrow> int \<Rightarrow> read_stamp" where
  "stamp snapshot owner =
     \<lparr>st_owner = owner, st_epoch = (case pj_epochs snapshot owner of None \<Rightarrow> 0 | Some e \<Rightarrow> e), st_revision = pj_revision snapshot\<rparr>"

record song_update =
  su_id :: int
  su_stamp :: read_stamp
  su_name :: string
  su_sort_name :: "string option"
  su_track_number :: int
  su_disc_number :: int
  su_duration :: int
  su_can_play :: bool
  su_publish_time :: "int option"
  su_popularity :: "64 word"
  su_tags :: "string list"
  su_album :: "int option"
  su_artists :: "int list"
  su_favorite :: bool

record album_update =
  au_id :: int
  au_stamp :: read_stamp
  au_name :: string
  au_sort_name :: "string option"
  au_type :: int
  au_duration :: int
  au_track_count :: int
  au_disc_count :: int
  au_description :: "string option"
  au_company :: "string option"
  au_language :: "string option"
  au_publish_time :: "int option"
  au_added_at :: "int option"
  au_artists :: "int list"
  au_favorite :: bool

record artist_update =
  ru_id :: int
  ru_stamp :: read_stamp
  ru_name :: string
  ru_sort_name :: "string option"
  ru_description :: string
  ru_album_count :: int
  ru_music_count :: int
  ru_added_at :: "int option"
  ru_favorite :: bool

record mix_update =
  mu_id :: int
  mu_stamp :: read_stamp
  mu_name :: string
  mu_sort_name :: "string option"
  mu_track_count :: int
  mu_description :: string
  mu_type :: int
  mu_update_at :: int

record removal =
  rv_id :: int
  rv_type :: item_type
  rv_stamp :: read_stamp

record entity_batch =
  eb_protocol :: nat
  eb_instance :: string
  eb_songs :: "song_update list"
  eb_albums :: "album_update list"
  eb_artists :: "artist_update list"
  eb_mixes :: "mix_update list"
  eb_removals :: "removal list"
  eb_invalidations :: "int \<rightharpoonup> read_stamp"

definition PROTOCOL :: nat where "PROTOCOL = 2"

definition empty_batch :: "projection_read \<Rightarrow> entity_batch" where
  "empty_batch snapshot = \<lparr>eb_protocol = PROTOCOL, eb_instance = pj_instance snapshot, eb_songs = [], eb_albums = [], eb_artists = [],
     eb_mixes = [], eb_removals = [], eb_invalidations = (\<lambda>owner. map_option (\<lambda>_. stamp snapshot owner) (pj_epochs snapshot owner))\<rparr>"

text \<open>The closures \<^verbatim>\<open>owner\<close> and \<^verbatim>\<open>state\<close>, over the maps collected from the items and the dynamic rows.\<close>

definition owner_of :: "item_row list \<Rightarrow> int \<Rightarrow> int result" where
  "owner_of items i = ok_or (map_of (rev (map (\<lambda>it. (it_id it, it_provider it)) items)) i) ''not found''"

definition favorite_of :: "dynamic_row list \<Rightarrow> int \<Rightarrow> bool" where
  "favorite_of rows i = (case map_of (rev (map (\<lambda>m. (dy_id m, dy_favorite_at m \<noteq> None)) rows)) i of None \<Rightarrow> False | Some b \<Rightarrow> b)"

definition credits :: "rel_row list \<Rightarrow> int \<Rightarrow> int list" where
  "credits rels i = map rl_artist (filter (\<lambda>r. rl_owner r = i) rels)"

definition song_update_of :: "projection_read \<Rightarrow> item_row list \<Rightarrow> dynamic_row list \<Rightarrow> rel_row list \<Rightarrow> song_row \<Rightarrow> song_update result" where
  "song_update_of snapshot items dynamics rels song = and_then (owner_of items (so_id song)) (\<lambda>owner. Inr
     \<lparr>su_id = so_id song, su_stamp = stamp snapshot owner, su_name = so_name song, su_sort_name = so_sort_name song,
       su_track_number = so_track_number song, su_disc_number = so_disc_number song, su_duration = so_duration song,
       su_can_play = so_can_play song, su_publish_time = so_publish_time song, su_popularity = so_popularity song,
       su_tags = List.map_filter as_str (concat (optionally (as_array (so_tags song)))), su_album = so_album song,
       su_artists = credits rels (so_id song), su_favorite = favorite_of dynamics (so_id song)\<rparr>)"

definition album_update_of :: "projection_read \<Rightarrow> item_row list \<Rightarrow> dynamic_row list \<Rightarrow> rel_row list \<Rightarrow> album_row \<Rightarrow> album_update result" where
  "album_update_of snapshot items dynamics rels album = and_then (owner_of items (al_id album)) (\<lambda>owner. Inr
     \<lparr>au_id = al_id album, au_stamp = stamp snapshot owner, au_name = al_name album, au_sort_name = al_sort_name album,
       au_type = album_code (al_type album), au_duration = al_duration album, au_track_count = al_track_count album,
       au_disc_count = al_disc_count album, au_description = al_description album, au_company = al_company album,
       au_language = al_language album, au_publish_time = al_publish_time album, au_added_at = al_added_at album,
       au_artists = credits rels (al_id album), au_favorite = favorite_of dynamics (al_id album)\<rparr>)"

definition artist_update_of :: "projection_read \<Rightarrow> item_row list \<Rightarrow> dynamic_row list \<Rightarrow> artist_row \<Rightarrow> artist_update result" where
  "artist_update_of snapshot items dynamics artist = and_then (owner_of items (ar_id artist)) (\<lambda>owner. Inr
     \<lparr>ru_id = ar_id artist, ru_stamp = stamp snapshot owner, ru_name = ar_name artist, ru_sort_name = ar_sort_name artist,
       ru_description = ar_description artist, ru_album_count = ar_album_count artist, ru_music_count = ar_music_count artist,
       ru_added_at = ar_added_at artist, ru_favorite = favorite_of dynamics (ar_id artist)\<rparr>)"

definition mix_update_of :: "projection_read \<Rightarrow> mix_row \<Rightarrow> mix_update" where
  "mix_update_of snapshot mix =
     \<lparr>mu_id = mx_id mix, mu_stamp = stamp snapshot 0, mu_name = mx_name mix, mu_sort_name = mx_sort_name mix,
       mu_track_count = mx_track_count mix, mu_description = mx_description mix, mu_type = mix_code (mx_type mix),
       mu_update_at = mx_update mix\<rparr>"

primrec each_result :: "('a \<Rightarrow> 'b result) \<Rightarrow> 'a list \<Rightarrow> 'b list result" where
  "each_result f [] = Inr []"
| "each_result f (x # xs) = and_then (f x) (\<lambda>y. and_then (each_result f xs) (\<lambda>ys. Inr (y # ys)))"

definition removed :: "projection_read \<Rightarrow> item_type \<Rightarrow> int list \<Rightarrow> removal list" where
  "removed snapshot kind ids = map (\<lambda>i. \<lparr>rv_id = i, rv_type = kind, rv_stamp = stamp snapshot 0\<rparr>) ids"

definition without :: "int list \<Rightarrow> int list \<Rightarrow> int list" where
  "without found ids = filter (\<lambda>i. i \<notin> set found) ids"

definition populate_at :: "payload option \<Rightarrow> payload option \<Rightarrow> projection_read \<Rightarrow> entity_batch op" where
  "populate_at request response snapshot =
     (let r = all_references request response; batch = empty_batch snapshot in
      if rf_songs r = [] \<and> rf_albums r = [] \<and> rf_artists r = [] \<and> rf_mixes r = [] then ret batch
      else
        bnd (select (\<lambda>d. filter (\<lambda>m. so_id m \<in> set (rf_songs r)) (ct_songs d))) (\<lambda>songs.
        let r = add_albums (concat (map (optionally \<circ> so_album) songs)) r in
        bnd (select (\<lambda>d. sort_key rl_id (filter (\<lambda>m. rl_owner m \<in> set (rf_songs r)) (ct_song_artists d)))) (\<lambda>song_artists.
        bnd (select (\<lambda>d. sort_key rl_id (filter (\<lambda>m. rl_owner m \<in> set (rf_albums r)) (ct_album_artists d)))) (\<lambda>album_artists.
        let r = add_artists (map rl_artist album_artists) (add_artists (map rl_artist song_artists) r) in
        bnd (select (\<lambda>d. filter (\<lambda>m. al_id m \<in> set (rf_albums r)) (ct_albums d))) (\<lambda>albums.
        bnd (select (\<lambda>d. filter (\<lambda>m. ar_id m \<in> set (rf_artists r)) (ct_artists d))) (\<lambda>artists.
        bnd (select (\<lambda>d. filter (\<lambda>m. mx_id m \<in> set (rf_mixes r)) (ct_mixes d))) (\<lambda>mixes.
        let ids = rf_songs r @ rf_albums r @ rf_artists r in
        bnd (select (\<lambda>d. filter (\<lambda>m. it_id m \<in> set ids) (ct_items d))) (\<lambda>items.
        bnd (select (\<lambda>d. filter (\<lambda>m. dy_id m \<in> set ids) (ct_dynamics d))) (\<lambda>dynamics.
        bnd (lift (each_result (song_update_of snapshot items dynamics song_artists) songs)) (\<lambda>song_updates.
        bnd (lift (each_result (album_update_of snapshot items dynamics album_artists) albums)) (\<lambda>album_updates.
        bnd (lift (each_result (artist_update_of snapshot items dynamics) artists)) (\<lambda>artist_updates.
        ret (batch\<lparr>eb_songs := song_updates, eb_albums := album_updates, eb_artists := artist_updates,
          eb_mixes := map (mix_update_of snapshot) mixes,
          eb_removals := removed snapshot Song (without (map so_id songs) (rf_songs r))
            @ removed snapshot Album (without (map al_id albums) (rf_albums r))
            @ removed snapshot Artist (without (map ar_id artists) (rf_artists r))
            @ removed snapshot Mix (without (map mx_id mixes) (rf_mixes r))\<rparr>)))))))))))))"

text \<open>\<^verbatim>\<open>query\<close> answers a request for data, \<^verbatim>\<open>populate\<close> adds the entities to the response of another request.\<close>

definition entity_query :: "(payload \<Rightarrow> payload option op) \<Rightarrow> payload \<Rightarrow> (payload option \<times> entity_batch) op" where
  "entity_query execute request =
     bnd read_snapshot (\<lambda>snapshot.
     in_txn (bnd (execute request) (\<lambda>response.
       bnd (populate_at (Some request) response snapshot) (\<lambda>batch.
       ret (response, batch)))))"

definition populate :: "payload option \<Rightarrow> payload option \<Rightarrow> entity_batch op" where
  "populate request response = bnd read_snapshot (\<lambda>snapshot. in_txn (populate_at request response snapshot))"

subsection \<open>What a batch holds\<close>







lemma set_extend_ids [simp]: "set (extend_ids xs s) = set xs \<union> set s"
  by (induction xs arbitrary: s) (auto simp: extend_ids_def set_insort_insert)



lemma add_fields [simp]:
  "rf_songs (add_songs xs r) = extend_ids xs (rf_songs r)" "rf_albums (add_songs xs r) = rf_albums r"
  "rf_artists (add_songs xs r) = rf_artists r" "rf_mixes (add_songs xs r) = rf_mixes r"
  "rf_songs (add_albums xs r) = rf_songs r" "rf_albums (add_albums xs r) = extend_ids xs (rf_albums r)"
  "rf_artists (add_albums xs r) = rf_artists r" "rf_mixes (add_albums xs r) = rf_mixes r"
  "rf_songs (add_artists xs r) = rf_songs r" "rf_albums (add_artists xs r) = rf_albums r"
  "rf_artists (add_artists xs r) = extend_ids xs (rf_artists r)" "rf_mixes (add_artists xs r) = rf_mixes r"
  by (simp_all add: add_songs_def add_albums_def add_artists_def)










lemma song_updates: "song_update_of snapshot items dynamics rels m = Inr u \<Longrightarrow>
    su_id u = so_id m \<and> su_album u = so_album m \<and> su_artists u = credits rels (so_id m)
    \<and> (\<exists>owner. owner_of items (so_id m) = Inr owner \<and> su_stamp u = stamp snapshot owner)"
  by (auto simp: song_update_of_def and_then_Inr_iff)

lemma album_updates: "album_update_of snapshot items dynamics rels m = Inr u \<Longrightarrow>
    au_id u = al_id m \<and> au_artists u = credits rels (al_id m)
    \<and> (\<exists>owner. owner_of items (al_id m) = Inr owner \<and> au_stamp u = stamp snapshot owner)"
  by (auto simp: album_update_of_def and_then_Inr_iff)

lemma artist_updates: "artist_update_of snapshot items dynamics m = Inr u \<Longrightarrow>
    ru_id u = ar_id m \<and> (\<exists>owner. owner_of items (ar_id m) = Inr owner \<and> ru_stamp u = stamp snapshot owner)"
  by (auto simp: artist_update_of_def and_then_Inr_iff)







lemma withdrawn_removed [simp]:
  "map rv_id (filter (\<lambda>x. rv_type x = k) (removed snapshot k' ids)) = (if k = k' then ids else [])"
  by (cases "k = k'") (simp_all add: removed_def filter_map comp_def)
















subsection \<open>Concrete inputs\<close>






end
