(* ===== verification/Playback.thy ===== *)
theory Playback
  imports Text "HOL-Library.AList" "HOL-Library.Multiset"
begin

section \<open>Playback sessions\<close>

text \<open>
  \<^verbatim>\<open>src/backend/main/src/playback.rs\<close>: a song that a provider streams as a playlist is opened at the provider, served under
  \<^verbatim>\<open>/playback/<token>\<close> and closed at the provider when it is no longer used.

  The first part is the routing: a request is told apart by its path and method, and the URL of a resource is mapped to a local
  path and back. A \<open>url\<close> holds what the accessors of the library's \<^verbatim>\<open>Url\<close> return (the port with the default of its scheme);
  its path has no question mark. \<^verbatim>\<open>Url::parse\<close> is a parameter.

  The second part is the table of sessions as a machine. A session is known by the number of its \<^verbatim>\<open>Arc\<close>. A request that opens a
  playback goes through the phases between its awaits (\<open>Permit\<close>, \<open>Opened\<close>, \<open>Prepared\<close>, \<open>Insert\<close>), and it can be dropped in each of
  them when the client closes its connection (\<open>Gone\<close>). Cleanup tasks end at any time. Requests on a
  session that was inserted are the steps \<open>Get\<close> to \<open>Taken\<close>. Time is in milliseconds. What the cache does
  with a resource is not part of this theory.
\<close>

definition MAX_PLAYBACKS :: nat where "MAX_PLAYBACKS = 16"
definition IDLE :: nat where "IDLE = 120 * 1000"

record url =
  ur_scheme :: string
  ur_username :: string
  ur_password :: "string option"
  ur_host :: "string option"
  ur_port :: "nat option"
  ur_path :: string
  ur_query :: "string option"
  ur_fragment :: "string option"

definition same_origin :: "url \<Rightarrow> url \<Rightarrow> bool" where
  "same_origin a b \<longleftrightarrow> ur_scheme a = ur_scheme b \<and> ur_host a = ur_host b \<and> ur_port a = ur_port b"

datatype playback_kind = ByteResource | HlsVod

record prepared_playback =
  pp_kind :: playback_kind
  pp_uri :: string
  pp_representation :: string
  pp_state :: string

record playback_session =
  pb_token :: string
  pb_provider :: nat
  pb_epoch :: nat
  pb_source :: prepared_playback
  pb_valid :: bool
  pb_touched :: nat
  pb_origins :: "url list"
  pb_prepared :: "(string \<times> nat) list"
  pb_redirects :: "(string \<times> nat) list"

subsection \<open>Routes\<close>

definition position :: "('a \<Rightarrow> bool) \<Rightarrow> 'a list \<Rightarrow> nat option" where
  "position p xs = find (\<lambda>i. p (xs ! i)) [0..<length xs]"

definition NOT_FOUND :: string where "NOT_FOUND = ''not found''"
definition NOT_AUTH :: string where "NOT_AUTH = ''not authenticated''"

definition route :: "url \<Rightarrow> playback_session \<Rightarrow> string result \<times> playback_session" where
  "route uri s =
     (if ur_scheme uri \<notin> {''http'', ''https''} \<or> ur_username uri \<noteq> [] \<or> ur_password uri \<noteq> None \<or> ur_fragment uri \<noteq> None
      then (Inl NOT_FOUND, s)
      else
        let place = (\<lambda>index. ''/playback/'' @ pb_token s @ ''/r/'' @ show_nat index @ ur_path uri
              @ (case ur_query uri of None \<Rightarrow> [] | Some q \<Rightarrow> ''?'' @ q))
        in case position (\<lambda>o'. same_origin o' uri) (pb_origins s) of
             Some i \<Rightarrow> (Inr (place i), s)
           | None \<Rightarrow>
               if length (pb_origins s) \<ge> 8 then (Inl ''playback origin limit'', s)
               else (Inr (place (length (pb_origins s))), s\<lparr>pb_origins := pb_origins s @ [uri]\<rparr>))"

datatype http_method = GET | HEAD | POST | OtherMethod

datatype playback_request = OpenSong int | CloseSession string | TouchSession string | ResolveUri string | Fetch string nat

text \<open>The branches of \<^verbatim>\<open>handle\<close>; \<^verbatim>\<open>parse_i64\<close> reads the number of a song.\<close>

definition playback_action :: "(string \<Rightarrow> int option) \<Rightarrow> http_method \<Rightarrow> string \<Rightarrow> playback_request result" where
  "playback_action parse_i64 method path =
     (let parts = drop 1 (split_on (\<lambda>c. c = CHR ''/'') path) in
      if length parts = 4 \<and> take 3 parts = [''playback'', ''source'', ''Song''] then
        if method \<noteq> POST then Inl NOT_FOUND
        else and_then (ok_or (parse_i64 (parts ! 3)) NOT_FOUND) (\<lambda>n. Inr (OpenSong n))
      else if length parts < 2 then Inl NOT_FOUND
      else
        let token = parts ! 1; verb = (if length parts < 3 then None else Some (parts ! 2)) in
        if verb = Some ''close'' \<and> method = POST then Inr (CloseSession token)
        else if verb = Some ''touch'' \<and> method = POST then Inr (TouchSession token)
        else if verb = Some ''resolve'' \<and> method = POST then Inr (ResolveUri token)
        else if verb \<noteq> Some ''r'' \<or> length parts < 5 \<or> method \<notin> {GET, HEAD} then Inl NOT_FOUND
        else and_then (ok_or (parse_u64 (parts ! 3)) NOT_FOUND) (\<lambda>index. Inr (Fetch token index)))"

text \<open>The URL of the resource that a \<open>Fetch\<close> asks for.\<close>

definition resource_url :: "string \<Rightarrow> nat \<Rightarrow> string \<Rightarrow> string option \<Rightarrow> playback_session \<Rightarrow> url result" where
  "resource_url token index path query s =
     and_then (ok_or (if index < length (pb_origins s) then Some (pb_origins s ! index) else None) NOT_FOUND) (\<lambda>uri.
     and_then (ok_or (strip_prefix (''/playback/'' @ token @ ''/r/'' @ show_nat index) path) NOT_FOUND) (\<lambda>rest.
     Inr (uri\<lparr>ur_path := rest, ur_query := query\<rparr>)))"

text \<open>The path and the query of a request target.\<close>

definition target_path :: "string \<Rightarrow> string" where
  "target_path t = takeWhile (\<lambda>c. c \<noteq> CHR ''?'') t"

definition target_query :: "string \<Rightarrow> string option" where
  "target_query t = map_option snd (split_once (CHR ''?'') t)"

subsection \<open>The table of sessions\<close>

record playback_state =
  pl_sessions :: "(string \<times> nat) list"
  pl_store :: "nat \<Rightarrow> playback_session"
  pl_next :: nat
  pl_waiting :: nat
  pl_opening :: "nat list"
  pl_ready :: "nat list"
  pl_closing :: "(int option \<times> nat) list"
  pl_cleaning :: "nat list"
  pl_cleaned :: "nat list"
  pl_stopping :: bool
  pl_permits :: nat
  pl_epochs :: "nat \<Rightarrow> nat"
  pl_ids :: "nat \<Rightarrow> int option"
  pl_now :: nat
  pl_closes :: "nat list"
  pl_started :: "nat list"
  pl_abandoned :: "nat list"

definition upd_playback :: "nat \<Rightarrow> (playback_session \<Rightarrow> playback_session) \<Rightarrow> playback_state \<Rightarrow> playback_state" where
  "upd_playback h f p = p\<lparr>pl_store := (pl_store p)(h := f (pl_store p h))\<rparr>"

definition playback_valid :: "nat \<Rightarrow> playback_state \<Rightarrow> bool" where
  "playback_valid h p \<longleftrightarrow> pb_valid (pl_store p h) \<and> pb_epoch (pl_store p h) = pl_epochs p (pb_provider (pl_store p h))"

text \<open>\<^verbatim>\<open>prepare\<close> up to the call of the provider: \<open>None\<close> when the provider has to be asked. Its answer is the value of the rest.\<close>

definition prepare_start :: "nat \<Rightarrow> string \<Rightarrow> playback_state \<Rightarrow> nat option result \<times> playback_state" where
  "prepare_start h uri p =
     (if \<not> playback_valid h p then (Inl NOT_AUTH, p)
      else case map_of (pb_prepared (pl_store p h)) uri of
          Some r \<Rightarrow> (Inr (Some r), upd_playback h (\<lambda>s. s\<lparr>pb_prepared := AList.delete uri (pb_prepared s)\<rparr>) p)
        | None \<Rightarrow> (Inr None, p))"

definition route_session :: "nat \<Rightarrow> url \<Rightarrow> playback_state \<Rightarrow> string result \<times> playback_state" where
  "route_session h uri p = (case route uri (pl_store p h) of (r, s) \<Rightarrow> (r, upd_playback h (\<lambda>_. s) p))"

text \<open>\<^verbatim>\<open>resolve\<close> after \<^verbatim>\<open>prepare\<close>: the resource waits under the URL until it is fetched.\<close>

definition resolve_uri :: "(url \<Rightarrow> string) \<Rightarrow> nat \<Rightarrow> url \<Rightarrow> nat \<Rightarrow> playback_state \<Rightarrow> string result \<times> playback_state" where
  "resolve_uri show_url h uri resource p =
     (case route_session h uri p of
        (Inl e, p) \<Rightarrow> (Inl e, p)
      | (Inr place, p) \<Rightarrow> (Inr place, upd_playback h (\<lambda>s.
          let pending = (if length (pb_prepared s) \<ge> 16 then [] else pb_prepared s)
          in s\<lparr>pb_prepared := AList.update (show_url uri) resource pending\<rparr>) p))"

text \<open>A response from another URL than the one asked for is kept under the route of that URL, and the client is redirected.\<close>

definition offer_redirect :: "nat \<Rightarrow> url \<Rightarrow> string \<Rightarrow> playback_state \<Rightarrow> string result \<times> playback_state" where
  "offer_redirect h effective wanted p =
     (case route_session h effective p of
        (Inl e, p) \<Rightarrow> (Inl e, p)
      | (Inr place, p) \<Rightarrow>
          let pending = filter (\<lambda>r. pl_now p - snd r < 15 * 1000) (pb_redirects (pl_store p h)) in
          if length pending \<ge> 4 then (Inl ''playback redirect limit'', upd_playback h (\<lambda>s. s\<lparr>pb_redirects := pending\<rparr>) p)
          else (Inr place, upd_playback h (\<lambda>s. s\<lparr>pb_redirects := AList.update (place @ '':'' @ wanted) (pl_now p) pending\<rparr>) p))"

definition take_redirect :: "nat \<Rightarrow> string \<Rightarrow> playback_state \<Rightarrow> nat option \<times> playback_state" where
  "take_redirect h key p =
     (map_of (pb_redirects (pl_store p h)) key, upd_playback h (\<lambda>s. s\<lparr>pb_redirects := AList.delete key (pb_redirects s)\<rparr>) p)"

definition session_get :: "string \<Rightarrow> playback_state \<Rightarrow> nat result \<times> playback_state" where
  "session_get token p =
     (case map_of (pl_sessions p) token of
        None \<Rightarrow> (Inl NOT_FOUND, p)
      | Some h \<Rightarrow> if playback_valid h p then (Inr h, upd_playback h (\<lambda>s. s\<lparr>pb_touched := pl_now p\<rparr>) p) else (Inl NOT_AUTH, p))"

text \<open>\<^verbatim>\<open>schedule_close\<close>; \<open>pl_started\<close> records the cleanup tasks it spawned.\<close>

definition schedule_close :: "nat \<Rightarrow> playback_state \<Rightarrow> playback_state" where
  "schedule_close h p =
     (if \<not> pb_valid (pl_store p h) then p
      else (upd_playback h (\<lambda>s. s\<lparr>pb_valid := False\<rparr>) p)\<lparr>
        pl_closing := filter (\<lambda>c. snd c \<in> set (pl_cleaning p)) (pl_closing p) @ [(pl_ids p (pb_provider (pl_store p h)), h)],
        pl_cleaning := pl_cleaning p @ [h], pl_started := pl_started p @ [h]\<rparr>)"

definition finish_closing :: "int option \<Rightarrow> playback_state \<Rightarrow> nat list \<times> playback_state" where
  "finish_closing provider p =
     (let chosen = (\<lambda>c. provider = None \<or> fst c = provider) in
      (map snd (filter chosen (pl_closing p)), p\<lparr>pl_closing := filter (\<lambda>c. \<not> chosen c) (pl_closing p)\<rparr>))"

primrec attempts :: "nat \<Rightarrow> bool list \<Rightarrow> nat" where
  "attempts 0 results = 0"
| "attempts (Suc n) results = 1 + (case results of [] \<Rightarrow> attempts n [] | ok # rest \<Rightarrow> if ok then 0 else attempts n rest)"

definition cleanup :: "nat \<Rightarrow> bool list \<Rightarrow> playback_state \<Rightarrow> playback_state" where
  "cleanup h results p =
     (upd_playback h (\<lambda>s. s\<lparr>pb_prepared := [], pb_redirects := []\<rparr>) p)\<lparr>pl_closes := pl_closes p @ replicate (attempts 3 results) h,
       pl_cleaning := remove1 h (pl_cleaning p), pl_cleaned := h # pl_cleaned p\<rparr>"

definition take_playback :: "string \<Rightarrow> playback_state \<Rightarrow> playback_state" where
  "take_playback token p =
     (case map_of (pl_sessions p) token of
        None \<Rightarrow> p
      | Some h \<Rightarrow> schedule_close h (p\<lparr>pl_sessions := AList.delete token (pl_sessions p)\<rparr>))"

definition playback_invalidate :: "int \<Rightarrow> playback_state \<Rightarrow> nat list \<times> playback_state" where
  "playback_invalidate provider p =
     finish_closing (Some provider)
       (fold take_playback (map fst (filter (\<lambda>(t, h). pl_ids p (pb_provider (pl_store p h)) = Some provider) (pl_sessions p))) p)"

definition playback_shutdown :: "playback_state \<Rightarrow> nat list \<times> playback_state" where
  "playback_shutdown p = finish_closing None (fold take_playback (map fst (pl_sessions p)) (p\<lparr>pl_stopping := True\<rparr>))"

text \<open>One session of \<^verbatim>\<open>collect\<close>: an idle or invalid one is closed, the redirects of another one are limited in age.\<close>

definition collect_session :: "nat \<Rightarrow> playback_state \<Rightarrow> playback_state" where
  "collect_session h p =
     (if \<not> playback_valid h p \<or> pl_now p - pb_touched (pl_store p h) > IDLE then take_playback (pb_token (pl_store p h)) p
      else upd_playback h (\<lambda>s. s\<lparr>pb_redirects := filter (\<lambda>r. pl_now p - snd r < 15 * 1000) (pb_redirects s)\<rparr>) p)"

subsection \<open>Opening a playback\<close>

definition session_new :: "string \<Rightarrow> nat \<Rightarrow> nat \<Rightarrow> prepared_playback \<Rightarrow> nat \<Rightarrow> playback_session" where
  "session_new token provider epoch source at =
     \<lparr>pb_token = token, pb_provider = provider, pb_epoch = epoch, pb_source = source, pb_valid = True, pb_touched = at,
      pb_origins = [], pb_prepared = [], pb_redirects = []\<rparr>"

definition acquire :: "playback_state \<Rightarrow> unit result \<times> playback_state" where
  "acquire p =
     (if pl_stopping p \<or> pl_permits p \<ge> MAX_PLAYBACKS then (Inl ''playback session limit'', p)
      else (Inr (), p\<lparr>pl_permits := pl_permits p + 1, pl_waiting := pl_waiting p + 1\<rparr>))"

definition release_permit :: "playback_state \<Rightarrow> playback_state" where
  "release_permit p = p\<lparr>pl_permits := pl_permits p - 1\<rparr>"

definition opened :: "(string \<Rightarrow> url option) \<Rightarrow> string \<Rightarrow> nat \<Rightarrow> nat \<Rightarrow> prepared_playback result \<Rightarrow> playback_state \<Rightarrow> playback_state" where
  "opened parse_url token provider epoch answer p =
     (let p = p\<lparr>pl_waiting := pl_waiting p - 1\<rparr> in
      case answer of
        Inl _ \<Rightarrow> release_permit p
      | Inr source \<Rightarrow>
          if pp_kind source = ByteResource then release_permit p
          else
            let h = pl_next p;
                p = p\<lparr>pl_store := (pl_store p)(h := session_new token provider epoch source (pl_now p)), pl_next := h + 1\<rparr>
            in if \<not> playback_valid h p \<or> parse_url (pp_uri source) = None then schedule_close h p
               else p\<lparr>pl_opening := h # pl_opening p\<rparr>)"

definition prepared_first :: "(string \<Rightarrow> url option) \<Rightarrow> (url \<Rightarrow> string) \<Rightarrow> nat result \<Rightarrow> nat \<Rightarrow> playback_state \<Rightarrow> unit result \<times> playback_state" where
  "prepared_first parse_url show_url answer h p =
     (case parse_url (pp_uri (pb_source (pl_store p h))) of
        None \<Rightarrow> (Inl NOT_FOUND, p)
      | Some uri \<Rightarrow> (case answer of
          Inl e \<Rightarrow> (Inl e, p)
        | Inr r \<Rightarrow> (case route_session h uri p of
            (Inl e, p) \<Rightarrow> (Inl e, p)
          | (Inr _, p) \<Rightarrow> (Inr (), upd_playback h (\<lambda>s. s\<lparr>pb_prepared := AList.update (show_url uri) r (pb_prepared s)\<rparr>) p))))"

definition register_session :: "nat \<Rightarrow> playback_state \<Rightarrow> unit result \<times> playback_state" where
  "register_session h p =
     (if pl_stopping p then (Inl NOT_FOUND, p)
      else if length (pl_sessions p) \<ge> MAX_PLAYBACKS then (Inl ''playback session limit'', p)
      else (Inr (), p\<lparr>pl_sessions := AList.update (pb_token (pl_store p h)) h (pl_sessions p)\<rparr>))"

text \<open>An error after the session was made schedules its close.\<close>

definition or_close :: "nat \<Rightarrow> (nat \<Rightarrow> playback_state \<Rightarrow> playback_state) \<Rightarrow> unit result \<times> playback_state \<Rightarrow> playback_state" where
  "or_close h next_phase rp = (case rp of (Inl _, p) \<Rightarrow> schedule_close h p | (Inr _, p) \<Rightarrow> next_phase h p)"

subsection \<open>The machine\<close>

datatype playback_event =
    Permit
  | Opened string nat nat "prepared_playback result"
  | Prepared nat "nat result"
  | Insert nat
  | Gone nat
  | GoneWaiting
  | Close string
  | Get string
  | Start nat string
  | Resolved nat url nat
  | Redirected nat url string
  | Taken nat string
  | Collect nat
  | Invalidate int
  | Shutdown
  | Cleaned nat "bool list"
  | Released nat
  | Renewed nat
  | Elapsed nat

definition playback_step :: "(string \<Rightarrow> url option) \<Rightarrow> (url \<Rightarrow> string) \<Rightarrow> playback_event \<Rightarrow> playback_state \<Rightarrow> playback_state option" where
  "playback_step parse_url show_url a p = (case a of
      Permit \<Rightarrow> Some (snd (acquire p))
    | Opened token provider epoch answer \<Rightarrow>
        if pl_waiting p > 0 \<and> token \<notin> pb_token ` pl_store p ` {..<pl_next p} then Some (opened parse_url token provider epoch answer p) else None
    | Prepared h answer \<Rightarrow>
        if h \<in> set (pl_opening p)
        then Some (or_close h (\<lambda>h p. p\<lparr>pl_ready := h # pl_ready p\<rparr>)
          (prepared_first parse_url show_url answer h (p\<lparr>pl_opening := remove1 h (pl_opening p)\<rparr>)))
        else None
    | Insert h \<Rightarrow>
        if h \<in> set (pl_ready p)
        then Some (or_close h (\<lambda>_ p. p) (register_session h (p\<lparr>pl_ready := remove1 h (pl_ready p)\<rparr>)))
        else None
    | Gone h \<Rightarrow>
        if h \<in> set (pl_opening p @ pl_ready p)
        then Some (release_permit (p\<lparr>pl_opening := remove1 h (pl_opening p), pl_ready := remove1 h (pl_ready p),
          pl_abandoned := h # pl_abandoned p\<rparr>))
        else None
    | GoneWaiting \<Rightarrow> if pl_waiting p > 0 then Some (release_permit (p\<lparr>pl_waiting := pl_waiting p - 1\<rparr>)) else None
    | Close token \<Rightarrow> Some (take_playback token p)
    | Get token \<Rightarrow> Some (snd (session_get token p))
    | Start h uri \<Rightarrow> if h < pl_next p \<and> h \<notin> set (pl_opening p @ pl_ready p) then Some (snd (prepare_start h uri p)) else None
    | Resolved h uri resource \<Rightarrow> if h < pl_next p \<and> h \<notin> set (pl_opening p @ pl_ready p) then Some (snd (resolve_uri show_url h uri resource p)) else None
    | Redirected h uri wanted \<Rightarrow> if h < pl_next p \<and> h \<notin> set (pl_opening p @ pl_ready p) then Some (snd (offer_redirect h uri wanted p)) else None
    | Taken h key \<Rightarrow> if h < pl_next p \<and> h \<notin> set (pl_opening p @ pl_ready p) then Some (snd (take_redirect h key p)) else None
    | Collect h \<Rightarrow> if h \<in> snd ` set (pl_sessions p) then Some (collect_session h p) else None
    | Invalidate provider \<Rightarrow> Some (snd (playback_invalidate provider p))
    | Shutdown \<Rightarrow> Some (snd (playback_shutdown p))
    | Cleaned h results \<Rightarrow> if h \<in> set (pl_cleaning p) then Some (cleanup h results p) else None
    | Released h \<Rightarrow>
        if h \<in> set (pl_cleaned p) then Some (release_permit (p\<lparr>pl_cleaned := remove1 h (pl_cleaned p)\<rparr>)) else None
    | Renewed provider \<Rightarrow> Some (p\<lparr>pl_epochs := (pl_epochs p)(provider := pl_epochs p provider + 1)\<rparr>)
    | Elapsed n \<Rightarrow> Some (p\<lparr>pl_now := pl_now p + n\<rparr>))"

fun run_playback :: "(string \<Rightarrow> url option) \<Rightarrow> (url \<Rightarrow> string) \<Rightarrow> playback_event list \<Rightarrow> playback_state \<Rightarrow> playback_state option" where
  "run_playback parse_url show_url [] p = Some p"
| "run_playback parse_url show_url (a # as) p =
     (case playback_step parse_url show_url a p of None \<Rightarrow> None | Some p' \<Rightarrow> run_playback parse_url show_url as p')"

definition playback_default :: playback_state where
  "playback_default = \<lparr>pl_sessions = [], pl_store = (\<lambda>_. session_new [] 0 0 \<lparr>pp_kind = ByteResource, pp_uri = [], pp_representation = [], pp_state = []\<rparr> 0),
     pl_next = 0, pl_waiting = 0, pl_opening = [], pl_ready = [], pl_closing = [], pl_cleaning = [], pl_cleaned = [],
     pl_stopping = False, pl_permits = 0, pl_epochs = (\<lambda>_. 0), pl_ids = (\<lambda>_. None), pl_now = 0, pl_closes = [], pl_started = [],
     pl_abandoned = []\<rparr>"

subsection \<open>A route leads back to its URL\<close>

definition clean_url :: "url \<Rightarrow> bool" where
  "clean_url u \<longleftrightarrow> ur_scheme u \<in> {''http'', ''https''} \<and> ur_username u = [] \<and> ur_password u = None \<and> ur_fragment u = None"

lemma position_Some: "position p xs = Some i \<Longrightarrow> i < length xs \<and> p (xs ! i)"
  by (auto simp: position_def find_Some_iff)

lemma route_Inr:
  assumes "route uri s = (Inr place, s')" and "list_all clean_url (pb_origins s)" and "length (pb_origins s) \<le> 8"
  obtains i where "place = ''/playback/'' @ pb_token s @ ''/r/'' @ show_nat i @ ur_path uri @ (case ur_query uri of None \<Rightarrow> [] | Some q \<Rightarrow> ''?'' @ q)"
    and "i < 8" "i < length (pb_origins s')" "same_origin (pb_origins s' ! i) uri" "clean_url (pb_origins s' ! i)" "clean_url uri"
proof -
  have clean: "clean_url uri" using assms(1) by (auto simp: route_def clean_url_def Let_def split: if_splits)
  show ?thesis
  proof (cases "position (\<lambda>o'. same_origin o' uri) (pb_origins s)")
    case (Some i)
    with assms(1) clean have "s' = s" "place = ''/playback/'' @ pb_token s @ ''/r/'' @ show_nat i @ ur_path uri @ (case ur_query uri of None \<Rightarrow> [] | Some q \<Rightarrow> ''?'' @ q)"
      by (auto simp: route_def clean_url_def Let_def)
    moreover have "i < length (pb_origins s)" "same_origin (pb_origins s ! i) uri" using position_Some [OF Some] by simp_all
    ultimately show ?thesis using that [of i] assms(2,3) clean by (simp add: list_all_length)
  next
    case None
    with assms(1) clean have *: "length (pb_origins s) < 8" "s' = s\<lparr>pb_origins := pb_origins s @ [uri]\<rparr>"
        "place = ''/playback/'' @ pb_token s @ ''/r/'' @ show_nat (length (pb_origins s)) @ ur_path uri @ (case ur_query uri of None \<Rightarrow> [] | Some q \<Rightarrow> ''?'' @ q)"
      by (auto simp: route_def clean_url_def Let_def split: if_splits)
    with that [of "length (pb_origins s)"] clean show ?thesis by (simp add: same_origin_def)
  qed
qed

lemma split_on_prefix:
  "\<forall>c \<in> set w. c \<noteq> x \<Longrightarrow> split_on (\<lambda>c. c = x) (w @ x # t) = w # split_on (\<lambda>c. c = x) t"
  by (rule split_on_append) simp_all

lemma show_nat_no_slash: "c \<in> set (show_nat n) \<Longrightarrow> c \<noteq> CHR ''/'' \<and> c \<noteq> CHR ''?''"
  by (drule show_nat_digits) (auto simp: is_digit_def char_digit_def)

lemma route_parts:
  assumes "CHR ''/'' \<notin> set token"
  shows "drop 1 (split_on (\<lambda>c. c = CHR ''/'') (''/playback/'' @ token @ ''/r/'' @ show_nat i @ CHR ''/'' # rest))
    = [''playback'', token, ''r'', show_nat i] @ split_on (\<lambda>c. c = CHR ''/'') rest"
proof -
  have "split_on (\<lambda>c. c = CHR ''/'') (show_nat i @ CHR ''/'' # rest) = show_nat i # split_on (\<lambda>c. c = CHR ''/'') rest"
    by (rule split_on_prefix) (use show_nat_no_slash in blast)
  moreover have "split_on (\<lambda>c. c = CHR ''/'') (token @ CHR ''/'' # t) = token # split_on (\<lambda>c. c = CHR ''/'') t" for t
    by (rule split_on_prefix) (use assms in auto)
  ultimately show ?thesis by simp
qed

text \<open>C36: a route that the server hands out for a URL is understood as a fetch of exactly that URL: of the same origin, with the same
  path and the same query.\<close>

theorem route_leads_back:
  assumes "route uri s = (Inr place, s')" and "list_all clean_url (pb_origins s)" and "length (pb_origins s) \<le> 8"
    and "set (pb_token s) \<inter> {CHR ''/'', CHR ''?''} = {}" and "ur_path uri = CHR ''/'' # rest" and "CHR ''?'' \<notin> set rest"
    and "method \<in> {GET, HEAD}"
  shows "\<exists>index. playback_action parse_i64 method (target_path place) = Inr (Fetch (pb_token s) index)
    \<and> resource_url (pb_token s) index (target_path place) (target_query place) s' = Inr uri"
proof -
  from assms(1-3) obtain i where i: "place = ''/playback/'' @ pb_token s @ ''/r/'' @ show_nat i @ ur_path uri @ (case ur_query uri of None \<Rightarrow> [] | Some q \<Rightarrow> ''?'' @ q)"
    "i < 8" "i < length (pb_origins s')" "same_origin (pb_origins s' ! i) uri" "clean_url (pb_origins s' ! i)" "clean_url uri"
    by (rule route_Inr)
  let ?path = "''/playback/'' @ pb_token s @ ''/r/'' @ show_nat i @ CHR ''/'' # rest"
  have none: "CHR ''?'' \<notin> set ?path" using assms(4,6) show_nat_no_slash by auto
  have target: "target_path place = ?path \<and> target_query place = ur_query uri"
  proof (cases "ur_query uri")
    case None
    with i(1) assms(5) have p: "place = ?path" by simp
    have "split_once x t = None" if "x \<notin> set t" for x :: char and t
      using that by (induction t) auto
    with none show ?thesis unfolding p target_path_def target_query_def None by (auto simp: takeWhile_eq_all_conv)
  next
    case (Some q)
    with i(1) assms(5) have p: "place = ?path @ CHR ''?'' # q" by simp
    show ?thesis unfolding p target_path_def target_query_def Some using none split_once_append [OF none]
      by (auto simp: takeWhile_append)
  qed
  have "playback_action parse_i64 method ?path = Inr (Fetch (pb_token s) i)"
  proof -
    have "i \<le> u64_max" using i(2) by (simp add: u64_max_eq)
    moreover have "CHR ''/'' \<notin> set (pb_token s)" using assms(4) by blast
    moreover have "split_on (\<lambda>c. c = CHR ''/'') rest \<noteq> []" by simp
    ultimately show ?thesis using assms(7)
      unfolding playback_action_def Let_def route_parts [OF \<open>CHR ''/'' \<notin> set (pb_token s)\<close>]
      by (auto simp: parse_u64_show_nat Suc_le_eq)
  qed
  moreover have "resource_url (pb_token s) i ?path (ur_query uri) s' = Inr uri"
  proof -
    have "strip_prefix (''/playback/'' @ pb_token s @ ''/r/'' @ show_nat i) ?path = Some (ur_path uri)"
      using strip_prefix_append [of "''/playback/'' @ pb_token s @ ''/r/'' @ show_nat i" "CHR ''/'' # rest"] assms(5) by simp
    moreover have "(pb_origins s' ! i)\<lparr>ur_path := ur_path uri, ur_query := ur_query uri\<rparr> = uri"
      using i(4-6) by (simp add: same_origin_def clean_url_def)
    ultimately show ?thesis using i(3) by (simp add: resource_url_def)
  qed
  ultimately show ?thesis using target by auto
qed

subsection \<open>Where a session is\<close>

text \<open>
  The handles \<open>L\<close> are held by an operation in progress. Every session is held, being opened, in the table, closing or abandoned, and
  a closing one is not valid. The permits count what is not finished.
\<close>

definition open_handles :: "playback_state \<Rightarrow> nat list" where
  "open_handles p = pl_opening p @ pl_ready p @ map snd (pl_sessions p)"

definition places_ok :: "nat list \<Rightarrow> playback_state \<Rightarrow> bool" where
  "places_ok L p \<longleftrightarrow> mset (L @ open_handles p @ pl_started p @ pl_abandoned p) = mset [0..<pl_next p]
     \<and> mset (pl_cleaning p @ pl_cleaned p) \<subseteq># mset (pl_started p)
     \<and> pl_permits p = pl_waiting p + length L + length (open_handles p) + length (pl_cleaning p) + length (pl_cleaned p)
     \<and> pl_permits p \<le> MAX_PLAYBACKS"

definition valid_ok :: "playback_state \<Rightarrow> bool" where
  "valid_ok p \<longleftrightarrow> (\<forall>h < pl_next p. pb_valid (pl_store p h) \<longleftrightarrow> h \<notin> set (pl_started p))"

definition table_ok :: "playback_state \<Rightarrow> bool" where
  "table_ok p \<longleftrightarrow> distinct (map fst (pl_sessions p)) \<and> (\<forall>e \<in> set (pl_sessions p). pb_token (pl_store p (snd e)) = fst e)
     \<and> inj_on (\<lambda>h. pb_token (pl_store p h)) {..<pl_next p} \<and> (pl_stopping p \<longrightarrow> pl_sessions p = [])"

definition closes_ok :: "playback_state \<Rightarrow> bool" where
  "closes_ok p \<longleftrightarrow> (\<forall>h. count_list (pl_closes p) h \<le> 3 \<and> (h \<in> set (pl_closes p) \<longleftrightarrow> h \<in> set (pl_started p) - set (pl_cleaning p)))"

definition session_limits :: "playback_session \<Rightarrow> bool" where
  "session_limits s \<longleftrightarrow> list_all clean_url (pb_origins s) \<and> length (pb_origins s) \<le> 8 \<and> length (pb_prepared s) \<le> 16
     \<and> length (pb_redirects s) \<le> 4"

definition limits_ok :: "playback_state \<Rightarrow> bool" where
  "limits_ok p \<longleftrightarrow> (\<forall>h < pl_next p. session_limits (pl_store p h)) \<and> (\<forall>h \<in> set (pl_opening p). pb_prepared (pl_store p h) = [])"

definition ok_with :: "nat list \<Rightarrow> playback_state \<Rightarrow> bool" where
  "ok_with L p \<longleftrightarrow> places_ok L p \<and> valid_ok p \<and> table_ok p \<and> closes_ok p \<and> limits_ok p"

lemmas ok_defs = ok_with_def places_ok_def valid_ok_def table_ok_def closes_ok_def limits_ok_def open_handles_def

lemma take_out:
  assumes "x \<in> set xs"
  obtains R where "mset xs = add_mset x R" "mset (remove1 x xs) = R" "length xs = Suc (length (remove1 x xs))"
proof -
  obtain R where R: "mset xs = add_mset x R" using assms by (metis multi_member_split set_mset_mset)
  moreover have "mset (remove1 x xs) = R" using R by simp
  moreover have "length xs = Suc (length (remove1 x xs))"
    using assms by (simp add: length_remove1) (metis One_nat_def Suc_pred length_pos_if_in_set)
  ultimately show ?thesis using that by blast
qed

lemma sub_distinct:
  assumes "distinct ys" and "mset xs \<subseteq># mset ys"
  shows "distinct xs"
proof (unfold distinct_count_atmost_1, rule allI)
  fix a
  have "count (mset xs) a \<le> count (mset ys) a" using assms(2) by (rule mset_subset_eq_count)
  moreover have "count (mset ys) a \<le> 1" using assms(1) by (simp add: distinct_count_atmost_1)
  ultimately have le: "count (mset xs) a \<le> 1" by linarith
  show "count (mset xs) a = (if a \<in> set xs then 1 else 0)"
  proof (cases "a \<in> set xs")
    case True
    then have "0 < count (mset xs) a" by (simp only: count_greater_zero_iff set_mset_mset)
    with le have "count (mset xs) a = 1" by linarith
    with True show ?thesis by simp
  qed simp
qed

lemma table_ok_frame:
  assumes "table_ok p" "pl_sessions p' = pl_sessions p" "pl_next p' = pl_next p" "pl_stopping p' = pl_stopping p"
    "\<And>g. pb_token (pl_store p' g) = pb_token (pl_store p g)"
  shows "table_ok p'"
  using assms by (simp add: table_ok_def inj_on_def)

lemma places_distinct:
  assumes "places_ok L p"
  shows "distinct (L @ open_handles p @ pl_started p @ pl_abandoned p)"
    "set (L @ open_handles p @ pl_started p @ pl_abandoned p) = {..<pl_next p}"
    "distinct (pl_cleaning p @ pl_cleaned p)" "set (pl_cleaning p @ pl_cleaned p) \<subseteq> set (pl_started p)"
proof -
  have eq: "mset (L @ open_handles p @ pl_started p @ pl_abandoned p) = mset [0..<pl_next p]"
    and sub: "mset (pl_cleaning p @ pl_cleaned p) \<subseteq># mset (pl_started p)"
    using assms by (simp_all add: places_ok_def)
  show d: "distinct (L @ open_handles p @ pl_started p @ pl_abandoned p)"
    using mset_eq_imp_distinct_iff [OF eq] by simp
  show "set (L @ open_handles p @ pl_started p @ pl_abandoned p) = {..<pl_next p}"
    using mset_eq_setD [OF eq] by (simp only: set_upt atLeast0LessThan)
  have "distinct (pl_started p)" using d by simp
  then show "distinct (pl_cleaning p @ pl_cleaned p)" using sub by (rule sub_distinct)
  show "set (pl_cleaning p @ pl_cleaned p) \<subseteq> set (pl_started p)"
    using set_mset_mono [OF sub] by (simp only: set_mset_mset)
qed

lemma delete_split:
  assumes "distinct (map fst xs)" and "map_of xs t = Some h"
  obtains ys zs where "xs = ys @ (t, h) # zs" "AList.delete t xs = ys @ zs"
proof -
  from assms(2) have "(t, h) \<in> set xs" by (rule map_of_SomeD)
  then obtain ys zs where xs: "xs = ys @ (t, h) # zs" by (meson split_list)
  have "filter (\<lambda>(k', _). t \<noteq> k') ys = ys" "filter (\<lambda>(k', _). t \<noteq> k') zs = zs"
    by (rule filter_True, use assms(1) xs in force)+
  then have "AList.delete t xs = ys @ zs" by (simp add: AList.delete_eq xs)
  with xs that show ?thesis by blast
qed

lemma update_new: "k \<notin> fst ` set xs \<Longrightarrow> AList.update k v xs = xs @ [(k, v)]"
  by (induction xs) auto

lemma length_delete_le: "length xs \<le> n \<Longrightarrow> length (AList.delete k xs) \<le> n"
  by (rule le_trans [of _ "length xs"]) (simp_all add: AList.delete_eq)

lemma length_update_le: "length xs < n \<Longrightarrow> length (AList.update k v xs) \<le> n"
proof -
  have "length (AList.update k v xs) \<le> Suc (length xs)" by (induction xs) auto
  then show "length xs < n \<Longrightarrow> length (AList.update k v xs) \<le> n" by linarith
qed

lemma ok_upd:
  assumes "ok_with L p" and "\<And>s. pb_valid (f s) = pb_valid s" "\<And>s. pb_token (f s) = pb_token s"
    and "session_limits (pl_store p h) \<Longrightarrow> session_limits (f (pl_store p h))"
    and "h \<in> set (pl_opening p) \<Longrightarrow> pb_prepared (pl_store p h) = [] \<Longrightarrow> pb_prepared (f (pl_store p h)) = []"
  shows "ok_with L (upd_playback h f p)"
proof -
  let ?p = "upd_playback h f p"
  have same: "(\<lambda>g. pb_valid (pl_store ?p g)) = (\<lambda>g. pb_valid (pl_store p g))" "(\<lambda>g. pb_token (pl_store ?p g)) = (\<lambda>g. pb_token (pl_store p g))"
    using assms(2,3) by (auto simp: upd_playback_def)
  have frame: "pl_sessions ?p = pl_sessions p" "pl_next ?p = pl_next p" "pl_waiting ?p = pl_waiting p" "pl_opening ?p = pl_opening p"
    "pl_ready ?p = pl_ready p" "pl_cleaning ?p = pl_cleaning p" "pl_cleaned ?p = pl_cleaned p" "pl_stopping ?p = pl_stopping p"
    "pl_permits ?p = pl_permits p" "pl_closes ?p = pl_closes p" "pl_started ?p = pl_started p" "pl_abandoned ?p = pl_abandoned p"
    by (simp_all add: upd_playback_def)
  have "places_ok L ?p" "closes_ok ?p" using assms(1) by (simp_all add: ok_with_def places_ok_def closes_ok_def open_handles_def frame)
  moreover have "valid_ok ?p" "table_ok ?p"
    using assms(1) fun_cong [OF same(1)] fun_cong [OF same(2)] by (simp_all add: ok_with_def valid_ok_def table_ok_def frame inj_on_def)
  moreover have "limits_ok ?p" using assms(1,4,5) by (simp add: ok_with_def limits_ok_def upd_playback_def)
  ultimately show ?thesis by (simp add: ok_with_def)
qed

lemma ok_held:
  assumes "ok_with (h # L) p"
  shows "h < pl_next p \<and> pb_valid (pl_store p h) \<and> h \<notin> set (pl_started p)"
proof -
  have places: "places_ok (h # L) p" using assms by (simp add: ok_with_def)
  have "h < pl_next p" "h \<notin> set (pl_started p)" using places_distinct(1,2) [OF places] by auto
  with assms show ?thesis by (simp add: ok_with_def valid_ok_def)
qed

lemma ok_schedule_close:
  assumes "ok_with (h # L) p"
  shows "ok_with L (schedule_close h p)"
proof -
  note h = ok_held [OF assms]
  have closed: "schedule_close h p = (upd_playback h (\<lambda>s. s\<lparr>pb_valid := False\<rparr>) p)\<lparr>
        pl_closing := filter (\<lambda>c. snd c \<in> set (pl_cleaning p)) (pl_closing p) @ [(pl_ids p (pb_provider (pl_store p h)), h)],
        pl_cleaning := pl_cleaning p @ [h], pl_started := pl_started p @ [h]\<rparr>"
    using h by (simp add: schedule_close_def)
  have "places_ok L (schedule_close h p)"
    using assms by (auto simp: closed ok_with_def places_ok_def open_handles_def upd_playback_def ac_simps)
  moreover have "valid_ok (schedule_close h p)" using assms h by (auto simp: closed ok_with_def valid_ok_def upd_playback_def)
  moreover have "table_ok (schedule_close h p)"
    by (rule table_ok_frame [of p]) (use assms in \<open>simp_all add: closed ok_with_def upd_playback_def\<close>)
  moreover have "closes_ok (schedule_close h p)" using assms h by (auto simp: closed ok_with_def closes_ok_def upd_playback_def)
  moreover have "limits_ok (schedule_close h p)"
    using assms h by (auto simp: closed ok_with_def limits_ok_def session_limits_def upd_playback_def)
  ultimately show ?thesis by (simp add: ok_with_def)
qed

lemma ok_take_session:
  assumes "ok_with L p"
  shows "ok_with L (take_playback token p)"
proof (cases "map_of (pl_sessions p) token")
  case None
  with assms show ?thesis by (simp add: take_playback_def)
next
  case (Some h)
  have "distinct (map fst (pl_sessions p))" using assms by (simp add: ok_with_def table_ok_def)
  from delete_split [OF this Some] obtain ys zs
    where s: "pl_sessions p = ys @ (token, h) # zs" "AList.delete token (pl_sessions p) = ys @ zs" .
  have "ok_with (h # L) (p\<lparr>pl_sessions := ys @ zs\<rparr>)"
    using assms s(1) by (simp add: ok_with_def places_ok_def valid_ok_def table_ok_def closes_ok_def limits_ok_def open_handles_def ac_simps)
  from ok_schedule_close [OF this] show ?thesis by (simp add: take_playback_def Some s(2))
qed

lemma ok_take_all: "ok_with L p \<Longrightarrow> ok_with L (fold take_playback tokens p)"
  by (induction tokens arbitrary: p) (simp_all add: ok_take_session)

lemma ok_finish_closing: "ok_with L p \<Longrightarrow> ok_with L (snd (finish_closing provider p))"
  by (auto simp: finish_closing_def ok_defs)

lemma ok_cleanup:
  assumes "ok_with L p" and "h \<in> set (pl_cleaning p)"
  shows "ok_with L (cleanup h results p)"
proof -
  have n: "1 \<le> attempts 3 results \<and> attempts 3 results \<le> 3"
    by (cases results rule: list.exhaust) (auto simp: numeral_3_eq_3 split: list.splits)
  have places: "places_ok L p" using assms(1) by (simp add: ok_with_def)
  have "h \<notin> set (pl_closes p)" using assms by (auto simp: ok_with_def closes_ok_def)
  then have zero: "count_list (pl_closes p) h = 0" by (simp add: count_list_0_iff)
  obtain R where R: "mset (pl_cleaning p) = add_mset h R" "mset (remove1 h (pl_cleaning p)) = R"
      "length (pl_cleaning p) = Suc (length (remove1 h (pl_cleaning p)))"
    using take_out [OF assms(2)] by blast
  from places have "places_ok L (cleanup h results p)"
    by (simp add: cleanup_def places_ok_def open_handles_def upd_playback_def R del: mset_remove1)
  moreover have "valid_ok (cleanup h results p)" using assms by (auto simp: cleanup_def ok_with_def valid_ok_def upd_playback_def)
  moreover have "table_ok (cleanup h results p)"
    by (rule table_ok_frame [of p]) (use assms in \<open>simp_all add: cleanup_def ok_with_def upd_playback_def\<close>)
  moreover have "closes_ok (cleanup h results p)"
  proof -
    have "count_list (replicate k h) g = (if g = h then k else 0)" for k g by (induction k) auto
    moreover have "h \<in> set (pl_started p)" "distinct (pl_cleaning p)"
      using places_distinct(3,4) [OF places] assms(2) by auto
    ultimately show ?thesis using assms n zero
      by (auto simp: cleanup_def ok_with_def closes_ok_def upd_playback_def)
  qed
  moreover have "limits_ok (cleanup h results p)"
    using assms by (auto simp: cleanup_def ok_with_def limits_ok_def session_limits_def upd_playback_def)
  ultimately show ?thesis by (simp add: ok_with_def)
qed

subsection \<open>Every step keeps the accounts\<close>

lemma clean_origins:
  assumes "route uri s = (r, s')" and "session_limits s"
  shows "session_limits s' \<and> pb_valid s' = pb_valid s \<and> pb_token s' = pb_token s \<and> pb_prepared s' = pb_prepared s
    \<and> pb_redirects s' = pb_redirects s"
  using assms by (auto simp: route_def session_limits_def clean_url_def Let_def split: if_splits option.splits)

lemma store_upd_session [simp]:
  "pl_store (upd_playback h f p) = (pl_store p)(h := f (pl_store p h))" "pl_next (upd_playback h f p) = pl_next p"
  "pl_opening (upd_playback h f p) = pl_opening p" "pl_now (upd_playback h f p) = pl_now p"
  by (simp_all add: upd_playback_def)

lemma ok_limits: "ok_with L p \<Longrightarrow> h < pl_next p \<Longrightarrow> session_limits (pl_store p h)"
  by (simp add: ok_with_def limits_ok_def)

lemma route_session_fields:
  assumes "route_session h uri p = (r, p')" and "ok_with L p" and "h < pl_next p"
  shows "ok_with L p' \<and> pl_next p' = pl_next p \<and> pl_opening p' = pl_opening p \<and> pb_prepared (pl_store p' h) = pb_prepared (pl_store p h)"
proof -
  obtain s where s: "route uri (pl_store p h) = (r, s)" "p' = upd_playback h (\<lambda>_. s) p"
    using assms(1) by (auto simp: route_session_def split: prod.splits)
  note f = clean_origins [OF s(1) ok_limits [OF assms(2,3)]]
  define g where "g = (\<lambda>t::playback_session. t\<lparr>pb_origins := pb_origins s\<rparr>)"
  have "s = g (pl_store p h)"
    using s(1) unfolding g_def by (auto simp: route_def Let_def split: if_splits option.splits)
  then have p': "p' = upd_playback h g p" and lim: "session_limits (g (pl_store p h))"
    using s(2) f by (simp_all add: upd_playback_def)
  have "ok_with L (upd_playback h g p)"
    by (rule ok_upd [OF assms(2)]) (use lim in \<open>auto simp: g_def\<close>)
  with p' show ?thesis by (simp add: g_def)
qed

lemma ok_prepare_start:
  assumes "ok_with L p" and "h \<notin> set (pl_opening p)"
  shows "ok_with L (snd (prepare_start h uri p))"
proof -
  have "ok_with L (upd_playback h (\<lambda>s. s\<lparr>pb_prepared := AList.delete uri (pb_prepared s)\<rparr>) p)"
    by (rule ok_upd [OF assms(1)]) (use assms(2) length_delete_le in \<open>auto simp: session_limits_def\<close>)
  with assms(1) show ?thesis by (simp add: prepare_start_def split: option.split)
qed

lemma ok_resolve_uri:
  assumes "ok_with L p" and "h < pl_next p" and "h \<notin> set (pl_opening p)"
  shows "ok_with L (snd (resolve_uri show_url h uri resource p))"
proof -
  obtain r p1 where r: "route_session h uri p = (r, p1)" by (cases "route_session h uri p")
  note f = route_session_fields [OF r assms(1,2)]
  have "ok_with L (upd_playback h (\<lambda>s. let pending = (if length (pb_prepared s) \<ge> 16 then [] else pb_prepared s)
      in s\<lparr>pb_prepared := AList.update (show_url uri) resource pending\<rparr>) p1)"
    by (rule ok_upd) (use f assms(3) in \<open>auto simp: session_limits_def Let_def intro!: length_update_le\<close>)
  with f r show ?thesis by (cases r) (simp_all add: resolve_uri_def)
qed

lemma ok_offer_redirect:
  assumes "ok_with L p" and "h < pl_next p" and "h \<notin> set (pl_opening p)"
  shows "ok_with L (snd (offer_redirect h uri wanted p))"
proof -
  obtain r p1 where r: "route_session h uri p = (r, p1)" by (cases "route_session h uri p")
  note f = route_session_fields [OF r assms(1,2)]
  define pending where "pending = filter (\<lambda>r. pl_now p1 - snd r < 15 * 1000) (pb_redirects (pl_store p1 h))"
  have upd: "ok_with L (upd_playback h (\<lambda>s. s\<lparr>pb_redirects := xs\<rparr>) p1)" if "length xs \<le> 4" for xs
    by (rule ok_upd) (use f that in \<open>auto simp: session_limits_def\<close>)
  have n: "length pending \<le> 4"
    using ok_limits [of L p1 h] f assms(2) unfolding pending_def by (auto simp: session_limits_def intro: le_trans [OF length_filter_le])
  show ?thesis
  proof (cases r)
    case (Inl e)
    with f r show ?thesis by (simp add: offer_redirect_def)
  next
    case (Inr place)
    show ?thesis
    proof (cases "length pending \<ge> 4")
      case True
      with Inr r upd [OF n] show ?thesis by (simp add: offer_redirect_def pending_def Let_def)
    next
      case False
      then have "length (AList.update (place @ '':'' @ wanted) (pl_now p1) pending) \<le> 4" by (simp add: length_update_le)
      from upd [OF this] Inr r False show ?thesis by (simp add: offer_redirect_def pending_def Let_def)
    qed
  qed
qed

lemma ok_take_redirect: "ok_with L p \<Longrightarrow> ok_with L (snd (take_redirect h key p))"
  unfolding take_redirect_def snd_conv
  by (rule ok_upd) (use length_delete_le in \<open>auto simp: session_limits_def\<close>)

lemma ok_session_get: "ok_with L p \<Longrightarrow> ok_with L (snd (session_get token p))"
  by (auto simp: session_get_def session_limits_def intro!: ok_upd split: option.split)

lemma ok_collect_session: "ok_with L p \<Longrightarrow> ok_with L (collect_session h p)"
  by (auto simp: collect_session_def session_limits_def intro!: ok_upd ok_take_session intro: le_trans [OF length_filter_le])

lemma ok_invalidate: "ok_with L p \<Longrightarrow> ok_with L (snd (playback_invalidate provider p))"
  by (simp add: playback_invalidate_def ok_finish_closing ok_take_all)

lemma ok_acquire: "ok_with L p \<Longrightarrow> ok_with L (snd (acquire p))"
  by (simp add: acquire_def ok_with_def places_ok_def valid_ok_def table_ok_def closes_ok_def limits_ok_def open_handles_def)

lemma ok_other:
  assumes "ok_with L p"
  shows "ok_with L (p\<lparr>pl_epochs := e\<rparr>)" "ok_with L (p\<lparr>pl_now := t\<rparr>)"
  using assms by (simp_all add: ok_with_def places_ok_def valid_ok_def table_ok_def closes_ok_def limits_ok_def open_handles_def)

lemma take_playback_table:
  "pl_sessions (take_playback t p) = AList.delete t (pl_sessions p)" "pl_stopping (take_playback t p) = pl_stopping p"
  by (simp_all add: take_playback_def schedule_close_def upd_playback_def delete_id map_of_eq_None_iff split: option.split)

lemma take_all_empty: "fst ` set (pl_sessions p) \<subseteq> set tokens \<Longrightarrow> pl_sessions (fold take_playback tokens p) = []"
proof (induction tokens arbitrary: p)
  case (Cons t tokens)
  then have "fst ` set (pl_sessions (take_playback t p)) \<subseteq> set tokens" by (auto simp: take_playback_table AList.delete_eq)
  with Cons.IH show ?case by simp
qed simp

lemma take_all_stopping: "pl_stopping (fold take_playback tokens p) = pl_stopping p"
  by (induction tokens arbitrary: p) (simp_all add: take_playback_table)

lemma ok_stop: "ok_with L q \<Longrightarrow> pl_sessions q = [] \<Longrightarrow> ok_with L (q\<lparr>pl_stopping := True\<rparr>)"
  by (simp add: ok_with_def places_ok_def valid_ok_def table_ok_def closes_ok_def limits_ok_def open_handles_def)

lemma ok_shutdown:
  assumes "ok_with L p"
  shows "ok_with L (snd (playback_shutdown p))"
proof -
  let ?q = "fold take_playback (map fst (pl_sessions p)) p"
  have commute: "fold take_playback ts (p\<lparr>pl_stopping := True\<rparr>) = (fold take_playback ts p)\<lparr>pl_stopping := True\<rparr>" for ts p
  proof (induction ts arbitrary: p)
    case (Cons t ts)
    have "take_playback t (p\<lparr>pl_stopping := True\<rparr>) = (take_playback t p)\<lparr>pl_stopping := True\<rparr>"
      by (simp add: take_playback_def schedule_close_def upd_playback_def split: option.split)
    with Cons.IH show ?case by simp
  qed simp
  have "pl_sessions ?q = []" by (rule take_all_empty) simp
  with ok_take_all [OF assms] have "ok_with L (?q\<lparr>pl_stopping := True\<rparr>)" by (rule ok_stop)
  then show ?thesis by (simp add: playback_shutdown_def commute ok_finish_closing)
qed

lemma session_new_limits: "session_limits (session_new token provider epoch source at)"
  by (simp add: session_limits_def session_new_def)

lemma ok_gone_waiting:
  assumes "ok_with [] p" and "pl_waiting p > 0"
  shows "ok_with [] (release_permit (p\<lparr>pl_waiting := pl_waiting p - 1\<rparr>))"
proof -
  let ?q = "release_permit (p\<lparr>pl_waiting := pl_waiting p - 1\<rparr>)"
  have "places_ok [] ?q" using assms by (auto simp: release_permit_def ok_with_def places_ok_def open_handles_def)
  moreover have "valid_ok ?q" "table_ok ?q" "closes_ok ?q" "limits_ok ?q"
    using assms(1) by (simp_all add: release_permit_def ok_with_def valid_ok_def table_ok_def closes_ok_def limits_ok_def)
  ultimately show ?thesis by (simp add: ok_with_def)
qed

lemma ok_opened:
  assumes ok: "ok_with [] p" and wait: "pl_waiting p > 0" and token: "token \<notin> pb_token ` pl_store p ` {..<pl_next p}"
  shows "ok_with [] (opened parse_url token provider epoch answer p)"
proof -
  let ?w = "p\<lparr>pl_waiting := pl_waiting p - 1\<rparr>"
  note released = ok_gone_waiting [OF ok wait]
  show ?thesis
  proof (cases answer)
    case (Inl e)
    with released show ?thesis by (simp add: opened_def)
  next
    case (Inr source)
    show ?thesis
    proof (cases "pp_kind source = ByteResource")
      case True
      with Inr released show ?thesis by (simp add: opened_def)
    next
      case False
      define h where "h = pl_next p"
      define q where "q = ?w\<lparr>pl_store := (pl_store p)(h := session_new token provider epoch source (pl_now p)), pl_next := h + 1\<rparr>"
      have places: "places_ok [] p" using ok by (simp add: ok_with_def)
      note fresh = places_distinct(2,4) [OF places]
      have unknown: "h \<notin> set (pl_started p)" "h \<notin> snd ` set (pl_sessions p)" "h \<notin> set (pl_opening p)"
        using fresh(1) by (auto simp: open_handles_def h_def)
      have "places_ok [h] q" using places wait by (simp add: q_def places_ok_def open_handles_def h_def)
      moreover have "valid_ok q" using ok unknown by (auto simp: q_def ok_with_def valid_ok_def h_def session_new_def less_Suc_eq)
      moreover have "table_ok q"
      proof -
        have "pb_token (pl_store q g) = (if g = h then token else pb_token (pl_store p g))" for g
          by (simp add: q_def session_new_def)
        moreover have "inj_on (\<lambda>g. if g = h then token else pb_token (pl_store p g)) {..<Suc (pl_next p)}"
          using ok token by (auto simp: ok_with_def table_ok_def inj_on_def h_def less_Suc_eq)
        moreover have "\<forall>e \<in> set (pl_sessions p). snd e \<noteq> h" using unknown(2) by auto
        ultimately show ?thesis using ok by (auto simp: ok_with_def table_ok_def q_def h_def)
      qed
      moreover have "closes_ok q" using ok by (simp add: q_def ok_with_def closes_ok_def)
      moreover have "limits_ok q"
        using ok unknown(3) by (auto simp: q_def ok_with_def limits_ok_def session_new_limits h_def less_Suc_eq)
      ultimately have held: "ok_with [h] q" by (simp add: ok_with_def)
      have "ok_with [] (q\<lparr>pl_opening := h # pl_opening q\<rparr>)"
        using held by (auto simp: ok_with_def places_ok_def valid_ok_def table_ok_def closes_ok_def limits_ok_def open_handles_def q_def session_new_def)
      with ok_schedule_close [OF held] show ?thesis
        using Inr False by (simp add: opened_def Let_def q_def h_def)
    qed
  qed
qed

lemma ok_prepared:
  assumes ok: "ok_with [] p" and h: "h \<in> set (pl_opening p)"
  shows "ok_with [] (or_close h (\<lambda>h p. p\<lparr>pl_ready := h # pl_ready p\<rparr>)
      (prepared_first parse_url show_url answer h (p\<lparr>pl_opening := remove1 h (pl_opening p)\<rparr>)))"
proof -
  let ?p = "p\<lparr>pl_opening := remove1 h (pl_opening p)\<rparr>"
  obtain R where R: "mset (pl_opening p) = add_mset h R" "mset (remove1 h (pl_opening p)) = R"
      "length (pl_opening p) = Suc (length (remove1 h (pl_opening p)))"
    using take_out [OF h] by blast
  have held: "ok_with [h] ?p"
    using ok R notin_set_remove1 by (auto simp: ok_with_def places_ok_def valid_ok_def table_ok_def closes_ok_def limits_ok_def open_handles_def simp del: mset_remove1)
  have empty: "pb_prepared (pl_store p h) = []" using ok h by (simp add: ok_with_def limits_ok_def)
  have next': "h < pl_next p" using ok_held [OF held] by simp
  have close: "ok_with [] (schedule_close h q)" if "ok_with [h] q" for q using ok_schedule_close [OF that] .
  have ready: "ok_with [] (q\<lparr>pl_ready := h # pl_ready q\<rparr>)" if "ok_with [h] q" for q
    using that by (auto simp: ok_with_def places_ok_def valid_ok_def table_ok_def closes_ok_def limits_ok_def open_handles_def)
  show ?thesis
  proof (cases "parse_url (pp_uri (pb_source (pl_store p h)))")
    case None
    with close [OF held] show ?thesis by (simp add: prepared_first_def or_close_def)
  next
    case (Some uri)
    show ?thesis
    proof (cases answer)
      case (Inl e)
      with Some close [OF held] show ?thesis by (simp add: prepared_first_def or_close_def)
    next
      case (Inr r)
      obtain place q where q: "route_session h uri ?p = (place, q)" by (cases "route_session h uri ?p")
      note f = route_session_fields [OF q held]
      have "h \<notin> set (pl_opening ?p)" using held places_distinct(1) [of "[h]" ?p] by (auto simp: ok_with_def open_handles_def)
      then have "ok_with [h] (upd_playback h (\<lambda>s. s\<lparr>pb_prepared := AList.update (show_url uri) r (pb_prepared s)\<rparr>) q)"
        by (intro ok_upd) (use f empty next' in \<open>auto simp: session_limits_def\<close>)
      from ready [OF this] close [of q] f next' show ?thesis
        using Some Inr q by (cases place) (simp_all add: prepared_first_def or_close_def)
    qed
  qed
qed

lemma ok_insert:
  assumes ok: "ok_with [] p" and h: "h \<in> set (pl_ready p)"
  shows "ok_with [] (or_close h (\<lambda>_ p. p) (register_session h (p\<lparr>pl_ready := remove1 h (pl_ready p)\<rparr>)))"
proof -
  let ?p = "p\<lparr>pl_ready := remove1 h (pl_ready p)\<rparr>"
  obtain R where R: "mset (pl_ready p) = add_mset h R" "mset (remove1 h (pl_ready p)) = R"
      "length (pl_ready p) = Suc (length (remove1 h (pl_ready p)))"
    using take_out [OF h] by blast
  have held: "ok_with [h] ?p"
    using ok R by (auto simp: ok_with_def places_ok_def valid_ok_def table_ok_def closes_ok_def limits_ok_def open_handles_def simp del: mset_remove1)
  show ?thesis
  proof (cases "pl_stopping p \<or> length (pl_sessions p) \<ge> MAX_PLAYBACKS")
    case True
    then show ?thesis using ok_schedule_close [OF held] by (auto simp: register_session_def or_close_def)
  next
    case False
    have places: "places_ok [h] ?p" using held by (simp add: ok_with_def)
    have inj: "inj_on (\<lambda>h. pb_token (pl_store p h)) {..<pl_next p}" and table: "\<forall>e \<in> set (pl_sessions p). pb_token (pl_store p (snd e)) = fst e"
      using ok by (simp_all add: ok_with_def table_ok_def)
    have "pb_token (pl_store p h) \<notin> fst ` set (pl_sessions p)"
    proof
      assume "pb_token (pl_store p h) \<in> fst ` set (pl_sessions p)"
      then obtain t g where g: "(t, g) \<in> set (pl_sessions p)" "pb_token (pl_store p h) = t" by force
      with table have "pb_token (pl_store p g) = pb_token (pl_store p h)" by force
      moreover have "h < pl_next p" using ok_held [OF held] by simp
      moreover have open_handles: "g \<in> set (open_handles ?p)" using g(1) by (force simp: open_handles_def)
      then have "g \<in> set ([h] @ open_handles ?p @ pl_started ?p @ pl_abandoned ?p)" by simp
      then have "g < pl_next p" unfolding places_distinct(2) [OF places] by simp
      moreover have "g \<noteq> h" using places_distinct(1) [OF places] open_handles by auto
      ultimately show False using inj by (auto simp: inj_on_def)
    qed
    note new = update_new [OF this, of h]
    let ?q = "?p\<lparr>pl_sessions := pl_sessions p @ [(pb_token (pl_store p h), h)]\<rparr>"
    have "places_ok [] ?q" using places by (simp add: places_ok_def open_handles_def ac_simps del: mset_remove1)
    moreover have "table_ok ?q"
      using ok False \<open>pb_token (pl_store p h) \<notin> fst ` set (pl_sessions p)\<close> by (simp add: ok_with_def table_ok_def)
    moreover have "valid_ok ?q" "closes_ok ?q" "limits_ok ?q"
      using ok by (simp_all add: ok_with_def valid_ok_def closes_ok_def limits_ok_def)
    ultimately have "ok_with [] ?q" by (simp add: ok_with_def)
    with False new show ?thesis by (simp add: register_session_def or_close_def)
  qed
qed

lemma ok_gone:
  assumes ok: "ok_with [] p" and h: "h \<in> set (pl_opening p @ pl_ready p)"
  shows "ok_with [] (release_permit (p\<lparr>pl_opening := remove1 h (pl_opening p), pl_ready := remove1 h (pl_ready p),
          pl_abandoned := h # pl_abandoned p\<rparr>))"
proof -
  have places: "places_ok [] p" using ok by (simp add: ok_with_def)
  have d: "distinct (pl_opening p @ pl_ready p)" using places_distinct(1) [OF places] by (auto simp: open_handles_def)
  obtain R where R: "mset (pl_opening p @ pl_ready p) = add_mset h R" "mset (remove1 h (pl_opening p)) + mset (remove1 h (pl_ready p)) = R"
      "length (pl_opening p) + length (pl_ready p) = Suc (length (remove1 h (pl_opening p)) + length (remove1 h (pl_ready p)))"
  proof (cases "h \<in> set (pl_opening p)")
    case True
    with d have "remove1 h (pl_ready p) = pl_ready p" by (intro remove1_idem) auto
    with take_out [OF True] that show ?thesis by (metis add.commute add_Suc mset_append union_mset_add_mset_left)
  next
    case False
    with h have "h \<in> set (pl_ready p)" "remove1 h (pl_opening p) = pl_opening p" by (auto intro: remove1_idem)
    with take_out [OF this(1)] that show ?thesis by (metis add_Suc_right mset_append union_mset_add_mset_right)
  qed
  let ?q = "release_permit (p\<lparr>pl_opening := remove1 h (pl_opening p), pl_ready := remove1 h (pl_ready p), pl_abandoned := h # pl_abandoned p\<rparr>)"
  have "mset (open_handles ?q @ pl_started ?q @ pl_abandoned ?q) = (mset (remove1 h (pl_opening p)) + mset (remove1 h (pl_ready p)))
      + (mset (map snd (pl_sessions p)) + mset (pl_started p) + add_mset h (mset (pl_abandoned p)))"
    by (simp add: release_permit_def open_handles_def ac_simps del: mset_remove1)
  also have "\<dots> = add_mset h R + (mset (map snd (pl_sessions p)) + mset (pl_started p) + mset (pl_abandoned p))"
    unfolding R(2) by simp
  also have "\<dots> = mset (open_handles p @ pl_started p @ pl_abandoned p)"
    unfolding R(1) [symmetric] by (simp add: open_handles_def ac_simps)
  finally have moved: "mset (open_handles ?q @ pl_started ?q @ pl_abandoned ?q) = mset (open_handles p @ pl_started p @ pl_abandoned p)" .
  have len: "length (open_handles p) = Suc (length (open_handles ?q))" using R(3) by (simp add: release_permit_def open_handles_def)
  have "pl_permits ?q = pl_permits p - 1" "pl_waiting ?q = pl_waiting p" "pl_cleaning ?q = pl_cleaning p" "pl_cleaned ?q = pl_cleaned p"
    "pl_started ?q = pl_started p" "pl_next ?q = pl_next p"
    by (simp_all add: release_permit_def)
  with places moved len have "places_ok [] ?q" unfolding places_ok_def append_Nil by (simp only: list.size) simp
  moreover have "limits_ok ?q" using ok notin_set_remove1 by (auto simp: ok_with_def limits_ok_def release_permit_def)
  moreover have "valid_ok ?q" "table_ok ?q" "closes_ok ?q"
    using ok by (simp_all add: ok_with_def valid_ok_def table_ok_def closes_ok_def release_permit_def)
  ultimately show ?thesis by (simp add: ok_with_def)
qed

lemma ok_released:
  assumes "ok_with [] p" and "h \<in> set (pl_cleaned p)"
  shows "ok_with [] (release_permit (p\<lparr>pl_cleaned := remove1 h (pl_cleaned p)\<rparr>))"
proof -
  obtain R where R: "mset (pl_cleaned p) = add_mset h R" "mset (remove1 h (pl_cleaned p)) = R"
      "length (pl_cleaned p) = Suc (length (remove1 h (pl_cleaned p)))"
    using take_out [OF assms(2)] by blast
  have "mset (pl_cleaning p) + R \<subseteq># mset (pl_started p)"
    using assms(1) R(1) by (auto simp: ok_with_def places_ok_def dest: mset_subset_eq_insertD subset_mset.less_imp_le)
  with assms(1) R(2,3) show ?thesis
    by (auto simp: release_permit_def ok_with_def places_ok_def valid_ok_def table_ok_def closes_ok_def limits_ok_def open_handles_def
        simp del: mset_remove1)
qed

lemma ok_step:
  assumes ok: "ok_with [] p" and run: "playback_step parse_url show_url a p = Some p'"
  shows "ok_with [] p'"
proof (cases a)
  case (Opened token provider epoch answer)
  with run ok_opened [OF ok] show ?thesis by (auto simp: playback_step_def split: if_splits)
next
  case (Prepared h answer)
  with run ok_prepared [OF ok] show ?thesis by (auto simp: playback_step_def split: if_splits)
next
  case (Insert h)
  with run ok_insert [OF ok] show ?thesis by (auto simp: playback_step_def split: if_splits)
next
  case (Gone h)
  with run have "h \<in> set (pl_opening p @ pl_ready p)" "p' = release_permit (p\<lparr>pl_opening := remove1 h (pl_opening p),
      pl_ready := remove1 h (pl_ready p), pl_abandoned := h # pl_abandoned p\<rparr>)"
    by (simp_all add: playback_step_def split: if_splits)
  with ok_gone [OF ok] show ?thesis by blast
next
  case GoneWaiting
  with run ok_gone_waiting [OF ok] show ?thesis by (simp add: playback_step_def split: if_splits)
next
  case (Cleaned h results)
  with run ok_cleanup [OF ok] show ?thesis by (auto simp: playback_step_def split: if_splits)
next
  case (Released h)
  with run ok_released [OF ok] show ?thesis by (auto simp: playback_step_def split: if_splits)
qed (use run ok in \<open>auto simp: playback_step_def ok_acquire ok_take_session ok_session_get ok_prepare_start ok_resolve_uri
    ok_offer_redirect ok_take_redirect ok_collect_session ok_invalidate ok_shutdown ok_other split: if_splits\<close>)

lemma ok_run: "run_playback parse_url show_url as p = Some p' \<Longrightarrow> ok_with [] p \<Longrightarrow> ok_with [] p'"
  by (induction as arbitrary: p) (auto split: option.splits dest: ok_step)

lemma playback_default_ok: "ok_with [] playback_default"
  by (simp add: playback_default_def ok_with_def places_ok_def valid_ok_def table_ok_def closes_ok_def limits_ok_def open_handles_def)

subsection \<open>Results\<close>


text \<open>C37: at most 16 playbacks exist at a time, counting those that are being opened or closed, so that the check of the size of the
  table never refuses; a session knows at most 8 origins, 16 prepared resources and 4 responses kept for a redirect.\<close>

theorem playback_limits:
  assumes "run_playback parse_url show_url as playback_default = Some p"
  shows "pl_waiting p + length (open_handles p) + length (pl_cleaning p) \<le> MAX_PLAYBACKS
    \<and> (\<forall>h \<in> set (pl_ready p). length (pl_sessions p) < MAX_PLAYBACKS)
    \<and> (\<forall>h < pl_next p. length (pb_origins (pl_store p h)) \<le> 8 \<and> length (pb_prepared (pl_store p h)) \<le> 16
        \<and> length (pb_redirects (pl_store p h)) \<le> 4)"
proof -
  have ok: "ok_with [] p" using ok_run [OF assms playback_default_ok] .
  then have n: "pl_waiting p + length (open_handles p) + length (pl_cleaning p) \<le> MAX_PLAYBACKS" by (simp add: ok_with_def places_ok_def)
  have "length (pl_sessions p) < MAX_PLAYBACKS" if "h \<in> set (pl_ready p)" for h
  proof -
    obtain k where "length (pl_ready p) = Suc k" using \<open>h \<in> set (pl_ready p)\<close> by (cases "pl_ready p") auto
    with n show ?thesis by (simp add: open_handles_def)
  qed
  with n ok show ?thesis by (auto simp: ok_with_def limits_ok_def session_limits_def)
qed

lemma abandoned_frames:
  "pl_abandoned (upd_playback h f p) = pl_abandoned p" "pl_abandoned (release_permit p) = pl_abandoned p"
  "pl_abandoned (schedule_close h p) = pl_abandoned p" "pl_abandoned (take_playback token p) = pl_abandoned p"
  "pl_abandoned (snd (finish_closing provider p)) = pl_abandoned p" "pl_abandoned (cleanup h results p) = pl_abandoned p"
  "pl_abandoned (snd (route_session h uri p)) = pl_abandoned p"
  by (simp_all add: upd_playback_def release_permit_def schedule_close_def take_playback_def finish_closing_def cleanup_def
      route_session_def split: option.split prod.split)

lemma abandoned_fold: "pl_abandoned (fold take_playback tokens p) = pl_abandoned p"
  by (induction tokens arbitrary: p) (simp_all add: abandoned_frames)

lemma route_session_abandoned: "route_session h uri p = (r, p') \<Longrightarrow> pl_abandoned p' = pl_abandoned p"
  using abandoned_frames(7) [of h uri p] by simp

lemma abandoned_first: "prepared_first parse_url show_url answer h p = (r, p') \<Longrightarrow> pl_abandoned p' = pl_abandoned p"
  by (auto simp: prepared_first_def abandoned_frames dest: route_session_abandoned split: option.splits sum.splits prod.splits)

lemma abandoned_session_calls:
  "pl_abandoned (snd (session_get token p)) = pl_abandoned p" "pl_abandoned (snd (prepare_start h uri p)) = pl_abandoned p"
  "pl_abandoned (snd (resolve_uri show_url h u resource p)) = pl_abandoned p"
  "pl_abandoned (snd (offer_redirect h u wanted p)) = pl_abandoned p" "pl_abandoned (snd (take_redirect h key p)) = pl_abandoned p"
  "pl_abandoned (collect_session h p) = pl_abandoned p" "pl_abandoned (snd (acquire p)) = pl_abandoned p"
  "pl_abandoned (opened parse_url token provider epoch answer p) = pl_abandoned p"
  "pl_abandoned (snd (register_session h p)) = pl_abandoned p"
  by (auto simp: session_get_def prepare_start_def resolve_uri_def offer_redirect_def take_redirect_def collect_session_def acquire_def
      opened_def register_session_def Let_def abandoned_frames dest: route_session_abandoned split: option.split sum.split prod.split)

lemma abandoned_or_close:
  "(\<And>q. pl_abandoned (f h q) = pl_abandoned q) \<Longrightarrow> pl_abandoned (or_close h f (r, q)) = pl_abandoned q"
  by (cases r) (simp_all add: or_close_def abandoned_frames)

lemma abandoned_step:
  assumes "playback_step parse_url show_url a p = Some p'"
  shows "set (pl_abandoned p) \<subseteq> set (pl_abandoned p')"
proof (cases a)
  case (Prepared h answer)
  obtain r q where q: "prepared_first parse_url show_url answer h (p\<lparr>pl_opening := remove1 h (pl_opening p)\<rparr>) = (r, q)"
    by (cases "prepared_first parse_url show_url answer h (p\<lparr>pl_opening := remove1 h (pl_opening p)\<rparr>)")
  from assms Prepared q abandoned_first [OF q] show ?thesis
    by (auto simp: playback_step_def abandoned_or_close split: if_splits)
next
  case (Insert h)
  obtain r q where q: "register_session h (p\<lparr>pl_ready := remove1 h (pl_ready p)\<rparr>) = (r, q)"
    by (cases "register_session h (p\<lparr>pl_ready := remove1 h (pl_ready p)\<rparr>)")
  from assms Insert q abandoned_session_calls(9) [of h "p\<lparr>pl_ready := remove1 h (pl_ready p)\<rparr>"] show ?thesis
    by (auto simp: playback_step_def abandoned_or_close split: if_splits)
qed (use assms in \<open>auto simp: playback_step_def abandoned_frames abandoned_fold abandoned_session_calls playback_invalidate_def playback_shutdown_def
    split: if_splits\<close>)

lemma abandoned_run: "run_playback parse_url show_url as p = Some p' \<Longrightarrow> set (pl_abandoned p) \<subseteq> set (pl_abandoned p')"
  by (induction as arbitrary: p) (auto split: option.splits dest: abandoned_step)

lemma run_playback_append:
  "run_playback parse_url show_url (as @ bs) p =
     (case run_playback parse_url show_url as p of None \<Rightarrow> None | Some q \<Rightarrow> run_playback parse_url show_url bs q)"
  by (induction as arbitrary: p) (auto split: option.splits)

text \<open>C39: a playback whose client leaves while it is being opened is never closed at the provider, whatever happens later.\<close>

theorem abandoned_playback_never_closed:
  assumes "run_playback parse_url show_url (as @ Gone h # bs) playback_default = Some p"
  shows "h \<notin> set (pl_closes p) \<and> h \<notin> set (open_handles p) \<and> h \<notin> set (pl_started p)"
proof -
  obtain q q' where "playback_step parse_url show_url (Gone h) q = Some q'" "run_playback parse_url show_url bs q' = Some p"
    using assms by (auto simp: run_playback_append simp del: append_Cons split: option.splits)
  then have "h \<in> set (pl_abandoned p)"
    using abandoned_run [of parse_url show_url bs q' p] by (auto simp: playback_step_def abandoned_frames split: if_splits)
  moreover have ok: "ok_with [] p" using ok_run [OF assms playback_default_ok] .
  then have "places_ok [] p" by (simp add: ok_with_def)
  note places_distinct(1) [OF this]
  ultimately have "h \<notin> set (open_handles p)" "h \<notin> set (pl_started p)" by auto
  with ok show ?thesis by (auto simp: ok_with_def closes_ok_def)
qed

subsection \<open>Concrete inputs\<close>

definition sample_source :: prepared_playback where
  "sample_source = \<lparr>pp_kind = HlsVod, pp_uri = ''u'', pp_representation = ''r'', pp_state = ''s''\<rparr>"

definition sample_url :: url where
  "sample_url = \<lparr>ur_scheme = ''https'', ur_username = [], ur_password = None, ur_host = Some ''h'', ur_port = Some 443,
     ur_path = ''/a/b.ts'', ur_query = Some ''k=1'', ur_fragment = None\<rparr>"

definition sample_session :: playback_session where
  "sample_session = session_new ''t0'' 0 0 sample_source 0"

theorem route_leads_back_witness:
  "\<exists>place s' index. route sample_url sample_session = (Inr place, s')
    \<and> playback_action (\<lambda>_. None) GET (target_path place) = Inr (Fetch ''t0'' index)
    \<and> resource_url ''t0'' index (target_path place) (target_query place) s' = Inr sample_url"
proof -
  obtain place s' where r: "route sample_url sample_session = (Inr place, s')"
    by (simp add: route_def sample_url_def sample_session_def session_new_def position_def Let_def)
  have "list_all clean_url (pb_origins sample_session)" "length (pb_origins sample_session) \<le> 8"
    "set (pb_token sample_session) \<inter> {CHR ''/'', CHR ''?''} = {}" "ur_path sample_url = CHR ''/'' # ''a/b.ts''" "CHR ''?'' \<notin> set ''a/b.ts''"
    by (simp_all add: sample_session_def session_new_def sample_url_def)
  from route_leads_back [OF r this, of GET "\<lambda>_. None"] r show ?thesis
    by (simp add: sample_session_def session_new_def)
qed

definition sample_steps :: "playback_event list" where
  "sample_steps = [Permit, Opened ''t0'' 0 0 (Inr sample_source), Prepared 0 (Inr 7), Insert 0, Get ''t0'', Permit,
     Opened ''t1'' 0 0 (Inr sample_source), Close ''t0'', Cleaned 0 [False, True], Shutdown, Prepared 1 (Inr 8), Insert 1]"

definition run_sample :: "playback_event list \<Rightarrow> playback_state option" where
  "run_sample as = run_playback (\<lambda>_. Some sample_url) (\<lambda>_. ''u'') as playback_default"

lemma sample_run:
  "case run_sample sample_steps of None \<Rightarrow> False
   | Some p \<Rightarrow> pl_next p = 2 \<and> pl_closes p = [0, 0] \<and> pl_started p = [0, 1] \<and> pl_stopping p \<and> pl_cleaning p = [1]"
  by code_simp

lemma sample_run_Some:
  obtains p where "run_playback (\<lambda>_. Some sample_url) (\<lambda>_. ''u'') sample_steps playback_default = Some p"
    "pl_next p = 2" "pl_closes p = [0, 0]" "pl_started p = [0, 1]" "pl_stopping p" "pl_cleaning p = [1]"
  using sample_run that by (auto simp: run_sample_def split: option.splits)


theorem playback_limits_witness:
  "\<exists>p. run_sample sample_steps = Some p \<and> pl_waiting p + length (open_handles p) + 1 \<le> 16"
proof -
  obtain p where p: "run_playback (\<lambda>_. Some sample_url) (\<lambda>_. ''u'') sample_steps playback_default = Some p" "pl_cleaning p = [1]"
    by (rule sample_run_Some)
  from playback_limits [OF p(1)] p show ?thesis by (simp add: run_sample_def MAX_PLAYBACKS_def)
qed

lemma sample_gone:
  "case run_sample ([Permit, Opened ''t0'' 0 0 (Inr sample_source)] @ Gone 0 # [Shutdown]) of None \<Rightarrow> False | Some p \<Rightarrow> pl_next p = 1"
  by code_simp

theorem abandoned_playback_never_closed_witness:
  "\<exists>p. run_sample ([Permit, Opened ''t0'' 0 0 (Inr sample_source)] @ Gone 0 # [Shutdown]) = Some p \<and> pl_next p = 1 \<and> 0 \<notin> set (pl_closes p)"
proof -
  obtain p where p: "run_playback (\<lambda>_. Some sample_url) (\<lambda>_. ''u'') ([Permit, Opened ''t0'' 0 0 (Inr sample_source)] @ Gone 0 # [Shutdown])
      playback_default = Some p" "pl_next p = 1"
    using sample_gone by (auto simp: run_sample_def split: option.splits)
  from abandoned_playback_never_closed [OF p(1)] p show ?thesis by (simp add: run_sample_def)
qed

end
