(* ===== verification/Spec2Isabelle.thy ===== *)
theory Spec2Isabelle
  imports Format HttpRange Pieces Policy Store_Props Sync_Props Radio_Props Mix_Props Settings Tokenizer Query_Props Tasks Entities Playback
begin

text \<open>
  Qcm is a music player whose Rust backend (\<^verbatim>\<open>src/backend\<close>) keeps the user's library in SQLite, synchronises it with
  remote providers that are Lua plugins, and serves media to the player through an HTTP cache. This development models
  the parts of the backend that carry its own state and rules, and proves what they promise.

  \<^bold>\<open>How the program is modelled.\<close> A method with \<^verbatim>\<open>&mut self\<close> that returns a \<^verbatim>\<open>Result\<close> is an action
  (theory \<open>Actions\<close>): a function from the state to a result and the state left behind, so that an early return with \<open>?\<close>
  keeps the changes made before it. Errors are values, with the text of the message. Everything outside the program is
  explicit: a list of faults decides which database statement or file operation fails, the clock, UUIDs, hashes and the
  answers of a provider are parts of the state or arguments, and a transaction that fails restores the tables. A
  cancelled or concurrent task is a schedule of events that may take effect between two statements that await. Unsigned
  integers are natural numbers with the checked, saturating or wrapping operation the source uses (theory \<open>Prelude\<close>),
  bytes are 8-bit words. Strings are lists of characters standing for the bytes of UTF-8, in the tokenizer lists of code
  points. Theories \<open>Text\<close> and \<open>Json\<close> hold the string operations and JSON values of the libraries the code uses.

  \<^bold>\<open>The resource cache\<close> (\<^verbatim>\<open>main/src/resource_cache\<close>).
  \<^item> \<open>Format\<close>: \<^verbatim>\<open>format.rs\<close>, the blocks of a resource and the persistent index of what is cached. Loading an index file
    gives the entries its bytes mean. The loop that chooses the block size doubles it while the index would have more than 8192
    entries, and is a function with a measure.
  \<^item> \<open>Policy\<close>: \<^verbatim>\<open>policy.rs\<close>, freshness, validators and merged headers. \<open>HttpRange\<close>: \<^verbatim>\<open>http/range.rs\<close>, the range functions of
    \<^verbatim>\<open>service.rs\<close> and \<^verbatim>\<open>api/pagination.rs\<close>. \<open>Pieces\<close>: \<^verbatim>\<open>http/piece.rs\<close>.
  \<^item> \<open>Store_State\<close> to \<open>Store_Machine\<close>: the storage thread of \<^verbatim>\<open>store.rs\<close>, \<^verbatim>\<open>segments.rs\<close>, \<^verbatim>\<open>objects.rs\<close>, \<^verbatim>\<open>materialize.rs\<close> and
    \<^verbatim>\<open>sqlite.rs\<close>: its tables, the files on disk, the resident versions with their reference counts, one action for every job,
    start-up with recovery, and the machine whose steps are jobs, dropped handles and crashes. \<open>Store_Tables\<close> proves the
    invariants of the tables under every fault, \<open>Store_Commit\<close> that a committed index is the one on disk, \<open>Store_Reads\<close>
    that a block that is returned has the digest it was stored with, \<open>Store_Bounds\<close> and \<open>Store_Evict\<close> the room that eviction makes
    and what it spares; \<open>Store_Frames\<close> holds what the jobs leave alone, \<open>Store_Props\<close> the results on reachable states.

  \<^bold>\<open>The library and its synchronisation\<close> (\<^verbatim>\<open>core/src/db\<close>, \<^verbatim>\<open>core/src/model\<close>).
  \<^item> \<open>Catalog\<close>: the tables with keys, references and cascades. \<open>Retention\<close>: \<^verbatim>\<open>retention.rs\<close>.
  \<^item> \<open>Coordinator\<close>, \<open>Sync_Run\<close>: \<^verbatim>\<open>sync_run.rs\<close>, write guards, revisions, runs with their scopes, sealing and pruning.
    \<open>Sync_Writer\<close>, \<open>Sync_Batch\<close>, \<open>Sync_Apply\<close>: \<^verbatim>\<open>sync_batch.rs\<close>, the references, masks and patches of a batch and its
    application in one transaction.
  \<^item> \<open>Sync_Machine\<close> with \<open>Sync_Invariants\<close>, \<open>Sync_Types\<close>, \<open>Sync_Typing\<close>, \<open>Sync_Favorites\<close>, \<open>Sync_Prune\<close>,
    \<open>Sync_Outcome\<close>: what holds in every state that runs, batches, edits, retentions and cancellations can reach: at most one run of a
    provider, every row has the item its type says, a batch is applied wholly or not at all, the user's favourites win over a
    run, and pruning removes exactly what was neither observed nor retained. \<open>Sync_Props\<close> states it.
  \<^item> \<open>Identity\<close>, \<open>User_Edits\<close>, \<open>Mix_Props\<close>: \<^verbatim>\<open>identity.rs\<close>, \<^verbatim>\<open>model/mix.rs\<close> and the requests of \<^verbatim>\<open>api/process_qcm.rs\<close>
    that write the library, on the same state.
  \<^item> \<open>Sql\<close>, \<open>Filters\<close>, \<open>Queries\<close>, \<open>Query_Props\<close>: \<^verbatim>\<open>db/filter.rs\<close>, \<^verbatim>\<open>api/entity_query.rs\<close> and \<^verbatim>\<open>api/helper_sort.rs\<close>. A
    query is built as the code builds it, over the tables of \<open>Catalog\<close>; its names are resolved as SQLite resolves them and
    its conditions are three-valued. \<^verbatim>\<open>LIKE\<close>, the calendar and the order of the delivered rows are parameters, the last one
    only assumed to deliver every row once.
  \<^item> \<open>Tokenizer\<close>: \<^verbatim>\<open>fts/tokenizer.rs\<close> and the callback of \<^verbatim>\<open>fts/entry.rs\<close>; Unicode normalisation is a parameter.

  \<^bold>\<open>Radio sessions\<close> (\<^verbatim>\<open>main/src/radio.rs\<close>): \<open>Radio\<close> and \<open>Radio_Sessions\<close> hold the tables and the operations with their
  limits (128 sessions, 512 operations, 180 seconds for an operation), \<open>Radio_Machine\<close> the interleaving of requests, collection, invalidation and
  shutdown, \<open>Radio_Invariants\<close>, \<open>Radio_Safety\<close>, \<open>Radio_Reach\<close> the accounting of the queues opened at a provider
  and of the retained songs, which uses the interface of \<open>Retention\<close>. \<open>Radio_Props\<close> states the results.

  \<^bold>\<open>Provider settings\<close> (\<open>Settings\<close>): \<^verbatim>\<open>core/src/provider/settings.rs\<close> and \<^verbatim>\<open>core/src/db/provider_settings.rs\<close>, the
  check of the values of a form and the save under a revision.

  \<^item> \<open>Entities\<close>: \<^verbatim>\<open>api/entity.rs\<close>, the rows that accompany a response. The batch holds every entity that a message names or
    that is linked to one, once, and in a well typed library it is always found.

  \<^bold>\<open>Playback\<close> (\<open>Playback\<close>): \<^verbatim>\<open>main/src/playback.rs\<close>, the routes of a session and the machine of sessions that are opened, served,
  collected and closed at their provider, with the requests whose client leaves.

  \<^bold>\<open>Tasks\<close> (\<open>Tasks\<close>): \<^verbatim>\<open>main/src/task.rs\<close>, the manager's events and the threads that send them. Waiting for a task
  returns if the task was announced before it ended, and can hang otherwise.

  \<^bold>\<open>Bounds.\<close> No definition uses fuel: loops recurse over a list or have a measure. Where the source waits for another task, the
  schedule of events is a list, and a result holds for every schedule.

  \<^bold>\<open>Not modelled.\<close> The Lua plugins and their bridge (\<^verbatim>\<open>plugin/lua\<close>), because their state is in the Lua interpreter; the HTTP
  client and server and the asynchronous flow of a response (\<^verbatim>\<open>service.rs\<close>, \<^verbatim>\<open>object_service.rs\<close>, \<^verbatim>\<open>file_delivery.rs\<close>),
  which are streams of the libraries hyper and reqwest; the conversions between messages and rows (\<^verbatim>\<open>convert.rs\<close>); the
  lyrics parser, which is composed of combinators of the library nom; process start, logging and desktop integration; and
  the C++ and QML client. The list of components in the manifest names each with its reason.
\<close>

end
